(* ===== verification/Prelude.thy ===== *)
theory Prelude
  imports Main "HOL-Library.Word" "HOL-Library.Signed_Division"
begin

text \<open>
  The vocabulary every other theory of the development shares.

  \<^item> Go's machine integers: \<open>int32\<close> is a 32 bit word and \<open>int64\<close> a 64 bit word; \<open>+\<close>,
    \<open>-\<close> and \<open>*\<close> wrap around as Go's do, and the ordering tests of the source are the signed
    ones, \<open>\<le>s\<close> and \<open><s\<close>.  Division truncates towards zero (\<open>quot32\<close>, \<open>quot64\<close>).
    Go's \<open>int\<close> is 64 bits wide; where the code only counts list elements or minutes of a day
    it is modelled by \<open>int\<close> or \<open>nat\<close>.
  \<^item> Go's strings as lists of bytes, with the functions of the packages \<open>strings\<close>, \<open>strconv\<close>
    and \<open>fmt\<close> that the source calls.  Case mapping and the loops over the characters of a
    string treat ASCII; the identifiers they are applied to (object names, label values, the
    enumerations of the API) are ASCII by the rules of Kubernetes.
  \<^item> A nil pointer dereference as a value: \<open>Panics\<close>.
  \<^item> Lists keyed by a name (the \<open>listType=map\<close> fields of the API): the interface
    \<open>keyed_list\<close>, interpreted where the source implements it.
\<close>

named_theorems go_string_simps "evaluation of the string functions on literals"

section \<open>Machine integers\<close>

type_synonym int32 = "32 word"
type_synonym int64 = "64 word"

text \<open>Signed division of Go: the quotient truncated towards zero.\<close>

definition quot32 :: "int32 \<Rightarrow> int32 \<Rightarrow> int32" where
  "quot32 a b = word_of_int (sint a sdiv sint b)"

definition quot64 :: "int64 \<Rightarrow> int64 \<Rightarrow> int64" where
  "quot64 a b = word_of_int (sint a sdiv sint b)"

text \<open>The conversion \<open>int64(x)\<close> of an \<open>int32\<close> and \<open>int32(x)\<close> of an \<open>int64\<close>.\<close>

definition int32_to_int64 :: "int32 \<Rightarrow> int64" where
  "int32_to_int64 a = word_of_int (sint a)"

definition int64_to_int32 :: "int64 \<Rightarrow> int32" where
  "int64_to_int32 a = word_of_int (sint a)"

lemma sint32_range: "- 2147483648 \<le> sint (a :: int32) \<and> sint a < 2147483648"
  using sint_ge [of a] sint_lt [of a] by simp

lemma sint64_range: "- 9223372036854775808 \<le> sint (a :: int64) \<and> sint a < 9223372036854775808"
  using sint_ge [of a] sint_lt [of a] by simp

lemma sint32_of_int:
  "- 2147483648 \<le> k \<Longrightarrow> k < 2147483648 \<Longrightarrow> sint (word_of_int k :: int32) = k"
  by (simp add: signed_of_int signed_take_bit_int_eq_self)

lemma sint64_of_int:
  "- 9223372036854775808 \<le> k \<Longrightarrow> k < 9223372036854775808 \<Longrightarrow>
   sint (word_of_int k :: int64) = k"
  by (simp add: signed_of_int signed_take_bit_int_eq_self)

text \<open>Addition and subtraction are exact as long as the exact result is in range.\<close>

lemma sint32_add:
  "- 2147483648 \<le> sint a + sint b \<Longrightarrow> sint a + sint b < 2147483648 \<Longrightarrow>
   sint (a + b :: int32) = sint a + sint b"
  by (simp add: sint_word_ariths signed_take_bit_int_eq_self)

lemma sint32_diff:
  "- 2147483648 \<le> sint a - sint b \<Longrightarrow> sint a - sint b < 2147483648 \<Longrightarrow>
   sint (a - b :: int32) = sint a - sint b"
  by (simp add: sint_word_ariths signed_take_bit_int_eq_self)

lemma sint64_add:
  "- 9223372036854775808 \<le> sint a + sint b \<Longrightarrow> sint a + sint b < 9223372036854775808 \<Longrightarrow>
   sint (a + b :: int64) = sint a + sint b"
  by (simp add: sint_word_ariths signed_take_bit_int_eq_self)

lemma sint32_diff_fits:
  assumes "0 \<le> sint b" and "sint b \<le> sint a"
  shows "sint (a - b :: int32) = sint a - sint b"
  using assms sint32_range [of a] sint32_range [of b] by (intro sint32_diff) simp_all

lemma sint_eq_iff: "(a :: int32) = b \<longleftrightarrow> sint a = sint b"
  by (rule word_eq_iff_signed)

lemmas sle_sint = word_sle_eq
lemmas sless_sint = word_sless_alt

section \<open>A call that may panic\<close>

datatype 'a go = Panics | Returns 'a

fun go_bind :: "'a go \<Rightarrow> ('a \<Rightarrow> 'b go) \<Rightarrow> 'b go" where
  "go_bind Panics f = Panics"
| "go_bind (Returns x) f = f x"

section \<open>Strings\<close>

text \<open>
  The ASCII part of \<open>strings.ToLower\<close> and \<open>strings.EqualFold\<close>: bytes outside \<open>A\<close>-\<open>Z\<close>
  are kept.
\<close>

definition lower_char :: "char \<Rightarrow> char" where
  "lower_char c = (let n = (of_char c :: nat) in if 65 \<le> n \<and> n \<le> 90 then char_of (n + 32) else c)"

definition ToLower :: "string \<Rightarrow> string" where
  "ToLower s = map lower_char s"

definition EqualFold :: "string \<Rightarrow> string \<Rightarrow> bool" where
  "EqualFold s t \<longleftrightarrow> ToLower s = ToLower t"

text \<open>\<open>strings.Split\<close> with a one byte separator: always at least one part.\<close>

fun Split :: "string \<Rightarrow> char \<Rightarrow> string list" where
  "Split [] sep = [[]]"
| "Split (c # s) sep =
     (if c = sep then [] # Split s sep
      else (case Split s sep of [] \<Rightarrow> [[c]] | p # ps \<Rightarrow> (c # p) # ps))"

text \<open>\<open>strings.Join\<close>.\<close>

fun Join :: "string list \<Rightarrow> string \<Rightarrow> string" where
  "Join [] sep = []"
| "Join [p] sep = p"
| "Join (p # q # ps) sep = p @ sep @ Join (q # ps) sep"

text \<open>\<open>strings.Trim\<close> with a cut set of bytes, and \<open>strings.TrimSpace\<close> on ASCII.\<close>

definition Trim :: "string \<Rightarrow> char list \<Rightarrow> string" where
  "Trim s cutset = rev (dropWhile (\<lambda>c. c \<in> set cutset) (rev (dropWhile (\<lambda>c. c \<in> set cutset) s)))"

definition TrimSpace :: "string \<Rightarrow> string" where
  "TrimSpace s = Trim s [CHR '' '', CHR 0x09, CHR 0x0A, CHR 0x0B, CHR 0x0C, CHR 0x0D]"

definition is_digit :: "char \<Rightarrow> bool" where
  "is_digit c = (48 \<le> (of_char c :: nat) \<and> (of_char c :: nat) \<le> 57)"

definition digit_val :: "char \<Rightarrow> int" where
  "digit_val c = int (of_char c) - 48"

text \<open>
  \<open>strconv.ParseInt(s, 10, bits)\<close>: an optional sign, at least one digit, nothing else, and a
  value of the given width; \<open>None\<close> is the returned error.  \<open>strconv.Atoi\<close> is the 64 bit case.
\<close>

fun digits_val :: "int \<Rightarrow> string \<Rightarrow> int option" where
  "digits_val acc [] = Some acc"
| "digits_val acc (c # s) = (if is_digit c then digits_val (10 * acc + digit_val c) s else None)"

definition ParseInt :: "nat \<Rightarrow> string \<Rightarrow> int option" where
  "ParseInt bits s =
     (let neg = (s \<noteq> [] \<and> hd s = CHR ''-'');
          body = (if s \<noteq> [] \<and> (hd s = CHR ''-'' \<or> hd s = CHR ''+'') then tl s else s)
      in if body = [] then None
         else case digits_val 0 body of
           None \<Rightarrow> None
         | Some n \<Rightarrow>
             (let v = (if neg then - n else n)
              in if - (2 ^ (bits - 1)) \<le> v \<and> v < 2 ^ (bits - 1) then Some v else None))"

definition Atoi :: "string \<Rightarrow> int option" where
  "Atoi s = ParseInt 64 s"

text \<open>The verb \<open>%d\<close> of \<open>fmt\<close> and \<open>strconv.FormatInt(x, 10)\<close>.\<close>

definition digit_char :: "nat \<Rightarrow> char" where
  "digit_char d = char_of (48 + d)"

fun show_nat :: "nat \<Rightarrow> string" where
  "show_nat n = (if n < 10 then [digit_char n] else show_nat (n div 10) @ [digit_char (n mod 10)])"

declare show_nat.simps [simp del]

definition show_int :: "int \<Rightarrow> string" where
  "show_int i = (if i < 0 then CHR ''-'' # show_nat (nat (- i)) else show_nat (nat i))"

text \<open>The verb \<open>%02d\<close> on a number of at most two digits, \<open>%t\<close>, and \<open>%q\<close> on ASCII text.\<close>

definition show_02d :: "nat \<Rightarrow> string" where
  "show_02d n = (if n < 10 then CHR ''0'' # show_nat n else show_nat n)"

definition show_bool :: "bool \<Rightarrow> string" where
  "show_bool b = (if b then ''true'' else ''false'')"

definition hex_char :: "nat \<Rightarrow> char" where
  "hex_char d = (if d < 10 then char_of (48 + d) else char_of (87 + d))"

definition quote_char :: "char \<Rightarrow> string" where
  "quote_char c =
     (let n = (of_char c :: nat) in
      if c = CHR 0x22 \<or> c = CHR 0x5C then [CHR 0x5C, c]
      else if n = 7 then [CHR 0x5C, CHR ''a'']
      else if n = 8 then [CHR 0x5C, CHR ''b'']
      else if n = 9 then [CHR 0x5C, CHR ''t'']
      else if n = 10 then [CHR 0x5C, CHR ''n'']
      else if n = 11 then [CHR 0x5C, CHR ''v'']
      else if n = 12 then [CHR 0x5C, CHR ''f'']
      else if n = 13 then [CHR 0x5C, CHR ''r'']
      else if n < 32 \<or> n = 127 then [CHR 0x5C, CHR ''x'', hex_char (n div 16), hex_char (n mod 16)]
      else [c])"

definition Quote :: "string \<Rightarrow> string" where
  "Quote s = CHR 0x22 # concat (map quote_char s) @ [CHR 0x22]"

text \<open>Reading a \<open>map[string]string\<close>: the zero value for a key that is not there.\<close>

definition map_get :: "(string \<rightharpoonup> string) \<Rightarrow> string \<Rightarrow> string" where
  "map_get m k = (case m k of None \<Rightarrow> [] | Some v \<Rightarrow> v)"

subsection \<open>Facts on the string functions\<close>

lemma ToLower_simps [simp]:
  "ToLower [] = []"
  "ToLower (c # s) = lower_char c # ToLower s"
  "ToLower (s @ t) = ToLower s @ ToLower t"
  "length (ToLower s) = length s"
  by (simp_all add: ToLower_def)

lemma lower_char_idem [simp]: "lower_char (lower_char c) = lower_char c"
  by (simp add: lower_char_def Let_def)

lemma ToLower_idem [simp]: "ToLower (ToLower s) = ToLower s"
  by (simp add: ToLower_def)

lemma EqualFold_refl [simp]: "EqualFold s s"
  by (simp add: EqualFold_def)

lemma EqualFold_sym: "EqualFold s t \<longleftrightarrow> EqualFold t s"
  by (auto simp: EqualFold_def)

lemma Split_not_Nil [simp]: "Split s sep \<noteq> []"
  by (cases s) (auto split: list.splits)

lemma Split_no_sep: "sep \<notin> set s \<Longrightarrow> Split s sep = [s]"
  by (induction s) auto

lemma Split_append_sep:
  "sep \<notin> set s \<Longrightarrow> Split (s @ sep # t) sep = s # Split t sep"
  by (induction s) auto

lemma Join_Split: "Join (Split s sep) [sep] = s"
proof (induction s)
  case (Cons c s)
  obtain p ps where ps: "Split s sep = p # ps"
    by (cases "Split s sep") auto
  with Cons show ?case by (cases ps) auto
qed simp

text \<open>Printing a number and reading it back.\<close>

lemma digit_char_val: "d < 10 \<Longrightarrow> is_digit (digit_char d) \<and> digit_val (digit_char d) = int d"
  by (simp add: is_digit_def digit_val_def digit_char_def)

lemma digits_val_append:
  "digits_val acc (s @ t) = (case digits_val acc s of None \<Rightarrow> None | Some a \<Rightarrow> digits_val a t)"
  by (induction s arbitrary: acc) auto

lemma digits_val_show_nat: "digits_val 0 (show_nat n) = Some (int n)"
proof (induction n rule: show_nat.induct)
  case (1 n)
  show ?case
  proof (cases "n < 10")
    case True
    then show ?thesis by (simp add: show_nat.simps [of n] digit_char_val)
  next
    case False
    have "10 * int (n div 10) + int (n mod 10) = int n"
      by presburger
    with 1 False show ?thesis
      by (simp add: show_nat.simps [of n] digits_val_append digit_char_val)
  qed
qed

lemma show_nat_not_Nil [simp]: "show_nat n \<noteq> []"
  by (subst show_nat.simps) simp

lemma show_nat_digits: "c \<in> set (show_nat n) \<Longrightarrow> is_digit c"
proof (induction n rule: show_nat.induct)
  case (1 n)
  then show ?case
    by (cases "n < 10") (auto simp: show_nat.simps [of n] digit_char_val)
qed

lemma is_digit_not_sign: "is_digit c \<Longrightarrow> c \<noteq> CHR ''-'' \<and> c \<noteq> CHR ''+''"
  by (auto simp: is_digit_def)

lemma ParseInt_show_int:
  assumes "- (2 ^ (bits - 1)) \<le> i" and "i < 2 ^ (bits - 1)"
  shows "ParseInt bits (show_int i) = Some i"
proof (cases "i < 0")
  case True
  with assms show ?thesis
    by (simp add: ParseInt_def show_int_def digits_val_show_nat)
next
  case False
  have "hd (show_nat (nat i)) \<in> set (show_nat (nat i))"
    by simp
  then have "is_digit (hd (show_nat (nat i)))"
    by (rule show_nat_digits)
  then have "hd (show_nat (nat i)) \<noteq> CHR ''-'' \<and> hd (show_nat (nat i)) \<noteq> CHR ''+''"
    by (rule is_digit_not_sign)
  with assms False show ?thesis
    by (simp add: ParseInt_def show_int_def digits_val_show_nat)
qed

section \<open>Lists keyed by a name\<close>

text \<open>
  The API marks several list fields \<open>listType=map\<close>: entries are found by a key and written
  by replacing the entry with the same key or appending.  The interface says what such a list
  promises; the scheduler's \<open>spec.workloads\<close> and the agent's \<open>status.workloads\<close> implement it.
\<close>

definition key_find :: "('a \<Rightarrow> 'k) \<Rightarrow> 'k \<Rightarrow> 'a list \<Rightarrow> 'a option" where
  "key_find key k xs = find (\<lambda>x. key x = k) xs"

lemma key_find_simps [simp]:
  "key_find key k [] = None"
  "key_find key k (x # xs) = (if key x = k then Some x else key_find key k xs)"
  by (simp_all add: key_find_def)

lemma key_find_append:
  "key_find key k (xs @ ys) =
     (case key_find key k xs of None \<Rightarrow> key_find key k ys | Some x \<Rightarrow> Some x)"
  by (induction xs) auto

lemma key_find_None_iff: "key_find key k xs = None \<longleftrightarrow> k \<notin> key ` set xs"
  by (induction xs) auto

lemma key_find_Some: "key_find key k xs = Some x \<Longrightarrow> x \<in> set xs \<and> key x = k"
  by (induction xs) (auto split: if_splits)

lemma key_find_distinct:
  "distinct (map key xs) \<Longrightarrow> x \<in> set xs \<Longrightarrow> key_find key (key x) xs = Some x"
  by (induction xs) auto

locale keyed_list =
  fixes key :: "'a \<Rightarrow> 'k"
    and upsert :: "'a list \<Rightarrow> 'a \<Rightarrow> 'a list"
  assumes find_upsert: "key_find key k (upsert xs e) = (if k = key e then Some e else key_find key k xs)"
    and keys_upsert: "map key (upsert xs e) =
      (if key e \<in> key ` set xs then map key xs else map key xs @ [key e])"
begin

lemma find_upsert_same: "key_find key (key e) (upsert xs e) = Some e"
  by (simp add: find_upsert)

lemma find_upsert_other: "k \<noteq> key e \<Longrightarrow> key_find key k (upsert xs e) = key_find key k xs"
  by (simp add: find_upsert)

lemma distinct_upsert: "distinct (map key xs) \<Longrightarrow> distinct (map key (upsert xs e))"
  by (auto simp: keys_upsert)

lemma upsert_not_Nil: "upsert xs e \<noteq> []"
  using find_upsert_same [of e xs] by auto

lemma keys_set_upsert: "key ` set (upsert xs e) = insert (key e) (key ` set xs)"
proof -
  have "set (map key (upsert xs e)) = insert (key e) (set (map key xs))"
    unfolding keys_upsert by auto
  then show ?thesis by simp
qed

lemma set_upsert_subset:
  assumes "distinct (map key xs)"
  shows "set (upsert xs e) \<subseteq> insert e (set xs)"
proof
  fix x assume x: "x \<in> set (upsert xs e)"
  have "key_find key (key x) (upsert xs e) = Some x"
    using key_find_distinct [OF distinct_upsert [OF assms] x] .
  then show "x \<in> insert e (set xs)"
    by (auto simp: find_upsert split: if_splits dest: key_find_Some)
qed

text \<open>Writes to different keys commute, as far as a lookup can tell; the last write wins.\<close>

lemma find_upsert_commute:
  "key e \<noteq> key f \<Longrightarrow>
   key_find key k (upsert (upsert xs e) f) = key_find key k (upsert (upsert xs f) e)"
  by (simp add: find_upsert)

lemma find_upsert_overwrite:
  "key e = key f \<Longrightarrow> key_find key k (upsert (upsert xs e) f) = key_find key k (upsert xs f)"
  by (simp add: find_upsert)

end

end
