(* ===== verification/ApiTypes.thy ===== *)
theory ApiTypes
  imports Prelude
begin

text \<open>
  The objects of \<open>src/api/v1alpha1\<close>: one record per Go struct, its fields in the order of the
  source under a short prefix per struct.  A pointer field is an \<open>option\<close> (nil is \<open>None\<close>), a
  slice a list, a \<open>map[string]string\<close> a partial function (nil and the empty map read alike),
  an \<open>int32\<close> a 32 bit word.  A time is the number of nanoseconds since Go's zero time, so the
  zero value is 0.  The \<open>Conditions\<close> fields and the embedded \<open>TypeMeta\<close>, which no code of
  the repository reads or writes, are left out; the enumerations stay strings, as in the API.
\<close>

type_synonym Time = int

section \<open>Enumerations (constants.go)\<close>

definition DemandShapeMixed :: string where "DemandShapeMixed = ''mixed''"
definition DemandShapeKVHeavy :: string where "DemandShapeKVHeavy = ''kv_heavy''"
definition DemandShapePrefillHeavy :: string where "DemandShapePrefillHeavy = ''prefill_heavy''"
definition DemandShapeDecodeHeavy :: string where "DemandShapeDecodeHeavy = ''decode_heavy''"

lemmas demand_shape_defs =
  DemandShapeMixed_def DemandShapeKVHeavy_def DemandShapePrefillHeavy_def DemandShapeDecodeHeavy_def

definition WorkloadTypeOnline :: string where "WorkloadTypeOnline = ''online''"
definition WorkloadTypeOffline :: string where "WorkloadTypeOffline = ''offline''"
definition WorkloadTypeHybrid :: string where "WorkloadTypeHybrid = ''hybrid''"
definition WorkloadTypeBatch :: string where "WorkloadTypeBatch = ''batch''"

lemmas workload_type_defs =
  WorkloadTypeOnline_def WorkloadTypeOffline_def WorkloadTypeHybrid_def WorkloadTypeBatch_def

definition WorkloadPriorityCritical :: string where "WorkloadPriorityCritical = ''critical''"
definition WorkloadPriorityHigh :: string where "WorkloadPriorityHigh = ''high''"
definition WorkloadPriorityMedium :: string where "WorkloadPriorityMedium = ''medium''"
definition WorkloadPriorityLow :: string where "WorkloadPriorityLow = ''low''"

lemmas priority_defs =
  WorkloadPriorityCritical_def WorkloadPriorityHigh_def WorkloadPriorityMedium_def
  WorkloadPriorityLow_def

definition SLORiskLow :: string where "SLORiskLow = ''low''"
definition SLORiskMedium :: string where "SLORiskMedium = ''medium''"
definition SLORiskHigh :: string where "SLORiskHigh = ''high''"

lemmas slo_risk_defs = SLORiskLow_def SLORiskMedium_def SLORiskHigh_def

definition AllocationActionApply :: string where "AllocationActionApply = ''apply''"
definition AllocationActionThrottle :: string where "AllocationActionThrottle = ''throttle''"
definition AllocationActionPause :: string where "AllocationActionPause = ''pause''"
definition AllocationActionEvict :: string where "AllocationActionEvict = ''evict''"

lemmas action_defs =
  AllocationActionApply_def AllocationActionThrottle_def AllocationActionPause_def
  AllocationActionEvict_def

definition AllocationPhasePending :: string where "AllocationPhasePending = ''Pending''"
definition AllocationPhasePendingApply :: string where "AllocationPhasePendingApply = ''PendingApply''"
definition AllocationPhaseApplying :: string where "AllocationPhaseApplying = ''Applying''"
definition AllocationPhaseApplied :: string where "AllocationPhaseApplied = ''Applied''"
definition AllocationPhaseMigrating :: string where "AllocationPhaseMigrating = ''Migrating''"
definition AllocationPhaseReleased :: string where "AllocationPhaseReleased = ''Released''"
definition AllocationPhaseFailed :: string where "AllocationPhaseFailed = ''Failed''"

lemmas phase_defs =
  AllocationPhasePending_def AllocationPhasePendingApply_def AllocationPhaseApplying_def
  AllocationPhaseApplied_def AllocationPhaseMigrating_def AllocationPhaseReleased_def
  AllocationPhaseFailed_def

definition AllocationTierRequired :: string where "AllocationTierRequired = ''required''"
definition AllocationTierPreferred :: string where "AllocationTierPreferred = ''preferred''"
definition AllocationTierMax :: string where "AllocationTierMax = ''max''"
definition AllocationTierDegraded :: string where "AllocationTierDegraded = ''degraded''"
definition AllocationTierRejected :: string where "AllocationTierRejected = ''rejected''"

lemmas tier_defs =
  AllocationTierRequired_def AllocationTierPreferred_def AllocationTierMax_def
  AllocationTierDegraded_def AllocationTierRejected_def

definition ResourceGPUCount :: string where "ResourceGPUCount = ''gpuCount''"
definition ResourceGPUMemoryGiB :: string where "ResourceGPUMemoryGiB = ''gpuMemoryGiB''"
definition ResourceKVCacheGiB :: string where "ResourceKVCacheGiB = ''kvCacheGiB''"
definition ResourcePrefillTokensPerSec :: string where
  "ResourcePrefillTokensPerSec = ''prefillTokensPerSecond''"
definition ResourceDecodeTokensPerSec :: string where
  "ResourceDecodeTokensPerSec = ''decodeTokensPerSecond''"
definition ResourceTotalTokensPerSecond :: string where
  "ResourceTotalTokensPerSecond = ''totalTokensPerSecond''"
definition ResourceBalancedResourceFocus :: string where
  "ResourceBalancedResourceFocus = ''balanced''"

lemmas resource_name_defs =
  ResourceGPUCount_def ResourceGPUMemoryGiB_def ResourceKVCacheGiB_def
  ResourcePrefillTokensPerSec_def ResourceDecodeTokensPerSec_def ResourceTotalTokensPerSecond_def
  ResourceBalancedResourceFocus_def

section \<open>Object metadata\<close>

text \<open>The fields of \<open>metav1.ObjectMeta\<close> that the repository reads or writes.\<close>

record ObjectMeta =
  om_Name :: string
  om_Namespace :: string
  om_UID :: string
  om_CreationTimestamp :: Time
  om_DeletionTimestamp :: "Time option"
  om_Labels :: "string \<rightharpoonup> string"
  om_Annotations :: "string \<rightharpoonup> string"

definition ObjectMeta_zero :: ObjectMeta where
  "ObjectMeta_zero =
     \<lparr>om_Name = [], om_Namespace = [], om_UID = [], om_CreationTimestamp = 0,
      om_DeletionTimestamp = None, om_Labels = Map.empty, om_Annotations = Map.empty\<rparr>"

section \<open>Workload profiles (aiworkloadprofile\_types.go)\<close>

record KubernetesObjectRef =
  ref_APIVersion :: string
  ref_Kind :: string
  ref_Name :: string
  ref_Namespace :: string

definition KubernetesObjectRef_zero :: KubernetesObjectRef where
  "KubernetesObjectRef_zero =
     \<lparr>ref_APIVersion = [], ref_Kind = [], ref_Name = [], ref_Namespace = []\<rparr>"

record TimeWindow =
  tw_Name :: string
  tw_Start :: string
  tw_End :: string
  tw_Timezone :: string

record WorkloadSLO =
  slo_TTFTP95Ms :: int32
  slo_LatencyP99Ms :: int32
  slo_DeadlineHours :: int32

record ResourceSummary =
  GPUCount :: int32
  GPUMemoryGiB :: int32
  KVCacheGiB :: int32
  PrefillTokensPerSecond :: int32
  DecodeTokensPerSecond :: int32
  TotalTokensPerSecond :: int32

definition ResourceSummary_zero :: ResourceSummary where
  "ResourceSummary_zero =
     \<lparr>GPUCount = 0, GPUMemoryGiB = 0, KVCacheGiB = 0, PrefillTokensPerSecond = 0,
      DecodeTokensPerSecond = 0, TotalTokensPerSecond = 0\<rparr>"

record WorkloadResourceRequest =
  wr_Required :: "ResourceSummary option"
  wr_Preferred :: "ResourceSummary option"
  wr_Max :: "ResourceSummary option"

record WorkloadPolicy =
  wp_AllowBorrowing :: bool
  wp_AllowReclaimFromLowerPriority :: bool
  wp_Throttleable :: bool
  wp_Pauseable :: bool
  wp_Evictable :: bool

record AIWorkloadProfileSpec =
  ps_WorkloadRef :: KubernetesObjectRef
  ps_WorkloadType :: string
  ps_Priority :: string
  ps_DemandShape :: string
  ps_TimeWindows :: "TimeWindow list"
  ps_SLO :: "WorkloadSLO option"
  ps_Resources :: "WorkloadResourceRequest option"
  ps_Policy :: "WorkloadPolicy option"

record AIWorkloadProfileStatus =
  pst_Phase :: string
  pst_CurrentWindow :: string
  pst_SLORisk :: string

record AIWorkloadProfile =
  p_Meta :: ObjectMeta
  p_Spec :: AIWorkloadProfileSpec
  p_Status :: AIWorkloadProfileStatus

section \<open>Node profiles (ainoderesourceprofile\_types.go)\<close>

record GPUDeviceSpec =
  gd_ID :: string
  gd_UUID :: string
  gd_Product :: string
  gd_MemoryGiB :: int32
  gd_ComputeScore :: int32
  gd_MIGEnabled :: bool

record RuntimeSupports =
  sup_KVCache :: bool
  sup_TokenThroughput :: bool
  sup_PrefixCache :: bool
  sup_ContinuousBatching :: bool
  sup_RequestThrottling :: bool
  sup_PauseResume :: bool

definition RuntimeSupports_zero :: RuntimeSupports where
  "RuntimeSupports_zero =
     \<lparr>sup_KVCache = False, sup_TokenThroughput = False, sup_PrefixCache = False,
      sup_ContinuousBatching = False, sup_RequestThrottling = False, sup_PauseResume = False\<rparr>"

record TokenThroughput =
  tt_PrefillTokensPerSecond :: int32
  tt_DecodeTokensPerSecond :: int32
  tt_TotalTokensPerSecond :: int32

record RuntimeCapacity =
  rc_KVCacheGiB :: int32
  rc_MaxConcurrentRequests :: int32
  rc_MaxBatchTokens :: int32
  rc_TokenThroughput :: "TokenThroughput option"

record RuntimeSpec =
  rt_Type :: string
  rt_Supports :: "RuntimeSupports option"
  rt_Capacity :: "RuntimeCapacity option"

record NodeCapabilities =
  cap_Sharing :: bool
  cap_Borrowing :: bool
  cap_Reclaim :: bool
  cap_Throttling :: bool
  cap_PauseResume :: bool
  cap_Eviction :: bool
  cap_MIGResize :: bool

definition NodeCapabilities_zero :: NodeCapabilities where
  "NodeCapabilities_zero =
     \<lparr>cap_Sharing = False, cap_Borrowing = False, cap_Reclaim = False, cap_Throttling = False,
      cap_PauseResume = False, cap_Eviction = False, cap_MIGResize = False\<rparr>"

record AINodeResourceProfileSpec =
  ns_NodeName :: string
  ns_BackendType :: string
  ns_GPUs :: "GPUDeviceSpec list"
  ns_Runtime :: "RuntimeSpec option"
  ns_Capabilities :: "NodeCapabilities option"

record AllocationRef =
  ar_Namespace :: string
  ar_WorkloadName :: string
  ar_AllocationName :: string

record MIGSliceStatus =
  mig_ID :: string
  mig_UUID :: string
  mig_Profile :: string
  mig_MemoryGiB :: int32
  mig_ComputeSlices :: int32
  mig_Allocatable :: bool
  mig_Allocated :: bool
  mig_AllocatedTo :: "AllocationRef option"

record GPUDeviceStatus =
  gs_ID :: string
  gs_UUID :: string
  gs_Allocated :: bool
  gs_MIGEnabled :: bool
  gs_AllocatedTo :: "AllocationRef option"
  gs_MIGSlices :: "MIGSliceStatus list"

record RuntimePressure =
  pr_GPUUtilizationPercent :: int32
  pr_GPUMemoryUtilizationPercent :: int32
  pr_KVCacheUtilizationPercent :: int32
  pr_PrefillUtilizationPercent :: int32
  pr_DecodeUtilizationPercent :: int32
  pr_QueueDepth :: int32
  pr_TTFTP95Ms :: int32
  pr_TPOTP95Ms :: int32
  pr_LatencyP99Ms :: int32
  pr_SLORisk :: string

record RuntimeStatus =
  rst_Pressure :: "RuntimePressure option"

record HourlyResourceForecast =
  hf_GeneratedAt :: "Time option"
  hf_Timezone :: string
  hf_ResourceBuckets :: "ResourceSummary list"

record AssignedGPU =
  ag_GPUID :: string
  ag_MIGSliceID :: string

record AllocationActions =
  act_Reclaimable :: bool
  act_Throttleable :: bool
  act_Pauseable :: bool
  act_Evictable :: bool

definition AllocationActions_zero :: AllocationActions where
  "AllocationActions_zero =
     \<lparr>act_Reclaimable = False, act_Throttleable = False, act_Pauseable = False,
      act_Evictable = False\<rparr>"

record NodeAllocationStatus =
  na_Name :: string
  na_Namespace :: string
  na_WorkloadName :: string
  na_WorkloadType :: string
  na_Priority :: string
  na_DemandShape :: string
  na_TimeWindows :: "TimeWindow list"
  na_ResourceRequest :: "WorkloadResourceRequest option"
  na_AssignedGPU :: "AssignedGPU option"
  na_Resources :: "ResourceSummary option"
  na_Current :: "ResourceSummary option"
  na_HourlyForecast :: "HourlyResourceForecast option"
  na_Actions :: "AllocationActions option"
  na_Phase :: string

record AINodeResourceProfileStatus =
  nst_Phase :: string
  nst_ObservedAt :: "Time option"
  nst_GPUs :: "GPUDeviceStatus list"
  nst_Allocatable :: "ResourceSummary option"
  nst_Allocated :: "ResourceSummary option"
  nst_Available :: "ResourceSummary option"
  nst_HourlyForecast :: "HourlyResourceForecast option"
  nst_Runtime :: "RuntimeStatus option"
  nst_Allocations :: "NodeAllocationStatus list"

definition AINodeResourceProfileStatus_zero :: AINodeResourceProfileStatus where
  "AINodeResourceProfileStatus_zero =
     \<lparr>nst_Phase = [], nst_ObservedAt = None, nst_GPUs = [], nst_Allocatable = None,
      nst_Allocated = None, nst_Available = None, nst_HourlyForecast = None, nst_Runtime = None,
      nst_Allocations = []\<rparr>"

record AINodeResourceProfile =
  n_Meta :: ObjectMeta
  n_Spec :: AINodeResourceProfileSpec
  n_Status :: AINodeResourceProfileStatus

section \<open>Allocations (airesourceallocation\_types.go)\<close>

record AllocationWorkloadSpec =
  aw_Name :: string
  aw_WorkloadRef :: KubernetesObjectRef
  aw_SourcePodName :: string
  aw_SourcePodUID :: string
  aw_WorkloadType :: string
  aw_Priority :: string
  aw_DemandShape :: string
  aw_TimeWindows :: "TimeWindow list"
  aw_ResourceRequest :: "WorkloadResourceRequest option"
  aw_AssignedGPU :: "AssignedGPU option"
  aw_Resources :: "ResourceSummary option"
  aw_Desired :: "ResourceSummary option"
  aw_AllocationType :: string
  aw_Actions :: "AllocationActions option"
  aw_Reason :: string

record AIResourceAllocationSpec =
  as_NodeName :: string
  as_Workloads :: "AllocationWorkloadSpec list"
  as_Reason :: string
  as_WorkloadRef :: KubernetesObjectRef
  as_WorkloadType :: string
  as_Priority :: string
  as_DemandShape :: string
  as_TimeWindows :: "TimeWindow list"
  as_ResourceRequest :: "WorkloadResourceRequest option"
  as_AssignedGPU :: "AssignedGPU option"
  as_Resources :: "ResourceSummary option"
  as_AllocationType :: string
  as_Actions :: "AllocationActions option"

definition AIResourceAllocationSpec_zero :: AIResourceAllocationSpec where
  "AIResourceAllocationSpec_zero =
     \<lparr>as_NodeName = [], as_Workloads = [], as_Reason = [], as_WorkloadRef = KubernetesObjectRef_zero,
      as_WorkloadType = [], as_Priority = [], as_DemandShape = [], as_TimeWindows = [],
      as_ResourceRequest = None, as_AssignedGPU = None, as_Resources = None,
      as_AllocationType = [], as_Actions = None\<rparr>"

record NodeAllocationLedger =
  nl_Total :: "ResourceSummary option"
  nl_Allocated :: "ResourceSummary option"
  nl_Available :: "ResourceSummary option"

record AllocationWorkloadStatus =
  ws_Name :: string
  ws_WorkloadRef :: "KubernetesObjectRef option"
  ws_SourcePodName :: string
  ws_Phase :: string
  ws_Priority :: string
  ws_DemandShape :: string
  ws_ActiveWindow :: bool
  ws_Desired :: "ResourceSummary option"
  ws_Applied :: "ResourceSummary option"
  ws_HourlyForecast :: "HourlyResourceForecast option"
  ws_AssignedGPU :: "AssignedGPU option"
  ws_Action :: string
  ws_Message :: string

record AIResourceAllocationStatus =
  ast_Phase :: string
  ast_ObservedAt :: "Time option"
  ast_AppliedAt :: "Time option"
  ast_NodeLedger :: "NodeAllocationLedger option"
  ast_Workloads :: "AllocationWorkloadStatus list"
  ast_ObservedResources :: "ResourceSummary option"
  ast_Current :: "ResourceSummary option"
  ast_HourlyForecast :: "HourlyResourceForecast option"
  ast_Message :: string

definition AIResourceAllocationStatus_zero :: AIResourceAllocationStatus where
  "AIResourceAllocationStatus_zero =
     \<lparr>ast_Phase = [], ast_ObservedAt = None, ast_AppliedAt = None, ast_NodeLedger = None,
      ast_Workloads = [], ast_ObservedResources = None, ast_Current = None,
      ast_HourlyForecast = None, ast_Message = []\<rparr>"

record AIResourceAllocation =
  a_Meta :: ObjectMeta
  a_Spec :: AIResourceAllocationSpec
  a_Status :: AIResourceAllocationStatus

text \<open>Selectors used all over the source: an object's own name and namespace.\<close>

abbreviation a_Name :: "AIResourceAllocation \<Rightarrow> string" where
  "a_Name a \<equiv> om_Name (a_Meta a)"
abbreviation a_Namespace :: "AIResourceAllocation \<Rightarrow> string" where
  "a_Namespace a \<equiv> om_Namespace (a_Meta a)"
abbreviation a_Labels :: "AIResourceAllocation \<Rightarrow> string \<rightharpoonup> string" where
  "a_Labels a \<equiv> om_Labels (a_Meta a)"
abbreviation a_Annotations :: "AIResourceAllocation \<Rightarrow> string \<rightharpoonup> string" where
  "a_Annotations a \<equiv> om_Annotations (a_Meta a)"
abbreviation n_Name :: "AINodeResourceProfile \<Rightarrow> string" where
  "n_Name n \<equiv> om_Name (n_Meta n)"
abbreviation n_Namespace :: "AINodeResourceProfile \<Rightarrow> string" where
  "n_Namespace n \<equiv> om_Namespace (n_Meta n)"
abbreviation p_Name :: "AIWorkloadProfile \<Rightarrow> string" where
  "p_Name p \<equiv> om_Name (p_Meta p)"
abbreviation p_Namespace :: "AIWorkloadProfile \<Rightarrow> string" where
  "p_Namespace p \<equiv> om_Namespace (p_Meta p)"

end
