(* ===== verification/Resource.thy ===== *)
theory Resource
  imports ApiTypes
begin

text \<open>
  Resource vectors.  The source treats a \<open>ResourceSummary\<close> field by field and carries four
  copies of the same arithmetic (packages \<open>policy\<close>, \<open>local\<close>, \<open>agent\<close>, \<open>backend\<close>).  Here is
  what the copies promise: a dimension view of the record (\<open>amount\<close> as the machine word,
  \<open>val\<close> as the integer it stands for), and one interface per group of operations.  Each
  package's own functions are interpreted in the theory that models it; facts about sums,
  differences and fitting are proved once, here.
\<close>

named_theorems res_simps "dimension-wise reading of the resource operations"

datatype dim = DGpu | DMem | DKv | DPrefill | DDecode | DTotal

fun amount :: "dim \<Rightarrow> ResourceSummary \<Rightarrow> int32" where
  "amount DGpu r = GPUCount r"
| "amount DMem r = GPUMemoryGiB r"
| "amount DKv r = KVCacheGiB r"
| "amount DPrefill r = PrefillTokensPerSecond r"
| "amount DDecode r = DecodeTokensPerSecond r"
| "amount DTotal r = TotalTokensPerSecond r"

definition val :: "dim \<Rightarrow> ResourceSummary \<Rightarrow> int" where
  "val d r = sint (amount d r)"

definition nonneg :: "ResourceSummary \<Rightarrow> bool" where
  "nonneg r \<longleftrightarrow>
     0 \<le>s GPUCount r \<and> 0 \<le>s GPUMemoryGiB r \<and> 0 \<le>s KVCacheGiB r \<and>
     0 \<le>s PrefillTokensPerSecond r \<and> 0 \<le>s DecodeTokensPerSecond r \<and> 0 \<le>s TotalTokensPerSecond r"

lemma all_dim: "(\<forall>d. P d) \<longleftrightarrow> P DGpu \<and> P DMem \<and> P DKv \<and> P DPrefill \<and> P DDecode \<and> P DTotal"
  by (metis dim.exhaust)

lemma ex_dim: "(\<exists>d. P d) \<longleftrightarrow> P DGpu \<or> P DMem \<or> P DKv \<or> P DPrefill \<or> P DDecode \<or> P DTotal"
  by (metis dim.exhaust)

definition dims :: "dim list" where
  "dims = [DGpu, DMem, DKv, DPrefill, DDecode, DTotal]"

lemma card_dim: "card {d. P d} = length (filter P dims)"
proof -
  have "d \<in> set dims" for d
    by (cases d) (simp_all add: dims_def)
  then have "{d. P d} = set (filter P dims)"
    by auto
  moreover have "distinct (filter P dims)"
    by (simp add: dims_def)
  ultimately show ?thesis by (metis distinct_card)
qed

lemma res_eqI:
  assumes "\<And>d. amount d a = amount d b"
  shows "a = b"
proof -
  have "\<forall>d. amount d a = amount d b"
    using assms by blast
  then show ?thesis
    unfolding all_dim by (intro ResourceSummary.equality) simp_all
qed

lemma res_eq_val: "a = b \<longleftrightarrow> (\<forall>d. val d a = val d b)"
  by (auto simp: val_def intro!: res_eqI simp flip: sint_eq_iff)

lemma nonneg_iff: "nonneg r \<longleftrightarrow> (\<forall>d. 0 \<le> val d r)"
  by (simp add: nonneg_def all_dim val_def sle_sint)

lemma nonneg_val: "nonneg r \<Longrightarrow> 0 \<le> val d r"
  by (simp add: nonneg_iff)

lemma val_range: "- 2147483648 \<le> val d r \<and> val d r < 2147483648"
  unfolding val_def by (rule sint32_range)

lemma amount_zero [simp]: "amount d ResourceSummary_zero = 0"
  by (cases d) (simp_all add: ResourceSummary_zero_def)

lemma val_zero [simp]: "val d ResourceSummary_zero = 0"
  by (simp add: val_def)

lemma nonneg_zero [simp]: "nonneg ResourceSummary_zero"
  by (simp add: nonneg_iff)

section \<open>Interfaces\<close>

text \<open>The clamp \<open>nonNegative\<close> of the source, as the interfaces below speak of it.\<close>

definition clamp0 :: "int32 \<Rightarrow> int32" where
  "clamp0 v = (if v <s 0 then 0 else v)"

lemma sint_clamp0: "sint (clamp0 v) = max 0 (sint v)"
  by (simp add: clamp0_def sless_sint)

text \<open>Addition of resource vectors: field by field, wrapping around.\<close>

locale res_adder =
  fixes add :: "ResourceSummary \<Rightarrow> ResourceSummary \<Rightarrow> ResourceSummary"
  assumes amount_add: "amount d (add a b) = amount d a + amount d b"
begin

lemma add_commute: "add a b = add b a"
  by (rule res_eqI) (simp add: amount_add add.commute)

lemma add_assoc: "add (add a b) c = add a (add b c)"
  by (rule res_eqI) (simp add: amount_add add.assoc)

lemma add_zero [simp]: "add a ResourceSummary_zero = a" "add ResourceSummary_zero a = a"
  by (rule res_eqI, simp add: amount_add)+

lemma val_add:
  "- 2147483648 \<le> val d a + val d b \<Longrightarrow> val d a + val d b < 2147483648 \<Longrightarrow>
   val d (add a b) = val d a + val d b"
  by (simp add: val_def amount_add sint32_add)

lemma fold_add: "fold (\<lambda>x acc. add acc x) xs (add a b) = add a (fold (\<lambda>x acc. add acc x) xs b)"
  by (induction xs arbitrary: b) (simp_all add: add_assoc)

text \<open>
  A sum of non-negative vectors whose exact total stays in the range of \<open>int32\<close> is computed
  exactly, whatever the order of the additions.
\<close>

lemma val_fold_add:
  assumes "\<And>x. x \<in> set xs \<Longrightarrow> nonneg x" and "0 \<le> val d acc"
    and "val d acc + sum_list (map (val d) xs) < 2147483648"
  shows "val d (fold (\<lambda>x acc. add acc x) xs acc) = val d acc + sum_list (map (val d) xs)"
  using assms
proof (induction xs arbitrary: acc)
  case (Cons x xs)
  have x: "0 \<le> val d x"
    using Cons.prems(1) nonneg_val by simp
  have rest: "0 \<le> sum_list (map (val d) xs)"
    by (rule sum_list_nonneg) (use Cons.prems(1) nonneg_val in auto)
  have sum: "val d (add acc x) = val d acc + val d x"
    using Cons.prems(2,3) x rest by (intro val_add) simp_all
  show ?case
    using Cons.IH [of "add acc x"] Cons.prems sum x by simp
qed simp

end

text \<open>Subtraction, clamped at zero.\<close>

locale res_subtracter =
  fixes sub :: "ResourceSummary \<Rightarrow> ResourceSummary \<Rightarrow> ResourceSummary"
  assumes amount_sub: "amount d (sub a b) = clamp0 (amount d a - amount d b)"
begin

lemma nonneg_sub: "nonneg (sub a b)"
  by (simp add: nonneg_iff val_def amount_sub sint_clamp0)

lemma val_sub:
  "- 2147483648 \<le> val d a - val d b \<Longrightarrow> val d a - val d b < 2147483648 \<Longrightarrow>
   val d (sub a b) = max 0 (val d a - val d b)"
  by (simp add: val_def amount_sub sint_clamp0 sint32_diff)

lemma val_sub_nonneg: "nonneg a \<Longrightarrow> nonneg b \<Longrightarrow> val d (sub a b) = max 0 (val d a - val d b)"
  using val_range [of d a] val_range [of d b] nonneg_val [of a d] nonneg_val [of b d]
  by (intro val_sub) auto

lemma sub_zero: "nonneg a \<Longrightarrow> sub a ResourceSummary_zero = a"
  by (simp add: res_eq_val val_sub_nonneg nonneg_val)

end

text \<open>Fitting: no dimension asks for more than there is.\<close>

locale res_fitter =
  fixes fits_in :: "ResourceSummary \<Rightarrow> ResourceSummary \<Rightarrow> bool"
  assumes fits_iff: "fits_in a b \<longleftrightarrow> (\<forall>d. val d a \<le> val d b)"
begin

lemma fits_refl [simp]: "fits_in a a"
  by (simp add: fits_iff)

lemma fits_trans: "fits_in a b \<Longrightarrow> fits_in b c \<Longrightarrow> fits_in a c"
  by (meson fits_iff order_trans)

lemma fits_antisym: "fits_in a b \<Longrightarrow> fits_in b a \<Longrightarrow> a = b"
  by (simp add: fits_iff res_eq_val order_antisym)

lemma fits_nonneg: "nonneg a \<Longrightarrow> fits_in a b \<Longrightarrow> nonneg b"
  by (meson fits_iff nonneg_iff order_trans)

end

text \<open>
  The three together: what a component that books resources relies on.  Taking out what fits
  is exact, and putting it back restores what was there.
\<close>

locale res_books = res_adder add + res_subtracter sub + res_fitter fits_in
  for add sub :: "ResourceSummary \<Rightarrow> ResourceSummary \<Rightarrow> ResourceSummary"
    and fits_in :: "ResourceSummary \<Rightarrow> ResourceSummary \<Rightarrow> bool"
begin

lemma val_sub_fits:
  assumes "nonneg b" and "fits_in b a"
  shows "val d (sub a b) = val d a - val d b"
proof -
  have "0 \<le> val d b" and "val d b \<le> val d a"
    using assms by (simp_all add: nonneg_val fits_iff)
  then show ?thesis
    using val_range [of d a] val_range [of d b] by (subst val_sub) simp_all
qed

lemma sub_fits: "nonneg b \<Longrightarrow> fits_in b a \<Longrightarrow> fits_in (sub a b) a"
  by (simp add: fits_iff val_sub_fits nonneg_val)

lemma sub_add_cancel:
  assumes "nonneg b" and "fits_in b a"
  shows "add (sub a b) b = a"
proof -
  have "val d (add (sub a b) b) = val d a" for d
    using val_sub_fits [OF assms, of d] val_range [of d a] by (subst val_add) simp_all
  then show ?thesis by (simp add: res_eq_val)
qed

end

text \<open>The zero test.\<close>

locale res_zero_test =
  fixes is_zero :: "ResourceSummary \<Rightarrow> bool"
  assumes is_zero_iff: "is_zero a \<longleftrightarrow> a = ResourceSummary_zero"

section \<open>Vectors for the examples\<close>

text \<open>A number of GPUs and nothing else.\<close>

definition gpuVec :: "int \<Rightarrow> ResourceSummary" where
  "gpuVec k = ResourceSummary_zero \<lparr>GPUCount := word_of_int k\<rparr>"

lemma amount_gpus: "amount d (gpuVec k) = (if d = DGpu then word_of_int k else 0)"
  by (cases d) (simp_all add: gpuVec_def ResourceSummary_zero_def)

lemma val_gpus:
  "0 \<le> k \<Longrightarrow> k < 2147483648 \<Longrightarrow> val d (gpuVec k) = (if d = DGpu then k else 0)"
  by (simp add: val_def amount_gpus sint32_of_int)

lemma gpus_zero_iff: "0 \<le> k \<Longrightarrow> k < 2147483648 \<Longrightarrow> gpuVec k = ResourceSummary_zero \<longleftrightarrow> k = 0"
  by (auto simp: res_eq_val val_gpus split: if_splits)

lemma nonneg_gpus: "0 \<le> k \<Longrightarrow> k < 2147483648 \<Longrightarrow> nonneg (gpuVec k)"
  by (simp add: nonneg_iff val_gpus)

end
