(* ===== verification/TimeWindows.thy ===== *)
theory TimeWindows
  imports ApiTypes
begin

text \<open>
  Daily time windows.  The scheduler (\<open>policy/simple_policy.go\<close>, \<open>policy/time_window_policy.go\<close>)
  reads \<open>HH:MM\<close> with \<open>strings.Split\<close> and \<open>strconv.Atoi\<close> and works on lists of minute
  intervals; the agent (\<open>agent/hourly_forecast.go\<close>, \<open>agent/local/ledger.go\<close>) reads it with
  \<open>time.Parse\<close> and tests minutes directly.  This theory models both readers and the scheduler's
  interval code, and states the contract they share: the set of minutes of the day a window
  covers (\<open>in_daily\<close>).
\<close>

section \<open>The contract\<close>

text \<open>
  A window from minute \<open>s\<close> to minute \<open>e\<close>: half open, over midnight when \<open>e\<close> comes before
  \<open>s\<close>, and the whole day when they are equal.
\<close>

definition in_daily :: "int \<Rightarrow> int \<Rightarrow> int \<Rightarrow> bool" where
  "in_daily s e m \<longleftrightarrow> (if s = e then True else if s < e then s \<le> m \<and> m < e else s \<le> m \<or> m < e)"

text \<open>The wall clock text \<open>HH:MM\<close> that the API documents.\<close>

definition hhmm :: "nat \<Rightarrow> nat \<Rightarrow> string" where
  "hhmm h m = show_02d h @ '':'' @ show_02d m"

text \<open>What a reader of such texts promises: minutes of a day, and the documented format is read.\<close>

locale clock_reader =
  fixes parse :: "string \<Rightarrow> int option"
  assumes parse_range: "parse s = Some t \<Longrightarrow> 0 \<le> t \<and> t < 1440"
    and parse_hhmm: "h < 24 \<Longrightarrow> m < 60 \<Longrightarrow> parse (hhmm h m) = Some (60 * int h + int m)"

text \<open>What a test "is this hour inside one of the windows" promises.\<close>

locale daily_windows = clock_reader parse
  for parse :: "string \<Rightarrow> int option" +
  fixes hour_in :: "TimeWindow list \<Rightarrow> int \<Rightarrow> bool"
  assumes hour_in_iff: "hour_in ws h \<longleftrightarrow>
    0 \<le> h \<and> h \<le> 23 \<and>
    (\<exists>w\<in>set ws. \<exists>s e. parse (tw_Start w) = Some s \<and> parse (tw_End w) = Some e \<and>
       in_daily s e (h * 60))"
begin

lemma hour_in_append: "hour_in (ws @ vs) h \<longleftrightarrow> hour_in ws h \<or> hour_in vs h"
  by (auto simp: hour_in_iff)

lemma hour_in_outside: "h < 0 \<or> 23 < h \<Longrightarrow> \<not> hour_in ws h"
  by (auto simp: hour_in_iff)

text \<open>On windows written in the documented format the answer is the arithmetic one.\<close>

lemma hour_in_hhmm:
  assumes "h1 < 24" "m1 < 60" "h2 < 24" "m2 < 60" "0 \<le> h" "h \<le> 23"
    and "tw_Start w = hhmm h1 m1" and "tw_End w = hhmm h2 m2"
  shows "hour_in [w] h \<longleftrightarrow> in_daily (60 * int h1 + int m1) (60 * int h2 + int m2) (h * 60)"
  using assms by (simp add: hour_in_iff parse_hhmm)

end

lemma digit_char_0: "digit_char 0 = CHR ''0''"
  by code_simp

lemma show_02d_digits:
  assumes "n < 100"
  shows "show_02d n = [digit_char (n div 10), digit_char (n mod 10)]"
proof (cases "n < 10")
  case True
  then show ?thesis by (simp add: show_02d_def show_nat.simps [of n] digit_char_0)
next
  case False
  with assms show ?thesis
    by (simp add: show_02d_def show_nat.simps [of n] show_nat.simps [of "n div 10"])
qed

lemma hhmm_chars:
  "h < 24 \<Longrightarrow> m < 60 \<Longrightarrow>
   hhmm h m = [digit_char (h div 10), digit_char (h mod 10), CHR '':'',
               digit_char (m div 10), digit_char (m mod 10)]"
  by (simp add: hhmm_def show_02d_digits)

section \<open>The scheduler's reader (policy/simple\_policy.go)\<close>

definition parsePositiveInt :: "string \<Rightarrow> int option" where
  "parsePositiveInt value = Atoi value"

definition parseHHMM :: "string \<Rightarrow> int option" where
  "parseHHMM value =
     (case Split value CHR '':'' of
        [p0, p1] \<Rightarrow>
          (case parsePositiveInt p0 of
             None \<Rightarrow> None
           | Some hour \<Rightarrow>
               if hour < 0 \<or> hour > 23 then None
               else (case parsePositiveInt p1 of
                       None \<Rightarrow> None
                     | Some minute \<Rightarrow>
                         if minute < 0 \<or> minute > 59 then None
                         else Some (hour * 60 + minute)))
      | _ \<Rightarrow> None)"

record minuteInterval =
  mi_start :: int
  mi_end :: int

definition timeWindowIntervals :: "TimeWindow \<Rightarrow> minuteInterval list option" where
  "timeWindowIntervals window =
     (case parseHHMM (tw_Start window) of
        None \<Rightarrow> None
      | Some start \<Rightarrow>
          (case parseHHMM (tw_End window) of
             None \<Rightarrow> None
           | Some end \<Rightarrow>
               if start = end then Some [\<lparr>mi_start = 0, mi_end = 24 * 60\<rparr>]
               else if start < end then Some [\<lparr>mi_start = start, mi_end = end\<rparr>]
               else Some [\<lparr>mi_start = start, mi_end = 24 * 60\<rparr>, \<lparr>mi_start = 0, mi_end = end\<rparr>]))"

definition intervalsOverlap :: "minuteInterval list \<Rightarrow> minuteInterval list \<Rightarrow> bool" where
  "intervalsOverlap left right =
     list_ex (\<lambda>l. list_ex (\<lambda>r. mi_start l < mi_end r \<and> mi_start r < mi_end l) right) left"

fun timeWindowsOverlap :: "TimeWindow list \<Rightarrow> TimeWindow list \<Rightarrow> bool" where
  "timeWindowsOverlap [] right = False"
| "timeWindowsOverlap (leftWindow # left) right =
     (case timeWindowIntervals leftWindow of
        None \<Rightarrow> timeWindowsOverlap left right
      | Some leftIntervals \<Rightarrow>
          if list_ex (\<lambda>rightWindow.
               case timeWindowIntervals rightWindow of
                 None \<Rightarrow> False
               | Some rightIntervals \<Rightarrow> intervalsOverlap leftIntervals rightIntervals) right
          then True else timeWindowsOverlap left right)"

definition hourInTimeWindows :: "TimeWindow list \<Rightarrow> int \<Rightarrow> bool" where
  "hourInTimeWindows windows hour =
     (if hour < 0 \<or> hour > 23 then False
      else let minute = hour * 60 in
        list_ex (\<lambda>window.
          case timeWindowIntervals window of
            None \<Rightarrow> False
          | Some intervals \<Rightarrow>
              list_ex (\<lambda>interval. minute \<ge> mi_start interval \<and> minute < mi_end interval) intervals)
          windows)"

section \<open>The agent's reader\<close>

text \<open>
  \<open>time.Parse\<close> with the layout \<open>15:04\<close>: one or two digits for the hour, a colon, exactly two
  digits for the minute, ranges checked, nothing after.  \<open>getnum\<close> is the helper of that
  package: with \<open>fixed\<close> it wants two digits.
\<close>

fun getnum :: "bool \<Rightarrow> string \<Rightarrow> (int \<times> string) option" where
  "getnum fixed [] = None"
| "getnum fixed [c] = (if is_digit c \<and> \<not> fixed then Some (digit_val c, []) else None)"
| "getnum fixed (c # d # s) =
     (if \<not> is_digit c then None
      else if \<not> is_digit d then (if fixed then None else Some (digit_val c, d # s))
      else Some (digit_val c * 10 + digit_val d, s))"

definition time_Parse_15_04 :: "string \<Rightarrow> (int \<times> int) option" where
  "time_Parse_15_04 value =
     (case getnum False value of
        None \<Rightarrow> None
      | Some (hour, rest) \<Rightarrow>
          if 24 \<le> hour then None
          else (case rest of
                  [] \<Rightarrow> None
                | c # rest' \<Rightarrow>
                    if c \<noteq> CHR '':'' then None
                    else (case getnum True rest' of
                            None \<Rightarrow> None
                          | Some (minute, rest'') \<Rightarrow>
                              if 60 \<le> minute \<or> rest'' \<noteq> [] then None
                              else Some (hour, minute))))"

text \<open>\<open>parseMinuteOfDay\<close> of \<open>agent/local/ledger.go\<close> and \<open>parseForecastMinute\<close> of
  \<open>agent/hourly_forecast.go\<close> are the same text; so are the two window tests.\<close>

definition parseMinuteOfDay :: "string \<Rightarrow> int option" where
  "parseMinuteOfDay value =
     (case time_Parse_15_04 value of None \<Rightarrow> None | Some (h, m) \<Rightarrow> Some (h * 60 + m))"

definition minuteInWindow :: "int \<Rightarrow> int \<Rightarrow> int \<Rightarrow> bool" where
  "minuteInWindow current start end =
     (if start = end then True
      else if start < end then current \<ge> start \<and> current < end
      else current \<ge> start \<or> current < end)"

definition parseForecastMinute :: "string \<Rightarrow> int option" where
  "parseForecastMinute value =
     (case time_Parse_15_04 value of None \<Rightarrow> None | Some (h, m) \<Rightarrow> Some (h * 60 + m))"

definition minuteInForecastWindow :: "int \<Rightarrow> int \<Rightarrow> int \<Rightarrow> bool" where
  "minuteInForecastWindow current start end =
     (if start = end then True
      else if start < end then current \<ge> start \<and> current < end
      else current \<ge> start \<or> current < end)"

definition hourInForecastWindows :: "TimeWindow list \<Rightarrow> int \<Rightarrow> bool" where
  "hourInForecastWindows windows hour =
     (if hour < 0 \<or> hour > 23 then False
      else let minute = hour * 60 in
        list_ex (\<lambda>window.
          case parseForecastMinute (tw_Start window) of
            None \<Rightarrow> False
          | Some start \<Rightarrow>
              (case parseForecastMinute (tw_End window) of
                 None \<Rightarrow> False
               | Some end \<Rightarrow> minuteInForecastWindow minute start end))
          windows)"

section \<open>The readers keep the contract\<close>

lemma is_digit_range: "is_digit c \<Longrightarrow> 0 \<le> digit_val c \<and> digit_val c \<le> 9"
  by (auto simp: is_digit_def digit_val_def)

lemma minuteInWindow_daily: "minuteInWindow m s e = in_daily s e m"
  by (simp add: minuteInWindow_def in_daily_def)

lemma minuteInForecastWindow_daily: "minuteInForecastWindow m s e = in_daily s e m"
  by (simp add: minuteInForecastWindow_def in_daily_def)

lemma parseForecastMinute_eq: "parseForecastMinute = parseMinuteOfDay"
  by (intro ext) (simp add: parseForecastMinute_def parseMinuteOfDay_def)

lemma parseHHMM_range: "parseHHMM s = Some m \<Longrightarrow> 0 \<le> m \<and> m < 1440"
  by (auto simp: parseHHMM_def split: list.splits option.splits if_splits)

lemma Atoi_two_digits:
  assumes "is_digit c" and "is_digit d"
  shows "Atoi [c, d] = Some (10 * digit_val c + digit_val d)"
  using assms is_digit_not_sign [of c] is_digit_range [of c] is_digit_range [of d]
  by (auto simp: Atoi_def ParseInt_def)

lemma Atoi_one_digit: "is_digit c \<Longrightarrow> Atoi [c] = Some (digit_val c)"
  using is_digit_not_sign [of c] is_digit_range [of c] by (auto simp: Atoi_def ParseInt_def)

lemma is_digit_not_colon: "is_digit c \<Longrightarrow> c \<noteq> CHR '':''"
  by (auto simp: is_digit_def)

lemma parseHHMM_hhmm:
  assumes "h < 24" and "m < 60"
  shows "parseHHMM (hhmm h m) = Some (60 * int h + int m)"
proof -
  have dig: "is_digit (digit_char (k div 10))" "is_digit (digit_char (k mod 10))"
    "10 * digit_val (digit_char (k div 10)) + digit_val (digit_char (k mod 10)) = int k"
    if "k < 100" for k
  proof -
    have "k div 10 < 10" and "10 * int (k div 10) + int (k mod 10) = int k"
      using that by (simp, presburger)
    then show "is_digit (digit_char (k div 10))" "is_digit (digit_char (k mod 10))"
      "10 * digit_val (digit_char (k div 10)) + digit_val (digit_char (k mod 10)) = int k"
      by (simp_all add: digit_char_val)
  qed
  have h: "h < 100" and m: "m < 100"
    using assms by simp_all
  have "Split (hhmm h m) CHR '':'' =
    [[digit_char (h div 10), digit_char (h mod 10)], [digit_char (m div 10), digit_char (m mod 10)]]"
    using dig [OF h] dig [OF m] by (simp add: hhmm_chars assms is_digit_not_colon)
  with dig [OF h] dig [OF m] assms show ?thesis
    by (simp add: parseHHMM_def parsePositiveInt_def Atoi_two_digits)
qed

lemma getnum_Some:
  assumes "getnum fixed s = Some (k, rest)"
  shows "(\<exists>c d. is_digit c \<and> is_digit d \<and> s = c # d # rest \<and> k = 10 * digit_val c + digit_val d) \<or>
         (\<not> fixed \<and> (\<exists>c. is_digit c \<and> s = c # rest \<and> k = digit_val c))"
  using assms by (induction fixed s rule: getnum.induct) (auto split: if_splits)

text \<open>
  Every text the agent reads is read by the scheduler, as the same minute.  (The converse
  fails: the scheduler also takes signs and single digit minutes.)
\<close>

lemma agent_reads_scheduler_reads:
  assumes "parseMinuteOfDay s = Some t"
  shows "parseHHMM s = Some t"
proof -
  from assms obtain h m where p: "time_Parse_15_04 s = Some (h, m)" and t: "t = h * 60 + m"
    by (auto simp: parseMinuteOfDay_def split: option.splits)
  from p obtain r1 where g1: "getnum False s = Some (h, CHR '':'' # r1)" and h: "\<not> 24 \<le> h"
    and g2: "getnum True r1 = Some (m, [])" and m: "\<not> 60 \<le> m"
    by (auto simp: time_Parse_15_04_def split: option.splits if_splits list.splits)
  from getnum_Some [OF g2] obtain c d where cd: "is_digit c" "is_digit d" "r1 = [c, d]"
    "m = 10 * digit_val c + digit_val d" by auto
  have sm: "Split r1 CHR '':'' = [[c, d]]"
    using cd by (simp add: is_digit_not_colon)
  have range: "0 \<le> m"
    using cd is_digit_range [of c] is_digit_range [of d] by simp
  from getnum_Some [OF g1] show ?thesis
  proof
    assume "\<exists>a b. is_digit a \<and> is_digit b \<and> s = a # b # CHR '':'' # r1 \<and>
      h = 10 * digit_val a + digit_val b"
    then obtain a b where ab: "is_digit a" "is_digit b" "s = a # b # CHR '':'' # r1"
      "h = 10 * digit_val a + digit_val b" by blast
    then have "Split s CHR '':'' = [[a, b], [c, d]]"
      using sm by (simp add: is_digit_not_colon)
    then show ?thesis
      using ab cd h m range is_digit_range [of a] is_digit_range [of b] t
      by (simp add: parseHHMM_def parsePositiveInt_def Atoi_two_digits)
  next
    assume "\<not> False \<and> (\<exists>a. is_digit a \<and> s = a # CHR '':'' # r1 \<and> h = digit_val a)"
    then obtain a where a: "is_digit a" "s = a # CHR '':'' # r1" "h = digit_val a" by blast
    then have "Split s CHR '':'' = [[a], [c, d]]"
      using sm by (simp add: is_digit_not_colon)
    then show ?thesis
      using a cd h m range is_digit_range [of a] t
      by (simp add: parseHHMM_def parsePositiveInt_def Atoi_two_digits Atoi_one_digit)
  qed
qed

lemma parseMinuteOfDay_hhmm:
  assumes "h < 24" and "m < 60"
  shows "parseMinuteOfDay (hhmm h m) = Some (60 * int h + int m)"
proof -
  have "h div 10 < 10" "h mod 10 < 10" "m div 10 < 10" "m mod 10 < 10"
    using assms by simp_all
  moreover have "10 * int (h div 10) + int (h mod 10) = int h" "10 * int (m div 10) + int (m mod 10) = int m"
    by presburger+
  ultimately show ?thesis
    using assms
    by (simp add: parseMinuteOfDay_def time_Parse_15_04_def hhmm_chars digit_char_val algebra_simps)
qed

interpretation scheduler_clock: clock_reader parseHHMM
  by unfold_locales (auto dest: parseHHMM_range simp: parseHHMM_hhmm)

interpretation agent_clock: clock_reader parseMinuteOfDay
  by unfold_locales
    (auto dest!: agent_reads_scheduler_reads dest: parseHHMM_range simp: parseMinuteOfDay_hhmm)

interpretation forecast_clock: clock_reader parseForecastMinute
  unfolding parseForecastMinute_eq by unfold_locales

text \<open>The scheduler's intervals of a window cover exactly the minutes of the contract.\<close>

lemma timeWindowIntervals_None:
  "timeWindowIntervals w = None \<longleftrightarrow> parseHHMM (tw_Start w) = None \<or> parseHHMM (tw_End w) = None"
  by (auto simp: timeWindowIntervals_def split: option.splits)

lemma timeWindowIntervals_Some:
  assumes "timeWindowIntervals w = Some is"
  obtains s e where "parseHHMM (tw_Start w) = Some s" and "parseHHMM (tw_End w) = Some e"
    and "0 \<le> s" "s < 1440" "0 \<le> e" "e < 1440"
    and "is = (if s = e then [\<lparr>mi_start = 0, mi_end = 1440\<rparr>]
               else if s < e then [\<lparr>mi_start = s, mi_end = e\<rparr>]
               else [\<lparr>mi_start = s, mi_end = 1440\<rparr>, \<lparr>mi_start = 0, mi_end = e\<rparr>])"
proof -
  from assms obtain s e where se: "parseHHMM (tw_Start w) = Some s" "parseHHMM (tw_End w) = Some e"
    using timeWindowIntervals_None [of w] by fastforce
  have "is = (if s = e then [\<lparr>mi_start = 0, mi_end = 1440\<rparr>]
               else if s < e then [\<lparr>mi_start = s, mi_end = e\<rparr>]
               else [\<lparr>mi_start = s, mi_end = 1440\<rparr>, \<lparr>mi_start = 0, mi_end = e\<rparr>])"
    using assms se by (simp add: timeWindowIntervals_def split: if_splits)
  with se parseHHMM_range [OF se(1)] parseHHMM_range [OF se(2)] that show thesis
    by blast
qed

lemma timeWindowIntervals_cover:
  assumes w: "timeWindowIntervals w = Some is" and m: "0 \<le> m" "m < 1440"
  shows "(\<exists>i\<in>set is. mi_start i \<le> m \<and> m < mi_end i) \<longleftrightarrow>
    (\<exists>s e. parseHHMM (tw_Start w) = Some s \<and> parseHHMM (tw_End w) = Some e \<and> in_daily s e m)"
  by (rule timeWindowIntervals_Some [OF w]) (use m in \<open>simp add: in_daily_def\<close>)

lemma timeWindowIntervals_bounds:
  assumes w: "timeWindowIntervals w = Some is" and i: "i \<in> set is"
  shows "0 \<le> mi_start i \<and> mi_start i < mi_end i \<and> mi_end i \<le> 1440 \<or> mi_start i = 0 \<and> mi_end i = 0"
  by (rule timeWindowIntervals_Some [OF w]) (use i in \<open>auto split: if_splits\<close>)

interpretation scheduler_windows: daily_windows parseHHMM hourInTimeWindows
proof
  fix ws h
  show "hourInTimeWindows ws h \<longleftrightarrow> 0 \<le> h \<and> h \<le> 23 \<and>
    (\<exists>w\<in>set ws. \<exists>s e. parseHHMM (tw_Start w) = Some s \<and> parseHHMM (tw_End w) = Some e \<and>
       in_daily s e (h * 60))"
  proof (cases "0 \<le> h \<and> h \<le> 23")
    case True
    have "(case timeWindowIntervals w of None \<Rightarrow> False
           | Some is \<Rightarrow> list_ex (\<lambda>i. h * 60 \<ge> mi_start i \<and> h * 60 < mi_end i) is) \<longleftrightarrow>
      (\<exists>s e. parseHHMM (tw_Start w) = Some s \<and> parseHHMM (tw_End w) = Some e \<and>
         in_daily s e (h * 60))" for w
      using True timeWindowIntervals_cover [of w _ "h * 60"] timeWindowIntervals_None [of w]
      by (auto simp: list_ex_iff split: option.splits)
    with True show ?thesis
      by (auto simp: hourInTimeWindows_def list_ex_iff)
  next
    case False
    then show ?thesis by (auto simp: hourInTimeWindows_def)
  qed
qed

interpretation forecast_windows: daily_windows parseForecastMinute hourInForecastWindows
proof
  fix ws h
  have "(case parseForecastMinute (tw_Start w) of None \<Rightarrow> False
         | Some start \<Rightarrow> (case parseForecastMinute (tw_End w) of None \<Rightarrow> False
            | Some end \<Rightarrow> minuteInForecastWindow (h * 60) start end)) \<longleftrightarrow>
    (\<exists>s e. parseForecastMinute (tw_Start w) = Some s \<and> parseForecastMinute (tw_End w) = Some e \<and>
       in_daily s e (h * 60))" for w
    by (simp add: minuteInForecastWindow_daily split: option.splits)
  then show "hourInForecastWindows ws h \<longleftrightarrow> 0 \<le> h \<and> h \<le> 23 \<and>
    (\<exists>w\<in>set ws. \<exists>s e. parseForecastMinute (tw_Start w) = Some s \<and>
       parseForecastMinute (tw_End w) = Some e \<and> in_daily s e (h * 60))"
    by (auto simp: hourInForecastWindows_def list_ex_iff)
qed

text \<open>Two interval lists overlap exactly when they share a minute.\<close>

lemma interval_meet:
  assumes "0 \<le> a \<and> a < b \<and> b \<le> 1440 \<or> a = 0 \<and> b = 0"
    and "0 \<le> c \<and> c < d \<and> d \<le> 1440 \<or> c = 0 \<and> d = 0"
  shows "a < d \<and> c < b \<longleftrightarrow> (\<exists>m::int. 0 \<le> m \<and> m < 1440 \<and> (a \<le> m \<and> m < b) \<and> (c \<le> m \<and> m < d))"
proof
  assume "a < d \<and> c < b"
  with assms show "\<exists>m. 0 \<le> m \<and> m < 1440 \<and> (a \<le> m \<and> m < b) \<and> (c \<le> m \<and> m < d)"
    by (intro exI [of _ "max a c"]) auto
qed auto

lemma intervalsOverlap_iff:
  assumes l: "timeWindowIntervals wl = Some ls" and r: "timeWindowIntervals wr = Some rs"
  shows "intervalsOverlap ls rs \<longleftrightarrow>
    (\<exists>m. 0 \<le> m \<and> m < 1440 \<and> (\<exists>i\<in>set ls. mi_start i \<le> m \<and> m < mi_end i) \<and>
       (\<exists>j\<in>set rs. mi_start j \<le> m \<and> m < mi_end j))"
proof -
  have "mi_start i < mi_end j \<and> mi_start j < mi_end i \<longleftrightarrow>
    (\<exists>m. 0 \<le> m \<and> m < 1440 \<and> (mi_start i \<le> m \<and> m < mi_end i) \<and> (mi_start j \<le> m \<and> m < mi_end j))"
    if "i \<in> set ls" "j \<in> set rs" for i j
    by (rule interval_meet)
      (use timeWindowIntervals_bounds [OF l that(1)] timeWindowIntervals_bounds [OF r that(2)] in auto)
  then show ?thesis
    unfolding intervalsOverlap_def list_ex_iff by blast
qed

lemma timeWindowsOverlap_intervals:
  "timeWindowsOverlap left right \<longleftrightarrow>
     (\<exists>wl\<in>set left. \<exists>wr\<in>set right. \<exists>ls rs. timeWindowIntervals wl = Some ls \<and>
        timeWindowIntervals wr = Some rs \<and> intervalsOverlap ls rs)"
proof (induction left)
  case (Cons w left)
  have "list_ex (\<lambda>wr. case timeWindowIntervals wr of None \<Rightarrow> False
          | Some rs \<Rightarrow> intervalsOverlap ls rs) right \<longleftrightarrow>
    (\<exists>wr\<in>set right. \<exists>rs. timeWindowIntervals wr = Some rs \<and> intervalsOverlap ls rs)" for ls
    by (force simp: list_ex_iff split: option.splits)
  with Cons show ?case
    by (auto split: option.splits)
qed simp

text \<open>The minutes of the day a window covers for the scheduler; none when its text is not read.\<close>

definition covers_minute :: "TimeWindow \<Rightarrow> int \<Rightarrow> bool" where
  "covers_minute w m \<longleftrightarrow>
     (case (parseHHMM (tw_Start w), parseHHMM (tw_End w)) of
        (Some s, Some e) \<Rightarrow> 0 \<le> m \<and> m < 1440 \<and> in_daily s e m
      | _ \<Rightarrow> False)"

lemma covers_minute_iff:
  "covers_minute w m \<longleftrightarrow>
     0 \<le> m \<and> m < 1440 \<and>
     (\<exists>is. timeWindowIntervals w = Some is \<and> (\<exists>i\<in>set is. mi_start i \<le> m \<and> m < mi_end i))"
proof (cases "timeWindowIntervals w")
  case None
  then show ?thesis
    using timeWindowIntervals_None [of w] by (auto simp: covers_minute_def split: option.splits)
next
  case (Some ivs)
  then show ?thesis
    using timeWindowIntervals_cover [OF Some, of m] timeWindowIntervals_None [of w]
    by (auto simp: covers_minute_def split: option.splits)
qed

text \<open>
  C24. Two window lists overlap for the scheduler exactly when some minute of the day is
  covered by a window of the first and a window of the second: over midnight, whole day and
  unreadable windows included.
\<close>
theorem timeWindowsOverlap_iff_shared_minute:
  "timeWindowsOverlap left right \<longleftrightarrow>
     (\<exists>m wl wr. wl \<in> set left \<and> wr \<in> set right \<and> covers_minute wl m \<and> covers_minute wr m)"
  (is "?L \<longleftrightarrow> ?R")
proof
  assume ?L
  then obtain wl wr ls rs where w: "wl \<in> set left" "wr \<in> set right"
    and i: "timeWindowIntervals wl = Some ls" "timeWindowIntervals wr = Some rs" "intervalsOverlap ls rs"
    by (auto simp: timeWindowsOverlap_intervals)
  then show ?R
    unfolding intervalsOverlap_iff [OF i(1,2)] covers_minute_iff by blast
next
  assume ?R
  then show ?L
    unfolding covers_minute_iff timeWindowsOverlap_intervals by (meson intervalsOverlap_iff)
qed

end
