(* ===== verification/ResourcePolicy.thy ===== *)
theory ResourcePolicy
  imports Resource TimeWindows
begin

text \<open>
  The scheduler's view of resource vectors and of a node's day:
  \<open>policy/resource_policy.go\<close>, \<open>policy/time_window_policy.go\<close> and the selectors of
  \<open>policy/simple_policy.go\<close> they use.  A nil profile or node is \<open>None\<close>.  The package's
  arithmetic is interpreted as an instance of the resource interfaces.
\<close>

section \<open>Resource vectors (resource\_policy.go)\<close>

definition policy_nonNegative :: "int32 \<Rightarrow> int32" where
  "policy_nonNegative value = (if value <s 0 then 0 else value)"

definition policy_addResourceSummary :: "ResourceSummary \<Rightarrow> ResourceSummary \<Rightarrow> ResourceSummary" where
  "policy_addResourceSummary left right =
     \<lparr>GPUCount = GPUCount left + GPUCount right,
      GPUMemoryGiB = GPUMemoryGiB left + GPUMemoryGiB right,
      KVCacheGiB = KVCacheGiB left + KVCacheGiB right,
      PrefillTokensPerSecond = PrefillTokensPerSecond left + PrefillTokensPerSecond right,
      DecodeTokensPerSecond = DecodeTokensPerSecond left + DecodeTokensPerSecond right,
      TotalTokensPerSecond = TotalTokensPerSecond left + TotalTokensPerSecond right\<rparr>"

definition subtractResourceSummary :: "ResourceSummary \<Rightarrow> ResourceSummary \<Rightarrow> ResourceSummary" where
  "subtractResourceSummary left right =
     \<lparr>GPUCount = policy_nonNegative (GPUCount left - GPUCount right),
      GPUMemoryGiB = policy_nonNegative (GPUMemoryGiB left - GPUMemoryGiB right),
      KVCacheGiB = policy_nonNegative (KVCacheGiB left - KVCacheGiB right),
      PrefillTokensPerSecond =
        policy_nonNegative (PrefillTokensPerSecond left - PrefillTokensPerSecond right),
      DecodeTokensPerSecond =
        policy_nonNegative (DecodeTokensPerSecond left - DecodeTokensPerSecond right),
      TotalTokensPerSecond =
        policy_nonNegative (TotalTokensPerSecond left - TotalTokensPerSecond right)\<rparr>"

definition int32ToString :: "int32 \<Rightarrow> string" where
  "int32ToString value = show_int (sint value)"

definition resourceFitReason :: "string \<Rightarrow> int32 \<Rightarrow> int32 \<Rightarrow> string" where
  "resourceFitReason resource required capacity =
     ''insufficient '' @ resource @ '' envelope: required='' @ int32ToString required @
     '' capacity='' @ int32ToString capacity"

definition resourceSummaryFits :: "ResourceSummary \<Rightarrow> ResourceSummary \<Rightarrow> bool \<times> string" where
  "resourceSummaryFits required capacity =
     (if GPUCount capacity <s GPUCount required then
        (False, resourceFitReason ''gpuCount'' (GPUCount required) (GPUCount capacity))
      else if GPUMemoryGiB capacity <s GPUMemoryGiB required then
        (False, resourceFitReason ''gpuMemoryGiB'' (GPUMemoryGiB required) (GPUMemoryGiB capacity))
      else if KVCacheGiB capacity <s KVCacheGiB required then
        (False, resourceFitReason ''kvCacheGiB'' (KVCacheGiB required) (KVCacheGiB capacity))
      else if PrefillTokensPerSecond capacity <s PrefillTokensPerSecond required then
        (False, resourceFitReason ''prefillTokensPerSecond''
                  (PrefillTokensPerSecond required) (PrefillTokensPerSecond capacity))
      else if DecodeTokensPerSecond capacity <s DecodeTokensPerSecond required then
        (False, resourceFitReason ''decodeTokensPerSecond''
                  (DecodeTokensPerSecond required) (DecodeTokensPerSecond capacity))
      else if TotalTokensPerSecond capacity <s TotalTokensPerSecond required then
        (False, resourceFitReason ''totalTokensPerSecond''
                  (TotalTokensPerSecond required) (TotalTokensPerSecond capacity))
      else (True, ''resource envelope fits''))"

definition maxResourcesFromRequest :: "WorkloadResourceRequest option \<Rightarrow> ResourceSummary" where
  "maxResourcesFromRequest request =
     (case request of
        None \<Rightarrow> ResourceSummary_zero
      | Some r \<Rightarrow>
          (case wr_Max r of
             Some m \<Rightarrow> m
           | None \<Rightarrow>
               (case wr_Preferred r of
                  Some p \<Rightarrow> p
                | None \<Rightarrow> (case wr_Required r of Some q \<Rightarrow> q | None \<Rightarrow> ResourceSummary_zero))))"

definition requiredResourcesFromRequest :: "WorkloadResourceRequest option \<Rightarrow> ResourceSummary" where
  "requiredResourcesFromRequest request =
     (case request of
        None \<Rightarrow> ResourceSummary_zero
      | Some r \<Rightarrow> (case wr_Required r of None \<Rightarrow> ResourceSummary_zero | Some q \<Rightarrow> q))"

definition maxResources :: "AIWorkloadProfile option \<Rightarrow> ResourceSummary" where
  "maxResources profile =
     (case profile of
        None \<Rightarrow> ResourceSummary_zero
      | Some p \<Rightarrow>
          (case ps_Resources (p_Spec p) of
             None \<Rightarrow> ResourceSummary_zero
           | Some r \<Rightarrow> maxResourcesFromRequest (Some r)))"

section \<open>Selectors and classes of workloads (simple\_policy.go)\<close>

definition requiredResources :: "AIWorkloadProfile option \<Rightarrow> ResourceSummary" where
  "requiredResources profile =
     (case profile of
        None \<Rightarrow> ResourceSummary_zero
      | Some p \<Rightarrow>
          (case ps_Resources (p_Spec p) of
             None \<Rightarrow> ResourceSummary_zero
           | Some r \<Rightarrow> (case wr_Required r of None \<Rightarrow> ResourceSummary_zero | Some q \<Rightarrow> q)))"

definition preferredResources :: "AIWorkloadProfile option \<Rightarrow> ResourceSummary" where
  "preferredResources profile =
     (case profile of
        None \<Rightarrow> ResourceSummary_zero
      | Some p \<Rightarrow>
          (case ps_Resources (p_Spec p) of
             None \<Rightarrow> ResourceSummary_zero
           | Some r \<Rightarrow> (case wr_Preferred r of Some q \<Rightarrow> q | None \<Rightarrow> ResourceSummary_zero)))"

definition isOnlineWorkload :: "string \<Rightarrow> bool" where
  "isOnlineWorkload workloadType \<longleftrightarrow>
     EqualFold workloadType WorkloadTypeOnline \<or> EqualFold workloadType WorkloadTypeHybrid"

definition isDelayTolerantWorkload :: "string \<Rightarrow> bool" where
  "isDelayTolerantWorkload workloadType \<longleftrightarrow>
     EqualFold workloadType WorkloadTypeOffline \<or> EqualFold workloadType WorkloadTypeBatch"

definition policy_priorityRank :: "string \<Rightarrow> int" where
  "policy_priorityRank priority =
     (let p = ToLower priority in
      if p = WorkloadPriorityCritical then 4
      else if p = WorkloadPriorityHigh then 3
      else if p = WorkloadPriorityMedium then 2
      else if p = WorkloadPriorityLow then 1
      else 0)"

definition higherPriority :: "string \<Rightarrow> string \<Rightarrow> bool" where
  "higherPriority left right \<longleftrightarrow> policy_priorityRank left > policy_priorityRank right"

definition canCurrentWorkloadReclaimFrom ::
    "AIWorkloadProfile option \<Rightarrow> NodeAllocationStatus \<Rightarrow> bool" where
  "canCurrentWorkloadReclaimFrom profile allocation =
     (case profile of
        None \<Rightarrow> False
      | Some p \<Rightarrow>
          if \<not> isOnlineWorkload (ps_WorkloadType (p_Spec p)) \<or>
             \<not> higherPriority (ps_Priority (p_Spec p)) (na_Priority allocation)
          then False
          else isDelayTolerantWorkload (na_WorkloadType allocation) \<or>
            (case na_Actions allocation of
               None \<Rightarrow> False
             | Some acts \<Rightarrow> act_Throttleable acts \<or> act_Pauseable acts \<or> act_Evictable acts))"

section \<open>The node's day (time\_window\_policy.go)\<close>

definition resourceSummaryIsZero :: "ResourceSummary \<Rightarrow> bool" where
  "resourceSummaryIsZero summary \<longleftrightarrow>
     GPUCount summary = 0 \<and> GPUMemoryGiB summary = 0 \<and> KVCacheGiB summary = 0 \<and>
     PrefillTokensPerSecond summary = 0 \<and> DecodeTokensPerSecond summary = 0 \<and>
     TotalTokensPerSecond summary = 0"

definition comparableTimeWindowAllocation ::
    "AIWorkloadProfile option \<Rightarrow> NodeAllocationStatus \<Rightarrow> bool" where
  "comparableTimeWindowAllocation profile allocation =
     (case profile of
        None \<Rightarrow> False
      | Some p \<Rightarrow>
          if \<not> isOnlineWorkload (na_WorkloadType allocation) \<or> na_TimeWindows allocation = []
          then False
          else EqualFold (ps_Priority (p_Spec p)) (na_Priority allocation))"

definition nodeCapacityForEnvelope :: "AINodeResourceProfile option \<Rightarrow> ResourceSummary option" where
  "nodeCapacityForEnvelope node =
     (case node of
        None \<Rightarrow> None
      | Some n \<Rightarrow>
          (case nst_Allocatable (n_Status n) of
             Some c \<Rightarrow> Some c
           | None \<Rightarrow>
               (case (nst_Available (n_Status n), nst_Allocated (n_Status n)) of
                  (Some a, Some b) \<Rightarrow> Some (policy_addResourceSummary a b)
                | _ \<Rightarrow> None)))"

definition nodeForecastResourceForHour :: "AINodeResourceProfile option \<Rightarrow> int \<Rightarrow> ResourceSummary" where
  "nodeForecastResourceForHour node hour =
     (if hour < 0 \<or> hour > 23 then ResourceSummary_zero
      else case node of
        None \<Rightarrow> ResourceSummary_zero
      | Some n \<Rightarrow>
          (case nst_HourlyForecast (n_Status n) of
             None \<Rightarrow> ResourceSummary_zero
           | Some f \<Rightarrow>
               if int (length (hf_ResourceBuckets f)) \<le> hour then ResourceSummary_zero
               else hf_ResourceBuckets f ! nat hour))"

definition resourcesForHour ::
    "TimeWindow list \<Rightarrow> ResourceSummary \<Rightarrow> ResourceSummary \<Rightarrow> int \<Rightarrow> ResourceSummary" where
  "resourcesForHour windows required maximum hour =
     (if hourInTimeWindows windows hour \<and> \<not> resourceSummaryIsZero maximum then maximum
      else required)"

definition allocationResourceForHour :: "NodeAllocationStatus \<Rightarrow> int \<Rightarrow> ResourceSummary" where
  "allocationResourceForHour allocation hour =
     (if hour < 0 \<or> hour > 23 then ResourceSummary_zero
      else case (case na_HourlyForecast allocation of
                   Some f \<Rightarrow>
                     if int (length (hf_ResourceBuckets f)) > hour
                     then Some (hf_ResourceBuckets f ! nat hour) else None
                 | None \<Rightarrow> None) of
        Some bucket \<Rightarrow> bucket
      | None \<Rightarrow>
          (case na_ResourceRequest allocation of
             Some r \<Rightarrow>
               resourcesForHour (na_TimeWindows allocation)
                 (requiredResourcesFromRequest (Some r)) (maxResourcesFromRequest (Some r)) hour
           | None \<Rightarrow>
               (case na_Current allocation of
                  Some c \<Rightarrow> c
                | None \<Rightarrow>
                    (case na_Resources allocation of
                       Some q \<Rightarrow> q
                     | None \<Rightarrow> ResourceSummary_zero))))"

definition reclaimableResourceForHour ::
    "AIWorkloadProfile option \<Rightarrow> AINodeResourceProfile option \<Rightarrow> int \<Rightarrow> ResourceSummary" where
  "reclaimableResourceForHour profile node hour =
     (case (profile, node) of
        (Some p, Some n) \<Rightarrow>
          if hour < 0 \<or> hour > 23 then ResourceSummary_zero
          else fold (\<lambda>allocation total.
                 if \<not> canCurrentWorkloadReclaimFrom (Some p) allocation then total
                 else policy_addResourceSummary total (allocationResourceForHour allocation hour))
               (nst_Allocations (n_Status n)) ResourceSummary_zero
      | _ \<Rightarrow> ResourceSummary_zero)"

section \<open>The arithmetic keeps the interfaces\<close>

lemma policy_nonNegative_clamp: "policy_nonNegative v = clamp0 v"
  by (simp add: policy_nonNegative_def clamp0_def)

lemma resourceSummaryFits_iff: "fst (resourceSummaryFits a b) \<longleftrightarrow> (\<forall>d. val d a \<le> val d b)"
  unfolding all_dim val_def resourceSummaryFits_def
  by (auto simp: sless_sint)

interpretation policy_books: res_books policy_addResourceSummary subtractResourceSummary
  "\<lambda>a b. fst (resourceSummaryFits a b)"
proof
  show "amount d (policy_addResourceSummary a b) = amount d a + amount d b" for d a b
    by (cases d) (simp_all add: policy_addResourceSummary_def)
  show "amount d (subtractResourceSummary a b) = clamp0 (amount d a - amount d b)" for d a b
    by (cases d) (simp_all add: subtractResourceSummary_def policy_nonNegative_clamp)
  show "fst (resourceSummaryFits a b) \<longleftrightarrow> (\<forall>d. val d a \<le> val d b)" for a b
    by (rule resourceSummaryFits_iff)
qed

interpretation policy_zero: res_zero_test resourceSummaryIsZero
  by unfold_locales (auto simp: resourceSummaryIsZero_def ResourceSummary_zero_def
      intro!: ResourceSummary.equality)

text \<open>The selectors on a profile agree with those on its request.\<close>

lemma requiredResources_request:
  "requiredResources (Some p) = requiredResourcesFromRequest (ps_Resources (p_Spec p))"
  by (simp add: requiredResources_def requiredResourcesFromRequest_def)

lemma maxResources_request:
  "maxResources (Some p) = maxResourcesFromRequest (ps_Resources (p_Spec p))"
  by (simp add: maxResources_def maxResourcesFromRequest_def split: option.splits)

lemma policy_priorityRank_range: "0 \<le> policy_priorityRank p \<and> policy_priorityRank p \<le> 4"
  by (simp add: policy_priorityRank_def Let_def)

text \<open>Reclaiming only ever goes down the priority order: it is irreflexive and asymmetric.\<close>

lemma reclaim_strictly_lower:
  "canCurrentWorkloadReclaimFrom (Some p) al \<Longrightarrow>
   policy_priorityRank (na_Priority al) < policy_priorityRank (ps_Priority (p_Spec p))"
  by (auto simp: canCurrentWorkloadReclaimFrom_def higherPriority_def split: if_splits)

lemma reclaimable_sum:
  assumes "0 \<le> hour" and "hour \<le> 23"
  shows "reclaimableResourceForHour (Some p) (Some n) hour =
    fold (\<lambda>x acc. policy_addResourceSummary acc x)
      (map (\<lambda>al. allocationResourceForHour al hour)
        (filter (canCurrentWorkloadReclaimFrom (Some p)) (nst_Allocations (n_Status n))))
      ResourceSummary_zero"
proof -
  have "fold (\<lambda>al total. if \<not> canCurrentWorkloadReclaimFrom (Some p) al then total
               else policy_addResourceSummary total (allocationResourceForHour al hour)) als acc =
    fold (\<lambda>x acc. policy_addResourceSummary acc x)
      (map (\<lambda>al. allocationResourceForHour al hour)
        (filter (canCurrentWorkloadReclaimFrom (Some p)) als)) acc" for als acc
    by (induction als arbitrary: acc) simp_all
  with assms show ?thesis
    by (simp add: reclaimableResourceForHour_def)
qed

end
