(* ===== verification/FilterPolicy.thy ===== *)
theory FilterPolicy
  imports ResourcePolicy
begin

text \<open>
  The hard constraints of the scheduler: \<open>policy/filter_constraint.go\<close> and the predicates of
  \<open>policy/simple_policy.go\<close> it calls.  A constraint is a name and a check; the registry is the
  list built by the package's \<open>init\<close>.  A check that dereferences a nil pointer is \<open>Panics\<close>:
  \<open>RequiredResourceFitConstraint\<close> reads \<open>node.Status.Available\<close> without a test of its own and
  relies on the base constraint having run before it.
\<close>

section \<open>Decisions and predicates\<close>

record FilterDecision =
  fd_Allowed :: bool
  fd_Reason :: string

abbreviation allow :: "string \<Rightarrow> FilterDecision" where
  "allow reason \<equiv> \<lparr>fd_Allowed = True, fd_Reason = reason\<rparr>"

abbreviation deny :: "string \<Rightarrow> FilterDecision" where
  "deny reason \<equiv> \<lparr>fd_Allowed = False, fd_Reason = reason\<rparr>"

definition reject :: "string \<Rightarrow> int32 \<Rightarrow> int32 \<Rightarrow> FilterDecision" where
  "reject resource required available =
     deny (''insufficient '' @ resource @ '': required='' @ show_int (sint required) @
           '' available='' @ show_int (sint available))"

definition nodeIsReady :: "AINodeResourceProfile option \<Rightarrow> bool" where
  "nodeIsReady node =
     (case node of
        None \<Rightarrow> False
      | Some n \<Rightarrow> nst_Phase (n_Status n) = [] \<or> EqualFold (nst_Phase (n_Status n)) ''Ready'')"

definition requiresKVCache :: "ResourceSummary \<Rightarrow> AIWorkloadProfile option \<Rightarrow> bool" where
  "requiresKVCache required profile =
     (case profile of
        None \<Rightarrow> 0 <s KVCacheGiB required
      | Some p \<Rightarrow> 0 <s KVCacheGiB required \<or> ps_DemandShape (p_Spec p) = DemandShapeKVHeavy)"

definition requiresTokenThroughput :: "ResourceSummary \<Rightarrow> AIWorkloadProfile option \<Rightarrow> bool" where
  "requiresTokenThroughput required profile =
     (case profile of
        None \<Rightarrow>
          0 <s PrefillTokensPerSecond required \<or> 0 <s DecodeTokensPerSecond required \<or>
          0 <s TotalTokensPerSecond required
      | Some p \<Rightarrow>
          0 <s PrefillTokensPerSecond required \<or> 0 <s DecodeTokensPerSecond required \<or>
          0 <s TotalTokensPerSecond required \<or>
          ps_DemandShape (p_Spec p) = DemandShapePrefillHeavy \<or>
          ps_DemandShape (p_Spec p) = DemandShapeDecodeHeavy)"

definition runtimeSupports :: "AINodeResourceProfile option \<Rightarrow> RuntimeSupports" where
  "runtimeSupports node =
     (case node of
        None \<Rightarrow> RuntimeSupports_zero
      | Some n \<Rightarrow>
          (case ns_Runtime (n_Spec n) of
             None \<Rightarrow> RuntimeSupports_zero
           | Some rt \<Rightarrow> (case rt_Supports rt of None \<Rightarrow> RuntimeSupports_zero | Some s \<Rightarrow> s)))"

definition nodeCapabilities :: "AINodeResourceProfile option \<Rightarrow> NodeCapabilities" where
  "nodeCapabilities node =
     (case node of
        None \<Rightarrow> NodeCapabilities_zero
      | Some n \<Rightarrow>
          (case ns_Capabilities (n_Spec n) of None \<Rightarrow> NodeCapabilities_zero | Some c \<Rightarrow> c))"

section \<open>The constraints\<close>

definition BaseFilterConstraint_Check ::
    "AIWorkloadProfile option \<Rightarrow> AINodeResourceProfile option \<Rightarrow> FilterDecision go" where
  "BaseFilterConstraint_Check profile node =
     (case profile of
        None \<Rightarrow> Returns (deny ''missing AIWorkloadProfile'')
      | Some p \<Rightarrow>
          (case node of
             None \<Rightarrow> Returns (deny ''missing AINodeResourceProfile'')
           | Some n \<Rightarrow>
               if \<not> nodeIsReady node then
                 Returns (deny (''node AI resource profile is not ready: phase='' @
                                nst_Phase (n_Status n)))
               else if nst_Available (n_Status n) = None then
                 Returns (deny ''node has no available resource summary'')
               else Returns (allow ''base filter constraints satisfied'')))"

definition RuntimeHardConstraint_Check ::
    "AIWorkloadProfile option \<Rightarrow> AINodeResourceProfile option \<Rightarrow> FilterDecision go" where
  "RuntimeHardConstraint_Check profile node =
     (let required = requiredResources profile; supports = runtimeSupports node in
      if requiresKVCache required profile \<and> \<not> sup_KVCache supports then
        Returns (deny ''node runtime does not support KV cache'')
      else if requiresTokenThroughput required profile \<and> \<not> sup_TokenThroughput supports then
        Returns (deny ''node runtime does not support token throughput control'')
      else Returns (allow ''runtime hard constraints satisfied''))"

definition NodeCapabilityHardConstraint_Check ::
    "AIWorkloadProfile option \<Rightarrow> AINodeResourceProfile option \<Rightarrow> FilterDecision go" where
  "NodeCapabilityHardConstraint_Check profile node =
     (case profile of
        None \<Rightarrow> Returns (allow ''no workload policy hard constraints'')
      | Some p \<Rightarrow>
          (case ps_Policy (p_Spec p) of
             None \<Rightarrow> Returns (allow ''no workload policy hard constraints'')
           | Some policy \<Rightarrow>
               let capabilities = nodeCapabilities node in
               if wp_AllowBorrowing policy \<and> \<not> cap_Borrowing capabilities then
                 Returns (deny ''node does not support resource borrowing'')
               else if wp_AllowReclaimFromLowerPriority policy \<and> \<not> cap_Reclaim capabilities then
                 Returns (deny ''node does not support resource reclaim'')
               else if wp_Throttleable policy \<and> \<not> cap_Throttling capabilities then
                 Returns (deny ''node does not support throttling'')
               else if wp_Pauseable policy \<and> \<not> cap_PauseResume capabilities then
                 Returns (deny ''node does not support pause/resume'')
               else if wp_Evictable policy \<and> \<not> cap_Eviction capabilities then
                 Returns (deny ''node does not support eviction'')
               else Returns (allow ''node capability hard constraints satisfied'')))"

definition RequiredResourceFitConstraint_Check ::
    "AIWorkloadProfile option \<Rightarrow> AINodeResourceProfile option \<Rightarrow> FilterDecision go" where
  "RequiredResourceFitConstraint_Check profile node =
     (let required = requiredResources profile in
      case node of
        None \<Rightarrow> Panics
      | Some n \<Rightarrow>
          (case nst_Available (n_Status n) of
             None \<Rightarrow> Panics
           | Some available \<Rightarrow>
               Returns
                 (if GPUCount available <s GPUCount required then
                    reject ''gpuCount'' (GPUCount required) (GPUCount available)
                  else if GPUMemoryGiB available <s GPUMemoryGiB required then
                    reject ''gpuMemoryGiB'' (GPUMemoryGiB required) (GPUMemoryGiB available)
                  else if KVCacheGiB available <s KVCacheGiB required then
                    reject ''kvCacheGiB'' (KVCacheGiB required) (KVCacheGiB available)
                  else if PrefillTokensPerSecond available <s PrefillTokensPerSecond required then
                    reject ''prefillTokensPerSecond''
                      (PrefillTokensPerSecond required) (PrefillTokensPerSecond available)
                  else if DecodeTokensPerSecond available <s DecodeTokensPerSecond required then
                    reject ''decodeTokensPerSecond''
                      (DecodeTokensPerSecond required) (DecodeTokensPerSecond available)
                  else if TotalTokensPerSecond available <s TotalTokensPerSecond required then
                    reject ''totalTokensPerSecond''
                      (TotalTokensPerSecond required) (TotalTokensPerSecond available)
                  else allow ''required AI resources fit node availability'')))"

text \<open>The loop over the hours of \<open>TimeWindowEnvelopeConstraint.Check\<close>.\<close>

fun envelopeLoop ::
    "AIWorkloadProfile \<Rightarrow> AINodeResourceProfile \<Rightarrow> ResourceSummary \<Rightarrow> ResourceSummary \<Rightarrow>
     ResourceSummary \<Rightarrow> nat list \<Rightarrow> FilterDecision" where
  "envelopeLoop p n capacity currentRequired currentMax [] =
     allow ''hourly time-window resource envelopes fit''"
| "envelopeLoop p n capacity currentRequired currentMax (hour # hours) =
     (let total =
        policy_addResourceSummary (nodeForecastResourceForHour (Some n) (int hour))
          (resourcesForHour (ps_TimeWindows (p_Spec p)) currentRequired currentMax (int hour));
          (fits, reason) = resourceSummaryFits total capacity
      in if \<not> fits then
           let reclaimable = reclaimableResourceForHour (Some p) (Some n) (int hour) in
           if \<not> resourceSummaryIsZero reclaimable \<and>
              fst (resourceSummaryFits (subtractResourceSummary total reclaimable) capacity)
           then envelopeLoop p n capacity currentRequired currentMax hours
           else deny (''time-window hourly envelope rejected: workload='' @ p_Name p @ '' hour='' @
                      show_02d hour @ '':00 reason='' @ reason)
         else envelopeLoop p n capacity currentRequired currentMax hours)"

definition TimeWindowEnvelopeConstraint_Check ::
    "AIWorkloadProfile option \<Rightarrow> AINodeResourceProfile option \<Rightarrow> FilterDecision go" where
  "TimeWindowEnvelopeConstraint_Check profile node =
     (case (profile, node) of
        (Some p, Some n) \<Rightarrow>
          Returns
            (if \<not> isOnlineWorkload (ps_WorkloadType (p_Spec p)) \<or> ps_TimeWindows (p_Spec p) = []
             then allow ''time-window hard check not required''
             else case nodeCapacityForEnvelope node of
               None \<Rightarrow> allow ''node has no allocatable capacity for time-window envelope check''
             | Some capacity \<Rightarrow>
                 let currentRequired = requiredResources profile;
                     currentMax = maxResources profile
                 in if resourceSummaryIsZero currentMax
                    then allow ''workload has no max resource envelope''
                    else envelopeLoop p n capacity currentRequired currentMax [0..<24])
      | _ \<Rightarrow> Returns (deny ''missing profile or node for time-window check''))"

section \<open>The registry\<close>

record FilterConstraint =
  fc_Name :: string
  fc_Check :: "AIWorkloadProfile option \<Rightarrow> AINodeResourceProfile option \<Rightarrow> FilterDecision go"

definition filterConstraints :: "FilterConstraint list" where
  "filterConstraints =
     [\<lparr>fc_Name = ''BaseFilterConstraint'', fc_Check = BaseFilterConstraint_Check\<rparr>,
      \<lparr>fc_Name = ''RuntimeHardConstraint'', fc_Check = RuntimeHardConstraint_Check\<rparr>,
      \<lparr>fc_Name = ''NodeCapabilityHardConstraint'', fc_Check = NodeCapabilityHardConstraint_Check\<rparr>,
      \<lparr>fc_Name = ''RequiredResourceFitConstraint'', fc_Check = RequiredResourceFitConstraint_Check\<rparr>,
      \<lparr>fc_Name = ''TimeWindowEnvelopeConstraint'', fc_Check = TimeWindowEnvelopeConstraint_Check\<rparr>]"

fun RunAllConstraints ::
    "FilterConstraint list \<Rightarrow> AIWorkloadProfile option \<Rightarrow> AINodeResourceProfile option \<Rightarrow>
     FilterDecision go" where
  "RunAllConstraints [] profile node = Returns (allow ''all filter constraints passed'')"
| "RunAllConstraints (constraint # constraints) profile node =
     go_bind (fc_Check constraint profile node)
       (\<lambda>decision.
          if \<not> fd_Allowed decision
          then Returns (deny (fc_Name constraint @ '' rejected: '' @ fd_Reason decision))
          else RunAllConstraints constraints profile node)"

definition Filter :: "AIWorkloadProfile option \<Rightarrow> AINodeResourceProfile option \<Rightarrow> FilterDecision go" where
  "Filter profile node = RunAllConstraints filterConstraints profile node"

section \<open>The interface of a constraint chain\<close>

definition passes ::
    "FilterConstraint \<Rightarrow> AIWorkloadProfile option \<Rightarrow> AINodeResourceProfile option \<Rightarrow> bool" where
  "passes c profile node =
     (case fc_Check c profile node of Panics \<Rightarrow> False | Returns d \<Rightarrow> fd_Allowed d)"

text \<open>
  A chain whose first constraint always returns, and whose other constraints return whenever
  the first one has allowed: what the registry relies on.
\<close>

locale filter_chain =
  fixes base :: FilterConstraint
    and rest :: "FilterConstraint list"
  assumes base_returns: "\<exists>d. fc_Check base p n = Returns d"
    and rest_returns: "passes base p n \<Longrightarrow> c \<in> set rest \<Longrightarrow> \<exists>d. fc_Check c p n = Returns d"
begin

lemma run_rest:
  assumes "passes base p n" and "set cs \<subseteq> set rest"
  shows "\<exists>d. RunAllConstraints cs p n = Returns d \<and> (fd_Allowed d \<longleftrightarrow> (\<forall>c\<in>set cs. passes c p n))"
  using assms(2)
proof (induction cs)
  case (Cons c cs)
  obtain d where d: "fc_Check c p n = Returns d"
    using rest_returns [OF assms(1), of c] Cons.prems by auto
  then show ?case
    using Cons by (auto simp: passes_def)
qed simp

lemma run_chain:
  "\<exists>d. RunAllConstraints (base # rest) p n = Returns d \<and>
       (fd_Allowed d \<longleftrightarrow> (\<forall>c\<in>set (base # rest). passes c p n))"
proof -
  obtain d where d: "fc_Check base p n = Returns d"
    using base_returns by blast
  show ?thesis
  proof (cases "fd_Allowed d")
    case True
    then have "passes base p n"
      using d by (simp add: passes_def)
    with run_rest [of p n rest] d True show ?thesis by simp
  next
    case False
    with d show ?thesis by (simp add: passes_def)
  qed
qed

lemma run_returns: "\<exists>d. RunAllConstraints (base # rest) p n = Returns d"
  using run_chain by blast

lemma run_allowed:
  "RunAllConstraints (base # rest) p n = Returns d \<Longrightarrow>
   fd_Allowed d \<longleftrightarrow> (\<forall>c\<in>set (base # rest). passes c p n)"
  using run_chain [of p n] by auto

end

text \<open>A rejection names the first constraint that does not allow, with that constraint's reason.\<close>

lemma run_denied:
  assumes "RunAllConstraints cs p n = Returns d" and "\<not> fd_Allowed d"
  shows "\<exists>pre c post e. cs = pre @ c # post \<and> (\<forall>x\<in>set pre. passes x p n) \<and>
    fc_Check c p n = Returns e \<and> \<not> fd_Allowed e \<and>
    d = deny (fc_Name c @ '' rejected: '' @ fd_Reason e)"
  using assms
proof (induction cs)
  case (Cons c cs)
  show ?case
  proof (cases "fc_Check c p n")
    case Panics
    with Cons.prems show ?thesis by simp
  next
    case (Returns e)
    show ?thesis
    proof (cases "fd_Allowed e")
      case True
      then have "RunAllConstraints cs p n = Returns d"
        using Cons.prems Returns by simp
      from Cons.IH [OF this Cons.prems(2)] obtain pre c' post e' where
        "cs = pre @ c' # post" "\<forall>x\<in>set pre. passes x p n" "fc_Check c' p n = Returns e'"
        "\<not> fd_Allowed e'" "d = deny (fc_Name c' @ '' rejected: '' @ fd_Reason e')"
        by blast
      moreover have "passes c p n"
        using Returns True by (simp add: passes_def)
      ultimately have "c # cs = (c # pre) @ c' # post \<and> (\<forall>x\<in>set (c # pre). passes x p n) \<and>
        fc_Check c' p n = Returns e' \<and> \<not> fd_Allowed e' \<and>
        d = deny (fc_Name c' @ '' rejected: '' @ fd_Reason e')"
        by simp
      then show ?thesis by blast
    next
      case False
      then have "d = deny (fc_Name c @ '' rejected: '' @ fd_Reason e)"
        using Cons.prems Returns by simp
      with Returns False have "c # cs = [] @ c # cs \<and> (\<forall>x\<in>set []. passes x p n) \<and>
        fc_Check c p n = Returns e \<and> \<not> fd_Allowed e \<and>
        d = deny (fc_Name c @ '' rejected: '' @ fd_Reason e)"
        by simp
      then show ?thesis by blast
    qed
  qed
qed auto

section \<open>What the constraints mean\<close>

lemma base_check_returns: "\<exists>d. BaseFilterConstraint_Check p n = Returns d"
  by (auto simp: BaseFilterConstraint_Check_def split: option.splits)

lemma base_passes:
  "passes \<lparr>fc_Name = nm, fc_Check = BaseFilterConstraint_Check\<rparr> p n \<longleftrightarrow>
     p \<noteq> None \<and> nodeIsReady n \<and> (\<exists>m a. n = Some m \<and> nst_Available (n_Status m) = Some a)"
  by (auto simp: passes_def BaseFilterConstraint_Check_def nodeIsReady_def split: option.splits)

lemma fit_check_returns:
  "nst_Available (n_Status n) = Some a \<Longrightarrow>
   \<exists>d. RequiredResourceFitConstraint_Check p (Some n) = Returns d \<and>
       (fd_Allowed d \<longleftrightarrow> (\<forall>x. val x (requiredResources p) \<le> val x a))"
  unfolding all_dim val_def RequiredResourceFitConstraint_Check_def
  by (auto simp: sless_sint reject_def Let_def)

lemma runtime_check_returns: "\<exists>d. RuntimeHardConstraint_Check p n = Returns d"
  by (simp add: RuntimeHardConstraint_Check_def Let_def)

lemma capability_check_returns: "\<exists>d. NodeCapabilityHardConstraint_Check p n = Returns d"
  by (simp add: NodeCapabilityHardConstraint_Check_def Let_def split: option.splits)

lemma envelope_check_returns: "\<exists>d. TimeWindowEnvelopeConstraint_Check p n = Returns d"
  by (simp add: TimeWindowEnvelopeConstraint_Check_def split: option.splits)

interpretation registry: filter_chain "hd filterConstraints" "tl filterConstraints"
proof
  show "\<exists>d. fc_Check (hd filterConstraints) p n = Returns d" for p n
    by (simp add: filterConstraints_def base_check_returns)
  fix p n c
  assume "passes (hd filterConstraints) p n" and c: "c \<in> set (tl filterConstraints)"
  then obtain m a where n: "n = Some m" "nst_Available (n_Status m) = Some a"
    by (auto simp: filterConstraints_def base_passes)
  with c fit_check_returns [of m a p] show "\<exists>d. fc_Check c p n = Returns d"
    by (auto simp: filterConstraints_def runtime_check_returns capability_check_returns
        envelope_check_returns)
qed

lemma filterConstraints_split: "filterConstraints = hd filterConstraints # tl filterConstraints"
  by (simp add: filterConstraints_def)

text \<open>The envelope test for one hour, and its loop.\<close>

definition hour_demand :: "AIWorkloadProfile \<Rightarrow> nat \<Rightarrow> ResourceSummary" where
  "hour_demand p h =
     resourcesForHour (ps_TimeWindows (p_Spec p)) (requiredResources (Some p))
       (maxResources (Some p)) (int h)"

definition hour_total :: "AIWorkloadProfile \<Rightarrow> AINodeResourceProfile \<Rightarrow> nat \<Rightarrow> ResourceSummary" where
  "hour_total p n h =
     policy_addResourceSummary (nodeForecastResourceForHour (Some n) (int h)) (hour_demand p h)"

definition hour_ok :: "AIWorkloadProfile \<Rightarrow> AINodeResourceProfile \<Rightarrow> ResourceSummary \<Rightarrow> nat \<Rightarrow> bool" where
  "hour_ok p n capacity h \<longleftrightarrow>
     (\<forall>d. val d (hour_total p n h) \<le> val d capacity) \<or>
     (reclaimableResourceForHour (Some p) (Some n) (int h) \<noteq> ResourceSummary_zero \<and>
      (\<forall>d. val d (subtractResourceSummary (hour_total p n h)
                    (reclaimableResourceForHour (Some p) (Some n) (int h))) \<le> val d capacity))"

lemma envelopeLoop_iff:
  "fd_Allowed (envelopeLoop p n capacity (requiredResources (Some p)) (maxResources (Some p)) hours)
     \<longleftrightarrow> (\<forall>h\<in>set hours. hour_ok p n capacity h)"
proof (induction hours)
  case (Cons h hours)
  have fits: "fst (resourceSummaryFits a b) = (\<forall>d. val d a \<le> val d b)" for a b
    by (rule policy_books.fits_iff)
  show ?case
    using Cons
    by (simp add: Let_def case_prod_unfold fits hour_ok_def hour_total_def hour_demand_def
        policy_zero.is_zero_iff)
qed simp

text \<open>
  The specification of the filter: a node a workload may be placed on.  It speaks of the
  amounts as integers, of every dimension and of every hour of the day.
\<close>

definition envelope_required :: "AIWorkloadProfile \<Rightarrow> AINodeResourceProfile \<Rightarrow> bool" where
  "envelope_required p n \<longleftrightarrow>
     isOnlineWorkload (ps_WorkloadType (p_Spec p)) \<and> ps_TimeWindows (p_Spec p) \<noteq> [] \<and>
     nodeCapacityForEnvelope (Some n) \<noteq> None \<and> maxResources (Some p) \<noteq> ResourceSummary_zero"

definition capability_demands :: "WorkloadPolicy \<Rightarrow> NodeCapabilities \<Rightarrow> bool" where
  "capability_demands w c \<longleftrightarrow>
     (wp_AllowBorrowing w \<longrightarrow> cap_Borrowing c) \<and>
     (wp_AllowReclaimFromLowerPriority w \<longrightarrow> cap_Reclaim c) \<and>
     (wp_Throttleable w \<longrightarrow> cap_Throttling c) \<and> (wp_Pauseable w \<longrightarrow> cap_PauseResume c) \<and>
     (wp_Evictable w \<longrightarrow> cap_Eviction c)"

definition feasible :: "AIWorkloadProfile \<Rightarrow> AINodeResourceProfile \<Rightarrow> bool" where
  "feasible p n \<longleftrightarrow>
     nodeIsReady (Some n) \<and>
     (\<exists>available. nst_Available (n_Status n) = Some available \<and>
        (\<forall>d. val d (requiredResources (Some p)) \<le> val d available)) \<and>
     (requiresKVCache (requiredResources (Some p)) (Some p) \<longrightarrow> sup_KVCache (runtimeSupports (Some n))) \<and>
     (requiresTokenThroughput (requiredResources (Some p)) (Some p) \<longrightarrow>
        sup_TokenThroughput (runtimeSupports (Some n))) \<and>
     (\<forall>w. ps_Policy (p_Spec p) = Some w \<longrightarrow> capability_demands w (nodeCapabilities (Some n))) \<and>
     (envelope_required p n \<longrightarrow>
        (\<forall>h<24. hour_ok p n (the (nodeCapacityForEnvelope (Some n))) h))"

lemma runtime_passes:
  "passes \<lparr>fc_Name = nm, fc_Check = RuntimeHardConstraint_Check\<rparr> (Some p) (Some n) \<longleftrightarrow>
     (requiresKVCache (requiredResources (Some p)) (Some p) \<longrightarrow> sup_KVCache (runtimeSupports (Some n))) \<and>
     (requiresTokenThroughput (requiredResources (Some p)) (Some p) \<longrightarrow>
        sup_TokenThroughput (runtimeSupports (Some n)))"
  by (auto simp: passes_def RuntimeHardConstraint_Check_def Let_def)

lemma capability_passes:
  "passes \<lparr>fc_Name = nm, fc_Check = NodeCapabilityHardConstraint_Check\<rparr> (Some p) n \<longleftrightarrow>
     (\<forall>w. ps_Policy (p_Spec p) = Some w \<longrightarrow> capability_demands w (nodeCapabilities n))"
  by (simp add: passes_def NodeCapabilityHardConstraint_Check_def capability_demands_def Let_def
      split: option.splits)

lemma fit_passes:
  "nst_Available (n_Status n) = Some a \<Longrightarrow>
   passes \<lparr>fc_Name = nm, fc_Check = RequiredResourceFitConstraint_Check\<rparr> p (Some n) \<longleftrightarrow>
     (\<forall>d. val d (requiredResources p) \<le> val d a)"
  using fit_check_returns [of n a p] by (auto simp: passes_def)

lemma envelope_passes:
  "passes \<lparr>fc_Name = nm, fc_Check = TimeWindowEnvelopeConstraint_Check\<rparr> (Some p) (Some n) \<longleftrightarrow>
     (envelope_required p n \<longrightarrow>
        (\<forall>h<24. hour_ok p n (the (nodeCapacityForEnvelope (Some n))) h))"
  by (auto simp: passes_def TimeWindowEnvelopeConstraint_Check_def envelope_required_def Let_def
      envelopeLoop_iff policy_zero.is_zero_iff split: option.splits)

lemma filter_allowed_iff:
  "Filter p n = Returns d \<Longrightarrow> fd_Allowed d \<longleftrightarrow> (\<forall>c\<in>set filterConstraints. passes c p n)"
  unfolding Filter_def by (subst (asm) filterConstraints_split, subst filterConstraints_split)
    (rule registry.run_allowed)

lemma filter_returns: "\<exists>d. Filter p n = Returns d"
  unfolding Filter_def by (subst filterConstraints_split) (rule registry.run_returns)

lemma feasible_iff_passes:
  "feasible p n \<longleftrightarrow> (\<forall>c\<in>set filterConstraints. passes c (Some p) (Some n))"
proof (cases "nst_Available (n_Status n)")
  case None
  then show ?thesis by (auto simp: feasible_def filterConstraints_def base_passes)
next
  case (Some a)
  then show ?thesis
    by (auto simp: feasible_def filterConstraints_def base_passes runtime_passes capability_passes
        envelope_passes fit_passes [OF Some])
qed

section \<open>Correctness of the filter\<close>

text \<open>
  C1. \<open>SimplePolicy.Filter\<close> returns a decision for every profile and node, nil arguments
  included, and allows exactly the feasible pairs: the node is ready, reports what is
  available, that covers the requirement in each dimension, the runtime and the node's
  capabilities support what the profile asks for, and every hour of the day stays within the
  node's capacity (if need be after reclaiming from lower priorities).  In particular no check
  dereferences nil, because the base constraint runs first.
\<close>
theorem Filter_allows_exactly_feasible:
  "\<exists>d. Filter profile node = Returns d \<and>
       (fd_Allowed d \<longleftrightarrow> (\<exists>p n. profile = Some p \<and> node = Some n \<and> feasible p n))"
proof -
  obtain d where d: "Filter profile node = Returns d"
    using filter_returns by blast
  have "\<not> passes (hd filterConstraints) profile node" if "profile = None \<or> node = None"
    using that by (auto simp: filterConstraints_def base_passes nodeIsReady_def)
  with d show ?thesis
    by (cases profile; cases node)
      (auto simp: filter_allowed_iff feasible_iff_passes filterConstraints_def)
qed

text \<open>
  C25. A rejection is explained by the first constraint of the registry that does not allow:
  all constraints before it allow, and the reason is its name followed by its own reason.
\<close>
theorem Filter_reason_names_first_failure:
  "Filter profile node = Returns d \<Longrightarrow> \<not> fd_Allowed d \<Longrightarrow>
   \<exists>pre c post e. filterConstraints = pre @ c # post \<and> list_all (\<lambda>x. passes x profile node) pre \<and>
     fc_Check c profile node = Returns e \<and> \<not> fd_Allowed e \<and>
     d = deny (fc_Name c @ '' rejected: '' @ fd_Reason e)"
  unfolding Filter_def list_all_iff by (rule run_denied)

theorem Filter_reason_names_first_failure_witness:
  "\<exists>pre c post e. filterConstraints = pre @ c # post \<and> list_all (\<lambda>x. passes x None None) pre \<and>
     fc_Check c None None = Returns e \<and> \<not> fd_Allowed e \<and>
     deny ''BaseFilterConstraint rejected: missing AIWorkloadProfile'' =
     deny (fc_Name c @ '' rejected: '' @ fd_Reason e)"
  by (rule Filter_reason_names_first_failure)
    (simp_all add: Filter_def filterConstraints_def BaseFilterConstraint_Check_def)

text \<open>
  The amounts of a node's day in the range where the source's \<open>int32\<close> sums are exact: every
  bucket non-negative, and no sum of an hour above the range.
\<close>

definition reclaim_amounts :: "AIWorkloadProfile \<Rightarrow> AINodeResourceProfile \<Rightarrow> nat \<Rightarrow> ResourceSummary list" where
  "reclaim_amounts p n h =
     map (\<lambda>al. allocationResourceForHour al (int h))
       (filter (canCurrentWorkloadReclaimFrom (Some p)) (nst_Allocations (n_Status n)))"

definition hour_exact :: "AIWorkloadProfile \<Rightarrow> AINodeResourceProfile \<Rightarrow> nat \<Rightarrow> bool" where
  "hour_exact p n h \<longleftrightarrow>
     nonneg (nodeForecastResourceForHour (Some n) (int h)) \<and> nonneg (hour_demand p h) \<and>
     list_all nonneg (reclaim_amounts p n h) \<and>
     (\<forall>d. val d (nodeForecastResourceForHour (Some n) (int h)) + val d (hour_demand p h) < 2147483648 \<and>
          sum_list (map (val d) (reclaim_amounts p n h)) < 2147483648)"

lemma hour_total_exact:
  assumes "hour_exact p n h"
  shows "val d (hour_total p n h) =
    val d (nodeForecastResourceForHour (Some n) (int h)) + val d (hour_demand p h)"
proof -
  have "0 \<le> val d (nodeForecastResourceForHour (Some n) (int h))" "0 \<le> val d (hour_demand p h)"
    using assms by (simp_all add: hour_exact_def nonneg_val)
  with assms show ?thesis
    unfolding hour_total_def by (intro policy_books.val_add) (simp_all add: hour_exact_def)
qed

lemma reclaimable_exact:
  assumes "hour_exact p n h" and "h < 24"
  shows "val d (reclaimableResourceForHour (Some p) (Some n) (int h)) =
    sum_list (map (val d) (reclaim_amounts p n h))"
proof -
  have "reclaimableResourceForHour (Some p) (Some n) (int h) =
    fold (\<lambda>x acc. policy_addResourceSummary acc x) (reclaim_amounts p n h) ResourceSummary_zero"
    unfolding reclaim_amounts_def using assms(2) by (intro reclaimable_sum) simp_all
  moreover have "val d (fold (\<lambda>x acc. policy_addResourceSummary acc x) (reclaim_amounts p n h)
      ResourceSummary_zero) =
    val d ResourceSummary_zero + sum_list (map (val d) (reclaim_amounts p n h))"
    using assms(1) by (intro policy_books.val_fold_add) (auto simp: hour_exact_def list_all_iff)
  ultimately show ?thesis by simp
qed

lemma hour_ok_bound:
  assumes "hour_ok p n capacity h" and "hour_exact p n h" and "h < 24"
  shows "val d (nodeForecastResourceForHour (Some n) (int h)) + val d (hour_demand p h) \<le>
    val d capacity + sum_list (map (val d) (reclaim_amounts p n h))"
proof -
  let ?total = "hour_total p n h" and ?rec = "reclaimableResourceForHour (Some p) (Some n) (int h)"
  have rec: "0 \<le> sum_list (map (val d) (reclaim_amounts p n h))"
    using assms(2) by (intro sum_list_nonneg) (auto simp: hour_exact_def list_all_iff nonneg_val)
  have total: "0 \<le> val d ?total"
    using assms(2) by (simp add: hour_total_exact) (simp add: hour_exact_def nonneg_val)
  have sub: "val d (subtractResourceSummary ?total ?rec) = max 0 (val d ?total - val d ?rec)"
    using total rec reclaimable_exact [OF assms(2,3)] val_range [of d ?total] val_range [of d ?rec]
    by (intro policy_books.val_sub) simp_all
  have "val d ?total \<le> val d capacity \<or> val d ?total - val d ?rec \<le> val d capacity"
    using assms(1) sub unfolding hour_ok_def by (metis max.bounded_iff)
  then show ?thesis
    using rec by (auto simp: reclaimable_exact [OF assms(2,3)] hour_total_exact [OF assms(2)])
qed

text \<open>
  C16. Capacity safety of admission.  When the filter lets an online or hybrid workload that has time
  windows and a maximum that is not zero onto a node whose capacity is known, then in every hour
  for which the amounts are in the range of exact arithmetic, and in every dimension, the node's
  forecast plus the newcomer's demand (its maximum inside its windows, its requirement outside)
  stays within the node's capacity plus what the newcomer may reclaim from strictly lower
  priorities.  An offline workload, or one without windows, gets no check by the hour and is not
  covered.
\<close>
theorem Filter_hourly_capacity_safe:
  assumes "Filter (Some p) (Some n) = Returns d" and "fd_Allowed d" and "envelope_required p n"
    and "h < 24" and "hour_exact p n h"
  shows "val x (nodeForecastResourceForHour (Some n) (int h)) + val x (hour_demand p h) \<le>
      val x (the (nodeCapacityForEnvelope (Some n))) + sum_list (map (val x) (reclaim_amounts p n h))
    \<and> list_all (\<lambda>al. policy_priorityRank (na_Priority al) < policy_priorityRank (ps_Priority (p_Spec p)))
        (filter (canCurrentWorkloadReclaimFrom (Some p)) (nst_Allocations (n_Status n)))"
proof -
  have "feasible p n"
    using assms(1,2) by (simp add: feasible_iff_passes filter_allowed_iff)
  then have "hour_ok p n (the (nodeCapacityForEnvelope (Some n))) h"
    using assms(3,4) by (simp add: feasible_def)
  with assms show ?thesis
    by (simp add: hour_ok_bound list_all_iff reclaim_strictly_lower)
qed

text \<open>
  A concrete pair for the examples: an online workload that needs one GPU and two between nine
  and eighteen, and an idle node of four.
\<close>

definition example_profile :: AIWorkloadProfile where
  "example_profile =
     \<lparr>p_Meta = ObjectMeta_zero \<lparr>om_Name := ''chat'', om_Namespace := ''prod''\<rparr>,
      p_Spec =
        \<lparr>ps_WorkloadRef = KubernetesObjectRef_zero, ps_WorkloadType = ''online'',
         ps_Priority = ''high'', ps_DemandShape = ''mixed'',
         ps_TimeWindows =
           [\<lparr>tw_Name = ''day'', tw_Start = ''09:00'', tw_End = ''18:00'', tw_Timezone = []\<rparr>],
         ps_SLO = None,
         ps_Resources = Some \<lparr>wr_Required = Some (gpuVec 1), wr_Preferred = None, wr_Max = Some (gpuVec 2)\<rparr>,
         ps_Policy = None\<rparr>,
      p_Status = \<lparr>pst_Phase = [], pst_CurrentWindow = [], pst_SLORisk = []\<rparr>\<rparr>"

definition example_node :: AINodeResourceProfile where
  "example_node =
     \<lparr>n_Meta = ObjectMeta_zero \<lparr>om_Name := ''node-a''\<rparr>,
      n_Spec =
        \<lparr>ns_NodeName = ''node-a'', ns_BackendType = [], ns_GPUs = [], ns_Runtime = None,
         ns_Capabilities = None\<rparr>,
      n_Status =
        AINodeResourceProfileStatus_zero
          \<lparr>nst_Phase := ''Ready'', nst_Allocatable := Some (gpuVec 4), nst_Available := Some (gpuVec 4)\<rparr>\<rparr>"

lemma example_demand: "hour_demand example_profile h \<in> {gpuVec 1, gpuVec 2}"
  by (simp add: hour_demand_def resourcesForHour_def requiredResources_def maxResources_def
      maxResourcesFromRequest_def example_profile_def)

lemma example_node_day [simp]:
  "nodeForecastResourceForHour (Some example_node) h = ResourceSummary_zero"
  "nodeCapacityForEnvelope (Some example_node) = Some (gpuVec 4)"
  "nst_Allocations (n_Status example_node) = []"
  by (simp_all add: nodeForecastResourceForHour_def nodeCapacityForEnvelope_def example_node_def
      AINodeResourceProfileStatus_zero_def)

lemma example_envelope: "envelope_required example_profile example_node"
  by (simp add: envelope_required_def maxResources_def maxResourcesFromRequest_def gpus_zero_iff
      isOnlineWorkload_def workload_type_defs example_profile_def)

lemma example_hour_exact: "hour_exact example_profile example_node h"
  using example_demand [of h] by (auto simp: hour_exact_def reclaim_amounts_def nonneg_iff val_gpus)

lemma example_hour_ok: "hour_ok example_profile example_node (gpuVec 4) h"
  using example_demand [of h]
  by (auto simp: hour_ok_def hour_total_exact [OF example_hour_exact] val_gpus)

lemma example_feasible: "feasible example_profile example_node"
proof -
  have req: "requiredResources (Some example_profile) = gpuVec 1"
    by (simp add: requiredResources_def example_profile_def)
  have fit: "\<exists>a. nst_Available (n_Status example_node) = Some a \<and> (\<forall>d. val d (gpuVec 1) \<le> val d a)"
    by (simp add: example_node_def val_gpus)
  have nokv: "\<not> requiresKVCache (gpuVec 1) (Some example_profile)"
    "\<not> requiresTokenThroughput (gpuVec 1) (Some example_profile)"
    by (simp_all add: requiresKVCache_def requiresTokenThroughput_def example_profile_def
        demand_shape_defs gpuVec_def ResourceSummary_zero_def)
  have "nodeIsReady (Some example_node)" "ps_Policy (p_Spec example_profile) = None"
    by (simp_all add: nodeIsReady_def example_node_def example_profile_def)
  with fit nokv show ?thesis
    by (simp add: feasible_def req example_hour_ok)
qed

lemma example_allowed: "\<exists>d. Filter (Some example_profile) (Some example_node) = Returns d \<and> fd_Allowed d"
  using filter_returns [of "Some example_profile" "Some example_node"]
    example_feasible filter_allowed_iff [of "Some example_profile" "Some example_node"]
  by (auto simp: feasible_iff_passes)

theorem Filter_hourly_capacity_safe_witness:
  "val DGpu (nodeForecastResourceForHour (Some example_node) (int 10)) + val DGpu (hour_demand example_profile 10) \<le>
      val DGpu (the (nodeCapacityForEnvelope (Some example_node))) +
      sum_list (map (val DGpu) (reclaim_amounts example_profile example_node 10))"
proof -
  obtain d where "Filter (Some example_profile) (Some example_node) = Returns d" and "fd_Allowed d"
    using example_allowed by blast
  from Filter_hourly_capacity_safe [OF this example_envelope _ example_hour_exact, of 10 DGpu]
  show ?thesis by simp
qed

end
