(* ===== verification/GoFloat.thy ===== *)
theory GoFloat
  imports Prelude "HOL-Library.Log_Nat"
begin

text \<open>
  Go's \<open>float64\<close>, as far as the scorers use it.  A finite double is the rational number it
  stands for; an operation is the exact rational one followed by rounding to 53 significant
  bits, to nearest, ties to even (\<open>rnd\<close>).  Products and sums are rounded one by one, as the
  compiler does on amd64.  The scorers stay far from the ends of the exponent range (weights
  and multipliers near one, headrooms between \<open>2\<^sup>-\<^sup>3\<^sup>1\<close> and one, scores of an \<open>int64\<close>), so
  subnormal numbers, infinities and NaN do not occur and are not modelled.

  The interface \<open>rounding\<close> is what the proofs about scores use: rounding is monotone and
  keeps the numbers that are doubles already.
\<close>

section \<open>Rounding to nearest, ties to even\<close>

definition round_even :: "rat \<Rightarrow> int" where
  "round_even z =
     (let f = \<lfloor>z\<rfloor>; r = z - of_int f in
      if r < 1 / 2 then f else if r > 1 / 2 then f + 1 else if even f then f else f + 1)"

lemma round_even_floor: "\<lfloor>z\<rfloor> \<le> round_even z \<and> round_even z \<le> \<lfloor>z\<rfloor> + 1"
  by (simp add: round_even_def Let_def)

lemma round_even_of_int [simp]: "round_even (of_int k) = k"
  by (simp add: round_even_def)

lemma round_even_numeral [simp]: "round_even (numeral k) = numeral k"
  using round_even_of_int [of "numeral k"] by simp

lemma round_even_mono: "x \<le> y \<Longrightarrow> round_even x \<le> round_even y"
proof (cases "\<lfloor>x\<rfloor> = \<lfloor>y\<rfloor>")
  case True
  moreover assume "x \<le> y"
  ultimately show ?thesis by (simp add: round_even_def Let_def)
next
  case False
  moreover assume "x \<le> y"
  then have "\<lfloor>x\<rfloor> \<le> \<lfloor>y\<rfloor>" by (rule floor_mono)
  ultimately have "\<lfloor>x\<rfloor> + 1 \<le> \<lfloor>y\<rfloor>" by simp
  with round_even_floor [of x] round_even_floor [of y] show ?thesis by linarith
qed

section \<open>The exponent of a positive rational\<close>

definition exponent :: "rat \<Rightarrow> int" where
  "exponent x =
     (let (n, d) = quotient_of x; e = bitlen n - bitlen d
      in if x < 2 powi e then e - 1 else e)"

lemma bitlen_powi: "0 < k \<Longrightarrow> 2 powi (bitlen k - 1) \<le> (of_int k :: rat) \<and> (of_int k :: rat) < 2 powi bitlen k"
proof -
  assume k: "0 < k"
  have b: "1 \<le> bitlen k"
    using k bitlen_nonneg [of k] bitlen_eq_zero_iff [of k] by linarith
  have "2 ^ nat (bitlen k - 1) \<le> k \<and> k < 2 ^ nat (bitlen k)"
    using k by (rule bitlen_bounds)
  then have "(2 :: rat) ^ nat (bitlen k - 1) \<le> of_int k \<and> of_int k < (2 :: rat) ^ nat (bitlen k)"
    by (metis of_int_le_iff of_int_less_iff of_int_numeral of_int_power)
  with b show ?thesis
    by (simp add: power_int_def)
qed

lemma exponent_bounds:
  assumes "0 < x"
  shows "2 powi exponent x \<le> x" and "x < 2 powi (exponent x + 1)"
proof -
  obtain n d where q: "quotient_of x = (n, d)" by (metis prod.exhaust)
  have d: "0 < d" and x: "x = of_int n / of_int d"
    using q by (auto intro: quotient_of_denom_pos quotient_of_div)
  then have n: "0 < n"
    using assms by (simp add: zero_less_divide_iff)
  define e where "e = bitlen n - bitlen d"
  have up: "x < 2 powi (e + 1)"
  proof -
    have "of_int n < (2 :: rat) powi bitlen n" "2 powi (bitlen d - 1) \<le> (of_int d :: rat)"
      using bitlen_powi [OF n] bitlen_powi [OF d] by simp_all
    then have "x < 2 powi bitlen n / 2 powi (bitlen d - 1)"
      unfolding x using d n by (intro frac_less) simp_all
    then show ?thesis
      by (simp add: e_def power_int_diff [symmetric] algebra_simps)
  qed
  have low: "2 powi (e - 1) \<le> x"
  proof -
    have "(2 :: rat) powi (bitlen n - 1) \<le> of_int n" "(of_int d :: rat) < 2 powi bitlen d"
      using bitlen_powi [OF n] bitlen_powi [OF d] by simp_all
    then have "2 powi (bitlen n - 1) / 2 powi bitlen d \<le> x"
      unfolding x using d n by (intro frac_le) simp_all
    then show ?thesis
      by (simp add: e_def power_int_diff [symmetric] algebra_simps)
  qed
  show "2 powi exponent x \<le> x" "x < 2 powi (exponent x + 1)"
    using up low by (auto simp: exponent_def q e_def Let_def)
qed

lemma powi_le_iff: "(2 :: rat) powi a \<le> 2 powi b \<longleftrightarrow> a \<le> b"
  by (metis linorder_not_le one_less_numeral_iff power_int_increasing power_int_strict_increasing
      less_le_not_le order.strict_implies_order semiring_norm(76))

lemma powi_less_iff: "(2 :: rat) powi a < 2 powi b \<longleftrightarrow> a < b"
  by (metis linorder_not_le powi_le_iff)

lemma exponent_unique: "2 powi e \<le> x \<Longrightarrow> x < 2 powi (e + 1) \<Longrightarrow> exponent x = e"
proof -
  assume *: "2 powi e \<le> x" "x < 2 powi (e + 1)"
  have "0 < x" using *(1) by (meson less_le_trans zero_less_numeral zero_less_power_int)
  note b = exponent_bounds [OF this]
  have "(2 :: rat) powi e < 2 powi (exponent x + 1)" "(2 :: rat) powi exponent x < 2 powi (e + 1)"
    using * b by linarith+
  then show ?thesis by (simp add: powi_less_iff)
qed

lemma exponent_mono: "0 < x \<Longrightarrow> x \<le> y \<Longrightarrow> exponent x \<le> exponent y"
proof -
  assume "0 < x" "x \<le> y"
  then have "(2 :: rat) powi exponent x < 2 powi (exponent y + 1)"
    using exponent_bounds(1) [of x] exponent_bounds(2) [of y] by linarith
  then show ?thesis by (simp add: powi_less_iff)
qed

section \<open>Rounding to a double\<close>

definition rnd_pos :: "rat \<Rightarrow> rat" where
  "rnd_pos x = of_int (round_even (x * 2 powi (52 - exponent x))) * 2 powi (exponent x - 52)"

definition rnd :: "rat \<Rightarrow> rat" where
  "rnd x = (if x = 0 then 0 else if x < 0 then - rnd_pos (- x) else rnd_pos x)"

lemma scaled_bounds:
  assumes "0 < x"
  shows "2 ^ 52 \<le> x * 2 powi (52 - exponent x)" and "x * 2 powi (52 - exponent x) < 2 ^ 53"
proof -
  have split: "(2 :: rat) powi a * 2 powi b = 2 powi (a + b)" for a b
    by (simp add: power_int_add)
  have "2 powi exponent x * 2 powi (52 - exponent x) \<le> x * 2 powi (52 - exponent x)"
    using exponent_bounds(1) [OF assms] by (intro mult_right_mono) simp_all
  then show "2 ^ 52 \<le> x * 2 powi (52 - exponent x)"
    by (simp add: split)
  have "x * 2 powi (52 - exponent x) < 2 powi (exponent x + 1) * 2 powi (52 - exponent x)"
    using exponent_bounds(2) [OF assms] by (intro mult_strict_right_mono) simp_all
  then show "x * 2 powi (52 - exponent x) < 2 ^ 53"
    by (simp add: split)
qed

lemma significand_bounds:
  assumes "0 < x"
  shows "2 ^ 52 \<le> round_even (x * 2 powi (52 - exponent x))"
    and "round_even (x * 2 powi (52 - exponent x)) \<le> 2 ^ 53"
  using round_even_mono [OF scaled_bounds(1) [OF assms]]
    round_even_mono [OF less_imp_le [OF scaled_bounds(2) [OF assms]]] by simp_all

lemma rnd_pos_bounds:
  assumes "0 < x"
  shows "2 powi exponent x \<le> rnd_pos x" and "rnd_pos x \<le> 2 powi (exponent x + 1)"
proof -
  let ?m = "round_even (x * 2 powi (52 - exponent x))"
  have m: "(2 :: rat) powi 52 \<le> of_int ?m" "of_int ?m \<le> (2 :: rat) powi 53"
    using significand_bounds [OF assms] by simp_all
  have "2 powi 52 * 2 powi (exponent x - 52) \<le> rnd_pos x"
    unfolding rnd_pos_def by (rule mult_right_mono [OF m(1)]) simp
  moreover have "(2 :: rat) powi 52 * 2 powi (exponent x - 52) = 2 powi exponent x"
    by (subst power_int_add [symmetric]) simp_all
  ultimately show "2 powi exponent x \<le> rnd_pos x" by simp
  have "rnd_pos x \<le> 2 powi 53 * 2 powi (exponent x - 52)"
    unfolding rnd_pos_def by (rule mult_right_mono [OF m(2)]) simp
  moreover have "(2 :: rat) powi 53 * 2 powi (exponent x - 52) = 2 powi (exponent x + 1)"
    by (subst power_int_add [symmetric]) (simp_all add: add.commute)
  ultimately show "rnd_pos x \<le> 2 powi (exponent x + 1)" by simp
qed

lemma rnd_pos_mono:
  assumes "0 < x" and "x \<le> y"
  shows "rnd_pos x \<le> rnd_pos y"
proof (cases "exponent x = exponent y")
  case True
  have "round_even (x * 2 powi (52 - exponent y)) \<le> round_even (y * 2 powi (52 - exponent y))"
    using assms(2) by (intro round_even_mono mult_right_mono) simp_all
  then show ?thesis
    by (simp add: rnd_pos_def True)
next
  case False
  with exponent_mono [OF assms] have "exponent x + 1 \<le> exponent y" by simp
  then have "(2 :: rat) powi (exponent x + 1) \<le> 2 powi exponent y"
    by (simp add: powi_le_iff)
  moreover have "0 < y" using assms by simp
  ultimately show ?thesis
    using rnd_pos_bounds(2) [OF assms(1)] rnd_pos_bounds(1) [of y] by linarith
qed

lemma rnd_pos_pos: "0 < x \<Longrightarrow> 0 < rnd_pos x"
  using rnd_pos_bounds(1) [of x] by (meson less_le_trans zero_less_numeral zero_less_power_int)

lemma rnd_mono: "x \<le> y \<Longrightarrow> rnd x \<le> rnd y"
  using rnd_pos_mono [of x y] rnd_pos_mono [of "- y" "- x"] rnd_pos_pos [of "- x"] rnd_pos_pos [of y]
  by (auto simp: rnd_def)

text \<open>The doubles: integers of at most 53 bits times a power of two.\<close>

definition is_double :: "rat \<Rightarrow> bool" where
  "is_double x \<longleftrightarrow> (\<exists>m e. \<bar>m\<bar> \<le> 2 ^ 53 \<and> x = of_int m * 2 powi e)"

lemma rnd_pos_exact:
  assumes "0 < m" and "m \<le> 2 ^ 53" and "x = of_int m * 2 powi e"
  shows "rnd_pos x = x"
proof (cases "m = 2 ^ 53")
  case True
  then have x: "x = 2 powi (53 + e)"
    using assms(3) by (simp add: power_int_add)
  have "exponent x = 53 + e"
    unfolding x by (rule exponent_unique) (simp_all add: powi_less_iff)
  then show ?thesis
    by (simp add: rnd_pos_def x flip: power_int_add) (simp add: power_int_add)
next
  case False
  have x: "0 < x" using assms by simp
  have "m < 2 ^ 53" using assms(2) False by simp
  then have "(of_int m :: rat) < 2 powi 53"
    by simp
  then have "x < 2 powi 53 * 2 powi e"
    unfolding assms(3) by (intro mult_strict_right_mono) simp_all
  then have "2 powi exponent x < (2 :: rat) powi (53 + e)"
    using exponent_bounds(1) [OF x] by (simp add: power_int_add)
  then have ge: "0 \<le> 52 + e - exponent x" by (simp add: powi_less_iff)
  have "x * 2 powi (52 - exponent x) = of_int m * 2 powi (52 + e - exponent x)"
    unfolding assms(3) by (simp add: mult.assoc flip: power_int_add) (simp add: algebra_simps)
  also have "\<dots> = of_int (m * 2 ^ nat (52 + e - exponent x))"
    using ge by (simp add: power_int_def)
  finally have "rnd_pos x = x * 2 powi (52 - exponent x) * 2 powi (exponent x - 52)"
    by (metis rnd_pos_def round_even_of_int)
  then show ?thesis
    by (simp add: mult.assoc flip: power_int_add)
qed

lemma rnd_exact: "is_double x \<Longrightarrow> rnd x = x"
proof -
  assume "is_double x"
  then obtain m e where m: "\<bar>m\<bar> \<le> 2 ^ 53" "x = of_int m * 2 powi e"
    by (auto simp: is_double_def)
  consider "m = 0" | "0 < m" | "m < 0" by linarith
  then show ?thesis
  proof cases
    case 2
    then have "0 < x" using m(2) by simp
    then have "rnd x = rnd_pos x" by (simp add: rnd_def)
    with 2 m rnd_pos_exact [of m x e] show ?thesis by simp
  next
    case 3
    then have "x < 0" using m(2) by (simp add: mult_less_0_iff)
    then have "rnd x = - rnd_pos (- x)" by (simp add: rnd_def)
    with 3 m rnd_pos_exact [of "- m" "- x" e] show ?thesis by simp
  qed (simp add: m rnd_def)
qed

lemma is_double_rnd: "is_double (rnd x)"
proof -
  have pos: "is_double (rnd_pos y)" if "0 < y" for y
    unfolding is_double_def rnd_pos_def
    by (rule exI [of _ "round_even (y * 2 powi (52 - exponent y))"], rule exI [of _ "exponent y - 52"])
      (use significand_bounds [OF that] in simp)
  have neg: "is_double (- y)" if "is_double y" for y
    using that unfolding is_double_def by (metis abs_minus_cancel minus_mult_left of_int_minus)
  show ?thesis
    using pos [of x] pos [of "- x"] neg
    by (auto simp: rnd_def is_double_def [of 0] intro: exI [of _ 0])
qed

lemma is_double_of_int: "\<bar>k\<bar> \<le> 2 ^ 53 \<Longrightarrow> is_double (of_int k)"
  unfolding is_double_def by (metis mult.right_neutral power_int_0_right)

section \<open>The interface\<close>

locale rounding =
  fixes r :: "rat \<Rightarrow> rat"
  assumes mono: "x \<le> y \<Longrightarrow> r x \<le> r y"
    and idem: "r (r x) = r x"
    and exact_int: "\<bar>k\<bar> \<le> 2 ^ 53 \<Longrightarrow> r (of_int k) = of_int k"
begin

lemma exact_consts [simp]: "r 0 = 0" "r 1 = 1" "r (numeral n) = numeral n" if "(numeral n :: int) \<le> 2 ^ 53"
  using exact_int [of 0] exact_int [of 1] exact_int [of "numeral n"] that by simp_all

lemma nonneg: "0 \<le> x \<Longrightarrow> 0 \<le> r x"
  using mono [of 0 x] exact_int [of 0] by simp

lemma below: "x \<le> y \<Longrightarrow> r y = y \<Longrightarrow> r x \<le> y"
  using mono [of x y] by simp

lemma above: "y \<le> x \<Longrightarrow> r y = y \<Longrightarrow> y \<le> r x"
  using mono [of y x] by simp

text \<open>A rounded quotient of a part by the whole is a fraction.\<close>

lemma fraction: "0 \<le> x \<Longrightarrow> x \<le> y \<Longrightarrow> 0 \<le> r (x / y) \<and> r (x / y) \<le> 1"
  using exact_int [of 1] below [of "x / y" 1] nonneg [of "x / y"]
  by (cases "y = 0") (auto simp: divide_le_eq_1)

end

interpretation float64: rounding rnd
  by unfold_locales (simp_all add: rnd_mono rnd_exact is_double_rnd is_double_of_int)

section \<open>Conversions\<close>

text \<open>\<open>math.Round\<close>: to the nearest integer, halves away from zero; and \<open>%.2f\<close> of a number
  that is not negative.\<close>

definition math_Round :: "rat \<Rightarrow> int" where
  "math_Round x = (if 0 \<le> x then \<lfloor>x + 1 / 2\<rfloor> else - \<lfloor>- x + 1 / 2\<rfloor>)"

definition show_2f :: "rat \<Rightarrow> string" where
  "show_2f x =
     (let c = nat (round_even (x * 100)) in
      show_nat (c div 100) @ ''.'' @ show_02d (c mod 100))"

lemma math_Round_of_int [simp]: "math_Round (of_int k) = k"
  unfolding math_Round_def by (simp add: floor_unique)

lemma math_Round_mono:
  assumes "x \<le> y"
  shows "math_Round x \<le> math_Round y"
proof -
  have neg: "- \<lfloor>- x + 1 / 2\<rfloor> \<le> 0" if "x < 0"
    using that by (simp add: le_floor_iff)
  have pos: "0 \<le> \<lfloor>y + 1 / 2\<rfloor>" if "0 \<le> y"
    using that by (simp add: le_floor_iff)
  have up: "\<lfloor>x + 1 / 2\<rfloor> \<le> \<lfloor>y + 1 / 2\<rfloor>" and down: "\<lfloor>- y + 1 / 2\<rfloor> \<le> \<lfloor>- x + 1 / 2\<rfloor>"
    using assms by (simp_all add: floor_mono)
  consider "0 \<le> x" "0 \<le> y" | "x < 0" "0 \<le> y" | "x < 0" "y < 0"
    using assms by linarith
  then show ?thesis
  proof cases
    case 2
    with neg pos have "- \<lfloor>- x + 1 / 2\<rfloor> \<le> \<lfloor>y + 1 / 2\<rfloor>" by linarith
    with 2 show ?thesis by (simp add: math_Round_def)
  qed (use up down in \<open>simp_all add: math_Round_def\<close>)
qed

lemma math_Round_between:
  "of_int a \<le> x \<Longrightarrow> x \<le> of_int b \<Longrightarrow> a \<le> math_Round x \<and> math_Round x \<le> b"
  using math_Round_mono [of "of_int a" x] math_Round_mono [of x "of_int b"] by simp

end
