(* ===== verification/ScorePolicy.thy ===== *)
theory ScorePolicy
  imports ResourcePolicy GoFloat
begin

text \<open>
  Scoring of nodes: \<open>policy/scorer.go\<close>, \<open>policy/demand_shape.go\<close> and the scoring functions of
  \<open>policy/simple_policy.go\<close>.  A scorer is a record of its methods; the composer runs a list of
  them and folds their contributions into a \<open>NodeScoreDetail\<close>.  Go's maps from node names are
  partial functions; the weights of a demand shape are listed in the order in which Go's
  \<open>range\<close> visits them.
\<close>

section \<open>Data\<close>

definition MaxNodeScore :: int64 where "MaxNodeScore = 100"

record ScoreDecision =
  sd_Score :: int64
  sd_Reason :: string

record NodeScoreDetail =
  nd_NodeName :: string
  nd_PreferredMatched :: int
  nd_PreferredTotal :: int
  nd_KeyResource :: string
  nd_KeyResourcePreferredMatched :: bool
  nd_KeyResourceHeadroom :: int32
  nd_OtherHeadroomScore :: int64
  nd_WeightedHeadroomScore :: int64
  nd_TimeWindowMultiplier :: rat
  nd_TimeWindowReason :: string
  nd_MixBalanceMultiplier :: rat
  nd_MixBalanceReason :: string
  nd_RuntimeRiskPenalty :: int64
  nd_ExtraScore :: int64
  nd_ExtraMultiplier :: rat
  nd_ExtraPenalty :: int64
  nd_Reason :: string

definition NodeScoreDetail_zero :: NodeScoreDetail where
  "NodeScoreDetail_zero =
     \<lparr>nd_NodeName = [], nd_PreferredMatched = 0, nd_PreferredTotal = 0, nd_KeyResource = [],
      nd_KeyResourcePreferredMatched = False, nd_KeyResourceHeadroom = 0,
      nd_OtherHeadroomScore = 0, nd_WeightedHeadroomScore = 0, nd_TimeWindowMultiplier = 0,
      nd_TimeWindowReason = [], nd_MixBalanceMultiplier = 0, nd_MixBalanceReason = [],
      nd_RuntimeRiskPenalty = 0, nd_ExtraScore = 0, nd_ExtraMultiplier = 0, nd_ExtraPenalty = 0,
      nd_Reason = []\<rparr>"

record ScoringContext =
  sx_Profile :: "AIWorkloadProfile option"
  sx_Node :: "AINodeResourceProfile option"
  sx_Preferred :: ResourceSummary
  sx_Available :: ResourceSummary
  sx_Key :: string

record ScoreContribution =
  sb_Name :: string
  sb_Score :: int64
  sb_OtherScore :: int64
  sb_Multiplier :: rat
  sb_Penalty :: int64
  sb_Reason :: string

definition ScoreContribution_zero :: ScoreContribution where
  "ScoreContribution_zero =
     \<lparr>sb_Name = [], sb_Score = 0, sb_OtherScore = 0, sb_Multiplier = 0, sb_Penalty = 0, sb_Reason = []\<rparr>"

record Scorer =
  so_Name :: string
  so_Score :: "ScoringContext \<Rightarrow> ScoreContribution"

type_synonym DemandShapeResourceMapping = "string \<rightharpoonup> (string \<times> rat) list"

record ScoreComposer =
  co_scorers :: "Scorer list"
  co_demandShapeMapping :: DemandShapeResourceMapping

section \<open>Demand shapes (demand\_shape.go)\<close>

definition normalizedDemandShape :: "string \<Rightarrow> string" where
  "normalizedDemandShape shape =
     (if shape \<in> {DemandShapeDecodeHeavy, DemandShapePrefillHeavy, DemandShapeKVHeavy, DemandShapeMixed}
      then shape else DemandShapeMixed)"

definition DefaultDemandShapeResourceMapping :: DemandShapeResourceMapping where
  "DefaultDemandShapeResourceMapping =
     [DemandShapeDecodeHeavy \<mapsto> [(ResourceDecodeTokensPerSec, rnd (4 / 10))],
      DemandShapePrefillHeavy \<mapsto> [(ResourcePrefillTokensPerSec, rnd (4 / 10))],
      DemandShapeKVHeavy \<mapsto> [(ResourceKVCacheGiB, rnd (4 / 10))],
      DemandShapeMixed \<mapsto> [(ResourceBalancedResourceFocus, rnd (4 / 10))]]"

definition FocusedResource :: "DemandShapeResourceMapping \<Rightarrow> string \<Rightarrow> string" where
  "FocusedResource m demandShape =
     (let weights = (case m (normalizedDemandShape demandShape) of None \<Rightarrow> [] | Some ws \<Rightarrow> ws) in
      if weights = [] then ResourceBalancedResourceFocus
      else
        let (bestResource, bestWeight) =
              fold (\<lambda>(resource, weight) (bestResource, bestWeight).
                      if weight > bestWeight then (resource, weight) else (bestResource, bestWeight))
                weights ([], 0)
        in if bestResource = [] then ResourceBalancedResourceFocus else bestResource)"

definition focusedResourceForDemandShape :: "string \<Rightarrow> string" where
  "focusedResourceForDemandShape demandShape =
     FocusedResource DefaultDemandShapeResourceMapping demandShape"

definition resourceHeadroomWeight :: "string \<Rightarrow> string \<Rightarrow> rat" where
  "resourceHeadroomWeight key resourceName =
     (if key = ResourceBalancedResourceFocus \<or> key = [] then rnd (4 / 10)
      else if resourceName = key then rnd (4 / 10)
      else rnd (3 / 10))"

section \<open>Headroom (simple\_policy.go)\<close>

text \<open>The rows of the local tables: name, preferred and available amount.\<close>

definition resourceRows :: "ResourceSummary \<Rightarrow> ResourceSummary \<Rightarrow> (string \<times> int32 \<times> int32) list" where
  "resourceRows preferred available =
     [(ResourceGPUCount, GPUCount preferred, GPUCount available),
      (ResourceGPUMemoryGiB, GPUMemoryGiB preferred, GPUMemoryGiB available),
      (ResourceKVCacheGiB, KVCacheGiB preferred, KVCacheGiB available),
      (ResourcePrefillTokensPerSec, PrefillTokensPerSecond preferred, PrefillTokensPerSecond available),
      (ResourceDecodeTokensPerSec, DecodeTokensPerSecond preferred, DecodeTokensPerSecond available),
      (ResourceTotalTokensPerSecond, TotalTokensPerSecond preferred, TotalTokensPerSecond available)]"

definition preferredMatchCount :: "ResourceSummary \<Rightarrow> ResourceSummary \<Rightarrow> int \<times> int" where
  "preferredMatchCount preferred available =
     fold (\<lambda>(name, p, a) (matched, total).
             if p \<le>s 0 then (matched, total)
             else (if p \<le>s a then matched + 1 else matched, total + 1))
       (resourceRows preferred available) (0, 0)"

definition keyResourceValues :: "string \<Rightarrow> ResourceSummary \<Rightarrow> ResourceSummary \<Rightarrow> int32 \<times> int32" where
  "keyResourceValues key preferred available =
     (if key = ResourceDecodeTokensPerSec then
        (DecodeTokensPerSecond preferred, DecodeTokensPerSecond available)
      else if key = ResourcePrefillTokensPerSec then
        (PrefillTokensPerSecond preferred, PrefillTokensPerSecond available)
      else if key = ResourceKVCacheGiB then (KVCacheGiB preferred, KVCacheGiB available)
      else (0, 0))"

definition keyResourceMatched :: "string \<Rightarrow> ResourceSummary \<Rightarrow> ResourceSummary \<Rightarrow> bool" where
  "keyResourceMatched key preferred available =
     (let (p, a) = keyResourceValues key preferred available in if p \<le>s 0 then False else p \<le>s a)"

definition cappedHeadroomPercent :: "int32 \<Rightarrow> int32 \<Rightarrow> int64" where
  "cappedHeadroomPercent available preferred =
     (if preferred \<le>s 0 \<or> available \<le>s preferred then 0
      else
        let score = quot64 (int32_to_int64 (available - preferred) * 100) (int32_to_int64 preferred)
        in if 100 <s score then 100 else score)"

definition otherHeadroomScore :: "string \<Rightarrow> ResourceSummary \<Rightarrow> ResourceSummary \<Rightarrow> int64" where
  "otherHeadroomScore key preferred available =
     (let (total, count) =
        fold (\<lambda>(name, p, a) (total, count).
                if name = key \<or> p \<le>s 0 \<or> a \<le>s p then (total, count)
                else (total + cappedHeadroomPercent a p, count + 1))
          (resourceRows preferred available) (0 :: int64, 0 :: int64)
      in if count = 0 then 0 else quot64 total count)"

definition keyResourceHeadroom :: "string \<Rightarrow> ResourceSummary \<Rightarrow> ResourceSummary \<Rightarrow> int32" where
  "keyResourceHeadroom key preferred available =
     (if key = ResourceBalancedResourceFocus
      then int64_to_int32 (otherHeadroomScore key preferred available)
      else
        let (p, a) = keyResourceValues key preferred available
        in if p \<le>s 0 \<or> a \<le>s p then 0 else a - p)"

definition normalizedHeadroom :: "int32 \<Rightarrow> int32 \<Rightarrow> rat" where
  "normalizedHeadroom available preferred =
     (if preferred \<le>s 0 \<or> available \<le>s preferred then 0
      else
        let headroom = rnd (rnd (of_int (sint (available - preferred))) / rnd (of_int (sint preferred)))
        in if headroom > 1 then 1 else headroom)"

definition weightedHeadroomScore :: "string \<Rightarrow> ResourceSummary \<Rightarrow> ResourceSummary \<Rightarrow> int64" where
  "weightedHeadroomScore key preferred available =
     (let (weightedSum, weightSum) =
        fold (\<lambda>(name, p, a) (weightedSum, weightSum).
                if p \<le>s 0 then (weightedSum, weightSum)
                else
                  let weight = resourceHeadroomWeight key name
                  in (rnd (weightedSum + rnd (weight * normalizedHeadroom a p)),
                      rnd (weightSum + weight)))
          (resourceRows preferred available) (0, 0)
      in if weightSum = 0 then 0
         else word_of_int (math_Round (rnd (rnd (weightedSum / weightSum) * 100))))"

section \<open>Multipliers and penalties (simple\_policy.go)\<close>

definition timeWindowMultiplier ::
    "AIWorkloadProfile option \<Rightarrow> AINodeResourceProfile option \<Rightarrow> rat \<times> string" where
  "timeWindowMultiplier profile node =
     (case (profile, node) of
        (Some p, Some n) \<Rightarrow>
          if ps_TimeWindows (p_Spec p) = [] then (1, ''workload has no time window'')
          else if nst_Allocations (n_Status n) = [] then
            (rnd (102 / 100), ''node has no existing workload window'')
          else
            let (compared, overlap, manageable) =
              fold (\<lambda>allocation (compared, overlap, manageable).
                      if na_TimeWindows allocation = [] then (compared, overlap, manageable)
                      else if \<not> timeWindowsOverlap (ps_TimeWindows (p_Spec p)) (na_TimeWindows allocation)
                      then (compared + 1, overlap, manageable)
                      else (compared + 1, overlap + 1,
                            if canCurrentWorkloadReclaimFrom profile allocation
                            then manageable + 1 else manageable))
                (nst_Allocations (n_Status n)) (0 :: nat, 0 :: nat, 0 :: nat)
            in if compared = 0 then
                 (rnd (102 / 100), ''node has no comparable existing workload window'')
               else if overlap = 0 then
                 (rnd (105 / 100), ''time windows are staggered with existing allocations'')
               else if overlap = manageable then
                 (rnd (102 / 100),
                  ''time window overlaps only with lower-priority delay-tolerant workloads: overlap='' @
                  show_nat overlap)
               else
                 (rnd (95 / 100),
                  ''time window overlaps with competing online or same-priority workloads: overlap='' @
                  show_nat overlap @ '' manageable='' @ show_nat manageable)
      | _ \<Rightarrow> (1, ''missing profile or node''))"

type_synonym shape_counts = "(string \<times> nat) list"

definition bumpCount :: "string \<Rightarrow> shape_counts \<Rightarrow> shape_counts" where
  "bumpCount shape counts = map (\<lambda>(s, c). if s = shape then (s, c + 1) else (s, c)) counts"

definition demandShapeCounts :: "NodeAllocationStatus list \<Rightarrow> shape_counts" where
  "demandShapeCounts allocations =
     fold (\<lambda>allocation counts.
             let shape = normalizedDemandShape (na_DemandShape allocation) in
             if shape \<in> {DemandShapeDecodeHeavy, DemandShapePrefillHeavy, DemandShapeKVHeavy}
             then bumpCount shape counts
             else bumpCount DemandShapeKVHeavy
                    (bumpCount DemandShapePrefillHeavy (bumpCount DemandShapeDecodeHeavy counts)))
       allocations
       [(DemandShapeDecodeHeavy, 0), (DemandShapePrefillHeavy, 0), (DemandShapeKVHeavy, 0)]"

definition maxDemandShapeCount :: "shape_counts \<Rightarrow> nat" where
  "maxDemandShapeCount counts =
     fold (\<lambda>(shape, count) maxCount. if count > maxCount then count else maxCount) counts 0"

definition mixBalanceMultiplier ::
    "AIWorkloadProfile option \<Rightarrow> AINodeResourceProfile option \<Rightarrow> rat \<times> string" where
  "mixBalanceMultiplier profile node =
     (case (profile, node) of
        (Some p, Some n) \<Rightarrow>
          let currentShape = normalizedDemandShape (ps_DemandShape (p_Spec p)) in
          if currentShape = DemandShapeMixed then
            (1, ''mixed workload has no focused resource shape'')
          else
            let counts = demandShapeCounts (nst_Allocations (n_Status n));
                maxCount = maxDemandShapeCount counts;
                currentCount = (case map_of counts currentShape of None \<Rightarrow> 0 | Some c \<Rightarrow> c)
            in if currentCount < maxCount then
                 (rnd (105 / 100),
                  ''underrepresented demandShape='' @ currentShape @ '' count='' @
                  show_nat currentCount @ '' max='' @ show_nat maxCount)
               else
                 (1, ''demandShape='' @ currentShape @ '' count='' @ show_nat currentCount @
                     '' max='' @ show_nat maxCount)
      | _ \<Rightarrow> (1, ''missing profile or node''))"

definition applyMultiplier :: "int64 \<Rightarrow> rat \<Rightarrow> int64" where
  "applyMultiplier score multiplier =
     (let m = (if multiplier \<le> 0 then 1 else multiplier)
      in word_of_int (math_Round (rnd (rnd (of_int (sint score)) * m))))"

definition runtimeRiskPenalty :: "AINodeResourceProfile option \<Rightarrow> int64" where
  "runtimeRiskPenalty node =
     (case Option.bind (Option.bind node (\<lambda>n. nst_Runtime (n_Status n))) rst_Pressure of
        None \<Rightarrow> 0
      | Some pressure \<Rightarrow>
          let risk = ToLower (pr_SLORisk pressure) in
          if risk = SLORiskHigh then 15 else if risk = SLORiskMedium then 8 else 0)"

definition clampScore :: "int64 \<Rightarrow> int64" where
  "clampScore score =
     (if score <s 0 then 0 else if MaxNodeScore <s score then MaxNodeScore else score)"

section \<open>Scorers (scorer.go)\<close>

definition boolMultiplier :: "bool \<Rightarrow> rat" where
  "boolMultiplier value = (if value then 1 else 0)"

definition PreferredCoverageScorer_Score :: "ScoringContext \<Rightarrow> ScoreContribution" where
  "PreferredCoverageScorer_Score ctx =
     (let (matched, total) = preferredMatchCount (sx_Preferred ctx) (sx_Available ctx) in
      ScoreContribution_zero
        \<lparr>sb_Name := ''PreferredCoverageScorer'', sb_Score := word_of_int matched,
         sb_Penalty := word_of_int total,
         sb_Reason := ''preferredMatched='' @ show_int matched @ ''/'' @ show_int total\<rparr>)"

definition KeyResourceHeadroomScorer_Score :: "ScoringContext \<Rightarrow> ScoreContribution" where
  "KeyResourceHeadroomScorer_Score ctx =
     (let matched = keyResourceMatched (sx_Key ctx) (sx_Preferred ctx) (sx_Available ctx);
          headroom = keyResourceHeadroom (sx_Key ctx) (sx_Preferred ctx) (sx_Available ctx);
          other = otherHeadroomScore (sx_Key ctx) (sx_Preferred ctx) (sx_Available ctx);
          weighted = weightedHeadroomScore (sx_Key ctx) (sx_Preferred ctx) (sx_Available ctx);
          key = (if sx_Key ctx = [] then ResourceBalancedResourceFocus else sx_Key ctx)
      in \<lparr>sb_Name = ''KeyResourceHeadroomScorer'', sb_Score = weighted, sb_OtherScore = other,
          sb_Multiplier = boolMultiplier matched, sb_Penalty = int32_to_int64 headroom,
          sb_Reason = key\<rparr>)"

definition TimeWindowScorer_Score :: "ScoringContext \<Rightarrow> ScoreContribution" where
  "TimeWindowScorer_Score ctx =
     (let (multiplier, reason) = timeWindowMultiplier (sx_Profile ctx) (sx_Node ctx) in
      ScoreContribution_zero
        \<lparr>sb_Name := ''TimeWindowScorer'', sb_Multiplier := multiplier, sb_Reason := reason\<rparr>)"

definition WorkloadMixScorer_Score :: "ScoringContext \<Rightarrow> ScoreContribution" where
  "WorkloadMixScorer_Score ctx =
     (let (multiplier, reason) = mixBalanceMultiplier (sx_Profile ctx) (sx_Node ctx) in
      ScoreContribution_zero
        \<lparr>sb_Name := ''WorkloadMixScorer'', sb_Multiplier := multiplier, sb_Reason := reason\<rparr>)"

definition SLORiskScorer_Score :: "ScoringContext \<Rightarrow> ScoreContribution" where
  "SLORiskScorer_Score ctx =
     (let penalty = runtimeRiskPenalty (sx_Node ctx) in
      ScoreContribution_zero
        \<lparr>sb_Name := ''SLORiskScorer'', sb_Penalty := penalty,
         sb_Reason := ''runtimeRiskPenalty='' @ show_int (sint penalty)\<rparr>)"

definition DefaultScorers :: "Scorer list" where
  "DefaultScorers =
     [\<lparr>so_Name = ''PreferredCoverageScorer'', so_Score = PreferredCoverageScorer_Score\<rparr>,
      \<lparr>so_Name = ''KeyResourceHeadroomScorer'', so_Score = KeyResourceHeadroomScorer_Score\<rparr>,
      \<lparr>so_Name = ''TimeWindowScorer'', so_Score = TimeWindowScorer_Score\<rparr>,
      \<lparr>so_Name = ''WorkloadMixScorer'', so_Score = WorkloadMixScorer_Score\<rparr>,
      \<lparr>so_Name = ''SLORiskScorer'', so_Score = SLORiskScorer_Score\<rparr>]"

text \<open>
  \<open>NewScoreComposerWithOptions\<close>: no scorers or an empty mapping mean the defaults.  The mapping of
  the options comes as the list of its pairs, so that its length can be tested; a mapping that is
  not given is the empty list.
\<close>

definition NewScoreComposerWithOptions ::
    "Scorer list \<Rightarrow> (string \<times> (string \<times> rat) list) list \<Rightarrow> ScoreComposer" where
  "NewScoreComposerWithOptions scorers mapping =
     \<lparr>co_scorers = (if scorers = [] then DefaultScorers else scorers),
      co_demandShapeMapping =
        (if mapping = [] then DefaultDemandShapeResourceMapping else map_of mapping)\<rparr>"

definition NewScoreComposer :: "Scorer list \<Rightarrow> ScoreComposer" where
  "NewScoreComposer scorers = NewScoreComposerWithOptions scorers []"

definition applyContribution :: "NodeScoreDetail \<Rightarrow> ScoreContribution \<Rightarrow> NodeScoreDetail" where
  "applyContribution detail contribution =
     (if sb_Name contribution = ''PreferredCoverageScorer'' then
        detail \<lparr>nd_PreferredMatched := sint (sb_Score contribution),
                nd_PreferredTotal := sint (sb_Penalty contribution)\<rparr>
      else if sb_Name contribution = ''KeyResourceHeadroomScorer'' then
        detail \<lparr>nd_KeyResource := sb_Reason contribution,
                nd_KeyResourcePreferredMatched := sb_Multiplier contribution > 0,
                nd_KeyResourceHeadroom := int64_to_int32 (sb_Penalty contribution),
                nd_WeightedHeadroomScore := sb_Score contribution,
                nd_OtherHeadroomScore := sb_OtherScore contribution\<rparr>
      else if sb_Name contribution = ''TimeWindowScorer'' then
        detail \<lparr>nd_TimeWindowMultiplier := sb_Multiplier contribution,
                nd_TimeWindowReason := sb_Reason contribution\<rparr>
      else if sb_Name contribution = ''WorkloadMixScorer'' then
        detail \<lparr>nd_MixBalanceMultiplier := sb_Multiplier contribution,
                nd_MixBalanceReason := sb_Reason contribution\<rparr>
      else if sb_Name contribution = ''SLORiskScorer'' then
        detail \<lparr>nd_RuntimeRiskPenalty := sb_Penalty contribution\<rparr>
      else
        let detail1 = detail \<lparr>nd_ExtraScore := nd_ExtraScore detail + sb_Score contribution\<rparr>;
            detail2 =
              (if sb_Multiplier contribution > 0 then
                 let base = (if nd_ExtraMultiplier detail1 \<le> 0 then 1 else nd_ExtraMultiplier detail1)
                 in detail1 \<lparr>nd_ExtraMultiplier := rnd (base * sb_Multiplier contribution)\<rparr>
               else detail1)
        in detail2 \<lparr>nd_ExtraPenalty := nd_ExtraPenalty detail2 + sb_Penalty contribution\<rparr>)"

text \<open>The loop of \<open>BuildDetail\<close> over the scorers.\<close>

fun runScorers ::
    "ScoringContext \<Rightarrow> Scorer list \<Rightarrow> NodeScoreDetail \<Rightarrow> string list \<Rightarrow> NodeScoreDetail \<times> string list" where
  "runScorers ctx [] detail reasons = (detail, reasons)"
| "runScorers ctx (scorer # scorers) detail reasons =
     (let c0 = so_Score scorer ctx;
          contribution = (if sb_Name c0 = [] then c0 \<lparr>sb_Name := so_Name scorer\<rparr> else c0)
      in runScorers ctx scorers (applyContribution detail contribution)
           (if sb_Reason contribution \<noteq> []
            then reasons @ [sb_Name contribution @ ''='' @ sb_Reason contribution] else reasons))"

definition detailReason :: "NodeScoreDetail \<Rightarrow> string list \<Rightarrow> string" where
  "detailReason detail reasons =
     ''preferredMatched='' @ show_int (nd_PreferredMatched detail) @ ''/'' @
     show_int (nd_PreferredTotal detail) @ '' keyResource='' @ nd_KeyResource detail @
     '' keyPreferredMatched='' @ show_bool (nd_KeyResourcePreferredMatched detail) @
     '' keyHeadroom='' @ show_int (sint (nd_KeyResourceHeadroom detail)) @
     '' otherHeadroom='' @ show_int (sint (nd_OtherHeadroomScore detail)) @
     '' weightedHeadroom='' @ show_int (sint (nd_WeightedHeadroomScore detail)) @
     '' timeMultiplier='' @ show_2f (nd_TimeWindowMultiplier detail) @
     '' timeReason='' @ nd_TimeWindowReason detail @
     '' mixMultiplier='' @ show_2f (nd_MixBalanceMultiplier detail) @
     '' mixReason='' @ nd_MixBalanceReason detail @
     '' runtimeRiskPenalty='' @ show_int (sint (nd_RuntimeRiskPenalty detail)) @
     '' extraScore='' @ show_int (sint (nd_ExtraScore detail)) @
     '' extraMultiplier='' @ show_2f (nd_ExtraMultiplier detail) @
     '' extraPenalty='' @ show_int (sint (nd_ExtraPenalty detail)) @
     '' contributions=['' @ Join reasons ''; '' @ '']''"

definition BuildDetail ::
    "ScoreComposer \<Rightarrow> AIWorkloadProfile option \<Rightarrow> AINodeResourceProfile option \<Rightarrow> NodeScoreDetail" where
  "BuildDetail c profile node =
     (let detail0 =
            (case node of
               None \<Rightarrow> NodeScoreDetail_zero
             | Some n \<Rightarrow>
                 NodeScoreDetail_zero
                   \<lparr>nd_NodeName := (if ns_NodeName (n_Spec n) = [] then n_Name n else ns_NodeName (n_Spec n))\<rparr>)
      in case (profile, Option.bind node (\<lambda>n. nst_Available (n_Status n))) of
           (Some p, Some available) \<Rightarrow>
             (let preferred = preferredResources profile;
                  key = FocusedResource (co_demandShapeMapping c) (ps_DemandShape (p_Spec p));
                  ctx = \<lparr>sx_Profile = profile, sx_Node = node, sx_Preferred = preferred,
                         sx_Available = available, sx_Key = key\<rparr>;
                  detail1 =
                    detail0 \<lparr>nd_TimeWindowMultiplier := 1, nd_MixBalanceMultiplier := 1,
                             nd_ExtraMultiplier := 1\<rparr>;
                  (detail2, reasons) = runScorers ctx (co_scorers c) detail1 []
              in detail2 \<lparr>nd_Reason := detailReason detail2 reasons\<rparr>)
         | _ \<Rightarrow> detail0 \<lparr>nd_Reason := ''missing profile, node, or node availability''\<rparr>)"

text \<open>One node of \<open>Normalize\<close>, and the map.\<close>

definition normalizeDetail :: "NodeScoreDetail \<Rightarrow> ScoreDecision" where
  "normalizeDetail detail =
     (let score1 = applyMultiplier (nd_WeightedHeadroomScore detail) (nd_TimeWindowMultiplier detail);
          score2 = applyMultiplier score1 (nd_MixBalanceMultiplier detail);
          score3 = score2 + nd_ExtraScore detail;
          score4 = applyMultiplier score3 (nd_ExtraMultiplier detail);
          reasonParts =
            [nd_Reason detail,
             ''weightedHeadroomScore='' @ show_int (sint (nd_WeightedHeadroomScore detail)),
             ''adjustedScore='' @ show_int (sint score4)];
          totalPenalty = nd_RuntimeRiskPenalty detail + nd_ExtraPenalty detail;
          score5 = score4 - totalPenalty;
          reasonParts' =
            (if 0 <s totalPenalty then reasonParts @ [''totalPenalty='' @ show_int (sint totalPenalty)]
             else reasonParts)
      in \<lparr>sd_Score = clampScore score5, sd_Reason = Join reasonParts' ''; ''\<rparr>)"

definition Normalize :: "(string \<rightharpoonup> NodeScoreDetail) \<Rightarrow> (string \<rightharpoonup> ScoreDecision)" where
  "Normalize details = (\<lambda>nodeName. map_option normalizeDetail (details nodeName))"

section \<open>The policy (simple\_policy.go)\<close>

definition NewSimplePolicy :: ScoreComposer where
  "NewSimplePolicy = NewScoreComposer []"

definition ScoreDetail ::
    "AIWorkloadProfile option \<Rightarrow> AINodeResourceProfile option \<Rightarrow> NodeScoreDetail" where
  "ScoreDetail profile node = BuildDetail NewSimplePolicy profile node"

definition NormalizeScoreDetails :: "(string \<rightharpoonup> NodeScoreDetail) \<Rightarrow> (string \<rightharpoonup> ScoreDecision)" where
  "NormalizeScoreDetails details = Normalize details"

definition allocationResourceValue :: "int32 \<Rightarrow> int32 \<Rightarrow> int32 \<Rightarrow> int32" where
  "allocationResourceValue required preferred available =
     (let target = (if preferred \<le>s 0 then required else preferred)
      in if target \<le>s available then target else required)"

definition AllocationResources ::
    "AIWorkloadProfile option \<Rightarrow> AINodeResourceProfile option \<Rightarrow> ResourceSummary" where
  "AllocationResources profile node =
     (let required = requiredResources profile in
      case (profile, Option.bind node (\<lambda>n. nst_Available (n_Status n))) of
        (Some p, Some available) \<Rightarrow>
          (let preferred = preferredResources profile in
           \<lparr>GPUCount = allocationResourceValue (GPUCount required) (GPUCount preferred) (GPUCount available),
            GPUMemoryGiB =
              allocationResourceValue (GPUMemoryGiB required) (GPUMemoryGiB preferred) (GPUMemoryGiB available),
            KVCacheGiB =
              allocationResourceValue (KVCacheGiB required) (KVCacheGiB preferred) (KVCacheGiB available),
            PrefillTokensPerSecond =
              allocationResourceValue (PrefillTokensPerSecond required)
                (PrefillTokensPerSecond preferred) (PrefillTokensPerSecond available),
            DecodeTokensPerSecond =
              allocationResourceValue (DecodeTokensPerSecond required)
                (DecodeTokensPerSecond preferred) (DecodeTokensPerSecond available),
            TotalTokensPerSecond =
              allocationResourceValue (TotalTokensPerSecond required)
                (TotalTokensPerSecond preferred) (TotalTokensPerSecond available)\<rparr>)
      | _ \<Rightarrow> required)"

definition AllocationType :: "AIWorkloadProfile option \<Rightarrow> ResourceSummary \<Rightarrow> string" where
  "AllocationType profile resources =
     (let required = requiredResources profile in
      if GPUCount required <s GPUCount resources \<or>
         GPUMemoryGiB required <s GPUMemoryGiB resources \<or>
         KVCacheGiB required <s KVCacheGiB resources \<or>
         PrefillTokensPerSecond required <s PrefillTokensPerSecond resources \<or>
         DecodeTokensPerSecond required <s DecodeTokensPerSecond resources \<or>
         TotalTokensPerSecond required <s TotalTokensPerSecond resources
      then ''preferred'' else ''guaranteed'')"

section \<open>Headroom is a percentage\<close>

lemma rnd_positive: "0 < x \<Longrightarrow> 0 < rnd x"
  using rnd_pos_pos [of x] by (simp add: rnd_def)

lemma headroom_weight:
  "0 < resourceHeadroomWeight key name" "rnd (resourceHeadroomWeight key name) = resourceHeadroomWeight key name"
  by (simp_all add: resourceHeadroomWeight_def rnd_positive float64.idem)

lemma rnd_one [simp]: "rnd 1 = 1" and rnd_zero [simp]: "rnd 0 = 0" and rnd_hundred [simp]: "rnd 100 = 100"
  using float64.exact_int [of 1] float64.exact_int [of 0] float64.exact_int [of 100] by simp_all

lemma normalizedHeadroom_range: "0 \<le> normalizedHeadroom a p \<and> normalizedHeadroom a p \<le> 1"
proof (cases "p \<le>s 0 \<or> a \<le>s p")
  case False
  then have "0 \<le> sint (a - p)" "0 \<le> sint p"
    using sint32_range [of a] sint32_range [of p] by (simp_all add: sle_sint sint32_diff)
  then have "0 \<le> rnd (rnd (of_int (sint (a - p))) / rnd (of_int (sint p)))"
    by (intro float64.nonneg divide_nonneg_nonneg of_int_nonneg)
  then show ?thesis by (simp add: normalizedHeadroom_def Let_def)
qed (simp add: normalizedHeadroom_def)

text \<open>The loop of \<open>weightedHeadroomScore\<close>: the weighted sum never exceeds the sum of the weights.\<close>

definition weighted_step :: "string \<Rightarrow> string \<times> int32 \<times> int32 \<Rightarrow> rat \<times> rat \<Rightarrow> rat \<times> rat" where
  "weighted_step key row acc =
     (let (name, p, a) = row; (weightedSum, weightSum) = acc in
      if p \<le>s 0 then (weightedSum, weightSum)
      else
        let weight = resourceHeadroomWeight key name
        in (rnd (weightedSum + rnd (weight * normalizedHeadroom a p)), rnd (weightSum + weight)))"

definition weighted_inv :: "rat \<times> rat \<Rightarrow> bool" where
  "weighted_inv acc \<longleftrightarrow> 0 \<le> fst acc \<and> fst acc \<le> snd acc"

lemma weighted_step_inv:
  assumes "weighted_inv acc"
  shows "weighted_inv (weighted_step key row acc)"
proof (cases "fst (snd row) \<le>s 0")
  case False
  obtain name p a where row: "row = (name, p, a)" by (metis prod.exhaust)
  obtain ws w where acc: "acc = (ws, w)" by (metis prod.exhaust)
  let ?wt = "resourceHeadroomWeight key name"
  let ?part = "rnd (?wt * normalizedHeadroom a p)"
  have wt: "0 < ?wt" by (rule headroom_weight)
  have "?wt * normalizedHeadroom a p \<le> ?wt"
    using normalizedHeadroom_range [of a p] wt by (simp add: mult_left_le)
  then have part: "0 \<le> ?part" "?part \<le> ?wt"
    using normalizedHeadroom_range [of a p] wt
    by (auto intro!: float64.nonneg mult_nonneg_nonneg float64.below headroom_weight)
  show ?thesis
    using assms part False
    by (simp add: weighted_step_def weighted_inv_def row acc Let_def float64.nonneg add_mono float64.mono)
qed (use assms in \<open>simp add: weighted_step_def case_prod_unfold Let_def\<close>)

lemma weighted_fold_inv: "weighted_inv acc \<Longrightarrow> weighted_inv (fold (weighted_step key) rows acc)"
  by (induction rows arbitrary: acc) (simp_all add: weighted_step_inv)

lemma weightedHeadroomScore_fold:
  "weightedHeadroomScore key preferred available =
     (let acc = fold (weighted_step key) (resourceRows preferred available) (0, 0)
      in if snd acc = 0 then 0
         else word_of_int (math_Round (rnd (rnd (fst acc / snd acc) * 100))))"
proof -
  have "(\<lambda>(name, p, a) (weightedSum, weightSum).
          if p \<le>s 0 then (weightedSum, weightSum)
          else let weight = resourceHeadroomWeight key name
            in (rnd (weightedSum + rnd (weight * normalizedHeadroom a p)), rnd (weightSum + weight)))
      = weighted_step key"
    by (intro ext) (simp add: weighted_step_def case_prod_unfold Let_def)
  then show ?thesis
    by (simp add: weightedHeadroomScore_def case_prod_unfold Let_def)
qed

lemma percent_range:
  assumes "0 \<le> q" and "q \<le> 1"
  shows "0 \<le> math_Round (rnd (q * 100)) \<and> math_Round (rnd (q * 100)) \<le> 100"
proof -
  have "0 \<le> rnd (q * 100)" "rnd (q * 100) \<le> 100"
    using assms by (simp_all add: float64.nonneg float64.below)
  then show ?thesis
    using math_Round_between [of 0 "rnd (q * 100)" 100] by simp
qed

text \<open>
  The weighted headroom of a node is a percentage, for every table of preferred and available
  amounts and in spite of the rounding of the floating point sums.
\<close>

lemma weightedHeadroomScore_range:
  "0 \<le> sint (weightedHeadroomScore key preferred available) \<and>
   sint (weightedHeadroomScore key preferred available) \<le> 100"
proof -
  define acc where "acc = fold (weighted_step key) (resourceRows preferred available) (0, 0)"
  have "weighted_inv acc"
    unfolding acc_def by (rule weighted_fold_inv) (simp add: weighted_inv_def)
  then have "0 \<le> rnd (fst acc / snd acc) \<and> rnd (fst acc / snd acc) \<le> 1"
    by (intro float64.fraction) (simp_all add: weighted_inv_def)
  then have "0 \<le> math_Round (rnd (rnd (fst acc / snd acc) * 100)) \<and>
      math_Round (rnd (rnd (fst acc / snd acc) * 100)) \<le> 100"
    by (simp add: percent_range)
  then show ?thesis
    by (simp add: weightedHeadroomScore_fold acc_def [symmetric] Let_def sint64_of_int)
qed

section \<open>The detail of a node\<close>

text \<open>
  The tier of a node counts exactly: the matched count is the number of dimensions with a
  positive preferred amount that the node covers, the total is the number of dimensions with a
  positive preferred amount.
\<close>
lemma preferredMatchCount_counts:
  "preferredMatchCount preferred available =
     (int (card {d. 0 < val d preferred \<and> val d preferred \<le> val d available}),
      int (card {d. 0 < val d preferred}))"
  unfolding card_dim preferredMatchCount_def resourceRows_def dims_def val_def
  by (simp add: sle_sint not_le)

text \<open>What the default scorers establish of a detail, whatever the profile and the node.\<close>

definition multipliers :: "rat set" where
  "multipliers = {0, 1, rnd (102 / 100), rnd (105 / 100), rnd (95 / 100)}"

definition detail_wf :: "NodeScoreDetail \<Rightarrow> bool" where
  "detail_wf d \<longleftrightarrow>
     0 \<le> nd_PreferredMatched d \<and> nd_PreferredMatched d \<le> nd_PreferredTotal d \<and> nd_PreferredTotal d \<le> 6 \<and>
     0 \<le> sint (nd_WeightedHeadroomScore d) \<and> sint (nd_WeightedHeadroomScore d) \<le> 100 \<and>
     nd_TimeWindowMultiplier d \<in> multipliers \<and> nd_MixBalanceMultiplier d \<in> multipliers \<and>
     nd_RuntimeRiskPenalty d \<in> {0, 8, 15} \<and>
     nd_ExtraScore d = 0 \<and> nd_ExtraMultiplier d \<in> {0, 1} \<and> nd_ExtraPenalty d = 0"

lemma timeWindowMultiplier_range: "fst (timeWindowMultiplier p n) \<in> multipliers"
  by (simp add: timeWindowMultiplier_def multipliers_def case_prod_unfold Let_def split: option.splits)

lemma mixBalanceMultiplier_range: "fst (mixBalanceMultiplier p n) \<in> multipliers"
  by (simp add: mixBalanceMultiplier_def multipliers_def Let_def split: option.splits)

lemma runtimeRiskPenalty_range: "runtimeRiskPenalty n \<in> {0, 8, 15}"
  by (simp add: runtimeRiskPenalty_def Let_def split: option.splits)

lemma match_fold_range:
  assumes "0 \<le> m" and "m \<le> t"
  shows "case fold (\<lambda>(name, p :: int32, a :: int32) (matched, total).
             if p \<le>s 0 then (matched, total)
             else (if p \<le>s a then matched + 1 else matched, total + 1)) rows (m, t) of
    (m', t') \<Rightarrow> 0 \<le> m' \<and> m' \<le> t' \<and> t' \<le> t + int (length (rows :: (string \<times> int32 \<times> int32) list))"
  using assms
proof (induction rows arbitrary: m t)
  case (Cons row rows)
  obtain name p a where "row = (name, p, a)" by (metis prod.exhaust)
  then show ?case
    using Cons.IH [of m t] Cons.IH [of "m + 1" "t + 1"] Cons.IH [of m "t + 1"] Cons.prems
    by (auto split: prod.splits)
qed simp

lemma preferredMatchCount_range:
  "0 \<le> fst (preferredMatchCount p a)" "fst (preferredMatchCount p a) \<le> snd (preferredMatchCount p a)"
  "snd (preferredMatchCount p a) \<le> 6"
  using match_fold_range [of 0 0 "resourceRows p a"]
  by (auto simp: preferredMatchCount_def resourceRows_def [of p a, THEN arg_cong, of length] split: prod.splits)

text \<open>The fields of a detail made by the default scorers.\<close>

lemmas scorer_defs =
  PreferredCoverageScorer_Score_def KeyResourceHeadroomScorer_Score_def TimeWindowScorer_Score_def
  WorkloadMixScorer_Score_def SLORiskScorer_Score_def

lemma ScoreDetail_fields:
  assumes "nst_Available (n_Status n) = Some av"
  shows "nd_PreferredMatched (ScoreDetail (Some p) (Some n)) = fst (preferredMatchCount (preferredResources (Some p)) av)"
    and "nd_PreferredTotal (ScoreDetail (Some p) (Some n)) = snd (preferredMatchCount (preferredResources (Some p)) av)"
    and "nd_WeightedHeadroomScore (ScoreDetail (Some p) (Some n)) =
      weightedHeadroomScore (focusedResourceForDemandShape (ps_DemandShape (p_Spec p))) (preferredResources (Some p)) av"
    and "nd_TimeWindowMultiplier (ScoreDetail (Some p) (Some n)) = fst (timeWindowMultiplier (Some p) (Some n))"
    and "nd_MixBalanceMultiplier (ScoreDetail (Some p) (Some n)) = fst (mixBalanceMultiplier (Some p) (Some n))"
    and "nd_RuntimeRiskPenalty (ScoreDetail (Some p) (Some n)) = runtimeRiskPenalty (Some n)"
    and "nd_ExtraScore (ScoreDetail (Some p) (Some n)) = 0"
    and "nd_ExtraMultiplier (ScoreDetail (Some p) (Some n)) = 1"
    and "nd_ExtraPenalty (ScoreDetail (Some p) (Some n)) = 0"
proof -
  define pref where "pref = preferredResources (Some p)"
  have range: "sint (word_of_int (fst (preferredMatchCount pref av)) :: int64) = fst (preferredMatchCount pref av)"
    "sint (word_of_int (snd (preferredMatchCount pref av)) :: int64) = snd (preferredMatchCount pref av)"
    using preferredMatchCount_range [of pref av] by (simp_all add: sint64_of_int)
  note unf = ScoreDetail_def BuildDetail_def NewSimplePolicy_def NewScoreComposer_def
    NewScoreComposerWithOptions_def DefaultScorers_def scorer_defs applyContribution_def Let_def
    case_prod_unfold assms pref_def [symmetric] range ScoreContribution_zero_def NodeScoreDetail_zero_def
    focusedResourceForDemandShape_def
  show "nd_PreferredMatched (ScoreDetail (Some p) (Some n)) = fst (preferredMatchCount (preferredResources (Some p)) av)"
    by (simp add: unf)
  show "nd_PreferredTotal (ScoreDetail (Some p) (Some n)) = snd (preferredMatchCount (preferredResources (Some p)) av)"
    by (simp add: unf)
  show "nd_WeightedHeadroomScore (ScoreDetail (Some p) (Some n)) =
      weightedHeadroomScore (focusedResourceForDemandShape (ps_DemandShape (p_Spec p))) (preferredResources (Some p)) av"
    by (simp add: unf)
  show "nd_TimeWindowMultiplier (ScoreDetail (Some p) (Some n)) = fst (timeWindowMultiplier (Some p) (Some n))"
    by (simp add: unf)
  show "nd_MixBalanceMultiplier (ScoreDetail (Some p) (Some n)) = fst (mixBalanceMultiplier (Some p) (Some n))"
    by (simp add: unf)
  show "nd_RuntimeRiskPenalty (ScoreDetail (Some p) (Some n)) = runtimeRiskPenalty (Some n)"
    by (simp add: unf)
  show "nd_ExtraScore (ScoreDetail (Some p) (Some n)) = 0" "nd_ExtraMultiplier (ScoreDetail (Some p) (Some n)) = 1"
    "nd_ExtraPenalty (ScoreDetail (Some p) (Some n)) = 0"
    by (simp_all add: unf)
qed

lemma ScoreDetail_missing:
  "Option.bind node (\<lambda>n. nst_Available (n_Status n)) = None \<or> profile = None \<Longrightarrow>
   ScoreDetail profile node = NodeScoreDetail_zero
     \<lparr>nd_NodeName := nd_NodeName (ScoreDetail profile node), nd_Reason := nd_Reason (ScoreDetail profile node)\<rparr>"
  by (auto simp: ScoreDetail_def BuildDetail_def Let_def split: option.splits)

lemma detail_wf_zero: "detail_wf (NodeScoreDetail_zero \<lparr>nd_NodeName := x, nd_Reason := y\<rparr>)"
  by (simp add: detail_wf_def NodeScoreDetail_zero_def multipliers_def)

lemma ScoreDetail_wf: "detail_wf (ScoreDetail profile node)"
proof (cases "Option.bind node (\<lambda>n. nst_Available (n_Status n)) = None \<or> profile = None")
  case True
  show ?thesis
    by (subst ScoreDetail_missing [OF True]) (rule detail_wf_zero)
next
  case False
  then obtain p n av where "profile = Some p" "node = Some n" and av: "nst_Available (n_Status n) = Some av"
    by (cases node) auto
  then show ?thesis
    by (simp add: detail_wf_def ScoreDetail_fields [OF av] preferredMatchCount_range
        weightedHeadroomScore_range timeWindowMultiplier_range mixBalanceMultiplier_range
        runtimeRiskPenalty_range [simplified])
qed

section \<open>The score of a node\<close>

text \<open>The effect of a multiplier on an integer score, without machine words.\<close>

definition adjusted :: "int \<Rightarrow> rat \<Rightarrow> int" where
  "adjusted k m = math_Round (rnd (of_int k * (if m \<le> 0 then 1 else m)))"

lemma multipliers_le: "m \<in> multipliers \<Longrightarrow> m \<le> 2"
proof -
  have "rnd 2 = 2" using float64.exact_int [of 2] by simp
  then have "rnd x \<le> 2" if "x \<le> 2" for x
    using float64.below [OF that] by simp
  then show "m \<in> multipliers \<Longrightarrow> m \<le> 2"
    by (auto simp: multipliers_def)
qed

lemma adjusted_range:
  assumes "0 \<le> k" and "k \<le> 1000" and "m \<le> 2"
  shows "0 \<le> adjusted k m \<and> adjusted k m \<le> 2 * k"
proof -
  let ?m = "if m \<le> 0 then 1 else m :: rat"
  have k: "0 \<le> (of_int k :: rat)" using assms(1) by simp
  have "0 \<le> ?m" "?m \<le> 2" using assms(3) by simp_all
  then have "0 \<le> of_int k * ?m" "of_int k * ?m \<le> of_int (2 * k)"
    using mult_left_mono [OF _ k, of ?m 2] k by simp_all
  moreover have "rnd (of_int (2 * k)) = of_int (2 * k)"
    using assms by (intro float64.exact_int) simp
  ultimately have "of_int 0 \<le> rnd (of_int k * ?m)" "rnd (of_int k * ?m) \<le> of_int (2 * k)"
    using float64.nonneg float64.below by simp_all
  then show ?thesis
    unfolding adjusted_def by (rule math_Round_between)
qed

lemma applyMultiplier_exact:
  assumes "0 \<le> sint s" and "sint s \<le> 1000" and "m \<le> 2"
  shows "sint (applyMultiplier s m) = adjusted (sint s) m"
proof -
  have "rnd (of_int (sint s)) = of_int (sint s)"
    using assms by (intro float64.exact_int) simp
  then have "applyMultiplier s m = word_of_int (adjusted (sint s) m)"
    by (simp add: applyMultiplier_def adjusted_def Let_def del: of_int_sint)
  with adjusted_range [OF assms] assms(2) show ?thesis
    by (simp add: sint64_of_int)
qed

lemma sint_clampScore: "sint (clampScore s) = max 0 (min 100 (sint s))"
  by (simp add: clampScore_def MaxNodeScore_def sless_sint)

lemma sint64_diff_small:
  "\<bar>sint a\<bar> \<le> 1000000 \<Longrightarrow> \<bar>sint b\<bar> \<le> 1000000 \<Longrightarrow> sint (a - b :: int64) = sint a - sint b"
  by (simp add: sint_word_ariths signed_take_bit_int_eq_self)

text \<open>
  C27. The score of a node, for every profile and node: the weighted headroom, a percentage,
  times the time window and the mix multiplier, each rounded to an integer, minus the penalty
  for runtime risk, cut to the range 0 to 100 of the scheduling framework.  No step overflows,
  and the extension fields the default scorers do not write have no effect.
\<close>
theorem node_score_exact:
  "let d = ScoreDetail profile node in
     sint (sd_Score (normalizeDetail d)) =
       max 0 (min 100
         (adjusted (adjusted (sint (nd_WeightedHeadroomScore d)) (nd_TimeWindowMultiplier d))
            (nd_MixBalanceMultiplier d) - sint (nd_RuntimeRiskPenalty d))) \<and>
     0 \<le> sint (nd_WeightedHeadroomScore d) \<and> sint (nd_WeightedHeadroomScore d) \<le> 100"
proof -
  define d where "d = ScoreDetail profile node"
  let ?w = "nd_WeightedHeadroomScore d" and ?t = "nd_TimeWindowMultiplier d"
    and ?m = "nd_MixBalanceMultiplier d" and ?p = "nd_RuntimeRiskPenalty d"
  have wf: "detail_wf d"
    unfolding d_def by (rule ScoreDetail_wf)
  then have w: "0 \<le> sint ?w" "sint ?w \<le> 100" and t: "?t \<le> 2" and m: "?m \<le> 2"
    and p: "sint ?p \<in> {0, 8, 15}" and x: "nd_ExtraScore d = 0" "nd_ExtraPenalty d = 0"
    "nd_ExtraMultiplier d \<in> {0, 1}"
    by (auto simp: detail_wf_def intro: multipliers_le)
  define a where "a = applyMultiplier ?w ?t"
  define b where "b = applyMultiplier a ?m"
  have a: "sint a = adjusted (sint ?w) ?t"
    unfolding a_def using w t by (intro applyMultiplier_exact) simp_all
  have ar: "0 \<le> sint a" "sint a \<le> 200"
    using adjusted_range [OF w(1) _ t] w(2) by (simp_all add: a)
  have b: "sint b = adjusted (sint a) ?m"
    unfolding b_def using ar m by (intro applyMultiplier_exact) simp_all
  have br: "0 \<le> sint b" "sint b \<le> 400"
    using adjusted_range [OF ar(1) _ m] ar(2) by (simp_all add: b)
  have c: "sint (applyMultiplier b (nd_ExtraMultiplier d)) = sint b"
  proof -
    have "rnd (of_int (sint b)) = of_int (sint b)"
      using br by (intro float64.exact_int) simp
    then have "adjusted (sint b) (nd_ExtraMultiplier d) = sint b"
      using x(3) by (auto simp: adjusted_def simp del: of_int_sint)
    then show ?thesis
      using x(3) br by (subst applyMultiplier_exact) auto
  qed
  have "sint (applyMultiplier b (nd_ExtraMultiplier d) - ?p) = sint b - sint ?p"
    using c br p by (subst sint64_diff_small) auto
  then have "sint (sd_Score (normalizeDetail d)) = max 0 (min 100 (sint b - sint ?p))"
    by (simp add: normalizeDetail_def Let_def x sint_clampScore a_def [symmetric] b_def [symmetric])
  with w a b show ?thesis
    by (simp add: Let_def d_def [symmetric])
qed

end
