(* ===== verification/PluginState.thy ===== *)
theory PluginState
  imports FilterPolicy ScorePolicy
begin

text \<open>
  The scheduler plugin up to scoring: the per-pod scheduling state (\<open>plugin/state.go\<close>), the
  lookups that fill it (\<open>plugin/resolver.go\<close>), and the extension points \<open>PreFilter\<close>, \<open>Filter\<close>
  (\<open>plugin/filter.go\<close>), \<open>PreScore\<close>, \<open>Score\<close> and \<open>NormalizeScore\<close> (\<open>plugin/score.go\<close>).

  The methods of \<open>schedulingState\<close> run under its mutex, so each is one atomic step and a
  concurrent run is some sequence of them.  The API server and the scheduling framework are
  not part of the repository: what a \<open>Get\<close> answers is an argument (\<open>ApiClient\<close>), and the cycle
  state is what was last written under the plugin's key, with the text of the framework's
  error for a missing entry.  Log output is not modelled.
\<close>

section \<open>Objects of the framework\<close>

datatype Code = Success | Error | Unschedulable | UnschedulableAndUnresolvable | Skip

record Status =
  fs_Code :: Code
  fs_Message :: string

record Pod =
  pod_Name :: string
  pod_Namespace :: string
  pod_UID :: string
  pod_SchedulerName :: string
  pod_Annotations :: "string \<rightharpoonup> string"

datatype ApiError = NotFound string | AlreadyExists string | Conflict string | OtherError string

fun error_text :: "ApiError \<Rightarrow> string" where
  "error_text (NotFound t) = t"
| "error_text (AlreadyExists t) = t"
| "error_text (Conflict t) = t"
| "error_text (OtherError t) = t"

fun IsNotFound :: "ApiError \<Rightarrow> bool" where
  "IsNotFound (NotFound t) = True"
| "IsNotFound e = False"

record ApiClient =
  cl_GetProfile :: "string \<Rightarrow> string \<Rightarrow> ApiError + AIWorkloadProfile"
  cl_GetNode :: "string \<Rightarrow> string \<Rightarrow> ApiError + AINodeResourceProfile"

record AstraScheduler =
  pg_client :: ApiClient
  pg_nodeResourceNamespace :: string

definition nodeResourceNamespace :: "string \<Rightarrow> string" where
  "nodeResourceNamespace env = (if env \<noteq> [] then env else ''astra-system'')"

definition SchedulerName :: string where "SchedulerName = ''astra-scheduler''"
definition WorkloadProfileAnnotation :: string where
  "WorkloadProfileAnnotation = ''astra.aiinfra.io/workload-profile''"

section \<open>The scheduling state (state.go)\<close>

text \<open>The set \<open>bestPreferredNodes\<close> is the list of its members in the order of insertion.\<close>

record schedulingState =
  ss_profile :: "AIWorkloadProfile option"
  ss_nodeResources :: "string \<rightharpoonup> AINodeResourceProfile"
  ss_scoreDetails :: "string \<rightharpoonup> NodeScoreDetail"
  ss_scoreDecisions :: "string \<rightharpoonup> ScoreDecision"
  ss_bestPreferredMatched :: int
  ss_bestPreferredScore :: int64
  ss_bestPreferredNodes :: "string list"

definition newSchedulingState :: "AIWorkloadProfile option \<Rightarrow> schedulingState" where
  "newSchedulingState profile =
     \<lparr>ss_profile = profile, ss_nodeResources = Map.empty, ss_scoreDetails = Map.empty,
      ss_scoreDecisions = Map.empty, ss_bestPreferredMatched = - 1, ss_bestPreferredScore = 1,
      ss_bestPreferredNodes = []\<rparr>"

definition Clone :: "schedulingState option \<Rightarrow> schedulingState" where
  "Clone s =
     (case s of
        None \<Rightarrow> newSchedulingState None
      | Some st \<Rightarrow>
          newSchedulingState (ss_profile st)
            \<lparr>ss_nodeResources := ss_nodeResources st, ss_scoreDetails := ss_scoreDetails st,
             ss_scoreDecisions := ss_scoreDecisions st,
             ss_bestPreferredMatched := ss_bestPreferredMatched st,
             ss_bestPreferredScore := ss_bestPreferredScore st,
             ss_bestPreferredNodes := ss_bestPreferredNodes st\<rparr>)"

definition getProfile :: "schedulingState \<Rightarrow> AIWorkloadProfile option" where
  "getProfile s = ss_profile s"

definition setProfile :: "schedulingState \<Rightarrow> AIWorkloadProfile \<Rightarrow> schedulingState" where
  "setProfile s profile = s \<lparr>ss_profile := Some profile\<rparr>"

definition getNodeResource :: "schedulingState \<Rightarrow> string \<Rightarrow> AINodeResourceProfile option" where
  "getNodeResource s nodeName = ss_nodeResources s nodeName"

definition setNodeResource ::
    "schedulingState \<Rightarrow> string \<Rightarrow> AINodeResourceProfile \<Rightarrow> schedulingState" where
  "setNodeResource s nodeName nodeResource =
     s \<lparr>ss_nodeResources := (ss_nodeResources s)(nodeName \<mapsto> nodeResource)\<rparr>"

definition recordScoreDetail ::
    "schedulingState \<Rightarrow> string \<Rightarrow> NodeScoreDetail \<Rightarrow> int64 \<times> schedulingState" where
  "recordScoreDetail s nodeName detail =
     (let s1 = s \<lparr>ss_scoreDetails := (ss_scoreDetails s)(nodeName \<mapsto> detail)\<rparr> in
      if nd_PreferredMatched detail > ss_bestPreferredMatched s1 then
        (ss_bestPreferredScore s1 + 1,
         s1 \<lparr>ss_bestPreferredMatched := nd_PreferredMatched detail,
             ss_bestPreferredScore := ss_bestPreferredScore s1 + 1,
             ss_bestPreferredNodes := [nodeName]\<rparr>)
      else if nd_PreferredMatched detail = ss_bestPreferredMatched s1 then
        (ss_bestPreferredScore s1,
         s1 \<lparr>ss_bestPreferredNodes :=
               (if nodeName \<in> set (ss_bestPreferredNodes s1) then ss_bestPreferredNodes s1
                else ss_bestPreferredNodes s1 @ [nodeName])\<rparr>)
      else (ss_bestPreferredScore s1 - 1, s1))"

definition scoreDetailSnapshot :: "schedulingState \<Rightarrow> string \<rightharpoonup> NodeScoreDetail" where
  "scoreDetailSnapshot s = ss_scoreDetails s"

definition bestScoreDetailSnapshot :: "schedulingState \<Rightarrow> string \<rightharpoonup> NodeScoreDetail" where
  "bestScoreDetailSnapshot s =
     (\<lambda>nodeName. if nodeName \<in> set (ss_bestPreferredNodes s) then ss_scoreDetails s nodeName else None)"

definition setScoreDecision :: "schedulingState \<Rightarrow> string \<Rightarrow> ScoreDecision \<Rightarrow> schedulingState" where
  "setScoreDecision s nodeName decision =
     s \<lparr>ss_scoreDecisions := (ss_scoreDecisions s)(nodeName \<mapsto> decision)\<rparr>"

definition getScoreDecision :: "schedulingState \<Rightarrow> string \<Rightarrow> ScoreDecision option" where
  "getScoreDecision s nodeName = ss_scoreDecisions s nodeName"

datatype StateData = Scheduling schedulingState | OtherData

record CycleState =
  cy_Data :: "StateData option"
  cy_ReadError :: string

definition writeState :: "CycleState \<Rightarrow> schedulingState \<Rightarrow> CycleState" where
  "writeState state s = state \<lparr>cy_Data := Some (Scheduling s)\<rparr>"

definition readSchedulingState :: "CycleState \<Rightarrow> Status + schedulingState" where
  "readSchedulingState state =
     (case cy_Data state of
        None \<Rightarrow>
          Inl \<lparr>fs_Code = Error,
               fs_Message = ''read Astra scheduling state failed: '' @ cy_ReadError state\<rparr>
      | Some (Scheduling s) \<Rightarrow> Inr s
      | Some OtherData \<Rightarrow>
          Inl \<lparr>fs_Code = Error, fs_Message = ''Astra scheduling state has unexpected type''\<rparr>)"

section \<open>Lookups (resolver.go)\<close>

definition resolveProfile :: "AstraScheduler \<Rightarrow> Pod \<Rightarrow> Status + AIWorkloadProfile" where
  "resolveProfile p pod =
     (let profileName = map_get (pod_Annotations pod) WorkloadProfileAnnotation in
      if profileName = [] then
        Inl \<lparr>fs_Code = UnschedulableAndUnresolvable,
             fs_Message = ''missing annotation '' @ WorkloadProfileAnnotation\<rparr>
      else
        (case cl_GetProfile (pg_client p) (pod_Namespace pod) profileName of
           Inr profile \<Rightarrow> Inr profile
         | Inl err \<Rightarrow>
             if IsNotFound err then
               Inl \<lparr>fs_Code = UnschedulableAndUnresolvable,
                    fs_Message = ''AIWorkloadProfile '' @ pod_Namespace pod @ ''/'' @ profileName @
                      '' not found''\<rparr>
             else
               Inl \<lparr>fs_Code = Error, fs_Message = ''get AIWorkloadProfile failed: '' @ error_text err\<rparr>))"

definition profileForPod ::
    "AstraScheduler \<Rightarrow> CycleState \<Rightarrow> Pod \<Rightarrow> (Status + AIWorkloadProfile) \<times> CycleState" where
  "profileForPod p state pod =
     (case readSchedulingState state of
        Inr s \<Rightarrow>
          (case getProfile s of
             Some profile \<Rightarrow> (Inr profile, state)
           | None \<Rightarrow>
               (case resolveProfile p pod of
                  Inl status \<Rightarrow> (Inl status, state)
                | Inr profile \<Rightarrow> (Inr profile, writeState state (setProfile s profile))))
      | Inl _ \<Rightarrow> (resolveProfile p pod, state))"

definition resolveNodeResource :: "AstraScheduler \<Rightarrow> string \<Rightarrow> Status + AINodeResourceProfile" where
  "resolveNodeResource p nodeName =
     (if nodeName = [] then Inl \<lparr>fs_Code = Error, fs_Message = ''candidate node name is empty''\<rparr>
      else
        (case cl_GetNode (pg_client p) (pg_nodeResourceNamespace p) nodeName of
           Inr nodeResource \<Rightarrow> Inr nodeResource
         | Inl err \<Rightarrow>
             if IsNotFound err then
               Inl \<lparr>fs_Code = Unschedulable,
                    fs_Message = ''AINodeResourceProfile '' @ pg_nodeResourceNamespace p @ ''/'' @
                      nodeName @ '' not found''\<rparr>
             else
               Inl \<lparr>fs_Code = Error,
                    fs_Message = ''get AINodeResourceProfile failed: '' @ error_text err\<rparr>))"

definition nodeResourceForNode ::
    "AstraScheduler \<Rightarrow> CycleState \<Rightarrow> string \<Rightarrow> (Status + AINodeResourceProfile) \<times> CycleState" where
  "nodeResourceForNode p state nodeName =
     (case readSchedulingState state of
        Inr s \<Rightarrow>
          (case getNodeResource s nodeName of
             Some nodeResource \<Rightarrow> (Inr nodeResource, state)
           | None \<Rightarrow>
               (case resolveNodeResource p nodeName of
                  Inl status \<Rightarrow> (Inl status, state)
                | Inr nodeResource \<Rightarrow>
                    (Inr nodeResource,
                     writeState state (setNodeResource s nodeName nodeResource))))
      | Inl _ \<Rightarrow> (resolveNodeResource p nodeName, state))"

section \<open>Filtering (filter.go)\<close>

definition PreFilter :: "AstraScheduler \<Rightarrow> CycleState \<Rightarrow> Pod \<Rightarrow> Status option \<times> CycleState" where
  "PreFilter p state pod =
     (if pod_SchedulerName pod \<noteq> SchedulerName then (Some \<lparr>fs_Code = Skip, fs_Message = []\<rparr>, state)
      else
        (case resolveProfile p pod of
           Inl status \<Rightarrow> (Some status, state)
         | Inr profile \<Rightarrow> (None, writeState state (newSchedulingState (Some profile)))))"

text \<open>The node of a \<open>NodeInfo\<close>: its name, or nil.\<close>

definition plugin_Filter ::
    "AstraScheduler \<Rightarrow> CycleState \<Rightarrow> Pod \<Rightarrow> string option \<Rightarrow> (Status option \<times> CycleState) go" where
  "plugin_Filter p state pod node =
     (if pod_SchedulerName pod \<noteq> SchedulerName then Returns (None, state)
      else case node of
        None \<Rightarrow> Returns (Some \<lparr>fs_Code = Error, fs_Message = ''nodeInfo has nil node''\<rparr>, state)
      | Some nodeName \<Rightarrow>
          (case profileForPod p state pod of
             (Inl status, state1) \<Rightarrow> Returns (Some status, state1)
           | (Inr profile, state1) \<Rightarrow>
               (case nodeResourceForNode p state1 nodeName of
                  (Inl status, state2) \<Rightarrow> Returns (Some status, state2)
                | (Inr nodeResource, state2) \<Rightarrow>
                    go_bind (Filter (Some profile) (Some nodeResource))
                      (\<lambda>decision.
                        if \<not> fd_Allowed decision
                        then Returns (Some \<lparr>fs_Code = Unschedulable, fs_Message = fd_Reason decision\<rparr>, state2)
                        else Returns (None, state2)))))"

section \<open>Scoring (score.go)\<close>

definition PreScore :: "CycleState \<Rightarrow> Pod \<Rightarrow> Status option \<times> CycleState" where
  "PreScore state pod =
     (if pod_SchedulerName pod \<noteq> SchedulerName then (Some \<lparr>fs_Code = Skip, fs_Message = []\<rparr>, state)
      else
        (case readSchedulingState state of
           Inl _ \<Rightarrow> (None, writeState state (newSchedulingState None))
         | Inr _ \<Rightarrow> (None, state)))"

definition Score ::
    "AstraScheduler \<Rightarrow> CycleState \<Rightarrow> Pod \<Rightarrow> string option \<Rightarrow> (int64 \<times> Status option) \<times> CycleState" where
  "Score p state pod node =
     (if pod_SchedulerName pod \<noteq> SchedulerName then ((0, None), state)
      else case node of
        None \<Rightarrow> ((0, Some \<lparr>fs_Code = Error, fs_Message = ''nodeInfo has nil node''\<rparr>), state)
      | Some nodeName \<Rightarrow>
          (case profileForPod p state pod of
             (Inl status, state1) \<Rightarrow> ((0, Some status), state1)
           | (Inr profile, state1) \<Rightarrow>
               (case nodeResourceForNode p state1 nodeName of
                  (Inl status, state2) \<Rightarrow> ((0, Some status), state2)
                | (Inr nodeResource, state2) \<Rightarrow>
                    (let detail = (ScoreDetail (Some profile) (Some nodeResource)) \<lparr>nd_NodeName := nodeName\<rparr>
                     in case readSchedulingState state2 of
                          Inl status \<Rightarrow> ((0, Some status), state2)
                        | Inr s \<Rightarrow>
                            (let (initialScore, s') = recordScoreDetail s nodeName detail
                             in ((initialScore, None), writeState state2 s'))))))"

record NodeScore =
  fns_Name :: string
  fns_Score :: int64

text \<open>
  \<open>nonBestPreferredTierScore\<close> on the decisions of the map, in the order in which Go's \<open>range\<close>
  visits them.
\<close>

definition nonBestPreferredTierScore :: "ScoreDecision list \<Rightarrow> int64" where
  "nonBestPreferredTierScore bestDecisions =
     (if bestDecisions = [] then 0
      else
        let minScore =
              fold (\<lambda>decision minScore. if sd_Score decision <s minScore then sd_Score decision else minScore)
                bestDecisions 100
        in if minScore \<le>s 0 then 0 else quot64 minScore 2)"

text \<open>The loop of \<open>NormalizeScore\<close>; \<open>scored\<close> counts the inserts into \<open>scoredNodes\<close>.\<close>

fun normalizeLoop ::
    "(string \<rightharpoonup> ScoreDecision) \<Rightarrow> (string \<rightharpoonup> NodeScoreDetail) \<Rightarrow> int64 \<Rightarrow> NodeScore list \<Rightarrow>
     schedulingState \<Rightarrow> bool \<Rightarrow> NodeScore list \<times> schedulingState \<times> bool" where
  "normalizeLoop scoreByNode allDetails loserScore [] s scored = ([], s, scored)"
| "normalizeLoop scoreByNode allDetails loserScore (score # scores) s scored =
     (case scoreByNode (fns_Name score) of
        None \<Rightarrow>
          (case allDetails (fns_Name score) of
             Some detail \<Rightarrow>
               (let decision =
                      \<lparr>sd_Score = loserScore,
                       sd_Reason = nd_Reason detail @ ''; not in best preferred-match tier''\<rparr>;
                    (scores', s', scored') =
                      normalizeLoop scoreByNode allDetails loserScore scores
                        (setScoreDecision s (fns_Name score) decision) scored
                in (score \<lparr>fns_Score := sd_Score decision\<rparr> # scores', s', scored'))
           | None \<Rightarrow>
               (let (scores', s', scored') =
                      normalizeLoop scoreByNode allDetails loserScore scores s scored
                in (score \<lparr>fns_Score := 0\<rparr> # scores', s', scored')))
      | Some decision \<Rightarrow>
          (let (scores', s', scored') =
                 normalizeLoop scoreByNode allDetails loserScore scores
                   (setScoreDecision s (fns_Name score) decision) True
           in (score \<lparr>fns_Score := sd_Score decision\<rparr> # scores', s', scored')))"

definition NormalizeScore ::
    "CycleState \<Rightarrow> Pod \<Rightarrow> NodeScore list \<Rightarrow> (Status option \<times> NodeScore list) \<times> CycleState" where
  "NormalizeScore state pod scores =
     (if pod_SchedulerName pod \<noteq> SchedulerName then ((None, scores), state)
      else
        (case readSchedulingState state of
           Inl status \<Rightarrow> ((Some status, scores), state)
         | Inr s \<Rightarrow>
             (let allDetails = scoreDetailSnapshot s;
                  bestDetails = bestScoreDetailSnapshot s;
                  scoreByNode = NormalizeScoreDetails bestDetails;
                  loserScore =
                    nonBestPreferredTierScore (List.map_filter scoreByNode (ss_bestPreferredNodes s));
                  (scores', s', scored) = normalizeLoop scoreByNode allDetails loserScore scores s False
              in ((if \<not> scored \<and> scores \<noteq> []
                   then Some \<lparr>fs_Code = Error,
                              fs_Message = ''no Astra node score details were recorded''\<rparr>
                   else None, scores'),
                  writeState state s'))))"

section \<open>The best tier\<close>

text \<open>
  The states a scheduling cycle can reach, with the nodes recorded so far: the framework
  scores each candidate node once, in any order and from several goroutines; in between,
  lookups and decisions write the other fields.
\<close>

inductive tier_reach ::
    "(string \<times> NodeScoreDetail) list \<Rightarrow> schedulingState \<Rightarrow> bool" where
  start: "tier_reach [] (newSchedulingState p)"
| visit: "tier_reach xs s \<Longrightarrow> n \<notin> fst ` set xs \<Longrightarrow> detail_wf d \<Longrightarrow>
    tier_reach (xs @ [(n, d)]) (snd (recordScoreDetail s n d))"
| other: "tier_reach xs s \<Longrightarrow>
    tier_reach xs (s \<lparr>ss_profile := p, ss_nodeResources := ns, ss_scoreDecisions := ds\<rparr>)"

definition best_tier :: "(string \<times> NodeScoreDetail) list \<Rightarrow> string set" where
  "best_tier xs =
     {n. \<exists>d. (n, d) \<in> set xs \<and> list_all (\<lambda>(m, e). nd_PreferredMatched e \<le> nd_PreferredMatched d) xs}"

definition tier_inv :: "(string \<times> NodeScoreDetail) list \<Rightarrow> schedulingState \<Rightarrow> bool" where
  "tier_inv xs s \<longleftrightarrow>
     distinct (map fst xs) \<and> ss_scoreDetails s = map_of xs \<and>
     (\<forall>n d. (n, d) \<in> set xs \<longrightarrow> nd_PreferredMatched d \<le> ss_bestPreferredMatched s) \<and>
     set (ss_bestPreferredNodes s) =
       {n. \<exists>d. (n, d) \<in> set xs \<and> nd_PreferredMatched d = ss_bestPreferredMatched s} \<and>
     (if xs = [] then ss_bestPreferredMatched s = - 1 else ss_bestPreferredNodes s \<noteq> [])"

lemma map_of_snoc: "n \<notin> fst ` set xs \<Longrightarrow> map_of (xs @ [(n, d)]) = (map_of xs)(n \<mapsto> d)"
  by (simp add: map_of_append map_add_comm dom_map_of_conv_image_fst)

lemma recordScoreDetail_fields:
  "ss_scoreDetails (snd (recordScoreDetail s n d)) = (ss_scoreDetails s)(n \<mapsto> d)"
  "ss_bestPreferredMatched (snd (recordScoreDetail s n d)) =
     max (ss_bestPreferredMatched s) (nd_PreferredMatched d)"
  "set (ss_bestPreferredNodes (snd (recordScoreDetail s n d))) =
     (if nd_PreferredMatched d > ss_bestPreferredMatched s then {n}
      else if nd_PreferredMatched d = ss_bestPreferredMatched s then insert n (set (ss_bestPreferredNodes s))
      else set (ss_bestPreferredNodes s))"
  by (auto simp: recordScoreDetail_def Let_def)

lemma tier_inv_record:
  assumes inv: "tier_inv xs s" and fresh: "n \<notin> fst ` set xs" and pos: "0 \<le> nd_PreferredMatched d"
  shows "tier_inv (xs @ [(n, d)]) (snd (recordScoreDetail s n d))"
proof -
  let ?s = "snd (recordScoreDetail s n d)"
  have le: "\<And>m e. (m, e) \<in> set xs \<Longrightarrow> nd_PreferredMatched e \<le> ss_bestPreferredMatched s"
    and best: "set (ss_bestPreferredNodes s) =
      {m. \<exists>e. (m, e) \<in> set xs \<and> nd_PreferredMatched e = ss_bestPreferredMatched s}"
    using inv by (auto simp: tier_inv_def)
  have "ss_scoreDetails ?s = map_of (xs @ [(n, d)])"
    using inv map_of_snoc [OF fresh, of d] by (simp add: tier_inv_def recordScoreDetail_fields)
  moreover have "\<forall>m e. (m, e) \<in> set (xs @ [(n, d)]) \<longrightarrow> nd_PreferredMatched e \<le> ss_bestPreferredMatched ?s"
    using le by (fastforce simp: recordScoreDetail_fields)
  moreover have "set (ss_bestPreferredNodes ?s) =
    {m. \<exists>e. (m, e) \<in> set (xs @ [(n, d)]) \<and> nd_PreferredMatched e = ss_bestPreferredMatched ?s}"
  proof -
    have "nd_PreferredMatched e \<noteq> nd_PreferredMatched d"
      if "ss_bestPreferredMatched s < nd_PreferredMatched d" "(m, e) \<in> set xs" for m e
      using le [OF that(2)] that(1) by simp
    then show ?thesis
      unfolding recordScoreDetail_fields best by (auto simp: max_def)
  qed
  moreover have "ss_bestPreferredNodes ?s \<noteq> []"
  proof -
    have "ss_bestPreferredNodes s \<noteq> [] \<or> ss_bestPreferredMatched s = - 1"
      using inv by (simp add: tier_inv_def split: if_splits)
    then have "set (ss_bestPreferredNodes ?s) \<noteq> {}"
      unfolding recordScoreDetail_fields using pos by auto
    then show ?thesis by (simp only: set_empty not_False_eq_True)
  qed
  moreover have "distinct (map fst (xs @ [(n, d)]))"
    using inv fresh by (auto simp: tier_inv_def)
  ultimately show ?thesis
    unfolding tier_inv_def by simp
qed

lemma tier_reach_inv: "tier_reach xs s \<Longrightarrow> tier_inv xs s"
proof (induction rule: tier_reach.induct)
  case (start p)
  then show ?case by (simp add: tier_inv_def newSchedulingState_def)
next
  case (visit xs s n d)
  then show ?case by (intro tier_inv_record) (simp_all add: detail_wf_def)
next
  case (other xs s p ns ds)
  then show ?case by (simp add: tier_inv_def)
qed

lemma tier_inv_best:
  assumes "tier_inv xs s" and "xs \<noteq> []"
  shows "set (ss_bestPreferredNodes s) = best_tier xs"
proof -
  obtain m where "m \<in> set (ss_bestPreferredNodes s)"
    using assms by (cases "ss_bestPreferredNodes s") (auto simp: tier_inv_def)
  then obtain e where e: "(m, e) \<in> set xs" "nd_PreferredMatched e = ss_bestPreferredMatched s"
    using assms(1) by (auto simp: tier_inv_def)
  have le: "nd_PreferredMatched d \<le> ss_bestPreferredMatched s" if "(n, d) \<in> set xs" for n d
    using that assms(1) by (auto simp: tier_inv_def)
  have "list_all (\<lambda>(m, e). nd_PreferredMatched e \<le> nd_PreferredMatched d) xs \<longleftrightarrow>
      nd_PreferredMatched d = ss_bestPreferredMatched s" if d: "(n, d) \<in> set xs" for n d
  proof
    assume "list_all (\<lambda>(m, e). nd_PreferredMatched e \<le> nd_PreferredMatched d) xs"
    with e have "ss_bestPreferredMatched s \<le> nd_PreferredMatched d"
      by (auto simp: list_all_iff)
    with le [OF d] show "nd_PreferredMatched d = ss_bestPreferredMatched s" by simp
  qed (use le in \<open>auto simp: list_all_iff\<close>)
  then show ?thesis
    using assms(1) by (auto simp: best_tier_def tier_inv_def)
qed

text \<open>
  C28. Whatever the order in which the nodes of a cycle are scored, and however other writes
  to the scheduling state interleave, the best tier is the set of the nodes whose preferred
  match count is maximal among all recorded ones, and every recorded detail is kept.
\<close>
theorem best_tier_is_argmax:
  "tier_reach xs s \<Longrightarrow> xs \<noteq> [] \<Longrightarrow>
   set (ss_bestPreferredNodes s) = best_tier xs \<and> scoreDetailSnapshot s = map_of xs \<and>
   ss_bestPreferredNodes s \<noteq> []"
  using tier_inv_best [OF tier_reach_inv] tier_reach_inv [of xs s]
  by (simp add: scoreDetailSnapshot_def tier_inv_def)

section \<open>The final scores\<close>

lemma set_map_filter: "set (List.map_filter f xs) = {y. \<exists>x\<in>set xs. f x = Some y}"
  by (force simp: List.map_filter_def)

lemma sint_quot64_2: "0 \<le> sint a \<Longrightarrow> sint (quot64 a 2) = sint a div 2"
proof -
  assume a: "0 \<le> sint a"
  have "sint a sdiv 2 = sint a div 2"
    using a by (cases "sint a = 0") (simp_all add: signed_divide_int_def)
  moreover have "- 9223372036854775808 \<le> sint a div 2" "sint a div 2 < 9223372036854775808"
    using a sint64_range [of a] by linarith+
  ultimately show ?thesis
    by (simp add: quot64_def sint64_of_int)
qed

definition min_step :: "ScoreDecision \<Rightarrow> int64 \<Rightarrow> int64" where
  "min_step decision m = (if sd_Score decision <s m then sd_Score decision else m)"

lemma min_step_sint: "sint (min_step d m) = min (sint (sd_Score d)) (sint m)"
  by (simp add: min_step_def sless_sint)

lemma min_fold_le_start: "sint (fold min_step ds m) \<le> sint m"
  by (induction ds arbitrary: m) (fastforce simp: min_step_sint intro: order_trans)+

lemma min_fold_le: "d \<in> set ds \<Longrightarrow> sint (fold min_step ds m) \<le> sint (sd_Score d)"
proof (induction ds arbitrary: m)
  case (Cons x ds)
  then show ?case
    using min_fold_le_start [of ds "min_step x m"] by (auto simp: min_step_sint)
qed simp

lemma min_fold_nonneg:
  "0 \<le> sint m \<Longrightarrow> (\<And>d. d \<in> set ds \<Longrightarrow> 0 \<le> sint (sd_Score d)) \<Longrightarrow> 0 \<le> sint (fold min_step ds m)"
  by (induction ds arbitrary: m) (simp_all add: min_step_sint)

lemma loser_score:
  assumes "\<And>d. d \<in> set ds \<Longrightarrow> 0 \<le> sint (sd_Score d)"
  shows "0 \<le> sint (nonBestPreferredTierScore ds)"
    and "d \<in> set ds \<Longrightarrow> 2 * sint (nonBestPreferredTierScore ds) \<le> sint (sd_Score d)"
proof -
  define m where "m = fold min_step ds 100"
  have m0: "0 \<le> sint m"
    unfolding m_def using assms by (intro min_fold_nonneg) simp_all
  have le: "sint m \<le> sint (sd_Score d)" if "d \<in> set ds" for d
    unfolding m_def using that by (rule min_fold_le)
  have val: "sint (nonBestPreferredTierScore ds) = (if ds = [] then 0 else sint m div 2)"
    using m0 by (auto simp: nonBestPreferredTierScore_def min_step_def [symmetric] m_def [symmetric]
        Let_def sle_sint sint_quot64_2)
  show "0 \<le> sint (nonBestPreferredTierScore ds)"
    using m0 by (simp add: val)
  show "2 * sint (nonBestPreferredTierScore ds) \<le> sint (sd_Score d)" if "d \<in> set ds"
    using le [OF that] m0 that by (auto simp: val)
qed

definition final_score ::
    "(string \<rightharpoonup> ScoreDecision) \<Rightarrow> (string \<rightharpoonup> NodeScoreDetail) \<Rightarrow> int64 \<Rightarrow> string \<Rightarrow> int64" where
  "final_score best all_details loser n =
     (case best n of Some d \<Rightarrow> sd_Score d
      | None \<Rightarrow> (case all_details n of Some d \<Rightarrow> loser | None \<Rightarrow> 0))"

lemma normalizeLoop_scores:
  "fst (normalizeLoop best ad loser scores s b) =
   map (\<lambda>x. x \<lparr>fns_Score := final_score best ad loser (fns_Name x)\<rparr>) scores"
  by (induction scores arbitrary: s b)
    (auto simp: final_score_def case_prod_unfold Let_def split: option.splits)

lemma normalizeDetail_range:
  "0 \<le> sint (sd_Score (normalizeDetail d)) \<and> sint (sd_Score (normalizeDetail d)) \<le> 100"
  by (simp add: normalizeDetail_def Let_def sint_clampScore)

definition best_decisions :: "schedulingState \<Rightarrow> string \<rightharpoonup> ScoreDecision" where
  "best_decisions s = NormalizeScoreDetails (bestScoreDetailSnapshot s)"

definition loser_of :: "schedulingState \<Rightarrow> int64" where
  "loser_of s = nonBestPreferredTierScore (List.map_filter (best_decisions s) (ss_bestPreferredNodes s))"

lemma NormalizeScore_scores:
  assumes "pod_SchedulerName pod = SchedulerName" and "readSchedulingState state = Inr s"
  shows "snd (fst (NormalizeScore state pod scores)) =
    map (\<lambda>x. x \<lparr>fns_Score := final_score (best_decisions s) (scoreDetailSnapshot s) (loser_of s) (fns_Name x)\<rparr>)
      scores"
  using assms normalizeLoop_scores [of "best_decisions s" "scoreDetailSnapshot s" "loser_of s" scores s False]
  by (simp add: NormalizeScore_def best_decisions_def loser_of_def Let_def case_prod_unfold)

text \<open>
  C29. Tiers stay apart.  After \<open>NormalizeScore\<close> every score is in the range of the framework,
  and a node outside the best tier gets at most half the score of any node in it: the
  preferred match count decides before headroom, windows, mix and risk do.
\<close>
theorem tiers_separated:
  assumes "NormalizeScore state pod scores = ((status, out), state')"
    and "pod_SchedulerName pod = SchedulerName" and "readSchedulingState state = Inr s"
    and "winner \<in> set out" and "fns_Name winner \<in> set (ss_bestPreferredNodes s)"
    and "ss_scoreDetails s (fns_Name winner) = Some dw"
    and "loser \<in> set out" and "fns_Name loser \<notin> set (ss_bestPreferredNodes s)"
  shows "2 * sint (fns_Score loser) \<le> sint (fns_Score winner) \<and>
    0 \<le> sint (fns_Score loser) \<and> sint (fns_Score winner) \<le> 100"
proof -
  define best where "best = best_decisions s"
  define ls where "ls = loser_of s"
  have out: "out = map (\<lambda>x. x \<lparr>fns_Score := final_score best (scoreDetailSnapshot s) ls (fns_Name x)\<rparr>) scores"
    using NormalizeScore_scores [OF assms(2,3), of scores] assms(1) by (simp add: best_def ls_def)
  have fin: "fns_Score x = final_score best (scoreDetailSnapshot s) ls (fns_Name x)" if "x \<in> set out" for x
    using that unfolding out by auto
  have w: "best (fns_Name winner) = Some (normalizeDetail dw)"
    using assms(5,6) by (simp add: best_def best_decisions_def NormalizeScoreDetails_def Normalize_def bestScoreDetailSnapshot_def)
  have l: "best (fns_Name loser) = None"
    using assms(8) by (simp add: best_def best_decisions_def NormalizeScoreDetails_def Normalize_def bestScoreDetailSnapshot_def)
  have pos: "0 \<le> sint (sd_Score d)" if "d \<in> set (List.map_filter best (ss_bestPreferredNodes s))" for d
    using that normalizeDetail_range
    by (auto simp: best_def best_decisions_def NormalizeScoreDetails_def Normalize_def set_map_filter)
  have mem: "normalizeDetail dw \<in> set (List.map_filter best (ss_bestPreferredNodes s))"
    using w assms(5) by (force simp: set_map_filter)
  have "sint (fns_Score winner) = sint (sd_Score (normalizeDetail dw))"
    using fin [OF assms(4)] w by (simp add: final_score_def)
  moreover have "sint (fns_Score loser) \<in> {0, sint ls}"
    using fin [OF assms(7)] l by (simp add: final_score_def split: option.splits)
  ultimately show ?thesis
    using loser_score(1) [OF pos] loser_score(2) [OF pos mem] normalizeDetail_range [of dw]
    by (auto simp: ls_def loser_of_def best_def)
qed

section \<open>Examples\<close>

definition demo_detail :: "int \<Rightarrow> NodeScoreDetail" where
  "demo_detail k =
     NodeScoreDetail_zero \<lparr>nd_PreferredMatched := k, nd_PreferredTotal := 6, nd_WeightedHeadroomScore := 50\<rparr>"

definition demo_state :: schedulingState where
  "demo_state =
     snd (recordScoreDetail (snd (recordScoreDetail (newSchedulingState None) ''node-a'' (demo_detail 1)))
            ''node-b'' (demo_detail 2))"

lemma demo_reach: "tier_reach [(''node-a'', demo_detail 1), (''node-b'', demo_detail 2)] demo_state"
proof -
  have wf: "detail_wf (demo_detail 1)" "detail_wf (demo_detail 2)"
    by (simp_all add: demo_detail_def detail_wf_def NodeScoreDetail_zero_def multipliers_def)
  have "tier_reach ([] @ [(''node-a'', demo_detail 1)])
      (snd (recordScoreDetail (newSchedulingState None) ''node-a'' (demo_detail 1)))"
    by (rule tier_reach.visit [OF tier_reach.start _ wf(1)]) simp
  then have "tier_reach (([] @ [(''node-a'', demo_detail 1)]) @ [(''node-b'', demo_detail 2)]) demo_state"
    unfolding demo_state_def by (rule tier_reach.visit [OF _ _ wf(2)]) simp
  then show ?thesis by simp
qed

theorem best_tier_is_argmax_witness:
  "set (ss_bestPreferredNodes demo_state) = {''node-b''}"
proof -
  have "nd_PreferredMatched (demo_detail k) = k" for k
    by (simp add: demo_detail_def)
  then have "best_tier [(''node-a'', demo_detail 1), (''node-b'', demo_detail 2)] = {''node-b''}"
    unfolding best_tier_def by fastforce
  with best_tier_is_argmax [OF demo_reach] show ?thesis by simp
qed

lemma demo_state_fields:
  "ss_bestPreferredNodes demo_state = [''node-b'']"
  "ss_scoreDetails demo_state = [''node-a'' \<mapsto> demo_detail 1, ''node-b'' \<mapsto> demo_detail 2]"
  by (simp_all add: demo_state_def recordScoreDetail_def newSchedulingState_def demo_detail_def Let_def)

definition demo_pod :: Pod where
  "demo_pod =
     \<lparr>pod_Name = ''p'', pod_Namespace = ''ns'', pod_UID = [], pod_SchedulerName = SchedulerName,
      pod_Annotations = Map.empty\<rparr>"

definition demo_cycle :: CycleState where
  "demo_cycle = writeState \<lparr>cy_Data = None, cy_ReadError = []\<rparr> demo_state"

definition demo_scores :: "NodeScore list" where
  "demo_scores = [\<lparr>fns_Name = ''node-a'', fns_Score = 1\<rparr>, \<lparr>fns_Name = ''node-b'', fns_Score = 3\<rparr>]"

lemma demo_cycle_reads: "readSchedulingState demo_cycle = Inr demo_state"
  by (simp add: demo_cycle_def writeState_def readSchedulingState_def)

theorem tiers_separated_witness:
  "case snd (fst (NormalizeScore demo_cycle demo_pod demo_scores)) of
     [a, b] \<Rightarrow> 2 * sint (fns_Score a) \<le> sint (fns_Score b) \<and> 0 \<le> sint (fns_Score a) \<and>
               sint (fns_Score b) \<le> 100
   | _ \<Rightarrow> False"
proof -
  have pod: "pod_SchedulerName demo_pod = SchedulerName" by (simp add: demo_pod_def)
  obtain status out state' where run: "NormalizeScore demo_cycle demo_pod demo_scores = ((status, out), state')"
    by (metis prod.exhaust)
  then obtain a b where out: "out = [a, b]" "fns_Name a = ''node-a''" "fns_Name b = ''node-b''"
    using NormalizeScore_scores [OF pod demo_cycle_reads, of demo_scores] by (auto simp: demo_scores_def)
  from tiers_separated [OF run pod demo_cycle_reads, of b "demo_detail 2" a] show ?thesis
    by (simp add: run out demo_state_fields)
qed

end
