(* ===== verification/Sha256.thy ===== *)
theory Sha256
  imports Prelude
begin

text \<open>
  The functions of Go's \<open>crypto/sha256\<close> and \<open>encoding/hex\<close> that the names of allocation
  objects use: the digest of FIPS 180-4 on a string of bytes, and its lower-case hexadecimal
  text.  Words are 32 bits wide and add with wrap-around.
\<close>

unbundle bit_operations_syntax

text \<open>
  The constants of the standard, from their origin: the first 32 bits of the fractional parts of
  the cube roots of the first 64 primes, and of the square roots of the first eight.
\<close>

definition int_root :: "nat \<Rightarrow> int \<Rightarrow> int" where
  "int_root k n = fold (\<lambda>b acc. if (acc + 2 ^ b) ^ k \<le> n then acc + 2 ^ b else acc) (rev [0..<40]) 0"

definition sha_primes :: "int list" where
  "sha_primes = filter (\<lambda>p. list_all (\<lambda>d. p mod d \<noteq> 0) [2..p - 1]) [2..311]"

definition sha_k :: "int32 list" where
  "sha_k = map (\<lambda>p. word_of_int (int_root 3 (p * 2 ^ 96))) sha_primes"

definition sha_h0 :: "int32 list" where
  "sha_h0 = map (\<lambda>p. word_of_int (int_root 2 (p * 2 ^ 64))) [2, 3, 5, 7, 11, 13, 17, 19]"

definition rotr :: "nat \<Rightarrow> int32 \<Rightarrow> int32" where
  "rotr n x = drop_bit n x OR push_bit (32 - n) x"

text \<open>Padding: a one bit, zeros up to 56 bytes modulo 64, and the length in bits as 8 bytes.\<close>

definition sha_pad :: "int list \<Rightarrow> int list" where
  "sha_pad bytes =
     (let n = length bytes; zeros = (119 - n mod 64) mod 64 in
      bytes @ [128] @ replicate zeros 0 @
      map (\<lambda>i. (8 * int n) div 256 ^ (7 - i) mod 256) [0..<8])"

fun sha_words :: "int list \<Rightarrow> int32 list" where
  "sha_words (a # b # c # d # rest) = word_of_int (((a * 256 + b) * 256 + c) * 256 + d) # sha_words rest"
| "sha_words _ = []"

text \<open>The message schedule, latest word first.\<close>

definition sha_sched_step :: "int32 list \<Rightarrow> int32 list" where
  "sha_sched_step ws =
     (let w15 = ws ! 14; w2 = ws ! 1;
          s0 = rotr 7 w15 XOR rotr 18 w15 XOR drop_bit 3 w15;
          s1 = rotr 17 w2 XOR rotr 19 w2 XOR drop_bit 10 w2
      in (ws ! 15 + s0 + ws ! 6 + s1) # ws)"

definition sha_schedule :: "int32 list \<Rightarrow> int32 list" where
  "sha_schedule block = rev ((sha_sched_step ^^ 48) (rev block))"

fun sha_round :: "int32 \<times> int32 \<Rightarrow> int32 list \<Rightarrow> int32 list" where
  "sha_round (k, w) [a, b, c, d, e, f, g, h] =
     (let s1 = rotr 6 e XOR rotr 11 e XOR rotr 25 e;
          ch = (e AND f) XOR (NOT e AND g);
          t1 = h + s1 + ch + k + w;
          s0 = rotr 2 a XOR rotr 13 a XOR rotr 22 a;
          maj = (a AND b) XOR (a AND c) XOR (b AND c);
          t2 = s0 + maj
      in [t1 + t2, a, b, c, d + t1, e, f, g])"
| "sha_round kw hs = hs"

definition sha_block :: "int32 list \<Rightarrow> int32 list \<Rightarrow> int32 list" where
  "sha_block hs block = map2 (+) hs (fold sha_round (zip sha_k (sha_schedule block)) hs)"

function sha_blocks :: "int32 list \<Rightarrow> int32 list \<Rightarrow> int32 list" where
  "sha_blocks hs ws = (if ws = [] then hs else sha_blocks (sha_block hs (take 16 ws)) (drop 16 ws))"
  by auto
termination
  by (relation "measure (\<lambda>(hs, ws). length ws)") auto

declare sha_blocks.simps [simp del]

definition hex32 :: "int32 \<Rightarrow> string" where
  "hex32 w = map (\<lambda>i. hex_char (nat (uint w div 16 ^ (7 - i) mod 16))) [0..<8]"

definition sha256_hex :: "string \<Rightarrow> string" where
  "sha256_hex s = concat (map hex32 (sha_blocks sha_h0 (sha_words (sha_pad (map of_char s)))))"

lemma length_hex32 [simp]: "length (hex32 w) = 8"
  by (simp add: hex32_def)

lemma length_sha_round: "length hs = 8 \<Longrightarrow> length (sha_round kw hs) = 8"
  by (cases "(kw, hs)" rule: sha_round.cases) (simp_all add: Let_def)

lemma length_sha_block: "length hs = 8 \<Longrightarrow> length (sha_block hs block) = 8"
proof -
  have "length (fold sha_round kws hs) = 8" if "length hs = 8" for kws
    using that by (induction kws arbitrary: hs) (simp_all add: length_sha_round)
  then show "length hs = 8 \<Longrightarrow> length (sha_block hs block) = 8"
    by (simp add: sha_block_def)
qed

lemma length_sha_blocks: "length hs = 8 \<Longrightarrow> length (sha_blocks hs ws) = 8"
proof (induction hs ws rule: sha_blocks.induct)
  case (1 hs ws)
  then show ?case
    by (subst sha_blocks.simps) (simp add: length_sha_block)
qed

lemma length_sha256_hex: "length (sha256_hex s) = 64"
proof -
  have "length (concat (map hex32 ws)) = 8 * length ws" for ws
    by (induction ws) simp_all
  then show ?thesis
    by (simp add: sha256_hex_def length_sha_blocks sha_h0_def)
qed

lemma set_sha256_hex:
  assumes "c \<in> set (sha256_hex s)"
  shows "is_digit c \<or> 97 \<le> (of_char c :: nat) \<and> (of_char c :: nat) \<le> 102"
proof -
  have hex: "is_digit (hex_char d) \<or> 97 \<le> (of_char (hex_char d) :: nat) \<and> (of_char (hex_char d) :: nat) \<le> 102"
    if "d < 16" for d
    using that by (auto simp: hex_char_def is_digit_def)
  obtain x where "c = hex_char (nat (x mod 16))"
    using assms by (auto simp: sha256_hex_def hex32_def)
  moreover have "nat (x mod 16) < 16" by simp
  ultimately show ?thesis using hex by blast
qed

end
