(* ===== verification/Reserve.thy ===== *)
theory Reserve
  imports PluginState Sha256
begin

text \<open>
  Reservation (\<open>plugin/reserve.go\<close>): the entry a pod gets in the node's allocation object, the
  names and labels derived from Kubernetes names, and the extension points \<open>Reserve\<close> and
  \<open>Unreserve\<close> with their read-modify-write loops.

  The API client and \<open>retry.RetryOnConflict\<close> of client-go are not part of the repository:
  they are the fields of \<open>AllocClient\<close>, over a type \<open>'w\<close> of states of the API server.  What the
  properties rely on is the documented behaviour of a server with no other writer in between,
  \<open>kube_store\<close>.  Strings are lists of bytes, read as ASCII: object names of Kubernetes have no
  other characters.
\<close>

section \<open>Names and labels\<close>

definition AllocationLabelManagedBy :: string where
  "AllocationLabelManagedBy = ''astra.aiinfra.io/managed-by''"
definition AllocationLabelWorkloadNamespace :: string where
  "AllocationLabelWorkloadNamespace = ''astra.aiinfra.io/workload-namespace''"
definition AllocationLabelWorkloadName :: string where
  "AllocationLabelWorkloadName = ''astra.aiinfra.io/workload-name''"
definition AllocationLabelNodeName :: string where
  "AllocationLabelNodeName = ''astra.aiinfra.io/node-name''"
definition AllocationLabelPriority :: string where
  "AllocationLabelPriority = ''astra.aiinfra.io/priority''"
definition AllocationAnnotationSourcePodName :: string where
  "AllocationAnnotationSourcePodName = ''astra.aiinfra.io/source-pod-name''"
definition AllocationAnnotationSourcePodUID :: string where
  "AllocationAnnotationSourcePodUID = ''astra.aiinfra.io/source-pod-uid''"

lemmas allocation_key_defs =
  AllocationLabelManagedBy_def AllocationLabelWorkloadNamespace_def AllocationLabelWorkloadName_def
  AllocationLabelNodeName_def AllocationLabelPriority_def AllocationAnnotationSourcePodName_def
  AllocationAnnotationSourcePodUID_def

definition name_char :: "char \<Rightarrow> bool" where
  "name_char c \<longleftrightarrow>
     (let n = (of_char c :: nat) in 97 \<le> n \<and> n \<le> 122 \<or> 48 \<le> n \<and> n \<le> 57) \<or>
     c = CHR ''-'' \<or> c = CHR ''.''"

definition sanitizeName :: "string \<Rightarrow> string" where
  "sanitizeName value =
     Trim (map (\<lambda>c. if name_char c then c else CHR ''-'') (ToLower value)) ''-.''"

definition labelValue :: "string \<Rightarrow> string" where
  "labelValue value =
     (let v = sanitizeName value in if length v \<le> 63 then v else Trim (take 63 v) ''-.'')"

definition buildAllocationName :: "string \<Rightarrow> string" where
  "buildAllocationName nodeName =
     (let suffix = take 8 (sha256_hex nodeName);
          base = sanitizeName (nodeName @ ''-allocation'')
      in if length base \<le> 253 then base
         else Trim (take 244 base) ''-.'' @ ''-'' @ suffix)"

definition workloadEntryName :: "Pod \<Rightarrow> AIWorkloadProfile option \<Rightarrow> string" where
  "workloadEntryName pod profile =
     (let namespace =
            (if pod_Namespace pod = [] \<and> profile \<noteq> None then p_Namespace (the profile)
             else pod_Namespace pod);
          nm =
            (if pod_Name pod = [] \<and> profile \<noteq> None then p_Name (the profile) else pod_Name pod)
      in sanitizeName (namespace @ ''/'' @ nm))"

definition mergeLabels :: "(string \<rightharpoonup> string) \<Rightarrow> (string \<rightharpoonup> string) \<Rightarrow> (string \<rightharpoonup> string)" where
  "mergeLabels existing labels = existing ++ labels"

section \<open>The entry of a workload\<close>

definition GroupVersion :: string where "GroupVersion = ''astra.aiinfra.io/v1alpha1''"

definition allocationActions :: "AIWorkloadProfile option \<Rightarrow> AllocationActions" where
  "allocationActions profile =
     (case Option.bind profile (\<lambda>p. ps_Policy (p_Spec p)) of
        None \<Rightarrow> AllocationActions_zero
      | Some policy \<Rightarrow>
          \<lparr>act_Reclaimable = wp_AllowBorrowing policy, act_Throttleable = wp_Throttleable policy,
           act_Pauseable = wp_Pauseable policy, act_Evictable = wp_Evictable policy\<rparr>)"

definition allocationWorkloadSpec ::
    "Pod \<Rightarrow> AIWorkloadProfile \<Rightarrow> ResourceSummary \<Rightarrow> string \<Rightarrow> string \<Rightarrow> AllocationWorkloadSpec" where
  "allocationWorkloadSpec pod profile resources allocationType reason =
     \<lparr>aw_Name = workloadEntryName pod (Some profile),
      aw_WorkloadRef =
        \<lparr>ref_APIVersion = GroupVersion, ref_Kind = ''AIWorkloadProfile'', ref_Name = p_Name profile,
         ref_Namespace = p_Namespace profile\<rparr>,
      aw_SourcePodName = pod_Name pod, aw_SourcePodUID = pod_UID pod,
      aw_WorkloadType = ps_WorkloadType (p_Spec profile), aw_Priority = ps_Priority (p_Spec profile),
      aw_DemandShape = ps_DemandShape (p_Spec profile),
      aw_TimeWindows = ps_TimeWindows (p_Spec profile),
      aw_ResourceRequest = ps_Resources (p_Spec profile), aw_AssignedGPU = None,
      aw_Resources = Some resources, aw_Desired = Some resources,
      aw_AllocationType = allocationType, aw_Actions = Some (allocationActions (Some profile)),
      aw_Reason = reason\<rparr>"

fun upsertAllocationWorkload ::
    "AllocationWorkloadSpec list \<Rightarrow> AllocationWorkloadSpec \<Rightarrow> AllocationWorkloadSpec list" where
  "upsertAllocationWorkload [] entry = [entry]"
| "upsertAllocationWorkload (w # workloads) entry =
     (if aw_Name w = aw_Name entry then entry # workloads
      else w # upsertAllocationWorkload workloads entry)"

definition removeAllocationWorkload ::
    "AllocationWorkloadSpec list \<Rightarrow> string \<Rightarrow> AllocationWorkloadSpec list" where
  "removeAllocationWorkload workloads nm = filter (\<lambda>w. aw_Name w \<noteq> nm) workloads"

definition fillAllocation ::
    "AIResourceAllocation \<Rightarrow> Pod \<Rightarrow> AIWorkloadProfile \<Rightarrow> string \<Rightarrow> ResourceSummary \<Rightarrow> string \<Rightarrow> string \<Rightarrow>
     AIResourceAllocation" where
  "fillAllocation allocation pod profile nodeName resources allocationType reason =
     (let labels =
            mergeLabels (a_Labels allocation)
              [AllocationLabelManagedBy \<mapsto> ''astra-scheduler'',
               AllocationLabelWorkloadNamespace \<mapsto> labelValue (pod_Namespace pod),
               AllocationLabelWorkloadName \<mapsto> labelValue (pod_Name pod),
               AllocationLabelNodeName \<mapsto> labelValue nodeName,
               AllocationLabelPriority \<mapsto> labelValue (ps_Priority (p_Spec profile))];
          annotations =
            mergeLabels (a_Annotations allocation)
              [AllocationAnnotationSourcePodName \<mapsto> pod_Name pod,
               AllocationAnnotationSourcePodUID \<mapsto> pod_UID pod];
          entry = allocationWorkloadSpec pod profile resources allocationType reason
      in allocation
           \<lparr>a_Meta := (a_Meta allocation) \<lparr>om_Labels := labels, om_Annotations := annotations\<rparr>,
            a_Spec :=
              (a_Spec allocation)
                \<lparr>as_Workloads := upsertAllocationWorkload (as_Workloads (a_Spec allocation)) entry,
                 as_WorkloadRef := aw_WorkloadRef entry, as_WorkloadType := aw_WorkloadType entry,
                 as_Priority := aw_Priority entry, as_DemandShape := aw_DemandShape entry,
                 as_TimeWindows := aw_TimeWindows entry,
                 as_ResourceRequest := aw_ResourceRequest entry, as_NodeName := nodeName,
                 as_Resources := aw_Resources entry, as_AllocationType := aw_AllocationType entry,
                 as_Actions := aw_Actions entry, as_Reason := reason\<rparr>\<rparr>)"

definition policyDecisionForNode :: "CycleState \<Rightarrow> string \<Rightarrow> ScoreDecision" where
  "policyDecisionForNode state nodeName =
     (let default = \<lparr>sd_Score = 0, sd_Reason = ''scheduled by AstraScheduler''\<rparr> in
      case readSchedulingState state of
        Inl _ \<Rightarrow> default
      | Inr s \<Rightarrow>
          (case getScoreDecision s nodeName of
             None \<Rightarrow> default
           | Some decision \<Rightarrow> if sd_Reason decision = [] then default else decision))"

section \<open>The extension points\<close>

record 'w AllocClient =
  al_Get :: "'w \<Rightarrow> string \<Rightarrow> string \<Rightarrow> (ApiError + AIResourceAllocation) \<times> 'w"
  al_Create :: "'w \<Rightarrow> AIResourceAllocation \<Rightarrow> ApiError option \<times> 'w"
  al_Update :: "'w \<Rightarrow> AIResourceAllocation \<Rightarrow> ApiError option \<times> 'w"
  al_Delete :: "'w \<Rightarrow> AIResourceAllocation \<Rightarrow> ApiError option \<times> 'w"
  al_NewConflict :: "string \<Rightarrow> string \<Rightarrow> ApiError \<Rightarrow> ApiError"
  al_RetryOnConflict :: "('w \<Rightarrow> ApiError option \<times> 'w) \<Rightarrow> 'w \<Rightarrow> ApiError option \<times> 'w"

fun IsAlreadyExists :: "ApiError \<Rightarrow> bool" where
  "IsAlreadyExists (AlreadyExists t) = True"
| "IsAlreadyExists e = False"

definition allocationGroupResource :: string where
  "allocationGroupResource = ''airesourceallocations.astra.aiinfra.io''"

text \<open>The body \<open>Reserve\<close> hands to the retry loop.\<close>

definition reserveAttempt ::
    "'w AllocClient \<Rightarrow> string \<Rightarrow> Pod \<Rightarrow> AIWorkloadProfile \<Rightarrow> string \<Rightarrow> ResourceSummary \<Rightarrow> string \<Rightarrow> string \<Rightarrow>
     'w \<Rightarrow> ApiError option \<times> 'w" where
  "reserveAttempt c namespace pod profile nodeName resources allocationType reason w =
     (let allocationName = buildAllocationName nodeName in
      case al_Get c w namespace allocationName of
        (Inl err, w1) \<Rightarrow>
          if \<not> IsNotFound err then (Some err, w1)
          else
            let allocation =
                  fillAllocation
                    \<lparr>a_Meta = ObjectMeta_zero \<lparr>om_Name := allocationName, om_Namespace := namespace\<rparr>,
                     a_Spec = AIResourceAllocationSpec_zero, a_Status = AIResourceAllocationStatus_zero\<rparr>
                    pod profile nodeName resources allocationType reason
            in (case al_Create c w1 allocation of
                  (Some err, w2) \<Rightarrow>
                    if IsAlreadyExists err
                    then (Some (al_NewConflict c allocationGroupResource allocationName err), w2)
                    else (Some err, w2)
                | (None, w2) \<Rightarrow> (None, w2))
      | (Inr allocation, w1) \<Rightarrow>
          al_Update c w1
            (fillAllocation allocation pod profile nodeName resources allocationType reason))"

definition plugin_Reserve ::
    "AstraScheduler \<Rightarrow> 'w AllocClient \<Rightarrow> CycleState \<Rightarrow> Pod \<Rightarrow> string \<Rightarrow> 'w \<Rightarrow>
     Status option \<times> CycleState \<times> 'w" where
  "plugin_Reserve p c state pod nodeName w =
     (if pod_SchedulerName pod \<noteq> SchedulerName then (None, state, w)
      else if nodeName = [] then
        (Some \<lparr>fs_Code = Error, fs_Message = ''reserve received empty nodeName''\<rparr>, state, w)
      else
        (case profileForPod p state pod of
           (Inl status, state1) \<Rightarrow> (Some status, state1, w)
         | (Inr profile, state1) \<Rightarrow>
             (case nodeResourceForNode p state1 nodeName of
                (Inl status, state2) \<Rightarrow> (Some status, state2, w)
              | (Inr nodeResource, state2) \<Rightarrow>
                  (let resources = AllocationResources (Some profile) (Some nodeResource);
                       decision = policyDecisionForNode state2 nodeName;
                       (err, w') =
                         al_RetryOnConflict c
                           (reserveAttempt c (pg_nodeResourceNamespace p) pod profile nodeName
                              resources (AllocationType (Some profile) resources) (sd_Reason decision))
                           w
                   in (case err of
                         None \<Rightarrow> (None, state2, w')
                       | Some e \<Rightarrow>
                           (Some \<lparr>fs_Code = Error,
                                  fs_Message = ''reserve AIResourceAllocation failed: '' @ error_text e\<rparr>,
                            state2, w'))))))"

definition unreserveAttempt ::
    "'w AllocClient \<Rightarrow> string \<Rightarrow> string \<Rightarrow> string \<Rightarrow> 'w \<Rightarrow> ApiError option \<times> 'w" where
  "unreserveAttempt c namespace allocationName entryName w =
     (case al_Get c w namespace allocationName of
        (Inl err, w1) \<Rightarrow> if IsNotFound err then (None, w1) else (Some err, w1)
      | (Inr allocation, w1) \<Rightarrow>
          (let allocation' =
                 allocation
                   \<lparr>a_Spec :=
                      (a_Spec allocation)
                        \<lparr>as_Workloads := removeAllocationWorkload (as_Workloads (a_Spec allocation)) entryName\<rparr>\<rparr>
           in if as_Workloads (a_Spec allocation') = [] then
                (case al_Delete c w1 allocation' of
                   (Some err, w2) \<Rightarrow> if IsNotFound err then (None, w2) else (Some err, w2)
                 | (None, w2) \<Rightarrow> (None, w2))
              else al_Update c w1 allocation'))"

definition plugin_Unreserve ::
    "AstraScheduler \<Rightarrow> 'w AllocClient \<Rightarrow> Pod \<Rightarrow> string \<Rightarrow> 'w \<Rightarrow> 'w" where
  "plugin_Unreserve p c pod nodeName w =
     (if pod_SchedulerName pod \<noteq> SchedulerName then w
      else
        snd (al_RetryOnConflict c
               (unreserveAttempt c (pg_nodeResourceNamespace p) (buildAllocationName nodeName)
                  (workloadEntryName pod None)) w))"

section \<open>Entries are a keyed list\<close>

lemma upsert_find:
  "key_find aw_Name k (upsertAllocationWorkload xs e) = (if k = aw_Name e then Some e else key_find aw_Name k xs)"
  by (induction xs) auto

interpretation spec_workloads: keyed_list aw_Name upsertAllocationWorkload
proof
  show "key_find aw_Name k (upsertAllocationWorkload xs e) =
    (if k = aw_Name e then Some e else key_find aw_Name k xs)" for k xs e
    by (rule upsert_find)
  show "map aw_Name (upsertAllocationWorkload xs e) =
    (if aw_Name e \<in> aw_Name ` set xs then map aw_Name xs else map aw_Name xs @ [aw_Name e])" for xs e
    by (induction xs) auto
qed

lemma remove_find:
  "key_find aw_Name k (removeAllocationWorkload xs nm) = (if k = nm then None else key_find aw_Name k xs)"
  by (induction xs) (auto simp: removeAllocationWorkload_def)

section \<open>Names\<close>

lemma Trim_Cons_out: "c \<notin> set cs \<Longrightarrow> last (c # s) \<notin> set cs \<Longrightarrow> Trim (c # s) cs = c # s"
proof -
  assume "c \<notin> set cs" "last (c # s) \<notin> set cs"
  moreover have "dropWhile (\<lambda>x. x \<in> set cs) (rev (c # s)) = rev (c # s)"
  proof (cases "rev (c # s)")
    case (Cons x xs)
    then have "x = last (c # s)" by (metis hd_rev list.sel(1))
    with Cons \<open>last (c # s) \<notin> set cs\<close> show ?thesis by simp
  qed simp
  ultimately show ?thesis by (simp add: Trim_def)
qed

lemma Trim_id: "s \<noteq> [] \<Longrightarrow> hd s \<notin> set cs \<Longrightarrow> last s \<notin> set cs \<Longrightarrow> Trim s cs = s"
  by (cases s) (simp_all add: Trim_Cons_out)

lemma set_Trim: "set (Trim s cs) \<subseteq> set s"
  unfolding Trim_def by (auto dest!: set_dropWhileD)

lemma length_Trim: "length (Trim s cs) \<le> length s"
  unfolding Trim_def by (metis length_dropWhile_le length_rev order_trans)

lemma Trim_Nil_iff: "Trim s cs = [] \<longleftrightarrow> set s \<subseteq> set cs"
proof -
  have "dropWhile (\<lambda>c. c \<in> set cs) t = [] \<longleftrightarrow> set t \<subseteq> set cs" for t
    by (auto simp: dropWhile_eq_Nil_conv)
  moreover have "set (dropWhile (\<lambda>c. c \<in> set cs) s) \<subseteq> set cs \<longleftrightarrow> set s \<subseteq> set cs"
    by (induction s) auto
  ultimately show ?thesis by (simp add: Trim_def)
qed

lemma Trim_ends:
  assumes "Trim s cs \<noteq> []"
  shows "hd (Trim s cs) \<notin> set cs" and "last (Trim s cs) \<notin> set cs"
proof -
  let ?P = "\<lambda>c. c \<in> set cs"
  define t where "t = dropWhile ?P s"
  have trim: "Trim s cs = rev (dropWhile ?P (rev t))"
    by (simp add: Trim_def t_def)
  then have ne: "dropWhile ?P (rev t) \<noteq> []" using assms by simp
  then show "last (Trim s cs) \<notin> set cs"
    using hd_dropWhile [of ?P "rev t"] by (simp add: trim last_rev)
  have "takeWhile ?P (rev t) @ dropWhile ?P (rev t) = rev t" by simp
  then have "t = rev (dropWhile ?P (rev t)) @ rev (takeWhile ?P (rev t))"
    by (metis rev_append rev_rev_ident)
  then have "hd (Trim s cs) = hd t"
    using ne unfolding trim by (metis hd_append2 rev_is_Nil_conv)
  moreover have "t \<noteq> []" using ne by auto
  ultimately show "hd (Trim s cs) \<notin> set cs"
    using hd_dropWhile [of ?P s] by (simp add: t_def)
qed

text \<open>
  The texts that \<open>sanitizeName\<close> gives: lower-case letters, digits, hyphens and dots, with an
  alphanumeric first and last character.  Every such text is a valid label value.  A valid object
  name, a subdomain of RFC 1123, has moreover an alphanumeric character on both sides of every dot.
\<close>

definition name_text :: "string \<Rightarrow> bool" where
  "name_text s \<longleftrightarrow> s \<noteq> [] \<and> list_all name_char s \<and> hd s \<notin> set ''-.'' \<and> last s \<notin> set ''-.''"

abbreviation dot_apart :: "char \<Rightarrow> char \<Rightarrow> bool" where
  "dot_apart a b \<equiv> (a = CHR ''.'' \<longrightarrow> b \<notin> set ''-.'') \<and> (b = CHR ''.'' \<longrightarrow> a \<notin> set ''-.'')"

definition dns_subdomain :: "string \<Rightarrow> bool" where
  "dns_subdomain s \<longleftrightarrow> name_text s \<and> successively dot_apart s"

lemma dns_subdomain_rejects:
  "\<not> dns_subdomain ''a..b-allocation''" "\<not> dns_subdomain ''x-.y-allocation''" "\<not> dns_subdomain ''a.-b''"
  by (simp_all add: dns_subdomain_def)

lemma Trim_infix: "\<exists>a c. s = a @ Trim s cs @ c"
proof -
  let ?P = "\<lambda>c. c \<in> set cs"
  let ?t = "dropWhile ?P s"
  have "rev ?t = takeWhile ?P (rev ?t) @ dropWhile ?P (rev ?t)" by simp
  then have "?t = Trim s cs @ rev (takeWhile ?P (rev ?t))"
    unfolding Trim_def by (metis rev_append rev_rev_ident)
  then have "s = takeWhile ?P s @ Trim s cs @ rev (takeWhile ?P (rev ?t))"
    by (metis takeWhile_dropWhile_id)
  then show ?thesis by blast
qed

lemma successively_Trim:
  assumes "successively R s"
  shows "successively R (Trim (take k s) cs)"
proof -
  obtain a c where "take k s = a @ Trim (take k s) cs @ c" using Trim_infix by blast
  then have "s = a @ Trim (take k s) cs @ c @ drop k s" by (metis append.assoc append_take_drop_id)
  with assms show ?thesis by (metis successively_append_iff)
qed

lemma dns_subdomain_append:
  assumes "dns_subdomain s" and "list_all name_char t" and "t \<noteq> []" and "last t \<notin> set ''-.''"
    and "CHR ''.'' \<notin> set t"
  shows "dns_subdomain (s @ t)"
proof -
  have "successively dot_apart t"
    using assms(5) by (induction t rule: induct_list012) auto
  moreover have "hd t \<noteq> CHR ''.''" using assms(3,5) by (cases t) auto
  ultimately show ?thesis
    using assms by (auto simp: dns_subdomain_def name_text_def successively_append_iff)
qed

lemma Trim_dns: "list_all name_char s \<Longrightarrow> Trim s ''-.'' = [] \<or> name_text (Trim s ''-.'')"
  using set_Trim [of s "''-.''"] Trim_ends [of s "''-.''"]
  by (auto simp: name_text_def list_all_iff)

lemma name_char_replaced: "list_all name_char (map (\<lambda>c. if name_char c then c else CHR ''-'') s)"
  by (auto simp: list_all_iff name_char_def)

lemma sanitizeName_dns: "sanitizeName s = [] \<or> name_text (sanitizeName s)"
  unfolding sanitizeName_def by (rule Trim_dns) (rule name_char_replaced)

lemma lower_name_char: "name_char c \<Longrightarrow> lower_char c = c"
  by (auto simp: name_char_def lower_char_def Let_def)

lemma ToLower_name: "list_all name_char s \<Longrightarrow> ToLower s = s"
  by (induction s) (simp_all add: lower_name_char)

lemma sanitizeName_id: "name_text s \<Longrightarrow> sanitizeName s = s"
proof -
  assume s: "name_text s"
  have "map (\<lambda>c. if name_char c then c else CHR ''-'') s = s"
    using s by (intro map_idI) (simp add: name_text_def list_all_iff)
  with s show ?thesis
    by (simp add: sanitizeName_def ToLower_name name_text_def Trim_id)
qed

lemma name_char_allocation: "list_all name_char ''-allocation''"
  by (simp add: name_char_def)

lemma hex_name_char:
  assumes "c \<in> set (sha256_hex s)"
  shows "name_char c" and "c \<notin> set ''-.''"
proof -
  define n where "n = (of_char c :: nat)"
  have n: "48 \<le> n \<and> n \<le> 57 \<or> 97 \<le> n \<and> n \<le> 102"
    using set_sha256_hex [OF assms] by (simp add: is_digit_def n_def)
  then have "97 \<le> n \<and> n \<le> 122 \<or> 48 \<le> n \<and> n \<le> 57" by linarith
  then show "name_char c"
    unfolding name_char_def Let_def n_def by blast
  have "c \<noteq> CHR ''-''"
  proof
    assume "c = CHR ''-''"
    then have "n = 45" by (simp add: n_def)
    with n show False by simp
  qed
  moreover have "c \<noteq> CHR ''.''"
  proof
    assume "c = CHR ''.''"
    then have "n = 46" by (simp add: n_def)
    with n show False by simp
  qed
  ultimately show "c \<notin> set ''-.''" by simp
qed

lemma allocation_base_dns: "name_text (sanitizeName (n @ ''-allocation''))"
proof -
  have "CHR ''n'' \<in> set (map (\<lambda>c. if name_char c then c else CHR ''-'') (ToLower (n @ ''-allocation'')))"
    by (simp add: name_char_def lower_char_def)
  moreover have "CHR ''n'' \<notin> set ''-.''" by simp
  ultimately have "sanitizeName (n @ ''-allocation'') \<noteq> []"
    unfolding sanitizeName_def Trim_Nil_iff by (meson subsetD)
  then show ?thesis
    using sanitizeName_dns by blast
qed

lemma dns_take:
  assumes "name_text s" and "0 < k"
  shows "name_text (Trim (take k s) ''-.'')"
proof -
  have "hd (take k s) \<notin> set ''-.''" "take k s \<noteq> []"
    using assms by (auto simp: name_text_def hd_take)
  then have "Trim (take k s) ''-.'' \<noteq> []"
    unfolding Trim_Nil_iff by (metis hd_in_set subsetD)
  moreover have "list_all name_char (take k s)"
    using assms(1) by (auto simp: name_text_def list_all_iff dest: in_set_takeD)
  ultimately show ?thesis
    using Trim_dns by blast
qed

lemma dns_append: "name_text s \<Longrightarrow> list_all name_char t \<Longrightarrow> t \<noteq> [] \<Longrightarrow> last t \<notin> set ''-.'' \<Longrightarrow> name_text (s @ t)"
  by (simp add: name_text_def)

lemma hash_suffix:
  "length (take 8 (sha256_hex n)) = 8" "list_all name_char (take 8 (sha256_hex n))"
  "last (take 8 (sha256_hex n)) \<notin> set ''-.''"
proof -
  show len: "length (take 8 (sha256_hex n)) = 8"
    by (simp add: length_sha256_hex)
  show "list_all name_char (take 8 (sha256_hex n))"
    using hex_name_char(1) by (auto simp: list_all_iff dest: in_set_takeD)
  have "last (take 8 (sha256_hex n)) \<in> set (take 8 (sha256_hex n))"
    using len by (intro last_in_set) auto
  then show "last (take 8 (sha256_hex n)) \<notin> set ''-.''"
    using hex_name_char(2) by (meson in_set_takeD)
qed

lemma buildAllocationName_subdomain:
  assumes "dns_subdomain n"
  shows "dns_subdomain (buildAllocationName n)"
proof -
  have "name_text n" using assms by (simp add: dns_subdomain_def)
  then have "name_text (n @ ''-allocation'')"
    using name_char_allocation by (intro dns_append) simp_all
  then have base: "sanitizeName (n @ ''-allocation'') = n @ ''-allocation''" by (rule sanitizeName_id)
  have sub: "dns_subdomain (n @ ''-allocation'')"
    using name_char_allocation by (intro dns_subdomain_append [OF assms]) simp_all
  let ?t = "Trim (take 244 (n @ ''-allocation'')) ''-.''"
  have "dns_subdomain ?t"
    using sub unfolding dns_subdomain_def by (intro conjI dns_take successively_Trim) simp_all
  moreover have "list_all name_char (''-'' @ take 8 (sha256_hex n))" "last (''-'' @ take 8 (sha256_hex n)) \<notin> set ''-.''"
    using hash_suffix [of n] by (auto simp: name_char_def)
  moreover have "CHR ''.'' \<notin> set (''-'' @ take 8 (sha256_hex n))"
    using hex_name_char(2) [of "CHR ''.''" n] by (auto dest: in_set_takeD)
  ultimately have "dns_subdomain (?t @ ''-'' @ take 8 (sha256_hex n))"
    by (intro dns_subdomain_append) simp_all
  with sub base show ?thesis by (simp add: buildAllocationName_def Let_def)
qed

text \<open>
  C30. Derived names are accepted by the API server.  For a node name that is a subdomain of RFC
  1123, as the API server requires of node names, the name of its allocation object is one too,
  also when it had to be cut and given a hash; for every node name, however long and whatever
  characters it has, the object name has at most 253 characters, only those of object names, and
  alphanumeric ends, and every label value is empty or a valid label value of at most 63
  characters.
\<close>
theorem derived_names_valid:
  "(dns_subdomain n \<longrightarrow> dns_subdomain (buildAllocationName n)) \<and>
   name_text (buildAllocationName n) \<and> length (buildAllocationName n) \<le> 253 \<and>
   (labelValue v = [] \<or> name_text (labelValue v)) \<and> length (labelValue v) \<le> 63"
proof -
  let ?base = "sanitizeName (n @ ''-allocation'')"
  let ?t = "Trim (take 244 ?base) ''-.''"
  have t: "name_text ?t" "length ?t \<le> 244"
    using dns_take [OF allocation_base_dns, of 244 n] length_Trim [of "take 244 ?base" "''-.''"] by simp_all
  have "name_text (?t @ ''-'' @ take 8 (sha256_hex n))"
    using hash_suffix [of n] by (intro dns_append [OF t(1)]) (auto simp: name_char_def)
  then have alloc: "name_text (buildAllocationName n) \<and> length (buildAllocationName n) \<le> 253"
    using t(2) hash_suffix(1) [of n] allocation_base_dns [of n] by (simp add: buildAllocationName_def Let_def)
  have "labelValue v = [] \<or> name_text (labelValue v)"
    using sanitizeName_dns [of v] dns_take [of "sanitizeName v" 63] by (auto simp: labelValue_def Let_def)
  moreover have "length (labelValue v) \<le> 63"
    using length_Trim [of "take 63 (sanitizeName v)" "''-.''"] by (simp add: labelValue_def Let_def)
  ultimately show ?thesis using alloc buildAllocationName_subdomain by blast
qed

theorem derived_names_valid_witness:
  "dns_subdomain (buildAllocationName ''gpu-1.pool-a.local'')"
  using derived_names_valid [of "''gpu-1.pool-a.local''"]
  by (simp add: dns_subdomain_def name_text_def name_char_def)

lemma buildAllocationName_plain:
  "name_text n \<Longrightarrow> length n \<le> 242 \<Longrightarrow> buildAllocationName n = n @ ''-allocation''"
  using name_char_allocation by (simp add: buildAllocationName_def sanitizeName_id dns_append)

text \<open>
  C31. Two nodes never share an allocation object: for node names the API server admits (and for
  every text of their characters with alphanumeric ends), up to 242 characters, the derived object names are equal only for equal node names.
\<close>
theorem allocation_names_distinct:
  "name_text m \<Longrightarrow> name_text n \<Longrightarrow> length m \<le> 242 \<Longrightarrow> length n \<le> 242 \<Longrightarrow>
   buildAllocationName m = buildAllocationName n \<longleftrightarrow> m = n"
  by (simp add: buildAllocationName_plain)

theorem allocation_names_distinct_witness:
  "buildAllocationName ''gpu-node-1'' \<noteq> buildAllocationName ''gpu-node-2''"
  using allocation_names_distinct [of "''gpu-node-1''" "''gpu-node-2''"]
  by (simp add: name_text_def name_char_def)

text \<open>
  Entry names do collide: the separator between namespace and pod name is mapped to a
  hyphen, which both parts may contain, so two pods of different namespaces with valid names can
  have the same entry name and overwrite each other in the ledger of a node.
\<close>
lemma entry_names_collide:
  "\<exists>p q. (pod_Namespace p, pod_Name p) \<noteq> (pod_Namespace q, pod_Name q) \<and>
     name_text (pod_Namespace p) \<and> name_text (pod_Name p) \<and> name_text (pod_Namespace q) \<and>
     name_text (pod_Name q) \<and> workloadEntryName p None = workloadEntryName q None"
proof -
  let ?pod = "\<lambda>ns n. \<lparr>pod_Name = n, pod_Namespace = ns, pod_UID = [], pod_SchedulerName = [],
    pod_Annotations = Map.empty\<rparr>"
  have "workloadEntryName (?pod ''team-a'' ''chat'') None = workloadEntryName (?pod ''team'' ''a-chat'') None"
    by (simp add: workloadEntryName_def sanitizeName_def name_char_def lower_char_def)
  then show ?thesis
    by (intro exI [of _ "?pod ''team-a'' ''chat''"] exI [of _ "?pod ''team'' ''a-chat''"])
      (simp add: name_text_def name_char_def)
qed

section \<open>The ledger of a node is a map from entry names\<close>

text \<open>
  The documented behaviour of the API server towards a client that nothing else races with:
  reads return what is stored, a create of an absent and an update or delete of a present
  object succeed, the server may set metadata but keeps name, labels, annotations and spec,
  and a retry loop ends with its first successful run.
\<close>

abbreviation object_key :: "AIResourceAllocation \<Rightarrow> string \<times> string" where
  "object_key a \<equiv> (a_Namespace a, a_Name a)"

definition same_object :: "AIResourceAllocation \<Rightarrow> AIResourceAllocation \<Rightarrow> bool" where
  "same_object a b \<longleftrightarrow>
     object_key a = object_key b \<and> a_Labels a = a_Labels b \<and> a_Annotations a = a_Annotations b \<and>
     a_Spec a = a_Spec b"

definition kube_store ::
    "'w AllocClient \<Rightarrow> ('w \<Rightarrow> string \<times> string \<rightharpoonup> AIResourceAllocation) \<Rightarrow> bool" where
  "kube_store c st \<longleftrightarrow>
     (\<forall>w ns n. case st w (ns, n) of
        None \<Rightarrow> \<exists>t. al_Get c w ns n = (Inl (NotFound t), w)
      | Some a \<Rightarrow> al_Get c w ns n = (Inr a, w) \<and> object_key a = (ns, n)) \<and>
     (\<forall>w a. st w (object_key a) = None \<longrightarrow>
        (\<exists>b w'. al_Create c w a = (None, w') \<and> st w' = (st w)(object_key a \<mapsto> b) \<and> same_object a b)) \<and>
     (\<forall>w a. st w (object_key a) \<noteq> None \<longrightarrow>
        (\<exists>b w'. al_Update c w a = (None, w') \<and> st w' = (st w)(object_key a \<mapsto> b) \<and> same_object a b)) \<and>
     (\<forall>w a. st w (object_key a) \<noteq> None \<longrightarrow>
        (\<exists>w'. al_Delete c w a = (None, w') \<and> st w' = (st w)(object_key a := None))) \<and>
     (\<forall>f w w'. f w = (None, w') \<longrightarrow> al_RetryOnConflict c f w = (None, w'))"

lemma kube_store_laws:
  assumes "kube_store c st"
  shows "st w (ns, n) = None \<Longrightarrow> \<exists>t. al_Get c w ns n = (Inl (NotFound t), w)"
    and "st w (ns, n) = Some a \<Longrightarrow> al_Get c w ns n = (Inr a, w) \<and> object_key a = (ns, n)"
    and "st w (object_key a) = None \<Longrightarrow>
      \<exists>b w'. al_Create c w a = (None, w') \<and> st w' = (st w)(object_key a \<mapsto> b) \<and> same_object a b"
    and "st w (object_key a) \<noteq> None \<Longrightarrow>
      \<exists>b w'. al_Update c w a = (None, w') \<and> st w' = (st w)(object_key a \<mapsto> b) \<and> same_object a b"
    and "st w (object_key a) \<noteq> None \<Longrightarrow>
      \<exists>w'. al_Delete c w a = (None, w') \<and> st w' = (st w)(object_key a := None)"
    and "f w = (None, w') \<Longrightarrow> al_RetryOnConflict c f w = (None, w')"
proof -
  note store = assms [unfolded kube_store_def]
  note get = store [THEN conjunct1, THEN spec, THEN spec, THEN spec, of w ns n]
  show "st w (ns, n) = None \<Longrightarrow> \<exists>t. al_Get c w ns n = (Inl (NotFound t), w)"
    and "st w (ns, n) = Some a \<Longrightarrow> al_Get c w ns n = (Inr a, w) \<and> object_key a = (ns, n)"
    using get by simp_all
  note rest = store [THEN conjunct2]
  show "st w (object_key a) = None \<Longrightarrow>
      \<exists>b w'. al_Create c w a = (None, w') \<and> st w' = (st w)(object_key a \<mapsto> b) \<and> same_object a b"
    by (rule rest [THEN conjunct1, rule_format])
  note rest = rest [THEN conjunct2]
  show "st w (object_key a) \<noteq> None \<Longrightarrow>
      \<exists>b w'. al_Update c w a = (None, w') \<and> st w' = (st w)(object_key a \<mapsto> b) \<and> same_object a b"
    by (rule rest [THEN conjunct1, rule_format])
  note rest = rest [THEN conjunct2]
  show "st w (object_key a) \<noteq> None \<Longrightarrow>
      \<exists>w'. al_Delete c w a = (None, w') \<and> st w' = (st w)(object_key a := None)"
    by (rule rest [THEN conjunct1, rule_format])
  show "f w = (None, w') \<Longrightarrow> al_RetryOnConflict c f w = (None, w')"
    by (rule rest [THEN conjunct2, rule_format])
qed

definition ledger_entries :: "AIResourceAllocation option \<Rightarrow> AllocationWorkloadSpec list" where
  "ledger_entries a = (case a of None \<Rightarrow> [] | Some al \<Rightarrow> as_Workloads (a_Spec al))"

lemma ledger_entries_simps [simp]:
  "ledger_entries None = []" "ledger_entries (Some a) = as_Workloads (a_Spec a)"
  by (simp_all add: ledger_entries_def)

definition node_ledger ::
    "('w \<Rightarrow> string \<times> string \<rightharpoonup> AIResourceAllocation) \<Rightarrow> 'w \<Rightarrow> string \<Rightarrow> string \<Rightarrow>
     string \<rightharpoonup> AllocationWorkloadSpec" where
  "node_ledger st w ns node = (\<lambda>k. key_find aw_Name k (ledger_entries (st w (ns, buildAllocationName node))))"

lemma fillAllocation_key: "object_key (fillAllocation a pod profile node r t why) = object_key a"
  by (simp add: fillAllocation_def Let_def)

lemma fillAllocation_entries:
  "as_Workloads (a_Spec (fillAllocation a pod profile node r t why)) =
   upsertAllocationWorkload (as_Workloads (a_Spec a)) (allocationWorkloadSpec pod profile r t why)"
  by (simp add: fillAllocation_def Let_def)

lemma allocationWorkloadSpec_name:
  "aw_Name (allocationWorkloadSpec pod profile r t why) = workloadEntryName pod (Some profile)"
  by (simp add: allocationWorkloadSpec_def)

lemma same_object_entries: "same_object a b \<Longrightarrow> as_Workloads (a_Spec b) = as_Workloads (a_Spec a)"
  by (simp add: same_object_def)

text \<open>The two bodies of the retry loops, on the object they write.\<close>

lemma reserveAttempt_object:
  assumes "kube_store c st"
  shows "\<exists>w' b. reserveAttempt c ns pod profile node r t why w = (None, w') \<and>
    st w' = (st w)((ns, buildAllocationName node) \<mapsto> b) \<and>
    as_Workloads (a_Spec b) =
      upsertAllocationWorkload (ledger_entries (st w (ns, buildAllocationName node)))
        (allocationWorkloadSpec pod profile r t why)"
proof -
  let ?n = "buildAllocationName node"
  note laws = kube_store_laws [OF assms]
  show ?thesis
  proof (cases "st w (ns, ?n)")
    case None
    let ?fresh = "\<lparr>a_Meta = ObjectMeta_zero \<lparr>om_Name := ?n, om_Namespace := ns\<rparr>,
      a_Spec = AIResourceAllocationSpec_zero, a_Status = AIResourceAllocationStatus_zero\<rparr>"
    let ?a = "fillAllocation ?fresh pod profile node r t why"
    have key: "object_key ?a = (ns, ?n)" by (simp add: fillAllocation_key)
    obtain tx where g: "al_Get c w ns ?n = (Inl (NotFound tx), w)"
      using laws(1) [OF None] by blast
    obtain b w' where cr: "al_Create c w ?a = (None, w')" "st w' = (st w)((ns, ?n) \<mapsto> b)" "same_object ?a b"
      using laws(3) [of w ?a] None key by auto
    have "as_Workloads (a_Spec b) = upsertAllocationWorkload [] (allocationWorkloadSpec pod profile r t why)"
      using same_object_entries [OF cr(3)]
      by (simp add: fillAllocation_entries AIResourceAllocationSpec_zero_def)
    with g cr(1,2) None show ?thesis
      by (intro exI [of _ w'] exI [of _ b]) (simp add: reserveAttempt_def Let_def)
  next
    case (Some a)
    let ?a = "fillAllocation a pod profile node r t why"
    have g: "al_Get c w ns ?n = (Inr a, w)" and key: "object_key ?a = (ns, ?n)"
      using laws(2) [OF Some] by (simp_all add: fillAllocation_key)
    obtain b w' where up: "al_Update c w ?a = (None, w')" "st w' = (st w)((ns, ?n) \<mapsto> b)" "same_object ?a b"
      using laws(4) [of w ?a] Some key by auto
    with g Some same_object_entries [OF up(3)] show ?thesis
      by (intro exI [of _ w'] exI [of _ b]) (simp add: reserveAttempt_def Let_def fillAllocation_entries)
  qed
qed

lemma unreserveAttempt_object:
  assumes "kube_store c st"
  shows "\<exists>w' b. unreserveAttempt c ns n nm w = (None, w') \<and> st w' = (st w)((ns, n) := b) \<and>
    ledger_entries b = removeAllocationWorkload (ledger_entries (st w (ns, n))) nm \<and>
    (b = None \<longleftrightarrow> ledger_entries b = [])"
proof -
  note laws = kube_store_laws [OF assms]
  show ?thesis
  proof (cases "st w (ns, n)")
    case None
    then obtain tx where "al_Get c w ns n = (Inl (NotFound tx), w)"
      using laws(1) by blast
    with None show ?thesis
      by (intro exI [of _ w] exI [of _ None])
        (simp add: unreserveAttempt_def removeAllocationWorkload_def fun_upd_idem)
  next
    case (Some a)
    define ws where "ws = removeAllocationWorkload (as_Workloads (a_Spec a)) nm"
    define a' where "a' = a \<lparr>a_Spec := (a_Spec a) \<lparr>as_Workloads := ws\<rparr>\<rparr>"
    have g: "al_Get c w ns n = (Inr a, w)" and key: "object_key a' = (ns, n)"
      using laws(2) [OF Some] by (simp_all add: a'_def)
    have run: "unreserveAttempt c ns n nm w =
        (if ws = [] then (case al_Delete c w a' of
            (Some err, w2) \<Rightarrow> if IsNotFound err then (None, w2) else (Some err, w2) | (None, w2) \<Rightarrow> (None, w2))
         else al_Update c w a')"
      by (simp add: unreserveAttempt_def g a'_def ws_def [symmetric] Let_def)
    show ?thesis
    proof (cases "ws = []")
      case True
      obtain w' where "al_Delete c w a' = (None, w')" "st w' = (st w)((ns, n) := None)"
        using laws(5) [of w a'] Some key by auto
      with True run Some show ?thesis
        by (intro exI [of _ w'] exI [of _ None]) (simp add: ws_def [symmetric])
    next
      case False
      obtain b w' where up: "al_Update c w a' = (None, w')" "st w' = (st w)((ns, n) \<mapsto> b)" "same_object a' b"
        using laws(4) [of w a'] Some key by auto
      have "as_Workloads (a_Spec b) = ws"
        using same_object_entries [OF up(3)] by (simp add: a'_def)
      with False run up(1,2) Some show ?thesis
        by (intro exI [of _ w'] exI [of _ "Some b"]) (simp add: ws_def [symmetric])
    qed
  qed
qed

lemma Reserve_writes:
  assumes "kube_store c st"
    and "pod_SchedulerName pod = SchedulerName" and "node \<noteq> []"
    and "profileForPod p state pod = (Inr profile, state1)"
    and "nodeResourceForNode p state1 node = (Inr nr, state2)"
    and "r = AllocationResources (Some profile) (Some nr)"
    and "ns = pg_nodeResourceNamespace p" and "n = buildAllocationName node"
  shows "\<exists>w' b. plugin_Reserve p c state pod node w = (None, state2, w') \<and> st w' = (st w)((ns, n) \<mapsto> b) \<and>
    as_Workloads (a_Spec b) =
      upsertAllocationWorkload (ledger_entries (st w (ns, n)))
        (allocationWorkloadSpec pod profile r (AllocationType (Some profile) r)
           (sd_Reason (policyDecisionForNode state2 node)))"
proof -
  let ?f = "reserveAttempt c ns pod profile node r (AllocationType (Some profile) r)
    (sd_Reason (policyDecisionForNode state2 node))"
  obtain w' b where run: "?f w = (None, w')" and out: "st w' = (st w)((ns, n) \<mapsto> b)"
      "as_Workloads (a_Spec b) =
        upsertAllocationWorkload (ledger_entries (st w (ns, n)))
          (allocationWorkloadSpec pod profile r (AllocationType (Some profile) r)
             (sd_Reason (policyDecisionForNode state2 node)))"
    using reserveAttempt_object [OF assms(1), where ns = ns and pod = pod and profile = profile and node = node
        and r = r and t = "AllocationType (Some profile) r"
        and why = "sd_Reason (policyDecisionForNode state2 node)" and w = w, folded assms(8)]
    by (elim exE conjE) (rule that)
  have "plugin_Reserve p c state pod node w = (None, state2, w')"
    using assms(2-) kube_store_laws(6) [OF assms(1), of ?f, OF run]
    by (simp add: plugin_Reserve_def Let_def)
  with out show ?thesis by (intro exI [of _ w'] exI [of _ b] conjI)
qed

text \<open>A reservation that fails before its write leaves the server alone.\<close>

lemma Reserve_cases:
  "(\<exists>status s. plugin_Reserve p c state pod node w = (status, s, w)) \<or>
   (\<exists>profile state1 nr state2. pod_SchedulerName pod = SchedulerName \<and> node \<noteq> [] \<and>
      profileForPod p state pod = (Inr profile, state1) \<and>
      nodeResourceForNode p state1 node = (Inr nr, state2))"
  by (auto simp: plugin_Reserve_def split: sum.splits prod.splits)

lemma Unreserve_writes:
  assumes "kube_store c st" and "pod_SchedulerName pod = SchedulerName"
    and "ns = pg_nodeResourceNamespace p" and "n = buildAllocationName node"
  shows "\<exists>w' b. plugin_Unreserve p c pod node w = w' \<and> st w' = (st w)((ns, n) := b) \<and>
    ledger_entries b = removeAllocationWorkload (ledger_entries (st w (ns, n))) (workloadEntryName pod None) \<and>
    (b = None \<longleftrightarrow> ledger_entries b = [])"
proof -
  let ?f = "unreserveAttempt c ns n (workloadEntryName pod None)"
  obtain w' b where run: "?f w = (None, w')" and out: "st w' = (st w)((ns, n) := b)"
      "ledger_entries b = removeAllocationWorkload (ledger_entries (st w (ns, n))) (workloadEntryName pod None)"
      "b = None \<longleftrightarrow> ledger_entries b = []"
    using unreserveAttempt_object [OF assms(1), where ns = ns and n = n
        and nm = "workloadEntryName pod None" and w = w]
    by (elim exE conjE) (rule that)
  have "plugin_Unreserve p c pod node w = w'"
    using kube_store_laws(6) [OF assms(1), of ?f, OF run] assms(2-) by (simp add: plugin_Unreserve_def)
  with out show ?thesis by (intro exI [of _ w'] exI [of _ b] conjI)
qed

lemma entry_name_of_named_pod:
  "pod_Name pod \<noteq> [] \<Longrightarrow> pod_Namespace pod \<noteq> [] \<Longrightarrow> workloadEntryName pod profile = workloadEntryName pod None"
  by (simp add: workloadEntryName_def)

section \<open>A server without other clients\<close>

text \<open>The smallest server with that behaviour: a map from namespace and name to the object, whose
  retry loop never has to retry.\<close>

definition map_client :: "(string \<times> string \<rightharpoonup> AIResourceAllocation) AllocClient" where
  "map_client =
     \<lparr>al_Get = (\<lambda>w ns n. (case w (ns, n) of
         None \<Rightarrow> Inl (NotFound ''not found'')
       | Some a \<Rightarrow> Inr (a \<lparr>a_Meta := (a_Meta a) \<lparr>om_Name := n, om_Namespace := ns\<rparr>\<rparr>), w)),
      al_Create = (\<lambda>w a. case w (object_key a) of
         None \<Rightarrow> (None, w(object_key a \<mapsto> a)) | Some _ \<Rightarrow> (Some (AlreadyExists ''exists''), w)),
      al_Update = (\<lambda>w a. case w (object_key a) of
         None \<Rightarrow> (Some (NotFound ''not found''), w) | Some _ \<Rightarrow> (None, w(object_key a \<mapsto> a))),
      al_Delete = (\<lambda>w a. case w (object_key a) of
         None \<Rightarrow> (Some (NotFound ''not found''), w) | Some _ \<Rightarrow> (None, w(object_key a := None))),
      al_NewConflict = (\<lambda>gr n e. e),
      al_RetryOnConflict = (\<lambda>f. f)\<rparr>"

definition map_objects ::
    "(string \<times> string \<rightharpoonup> AIResourceAllocation) \<Rightarrow> (string \<times> string \<rightharpoonup> AIResourceAllocation)" where
  "map_objects w = (\<lambda>(ns, n). map_option (\<lambda>a. a \<lparr>a_Meta := (a_Meta a) \<lparr>om_Name := n, om_Namespace := ns\<rparr>\<rparr>) (w (ns, n)))"

lemma map_objects_update:
  "map_objects (w(object_key a \<mapsto> a)) = (map_objects w)(object_key a \<mapsto> a)"
  "map_objects (w(object_key a := None)) = (map_objects w)(object_key a := None)"
  by (auto simp: map_objects_def fun_eq_iff)

lemma kube_store_map_client: "kube_store map_client map_objects"
  unfolding kube_store_def
proof (intro conjI allI impI)
  fix w :: "string \<times> string \<rightharpoonup> AIResourceAllocation" and ns n a
  show "case map_objects w (ns, n) of
        None \<Rightarrow> \<exists>t. al_Get map_client w ns n = (Inl (NotFound t), w)
      | Some a \<Rightarrow> al_Get map_client w ns n = (Inr a, w) \<and> object_key a = (ns, n)"
    by (cases "w (ns, n)") (simp_all add: map_objects_def map_client_def)
  have none: "map_objects w (object_key a) = None \<longleftrightarrow> w (object_key a) = None"
    by (simp add: map_objects_def)
  note steps = map_client_def same_object_def map_objects_update
  show "\<exists>b w'. al_Create map_client w a = (None, w') \<and>
      map_objects w' = (map_objects w)(object_key a \<mapsto> b) \<and> same_object a b"
    if "map_objects w (object_key a) = None"
    using that none by (intro exI [of _ a] exI [of _ "w(object_key a \<mapsto> a)"]) (simp add: steps)
  show "\<exists>b w'. al_Update map_client w a = (None, w') \<and>
      map_objects w' = (map_objects w)(object_key a \<mapsto> b) \<and> same_object a b"
    if "map_objects w (object_key a) \<noteq> None"
    using that none by (intro exI [of _ a] exI [of _ "w(object_key a \<mapsto> a)"]) (auto simp: steps)
  show "\<exists>w'. al_Delete map_client w a = (None, w') \<and> map_objects w' = (map_objects w)(object_key a := None)"
    if "map_objects w (object_key a) \<noteq> None"
    using that none by (intro exI [of _ "w(object_key a := None)"]) (auto simp: steps)
qed (simp add: map_client_def)

section \<open>Reserving and giving back\<close>


definition sample_plugin :: AstraScheduler where
  "sample_plugin =
     \<lparr>pg_client = \<lparr>cl_GetProfile = (\<lambda>ns n. Inr example_profile), cl_GetNode = (\<lambda>ns n. Inr example_node)\<rparr>,
      pg_nodeResourceNamespace = ''astra-system''\<rparr>"

definition sample_pod :: Pod where
  "sample_pod =
     \<lparr>pod_Name = ''chat-0'', pod_Namespace = ''team'', pod_UID = ''u1'', pod_SchedulerName = SchedulerName,
      pod_Annotations = [WorkloadProfileAnnotation \<mapsto> ''chat'']\<rparr>"

definition sample_state :: CycleState where "sample_state = \<lparr>cy_Data = None, cy_ReadError = []\<rparr>"

lemma sample_lookups:
  "profileForPod sample_plugin sample_state sample_pod = (Inr example_profile, sample_state)"
  "nodeResourceForNode sample_plugin sample_state ''n1'' = (Inr example_node, sample_state)"
  by (simp_all add: profileForPod_def nodeResourceForNode_def readSchedulingState_def resolveProfile_def
      resolveNodeResource_def sample_plugin_def sample_state_def sample_pod_def Let_def map_get_def)

lemma sample_pod_simps:
  "pod_SchedulerName sample_pod = SchedulerName" "pod_Name sample_pod = ''chat-0''"
  "pod_Namespace sample_pod = ''team''"
  by (simp_all add: sample_pod_def)


text \<open>
  C7. Unreserve takes back what Reserve wrote: whatever Reserve returned, Unreserve afterwards
  leaves the node's ledger as it was before, less the entry of the pod; it leaves no empty
  allocation object behind and changes no other object of the server.  The ledger is exactly
  restored if and only if the pod had no entry on the node before; an earlier entry of the same
  name, which Reserve overwrote, is removed and not restored.
\<close>
theorem Unreserve_undoes_Reserve:
  assumes "kube_store c st"
    and "pod_SchedulerName pod = SchedulerName" and "pod_Name pod \<noteq> []" and "pod_Namespace pod \<noteq> []"
    and "ns = pg_nodeResourceNamespace p"
    and "plugin_Reserve p c state pod node w = (status, state', w1)"
    and "plugin_Unreserve p c pod node w1 = w2"
  shows "node_ledger st w2 ns node = (node_ledger st w ns node)(workloadEntryName pod None := None) \<and>
    (node_ledger st w2 ns node = node_ledger st w ns node \<longleftrightarrow>
      node_ledger st w ns node (workloadEntryName pod None) = None) \<and>
    (st w2 (ns, buildAllocationName node) = None \<longleftrightarrow>
      dom (node_ledger st w ns node) \<subseteq> {workloadEntryName pod None}) \<and>
    (\<forall>k. k \<noteq> (ns, buildAllocationName node) \<longrightarrow> st w2 k = st w k)"
proof -
  let ?n = "buildAllocationName node" and ?e = "workloadEntryName pod None"
  have w1: "(\<lambda>k. key_find aw_Name k (ledger_entries (st w1 (ns, ?n))))(?e := None) =
      (node_ledger st w ns node)(?e := None) \<and> (\<forall>k. k \<noteq> (ns, ?n) \<longrightarrow> st w1 k = st w k)"
    using Reserve_cases [of p c state pod node w]
  proof (elim disjE exE conjE)
    fix status' s assume "plugin_Reserve p c state pod node w = (status', s, w)"
    then show ?thesis using assms(6) by (simp add: node_ledger_def)
  next
    fix profile state1 nr state2
    assume "node \<noteq> []" "profileForPod p state pod = (Inr profile, state1)"
      "nodeResourceForNode p state1 node = (Inr nr, state2)"
    from Reserve_writes [OF assms(1,2) this refl assms(5) refl, of w] show ?thesis
      using assms(6) entry_name_of_named_pod [OF assms(3,4), of "Some profile"]
      by (auto simp: node_ledger_def fun_eq_iff spec_workloads.find_upsert allocationWorkloadSpec_name)
  qed
  obtain b where st: "st w2 = (st w1)((ns, ?n) := b)"
    and b: "ledger_entries b = removeAllocationWorkload (ledger_entries (st w1 (ns, ?n))) ?e"
      "b = None \<longleftrightarrow> ledger_entries b = []"
    using Unreserve_writes [OF assms(1,2,5) refl, of node w1] assms(7) by auto
  have ledger: "node_ledger st w2 ns node = (node_ledger st w ns node)(?e := None)"
    using w1 by (simp add: node_ledger_def st b remove_find fun_eq_iff)
  have "dom (node_ledger st w2 ns node) = aw_Name ` set (ledger_entries b)"
    by (auto simp: node_ledger_def st dom_def key_find_None_iff simp flip: not_None_eq)
  moreover have "dom (node_ledger st w2 ns node) = {} \<longleftrightarrow> dom (node_ledger st w ns node) \<subseteq> {?e}"
    unfolding ledger by auto
  moreover have "node_ledger st w2 ns node = node_ledger st w ns node \<longleftrightarrow> node_ledger st w ns node ?e = None"
    unfolding ledger by (metis fun_upd_same fun_upd_triv)
  ultimately show ?thesis
    using ledger w1 b(2) by (simp add: st)
qed

theorem Unreserve_undoes_Reserve_witness:
  "map_objects (plugin_Unreserve sample_plugin map_client sample_pod ''n1''
     (snd (snd (plugin_Reserve sample_plugin map_client sample_state sample_pod ''n1'' Map.empty))))
     (''astra-system'', buildAllocationName ''n1'') = None"
proof -
  obtain status s w1 where run:
      "plugin_Reserve sample_plugin map_client sample_state sample_pod ''n1'' Map.empty = (status, s, w1)"
    by (cases "plugin_Reserve sample_plugin map_client sample_state sample_pod ''n1'' Map.empty")
  have empty: "node_ledger map_objects Map.empty ''astra-system'' ''n1'' = Map.empty"
    by (simp add: node_ledger_def map_objects_def)
  have ns: "''astra-system'' = pg_nodeResourceNamespace sample_plugin"
    by (simp add: sample_plugin_def)
  show ?thesis
    using Unreserve_undoes_Reserve [OF kube_store_map_client sample_pod_simps(1) _ _ ns run refl]
    by (simp add: sample_pod_simps empty run)
qed

section \<open>Every reachable ledger\<close>

text \<open>The servers that reservations and releases of this plugin lead to, in any order and for
  any pods, nodes and cycle states.\<close>

inductive ledger_run :: "AstraScheduler \<Rightarrow> 'w AllocClient \<Rightarrow> 'w \<Rightarrow> 'w \<Rightarrow> bool" for p c w0 where
  start: "ledger_run p c w0 w0"
| reserve: "ledger_run p c w0 w \<Longrightarrow> plugin_Reserve p c state pod node w = (status, state', w') \<Longrightarrow>
    ledger_run p c w0 w'"
| unreserve: "ledger_run p c w0 w \<Longrightarrow> ledger_run p c w0 (plugin_Unreserve p c pod node w)"

inductive_cases ledger_runE: "ledger_run p c w0 w"

text \<open>An entry as a reservation writes it: what the policy grants a profile on a node.\<close>

definition granted :: "AllocationWorkloadSpec \<Rightarrow> bool" where
  "granted e \<longleftrightarrow> (\<exists>pod profile nr r why. r = AllocationResources (Some profile) (Some nr) \<and>
     e = allocationWorkloadSpec pod profile r (AllocationType (Some profile) r) why)"

lemma granted_spec:
  "granted (allocationWorkloadSpec pod profile (AllocationResources (Some profile) (Some nr))
     (AllocationType (Some profile) (AllocationResources (Some profile) (Some nr))) why)"
  unfolding granted_def by blast

definition ledger_ok :: "AllocationWorkloadSpec list \<Rightarrow> bool" where
  "ledger_ok es \<longleftrightarrow> es \<noteq> [] \<and> distinct (map aw_Name es) \<and> (\<forall>e\<in>set es. granted e)"

lemma ledger_ok_upsert:
  assumes "es = [] \<or> ledger_ok es" and "granted e"
  shows "ledger_ok (upsertAllocationWorkload es e)"
proof -
  have "distinct (map aw_Name es)" using assms(1) by (auto simp: ledger_ok_def)
  then show ?thesis
    using assms spec_workloads.set_upsert_subset [of es e] spec_workloads.distinct_upsert [of es e]
      spec_workloads.upsert_not_Nil [of es e]
    by (auto simp: ledger_ok_def)
qed

lemma ledger_ok_remove:
  "es = [] \<or> ledger_ok es \<Longrightarrow> removeAllocationWorkload es nm = [] \<or> ledger_ok (removeAllocationWorkload es nm)"
  by (auto simp: ledger_ok_def removeAllocationWorkload_def distinct_map_filter)

text \<open>The invariant: every object of the server is a ledger in the plugin's namespace.\<close>

definition server_ok ::
    "('w \<Rightarrow> string \<times> string \<rightharpoonup> AIResourceAllocation) \<Rightarrow> AstraScheduler \<Rightarrow> 'w \<Rightarrow> bool" where
  "server_ok st p w \<longleftrightarrow> (\<forall>ns n a. st w (ns, n) = Some a \<longrightarrow>
     ns = pg_nodeResourceNamespace p \<and> ledger_ok (as_Workloads (a_Spec a)))"

lemma server_ok_entries: "server_ok st p w \<Longrightarrow> ledger_entries (st w k) = [] \<or> ledger_ok (ledger_entries (st w k))"
  by (cases k; cases "st w k") (auto simp: server_ok_def)

lemma server_ok_upd:
  "server_ok st p w \<Longrightarrow> st w' = (st w)((pg_nodeResourceNamespace p, n) := b) \<Longrightarrow>
   b = None \<or> ledger_ok (ledger_entries b) \<Longrightarrow> server_ok st p w'"
  by (auto simp: server_ok_def)

lemma server_ok_Reserve:
  assumes "kube_store c st" and "server_ok st p w"
    and "plugin_Reserve p c state pod node w = (status, state', w')"
  shows "server_ok st p w'"
  using Reserve_cases [of p c state pod node w]
proof (elim disjE exE conjE)
  fix status' s assume "plugin_Reserve p c state pod node w = (status', s, w)"
  then show ?thesis using assms by simp
next
  fix profile state1 nr state2
  assume prem: "pod_SchedulerName pod = SchedulerName" "node \<noteq> []"
    "profileForPod p state pod = (Inr profile, state1)"
    "nodeResourceForNode p state1 node = (Inr nr, state2)"
  obtain b e where "st w' = (st w)((pg_nodeResourceNamespace p, buildAllocationName node) \<mapsto> b)"
    and b: "as_Workloads (a_Spec b) = upsertAllocationWorkload
      (ledger_entries (st w (pg_nodeResourceNamespace p, buildAllocationName node))) e"
    and "granted e"
    using Reserve_writes [OF assms(1) prem refl refl refl, of w] assms(3) granted_spec by auto
  then show ?thesis
    using server_ok_upd [OF assms(2)] ledger_ok_upsert [OF server_ok_entries [OF assms(2)]] by simp
qed

lemma server_ok_Unreserve:
  assumes "kube_store c st" and "server_ok st p w"
  shows "server_ok st p (plugin_Unreserve p c pod node w)"
proof (cases "pod_SchedulerName pod = SchedulerName")
  case True
  obtain b where st: "st (plugin_Unreserve p c pod node w) =
      (st w)((pg_nodeResourceNamespace p, buildAllocationName node) := b)"
    and b: "ledger_entries b = removeAllocationWorkload
        (ledger_entries (st w (pg_nodeResourceNamespace p, buildAllocationName node))) (workloadEntryName pod None)"
      "b = None \<longleftrightarrow> ledger_entries b = []"
    using Unreserve_writes [OF assms(1) True refl refl, of p node w] by auto
  show ?thesis
    using server_ok_upd [OF assms(2) st] b ledger_ok_remove [OF server_ok_entries [OF assms(2)]] by metis
next
  case False
  then show ?thesis using assms(2) by (simp add: plugin_Unreserve_def)
qed

text \<open>
  C8. The ledger invariant: whatever the order of reservations and releases on whatever nodes, on
  a server that started without allocation objects every object is in the plugin's namespace,
  holds at least one entry, has at most one entry per name, and each entry carries exactly the
  resources and the allocation type that the policy grants its profile on some node.
\<close>
theorem reachable_ledgers_ok:
  assumes "kube_store c st" and "ledger_run p c w0 w" and "st w0 = Map.empty" and "st w (ns, n) = Some a"
  shows "ns = pg_nodeResourceNamespace p \<and> ledger_ok (as_Workloads (a_Spec a))"
proof -
  have "server_ok st p w"
    using assms(2)
  proof (induction rule: ledger_run.induct)
    case start
    then show ?case by (simp add: server_ok_def assms(3))
  next
    case (reserve w state pod node status state' w')
    then show ?case by (blast intro: server_ok_Reserve [OF assms(1)])
  next
    case (unreserve w pod node)
    then show ?case by (blast intro: server_ok_Unreserve [OF assms(1)])
  qed
  then show ?thesis using assms(4) by (simp add: server_ok_def)
qed

lemma sample_run:
  obtains w' b where "plugin_Reserve sample_plugin map_client sample_state sample_pod ''n1'' Map.empty =
      (None, sample_state, w')"
    and "map_objects w' (''astra-system'', buildAllocationName ''n1'') = Some b"
  using Reserve_writes [OF kube_store_map_client sample_pod_simps(1) _ sample_lookups refl refl refl,
      of Map.empty]
  by (auto simp: sample_plugin_def)

theorem reachable_ledgers_ok_witness:
  "\<exists>w' b. plugin_Reserve sample_plugin map_client sample_state sample_pod ''n1'' Map.empty =
      (None, sample_state, w') \<and>
     map_objects w' (''astra-system'', buildAllocationName ''n1'') = Some b \<and>
     ledger_ok (as_Workloads (a_Spec b))"
proof -
  obtain w' b where run: "plugin_Reserve sample_plugin map_client sample_state sample_pod ''n1'' Map.empty =
      (None, sample_state, w')"
    and b: "map_objects w' (''astra-system'', buildAllocationName ''n1'') = Some b"
    by (rule sample_run)
  have empty: "map_objects Map.empty = Map.empty"
    by (simp add: map_objects_def fun_eq_iff)
  have "ledger_run sample_plugin map_client Map.empty w'"
    using ledger_run.start run by (rule ledger_run.reserve)
  from reachable_ledgers_ok [where st = map_objects, OF kube_store_map_client this empty b] run b
  show ?thesis by blast
qed

end
