(* ===== verification/AllocationLedger.thy ===== *)
theory AllocationLedger
  imports Reserve
begin

text \<open>
  The agent's reading of the node ledger (\<open>agent/allocation_ledger.go\<close>) and its hourly forecast
  (\<open>agent/hourly_forecast.go\<close>): one allocation per entry of the ledger, the status entry of a
  workload, the totals over the status entries and the twenty-four buckets of a forecast.
  The window test of the forecast is in \<open>TimeWindows\<close>.
\<close>

section \<open>The hourly forecast (hourly\_forecast.go)\<close>

definition hourlyForecastBucketCount :: nat where "hourlyForecastBucketCount = 24"

definition agent_resourceSummaryIsZero :: "ResourceSummary \<Rightarrow> bool" where
  "agent_resourceSummaryIsZero value \<longleftrightarrow>
     GPUCount value = 0 \<and> GPUMemoryGiB value = 0 \<and> KVCacheGiB value = 0 \<and>
     PrefillTokensPerSecond value = 0 \<and> DecodeTokensPerSecond value = 0 \<and>
     TotalTokensPerSecond value = 0"

definition emptyHourlyForecast :: "Time option \<Rightarrow> HourlyResourceForecast" where
  "emptyHourlyForecast generatedAt =
     \<lparr>hf_GeneratedAt = generatedAt, hf_Timezone = [],
      hf_ResourceBuckets = replicate hourlyForecastBucketCount ResourceSummary_zero\<rparr>"

definition requiredForecastResources :: "AIResourceAllocation \<Rightarrow> ResourceSummary" where
  "requiredForecastResources allocation =
     (case Option.bind (as_ResourceRequest (a_Spec allocation)) wr_Required of
        Some required \<Rightarrow> required
      | None \<Rightarrow>
          (case as_Resources (a_Spec allocation) of
             Some resources \<Rightarrow> resources
           | None \<Rightarrow> ResourceSummary_zero))"

definition maxForecastResources :: "AIResourceAllocation \<Rightarrow> ResourceSummary" where
  "maxForecastResources allocation =
     (case as_ResourceRequest (a_Spec allocation) of
        None \<Rightarrow> requiredForecastResources allocation
      | Some request \<Rightarrow>
          (case wr_Max request of
             Some m \<Rightarrow> m
           | None \<Rightarrow>
               (case wr_Preferred request of
                  Some p \<Rightarrow> p
                | None \<Rightarrow> requiredForecastResources allocation)))"

fun forecastTimezone :: "TimeWindow list \<Rightarrow> string" where
  "forecastTimezone [] = []"
| "forecastTimezone (window # windows) =
     (if tw_Timezone window \<noteq> [] then tw_Timezone window else forecastTimezone windows)"

definition buildHourlyForecast ::
    "AIResourceAllocation option \<Rightarrow> Time option \<Rightarrow> HourlyResourceForecast" where
  "buildHourlyForecast allocation generatedAt =
     (case allocation of
        None \<Rightarrow> emptyHourlyForecast generatedAt
      | Some a \<Rightarrow>
          (let required = requiredForecastResources a;
               maximum = maxForecastResources a
           in \<lparr>hf_GeneratedAt = generatedAt,
               hf_Timezone = forecastTimezone (as_TimeWindows (a_Spec a)),
               hf_ResourceBuckets =
                 map (\<lambda>hour.
                   if hourInForecastWindows (as_TimeWindows (a_Spec a)) (int hour) \<and>
                      \<not> agent_resourceSummaryIsZero maximum
                   then maximum else required) [0..<hourlyForecastBucketCount]\<rparr>))"

section \<open>Status entries and totals (allocation\_ledger.go)\<close>

fun firstResourceSummary :: "ResourceSummary option list \<Rightarrow> ResourceSummary option" where
  "firstResourceSummary [] = None"
| "firstResourceSummary (value # values) =
     (case value of Some r \<Rightarrow> Some r | None \<Rightarrow> firstResourceSummary values)"

definition sanitizeLedgerKey :: "string \<Rightarrow> string" where
  "sanitizeLedgerKey value =
     Trim (map (\<lambda>c. if (let n = (of_char c :: nat) in 97 \<le> n \<and> n \<le> 122 \<or> 48 \<le> n \<and> n \<le> 57) \<or>
                       c = CHR ''-'' \<or> c = CHR ''.''
                    then c else CHR ''-'') (ToLower value)) ''-.''"

definition objectRefCopy :: "KubernetesObjectRef \<Rightarrow> KubernetesObjectRef option" where
  "objectRefCopy ref = (if ref_Name ref = [] then None else Some ref)"

definition workloadEntryNameFromAllocation :: "AIResourceAllocation option \<Rightarrow> string" where
  "workloadEntryNameFromAllocation allocation =
     (case allocation of
        None \<Rightarrow> []
      | Some a \<Rightarrow>
          if length (as_Workloads (a_Spec a)) = 1 \<and> aw_Name (as_Workloads (a_Spec a) ! 0) \<noteq> []
          then aw_Name (as_Workloads (a_Spec a) ! 0)
          else
            (let namespace = ref_Namespace (as_WorkloadRef (a_Spec a));
                 namespace1 = (if namespace = [] then a_Namespace a else namespace);
                 nm = map_get (a_Annotations a) AllocationAnnotationSourcePodName;
                 nm1 = (if nm = [] then map_get (a_Labels a) AllocationLabelWorkloadName else nm);
                 nm2 = (if nm1 = [] then ref_Name (as_WorkloadRef (a_Spec a)) else nm1)
             in sanitizeLedgerKey (namespace1 @ ''/'' @ nm2)))"

definition workloadStatusFromAllocation ::
    "AIResourceAllocation \<Rightarrow> ResourceSummary option \<Rightarrow> ResourceSummary option \<Rightarrow> string \<Rightarrow> string \<Rightarrow>
     AllocationWorkloadStatus" where
  "workloadStatusFromAllocation allocation desired applied action message =
     (let status =
            \<lparr>ws_Name = workloadEntryNameFromAllocation (Some allocation),
             ws_WorkloadRef = objectRefCopy (as_WorkloadRef (a_Spec allocation)),
             ws_SourcePodName = map_get (a_Annotations allocation) AllocationAnnotationSourcePodName,
             ws_Phase = ast_Phase (a_Status allocation),
             ws_Priority = as_Priority (a_Spec allocation),
             ws_DemandShape = as_DemandShape (a_Spec allocation), ws_ActiveWindow = False,
             ws_Desired = desired, ws_Applied = applied,
             ws_HourlyForecast = ast_HourlyForecast (a_Status allocation),
             ws_AssignedGPU = as_AssignedGPU (a_Spec allocation), ws_Action = action,
             ws_Message = message\<rparr>
      in case ws_WorkloadRef status of
           Some ref \<Rightarrow> if ref_Name ref = [] then status \<lparr>ws_WorkloadRef := None\<rparr> else status
         | None \<Rightarrow> status)"

fun mergeWorkloadStatus ::
    "AllocationWorkloadStatus list \<Rightarrow> AllocationWorkloadStatus \<Rightarrow> AllocationWorkloadStatus list" where
  "mergeWorkloadStatus [] entry = [entry]"
| "mergeWorkloadStatus (status # statuses) entry =
     (if ws_Name status = ws_Name entry then entry # statuses
      else status # mergeWorkloadStatus statuses entry)"

fun workloadStatusByName ::
    "AllocationWorkloadStatus list \<Rightarrow> string \<Rightarrow> AllocationWorkloadStatus option" where
  "workloadStatusByName [] nm = None"
| "workloadStatusByName (status # statuses) nm =
     (if ws_Name status = nm then Some status else workloadStatusByName statuses nm)"

definition agent_addResourceSummary :: "ResourceSummary \<Rightarrow> ResourceSummary \<Rightarrow> ResourceSummary" where
  "agent_addResourceSummary left right =
     \<lparr>GPUCount = GPUCount left + GPUCount right,
      GPUMemoryGiB = GPUMemoryGiB left + GPUMemoryGiB right,
      KVCacheGiB = KVCacheGiB left + KVCacheGiB right,
      PrefillTokensPerSecond = PrefillTokensPerSecond left + PrefillTokensPerSecond right,
      DecodeTokensPerSecond = DecodeTokensPerSecond left + DecodeTokensPerSecond right,
      TotalTokensPerSecond = TotalTokensPerSecond left + TotalTokensPerSecond right\<rparr>"

fun ledgerSummaryLoop ::
    "AllocationWorkloadStatus list \<Rightarrow> ResourceSummary \<Rightarrow> ResourceSummary" where
  "ledgerSummaryLoop [] allocated = allocated"
| "ledgerSummaryLoop (status # statuses) allocated =
     (case ws_Applied status of
        None \<Rightarrow> ledgerSummaryLoop statuses allocated
      | Some applied \<Rightarrow>
          if EqualFold (ws_Phase status) AllocationPhaseReleased
          then ledgerSummaryLoop statuses allocated
          else
            ledgerSummaryLoop statuses
              (allocated
                 \<lparr>GPUCount := GPUCount allocated + GPUCount applied,
                  GPUMemoryGiB := GPUMemoryGiB allocated + GPUMemoryGiB applied,
                  KVCacheGiB := KVCacheGiB allocated + KVCacheGiB applied,
                  PrefillTokensPerSecond := PrefillTokensPerSecond allocated + PrefillTokensPerSecond applied,
                  DecodeTokensPerSecond := DecodeTokensPerSecond allocated + DecodeTokensPerSecond applied,
                  TotalTokensPerSecond := TotalTokensPerSecond allocated + TotalTokensPerSecond applied\<rparr>))"

definition allocationLedgerSummary :: "AllocationWorkloadStatus list \<Rightarrow> NodeAllocationLedger" where
  "allocationLedgerSummary statuses =
     \<lparr>nl_Total = None, nl_Allocated = Some (ledgerSummaryLoop statuses ResourceSummary_zero),
      nl_Available = None\<rparr>"

text \<open>The inner loop over the hours: buckets beyond a short forecast stay as they are.\<close>

definition addBuckets :: "ResourceSummary list \<Rightarrow> ResourceSummary list \<Rightarrow> ResourceSummary list" where
  "addBuckets buckets forecast =
     map (\<lambda>hour. if hour < length forecast
                 then agent_addResourceSummary (buckets ! hour) (forecast ! hour)
                 else buckets ! hour) [0..<24]"

fun aggregateLoop ::
    "AllocationWorkloadStatus list \<Rightarrow> ResourceSummary list \<Rightarrow> Time option \<Rightarrow> string \<Rightarrow>
     HourlyResourceForecast" where
  "aggregateLoop [] buckets generatedAt timezone =
     \<lparr>hf_GeneratedAt = generatedAt, hf_Timezone = timezone, hf_ResourceBuckets = buckets\<rparr>"
| "aggregateLoop (status # statuses) buckets generatedAt timezone =
     (if EqualFold (ws_Phase status) AllocationPhaseReleased
      then aggregateLoop statuses buckets generatedAt timezone
      else case ws_HourlyForecast status of
        None \<Rightarrow> aggregateLoop statuses buckets generatedAt timezone
      | Some forecast \<Rightarrow>
          aggregateLoop statuses (addBuckets buckets (hf_ResourceBuckets forecast))
            (if generatedAt = None then hf_GeneratedAt forecast else generatedAt)
            (if timezone = [] then hf_Timezone forecast else timezone))"

definition aggregateHourlyForecastFromStatuses ::
    "AllocationWorkloadStatus list \<Rightarrow> HourlyResourceForecast" where
  "aggregateHourlyForecastFromStatuses statuses =
     aggregateLoop statuses (replicate 24 ResourceSummary_zero) None []"

section \<open>One allocation per entry\<close>

definition expandWorkload ::
    "AIResourceAllocation \<Rightarrow> AllocationWorkloadSpec \<Rightarrow> AIResourceAllocation" where
  "expandWorkload ledger workload =
     (let spec =
            (a_Spec ledger)
              \<lparr>as_Workloads := [workload], as_WorkloadRef := aw_WorkloadRef workload,
               as_WorkloadType := aw_WorkloadType workload, as_Priority := aw_Priority workload,
               as_DemandShape := aw_DemandShape workload,
               as_TimeWindows := aw_TimeWindows workload,
               as_ResourceRequest := aw_ResourceRequest workload,
               as_AssignedGPU := aw_AssignedGPU workload,
               as_Resources := firstResourceSummary [aw_Desired workload, aw_Resources workload],
               as_AllocationType := aw_AllocationType workload, as_Actions := aw_Actions workload,
               as_Reason := aw_Reason workload\<rparr>;
          annotations1 =
            (if aw_SourcePodName workload \<noteq> []
             then (a_Annotations ledger)(AllocationAnnotationSourcePodName \<mapsto> aw_SourcePodName workload)
             else a_Annotations ledger);
          annotations2 =
            (if aw_SourcePodUID workload \<noteq> []
             then annotations1(AllocationAnnotationSourcePodUID \<mapsto> aw_SourcePodUID workload)
             else annotations1);
          status =
            (case workloadStatusByName (ast_Workloads (a_Status ledger)) (aw_Name workload) of
               Some st \<Rightarrow>
                 (a_Status ledger)
                   \<lparr>ast_Phase := ws_Phase st, ast_ObservedResources := ws_Applied st,
                    ast_Current := ws_Applied st, ast_HourlyForecast := ws_HourlyForecast st,
                    ast_Message := ws_Message st\<rparr>
             | None \<Rightarrow> AIResourceAllocationStatus_zero)
      in \<lparr>a_Meta = (a_Meta ledger) \<lparr>om_Annotations := annotations2\<rparr>, a_Spec = spec,
          a_Status = status\<rparr>)"

fun expandNodeAllocationLedgers :: "AIResourceAllocation list \<Rightarrow> AIResourceAllocation list" where
  "expandNodeAllocationLedgers [] = []"
| "expandNodeAllocationLedgers (ledger # ledgers) =
     (if as_Workloads (a_Spec ledger) = [] then [ledger]
      else map (expandWorkload ledger) (as_Workloads (a_Spec ledger))) @
     expandNodeAllocationLedgers ledgers"

section \<open>The interfaces\<close>

interpretation agent_adder: res_adder agent_addResourceSummary
proof
  show "amount d (agent_addResourceSummary a b) = amount d a + amount d b" for d a b
    by (cases d) (simp_all add: agent_addResourceSummary_def)
qed

interpretation agent_zero: res_zero_test agent_resourceSummaryIsZero
proof
  show "agent_resourceSummaryIsZero a \<longleftrightarrow> a = ResourceSummary_zero" for a
    by (auto simp: agent_resourceSummaryIsZero_def ResourceSummary_zero_def)
qed

lemma workloadStatusByName_find: "workloadStatusByName xs nm = key_find ws_Name nm xs"
  by (induction xs) auto

interpretation status_entries: keyed_list ws_Name mergeWorkloadStatus
proof
  show "key_find ws_Name k (mergeWorkloadStatus xs e) =
    (if k = ws_Name e then Some e else key_find ws_Name k xs)" for k xs e
    by (induction xs) auto
  show "map ws_Name (mergeWorkloadStatus xs e) =
    (if ws_Name e \<in> ws_Name ` set xs then map ws_Name xs else map ws_Name xs @ [ws_Name e])" for xs e
    by (induction xs) auto
qed

text \<open>Scheduler and agent carry two copies of the same sanitizer.\<close>

lemma sanitizeLedgerKey_eq: "sanitizeLedgerKey = sanitizeName"
  by (simp add: fun_eq_iff sanitizeLedgerKey_def sanitizeName_def name_char_def)

section \<open>Totals are sums over the live entries\<close>

definition live :: "AllocationWorkloadStatus \<Rightarrow> bool" where
  "live status \<longleftrightarrow> \<not> EqualFold (ws_Phase status) AllocationPhaseReleased"

definition live_applied :: "AllocationWorkloadStatus list \<Rightarrow> ResourceSummary list" where
  "live_applied statuses = List.map_filter (\<lambda>s. if live s then ws_Applied s else None) statuses"

definition bucket_of :: "nat \<Rightarrow> AllocationWorkloadStatus \<Rightarrow> ResourceSummary option" where
  "bucket_of h status =
     (case ws_HourlyForecast status of
        None \<Rightarrow> None
      | Some f \<Rightarrow> if h < length (hf_ResourceBuckets f) then Some (hf_ResourceBuckets f ! h) else None)"

definition live_buckets :: "nat \<Rightarrow> AllocationWorkloadStatus list \<Rightarrow> ResourceSummary list" where
  "live_buckets h statuses = List.map_filter (\<lambda>s. if live s then bucket_of h s else None) statuses"

lemmas map_filter_rules = map_filter_simps

lemma applied_step:
  "acc \<lparr>GPUCount := GPUCount acc + GPUCount r, GPUMemoryGiB := GPUMemoryGiB acc + GPUMemoryGiB r,
      KVCacheGiB := KVCacheGiB acc + KVCacheGiB r,
      PrefillTokensPerSecond := PrefillTokensPerSecond acc + PrefillTokensPerSecond r,
      DecodeTokensPerSecond := DecodeTokensPerSecond acc + DecodeTokensPerSecond r,
      TotalTokensPerSecond := TotalTokensPerSecond acc + TotalTokensPerSecond r\<rparr> =
   agent_addResourceSummary acc r"
  by (simp add: agent_addResourceSummary_def)

lemma ledgerSummaryLoop_fold:
  "ledgerSummaryLoop sts acc = fold (\<lambda>x acc. agent_addResourceSummary acc x) (live_applied sts) acc"
  by (induction sts arbitrary: acc)
    (simp_all add: live_applied_def live_def applied_step map_filter_rules split: option.splits)

lemma length_addBuckets [simp]: "length (addBuckets bs fs) = 24"
  by (simp add: addBuckets_def)

lemma nth_addBuckets:
  "h < 24 \<Longrightarrow> addBuckets bs fs ! h =
     (if h < length fs then agent_addResourceSummary (bs ! h) (fs ! h) else bs ! h)"
  by (simp add: addBuckets_def)

lemma aggregateLoop_buckets:
  assumes "length bs = 24"
  shows "length (hf_ResourceBuckets (aggregateLoop sts bs g z)) = 24"
    and "h < 24 \<Longrightarrow> hf_ResourceBuckets (aggregateLoop sts bs g z) ! h =
      fold (\<lambda>x acc. agent_addResourceSummary acc x) (live_buckets h sts) (bs ! h)"
proof -
  have "length (hf_ResourceBuckets (aggregateLoop sts bs g z)) = 24 \<and>
    (h < 24 \<longrightarrow> hf_ResourceBuckets (aggregateLoop sts bs g z) ! h =
      fold (\<lambda>x acc. agent_addResourceSummary acc x) (live_buckets h sts) (bs ! h))"
    using assms
  proof (induction sts arbitrary: bs g z)
    case Nil
    then show ?case by (simp add: live_buckets_def map_filter_rules)
  next
    case (Cons st sts)
    show ?case
    proof (cases "live st \<and> ws_HourlyForecast st \<noteq> None")
      case True
      then obtain f where "ws_HourlyForecast st = Some f" by blast
      then show ?thesis
        using True Cons.IH [of "addBuckets bs (hf_ResourceBuckets f)"]
        by (simp add: live_buckets_def live_def bucket_of_def nth_addBuckets map_filter_rules)
    next
      case False
      then show ?thesis
        using Cons by (auto simp: live_buckets_def live_def bucket_of_def map_filter_rules split: option.splits)
    qed
  qed
  then show "length (hf_ResourceBuckets (aggregateLoop sts bs g z)) = 24"
    and "h < 24 \<Longrightarrow> hf_ResourceBuckets (aggregateLoop sts bs g z) ! h =
      fold (\<lambda>x acc. agent_addResourceSummary acc x) (live_buckets h sts) (bs ! h)"
    by simp_all
qed

text \<open>
  C20. The totals the agent publishes are sums over the workloads that are not released: when the
  amounts are not negative and their exact total stays below 2147483648, the ledger's allocated
  vector is in every dimension the sum of what is applied, and every bucket of the node's
  forecast is the sum of the workloads' buckets of that hour.
\<close>
theorem ledger_totals_exact:
  assumes "h < 24"
    and "list_all nonneg (live_applied sts)" and "sum_list (map (val d) (live_applied sts)) < 2147483648"
    and "list_all nonneg (live_buckets h sts)" and "sum_list (map (val d) (live_buckets h sts)) < 2147483648"
  shows "map_option (val d) (nl_Allocated (allocationLedgerSummary sts)) =
      Some (sum_list (map (val d) (live_applied sts))) \<and>
    length (hf_ResourceBuckets (aggregateHourlyForecastFromStatuses sts)) = 24 \<and>
    val d (hf_ResourceBuckets (aggregateHourlyForecastFromStatuses sts) ! h) =
      sum_list (map (val d) (live_buckets h sts))"
  using assms agent_adder.val_fold_add [of "live_applied sts" d ResourceSummary_zero]
    agent_adder.val_fold_add [of "live_buckets h sts" d ResourceSummary_zero]
    aggregateLoop_buckets [of "replicate 24 ResourceSummary_zero"]
  by (simp add: allocationLedgerSummary_def ledgerSummaryLoop_fold aggregateHourlyForecastFromStatuses_def
      list_all_iff)

definition sample_status :: "string \<Rightarrow> string \<Rightarrow> int \<Rightarrow> AllocationWorkloadStatus" where
  "sample_status nm ph k =
     \<lparr>ws_Name = nm, ws_WorkloadRef = None, ws_SourcePodName = [], ws_Phase = ph, ws_Priority = [],
      ws_DemandShape = [], ws_ActiveWindow = False, ws_Desired = None, ws_Applied = Some (gpuVec k),
      ws_HourlyForecast =
        Some \<lparr>hf_GeneratedAt = None, hf_Timezone = [], hf_ResourceBuckets = replicate 24 (gpuVec k)\<rparr>,
      ws_AssignedGPU = None, ws_Action = [], ws_Message = []\<rparr>"

lemma sample_phases:
  "\<not> EqualFold ''Applied'' ''Released''" "\<not> EqualFold ''Applying'' ''Released''" "EqualFold ''released'' ''Released''"
  by code_simp+

lemma sample_live:
  "live_applied [sample_status ''a'' ''Applied'' 2, sample_status ''b'' ''released'' 5,
     sample_status ''c'' ''Applying'' 1] = [gpuVec 2, gpuVec 1]"
  "live_buckets 7 [sample_status ''a'' ''Applied'' 2, sample_status ''b'' ''released'' 5,
     sample_status ''c'' ''Applying'' 1] = [gpuVec 2, gpuVec 1]"
  by (simp_all add: live_applied_def live_buckets_def live_def sample_status_def bucket_of_def phase_defs
      sample_phases map_filter_rules)

theorem ledger_totals_exact_witness:
  "map_option (val DGpu) (nl_Allocated (allocationLedgerSummary
     [sample_status ''a'' ''Applied'' 2, sample_status ''b'' ''released'' 5,
      sample_status ''c'' ''Applying'' 1])) = Some 3"
  using ledger_totals_exact [of 7 "[sample_status ''a'' ''Applied'' 2, sample_status ''b'' ''released'' 5,
      sample_status ''c'' ''Applying'' 1]" DGpu]
  by (simp add: sample_live nonneg_gpus val_gpus)

section \<open>The forecast is the scheduler's\<close>

lemma forecast_windows_agree:
  assumes "\<forall>w\<in>set ws. parseForecastMinute (tw_Start w) \<noteq> None \<and> parseForecastMinute (tw_End w) \<noteq> None"
  shows "hourInForecastWindows ws h = hourInTimeWindows ws h"
proof -
  have "parseHHMM t = parseForecastMinute t" if "parseForecastMinute t \<noteq> None" for t
    using that agent_reads_scheduler_reads [of t] by (auto simp: parseForecastMinute_eq)
  with assms show ?thesis
    unfolding forecast_windows.hour_in_iff scheduler_windows.hour_in_iff by fastforce
qed

text \<open>
  C23. Agent and scheduler predict the same demand: for an allocation with a required amount, whose
  windows the agent can read and for which the node's report has no forecast yet, bucket h of the
  forecast the agent builds is what the scheduler's own fallback computes for hour h from the same
  request and windows, for every hour of the day.  A window that the scheduler reads and the agent
  does not, such as one that starts at \<open>9:5\<close>, is not covered.
\<close>
theorem forecast_matches_scheduler:
  assumes "\<forall>w\<in>set (as_TimeWindows (a_Spec a)).
      parseForecastMinute (tw_Start w) \<noteq> None \<and> parseForecastMinute (tw_End w) \<noteq> None"
    and "as_ResourceRequest (a_Spec a) = Some r" and "wr_Required r \<noteq> None" and "h < 24"
    and "na_TimeWindows na = as_TimeWindows (a_Spec a)" and "na_ResourceRequest na = Some r"
    and "na_HourlyForecast na = None"
  shows "length (hf_ResourceBuckets (buildHourlyForecast (Some a) t)) = 24 \<and>
    hf_ResourceBuckets (buildHourlyForecast (Some a) t) ! h = allocationResourceForHour na (int h)"
proof -
  have "requiredForecastResources a = requiredResourcesFromRequest (Some r)"
    and "maxForecastResources a = maxResourcesFromRequest (Some r)"
    using assms(2,3)
    by (auto simp: requiredForecastResources_def maxForecastResources_def requiredResourcesFromRequest_def
        maxResourcesFromRequest_def split: option.splits)
  then show ?thesis
    using assms(4-) forecast_windows_agree [OF assms(1)]
    by (simp add: buildHourlyForecast_def Let_def hourlyForecastBucketCount_def allocationResourceForHour_def
        resourcesForHour_def agent_zero.is_zero_iff policy_zero.is_zero_iff)
qed

definition sample_allocation :: AIResourceAllocation where
  "sample_allocation =
     \<lparr>a_Meta = ObjectMeta_zero,
      a_Spec =
        AIResourceAllocationSpec_zero
          \<lparr>as_TimeWindows := [\<lparr>tw_Name = ''day'', tw_Start = ''09:00'', tw_End = ''18:00'', tw_Timezone = []\<rparr>],
           as_ResourceRequest := Some \<lparr>wr_Required = Some (gpuVec 1), wr_Preferred = None, wr_Max = Some (gpuVec 2)\<rparr>\<rparr>,
      a_Status = AIResourceAllocationStatus_zero\<rparr>"

definition sample_report :: NodeAllocationStatus where
  "sample_report =
     \<lparr>na_Name = [], na_Namespace = [], na_WorkloadName = [], na_WorkloadType = [], na_Priority = [],
      na_DemandShape = [], na_TimeWindows = as_TimeWindows (a_Spec sample_allocation),
      na_ResourceRequest = as_ResourceRequest (a_Spec sample_allocation), na_AssignedGPU = None,
      na_Resources = None, na_Current = None, na_HourlyForecast = None, na_Actions = None, na_Phase = []\<rparr>"

lemma sample_readable:
  "parseForecastMinute ''09:00'' = Some 540" "parseForecastMinute ''18:00'' = Some 1080"
  by code_simp+

theorem forecast_matches_scheduler_witness:
  "hf_ResourceBuckets (buildHourlyForecast (Some sample_allocation) None) ! 9 =
   allocationResourceForHour sample_report 9"
  using forecast_matches_scheduler [of sample_allocation _ 9 sample_report None]
  by (simp add: sample_allocation_def sample_report_def AIResourceAllocationSpec_zero_def sample_readable)

end
