(* ===== verification/Backend.thy ===== *)
theory Backend
  imports AllocationLedger
begin

text \<open>
  The backend interface (\<open>backend/backend.go\<close>) and the fake backend (\<open>backend/fake.go\<close>).

  A backend is a record of its two operations over a type \<open>'w\<close> of states of the outside world
  (the API server, the files and processes of the node).  A snapshot also returns the node object
  of its caller: \<open>status := req.Node.Status\<close> copies the pointer to the runtime status, so filling
  in a missing pressure writes through to that object.  The contract that the controller relies
  on is the locale \<open>agent_backend\<close>; both backends interpret it.  Reading a ConfigMap and
  \<open>yaml.Unmarshal\<close> are parameters.
\<close>

section \<open>The interface (backend.go)\<close>

record ApplyRequest =
  rq_Node :: "AINodeResourceProfile option"
  rq_Allocation :: "AIResourceAllocation option"
  rq_Action :: string
  rq_DesiredResources :: "ResourceSummary option"
  rq_AllocationTier :: string
  rq_TargetPhase :: string
  rq_Reason :: string

record ApplyResult =
  rs_ObservedResources :: "ResourceSummary option"
  rs_Message :: string

record SnapshotRequest =
  sq_Node :: "AINodeResourceProfile option"
  sq_Allocations :: "AIResourceAllocation list"

record SnapshotResult =
  sr_Status :: AINodeResourceProfileStatus

record 'w Backend =
  be_Apply :: "ApplyRequest \<Rightarrow> 'w \<Rightarrow> (ApiError + ApplyResult) \<times> 'w"
  be_Snapshot :: "SnapshotRequest \<Rightarrow> 'w \<Rightarrow> (ApiError + SnapshotResult) \<times> AINodeResourceProfile option \<times> 'w"

record 'w Options =
  op_Client :: "('w \<Rightarrow> string \<Rightarrow> string \<Rightarrow> ApiError + (string \<rightharpoonup> string)) option"
  op_NodeName :: string
  op_ConfigMapNamespace :: string
  op_ConfigMapName :: string

text \<open>\<open>fmt.Errorf\<close> with \<open>%w\<close>: a new text around the wrapped error, whose kind stays visible.\<close>

fun mapError :: "(string \<Rightarrow> string) \<Rightarrow> ApiError \<Rightarrow> ApiError" where
  "mapError f (NotFound t) = NotFound (f t)"
| "mapError f (AlreadyExists t) = AlreadyExists (f t)"
| "mapError f (Conflict t) = Conflict (f t)"
| "mapError f (OtherError t) = OtherError (f t)"

definition wrapError :: "string \<Rightarrow> ApiError \<Rightarrow> ApiError" where
  "wrapError prefix err = mapError (\<lambda>t. prefix @ t) err"

section \<open>Arithmetic and reports (fake.go)\<close>

definition backend_nonNegative :: "int32 \<Rightarrow> int32" where
  "backend_nonNegative value = (if value <s 0 then 0 else value)"

definition percent :: "int32 \<Rightarrow> int32 \<Rightarrow> int32" where
  "percent value tot = (if tot \<le>s 0 then 0 else backend_nonNegative (quot32 (value * 100) tot))"

definition addResources :: "ResourceSummary \<Rightarrow> ResourceSummary \<Rightarrow> ResourceSummary" where
  "addResources target value =
     target
       \<lparr>GPUCount := GPUCount target + GPUCount value,
        GPUMemoryGiB := GPUMemoryGiB target + GPUMemoryGiB value,
        KVCacheGiB := KVCacheGiB target + KVCacheGiB value,
        PrefillTokensPerSecond := PrefillTokensPerSecond target + PrefillTokensPerSecond value,
        DecodeTokensPerSecond := DecodeTokensPerSecond target + DecodeTokensPerSecond value,
        TotalTokensPerSecond := TotalTokensPerSecond target + TotalTokensPerSecond value\<rparr>"

definition subtractResources ::
    "ResourceSummary option \<Rightarrow> ResourceSummary option \<Rightarrow> ResourceSummary" where
  "subtractResources tot used =
     (case tot of
        None \<Rightarrow> ResourceSummary_zero
      | Some t \<Rightarrow>
          (case used of
             None \<Rightarrow> t
           | Some u \<Rightarrow>
               \<lparr>GPUCount = backend_nonNegative (GPUCount t - GPUCount u),
                GPUMemoryGiB = backend_nonNegative (GPUMemoryGiB t - GPUMemoryGiB u),
                KVCacheGiB = backend_nonNegative (KVCacheGiB t - KVCacheGiB u),
                PrefillTokensPerSecond =
                  backend_nonNegative (PrefillTokensPerSecond t - PrefillTokensPerSecond u),
                DecodeTokensPerSecond =
                  backend_nonNegative (DecodeTokensPerSecond t - DecodeTokensPerSecond u),
                TotalTokensPerSecond =
                  backend_nonNegative (TotalTokensPerSecond t - TotalTokensPerSecond u)\<rparr>))"

definition fakePressure :: "ResourceSummary \<Rightarrow> ResourceSummary \<Rightarrow> RuntimePressure" where
  "fakePressure tot used =
     \<lparr>pr_GPUUtilizationPercent = percent (GPUCount used) (GPUCount tot),
      pr_GPUMemoryUtilizationPercent = percent (GPUMemoryGiB used) (GPUMemoryGiB tot),
      pr_KVCacheUtilizationPercent = percent (KVCacheGiB used) (KVCacheGiB tot),
      pr_PrefillUtilizationPercent =
        percent (PrefillTokensPerSecond used) (PrefillTokensPerSecond tot),
      pr_DecodeUtilizationPercent =
        percent (DecodeTokensPerSecond used) (DecodeTokensPerSecond tot),
      pr_QueueDepth = 0, pr_TTFTP95Ms = 0, pr_TPOTP95Ms = 0, pr_LatencyP99Ms = 0,
      pr_SLORisk = ''low''\<rparr>"

definition allocatableFromNode :: "AINodeResourceProfile \<Rightarrow> ResourceSummary" where
  "allocatableFromNode node =
     (let summary =
            ResourceSummary_zero
              \<lparr>GPUCount := word_of_int (int (length (ns_GPUs (n_Spec node)))),
               GPUMemoryGiB := fold (\<lambda>gpu sum. sum + gd_MemoryGiB gpu) (ns_GPUs (n_Spec node)) 0\<rparr>
      in case Option.bind (ns_Runtime (n_Spec node)) rt_Capacity of
           None \<Rightarrow> summary
         | Some capacity \<Rightarrow>
             (let summary1 = summary \<lparr>KVCacheGiB := rc_KVCacheGiB capacity\<rparr> in
              case rc_TokenThroughput capacity of
                None \<Rightarrow> summary1
              | Some t \<Rightarrow>
                  summary1
                    \<lparr>PrefillTokensPerSecond := tt_PrefillTokensPerSecond t,
                     DecodeTokensPerSecond := tt_DecodeTokensPerSecond t,
                     TotalTokensPerSecond := tt_TotalTokensPerSecond t\<rparr>))"

definition allocationResources :: "AIResourceAllocation \<Rightarrow> ResourceSummary option" where
  "allocationResources allocation =
     (if ast_Current (a_Status allocation) \<noteq> None then ast_Current (a_Status allocation)
      else if ast_ObservedResources (a_Status allocation) \<noteq> None
      then ast_ObservedResources (a_Status allocation)
      else as_Resources (a_Spec allocation))"

fun allocatedLoop :: "AIResourceAllocation list \<Rightarrow> ResourceSummary \<Rightarrow> ResourceSummary" where
  "allocatedLoop [] summary = summary"
| "allocatedLoop (allocation # allocations) summary =
     (let resources = ast_Current (a_Status allocation);
          resources1 =
            (if resources = None then ast_ObservedResources (a_Status allocation) else resources);
          resources2 = (if resources1 = None then as_Resources (a_Spec allocation) else resources1)
      in case resources2 of
           None \<Rightarrow> allocatedLoop allocations summary
         | Some r \<Rightarrow> allocatedLoop allocations (addResources summary r))"

definition allocatedFromAllocations :: "AIResourceAllocation list \<Rightarrow> ResourceSummary" where
  "allocatedFromAllocations allocations = allocatedLoop allocations ResourceSummary_zero"

definition nodeAllocationStatus :: "AIResourceAllocation \<Rightarrow> NodeAllocationStatus" where
  "nodeAllocationStatus allocation =
     (let workloadName = ref_Name (as_WorkloadRef (a_Spec allocation));
          workloadNamespace = ref_Namespace (as_WorkloadRef (a_Spec allocation));
          workloadNamespace1 =
            (if workloadNamespace = [] then a_Namespace allocation else workloadNamespace)
      in \<lparr>na_Name = a_Name allocation, na_Namespace = workloadNamespace1,
          na_WorkloadName = workloadName, na_WorkloadType = as_WorkloadType (a_Spec allocation),
          na_Priority = as_Priority (a_Spec allocation),
          na_DemandShape = as_DemandShape (a_Spec allocation),
          na_TimeWindows = as_TimeWindows (a_Spec allocation),
          na_ResourceRequest = as_ResourceRequest (a_Spec allocation),
          na_AssignedGPU = as_AssignedGPU (a_Spec allocation),
          na_Resources = allocationResources allocation,
          na_Current = ast_Current (a_Status allocation),
          na_HourlyForecast = ast_HourlyForecast (a_Status allocation),
          na_Actions = as_Actions (a_Spec allocation), na_Phase = ast_Phase (a_Status allocation)\<rparr>)"

definition nodeAllocationStatuses :: "AIResourceAllocation list \<Rightarrow> NodeAllocationStatus list" where
  "nodeAllocationStatuses allocations = map nodeAllocationStatus allocations"

definition backend_addBuckets ::
    "ResourceSummary list \<Rightarrow> ResourceSummary list \<Rightarrow> ResourceSummary list" where
  "backend_addBuckets buckets forecast =
     map (\<lambda>hour. if hour < length forecast then addResources (buckets ! hour) (forecast ! hour)
                 else buckets ! hour) [0..<24]"

fun hourlyLoop ::
    "AIResourceAllocation list \<Rightarrow> ResourceSummary list \<Rightarrow> string \<Rightarrow> HourlyResourceForecast" where
  "hourlyLoop [] buckets timezone =
     \<lparr>hf_GeneratedAt = None, hf_Timezone = timezone, hf_ResourceBuckets = buckets\<rparr>"
| "hourlyLoop (allocation # allocations) buckets timezone =
     (if EqualFold (ast_Phase (a_Status allocation)) AllocationPhaseReleased
      then hourlyLoop allocations buckets timezone
      else case ast_HourlyForecast (a_Status allocation) of
        Some forecast \<Rightarrow>
          hourlyLoop allocations (backend_addBuckets buckets (hf_ResourceBuckets forecast))
            (if timezone = [] then hf_Timezone forecast else timezone)
      | None \<Rightarrow>
          (case allocationResources allocation of
             None \<Rightarrow> hourlyLoop allocations buckets timezone
           | Some resources \<Rightarrow>
               hourlyLoop allocations (map (\<lambda>bucket. addResources bucket resources) buckets) timezone))"

definition hourlyForecastFromAllocations ::
    "AIResourceAllocation list \<Rightarrow> HourlyResourceForecast" where
  "hourlyForecastFromAllocations allocations =
     hourlyLoop allocations (replicate 24 ResourceSummary_zero) []"

section \<open>The fake backend (fake.go)\<close>

record FakeNodeResourceConfig =
  fc_Allocatable :: "ResourceSummary option"
  fc_Runtime :: "RuntimeStatus option"

record 'w FakeBackend =
  fb_options :: "'w Options"

definition NewFakeBackend :: "'w Options \<Rightarrow> 'w FakeBackend" where
  "NewFakeBackend options = \<lparr>fb_options = options\<rparr>"

definition FakeBackend_Apply ::
    "'w FakeBackend \<Rightarrow> ApplyRequest \<Rightarrow> 'w \<Rightarrow> (ApiError + ApplyResult) \<times> 'w" where
  "FakeBackend_Apply b req w =
     (case rq_Allocation req of
        None \<Rightarrow> (Inl (OtherError ''missing allocation''), w)
      | Some allocation \<Rightarrow>
          (let observed =
                 (if rq_DesiredResources req \<noteq> None then rq_DesiredResources req
                  else as_Resources (a_Spec allocation))
           in (Inr \<lparr>rs_ObservedResources = observed,
                    rs_Message =
                      ''fake backend accepted action '' @ Quote (rq_Action req) @ '' tier='' @
                      Quote (rq_AllocationTier req) @ '' targetPhase='' @ Quote (rq_TargetPhase req) @
                      '' reason='' @ rq_Reason req\<rparr>, w)))"

fun firstPresent :: "(string \<rightharpoonup> string) \<Rightarrow> string list \<Rightarrow> string option" where
  "firstPresent data [] = None"
| "firstPresent data (key # keys) =
     (case data key of Some value \<Rightarrow> Some value | None \<Rightarrow> firstPresent data keys)"

definition nodeConfigMapValue :: "(string \<rightharpoonup> string) \<Rightarrow> string \<Rightarrow> string option" where
  "nodeConfigMapValue data nodeName =
     firstPresent data
       [nodeName @ ''.yaml'', nodeName @ ''.yml'', nodeName, ''resources.yaml'', ''resources.yml'']"

definition nodeResourceConfig ::
    "(string \<Rightarrow> ApiError + FakeNodeResourceConfig) \<Rightarrow> 'w FakeBackend \<Rightarrow> AINodeResourceProfile \<Rightarrow> 'w \<Rightarrow>
     ApiError + FakeNodeResourceConfig option" where
  "nodeResourceConfig unmarshal b node w =
     (case op_Client (fb_options b) of
        None \<Rightarrow> Inr None
      | Some get \<Rightarrow>
          if op_ConfigMapName (fb_options b) = [] then Inr None
          else
            (let namespace = op_ConfigMapNamespace (fb_options b);
                 namespace1 = (if namespace = [] then n_Namespace node else namespace);
                 namespace2 = (if namespace1 = [] then ''astra-system'' else namespace1)
             in case get w namespace2 (op_ConfigMapName (fb_options b)) of
                  Inl err \<Rightarrow>
                    Inl (wrapError (''get fake node resource ConfigMap '' @ namespace2 @ ''/'' @
                           op_ConfigMapName (fb_options b) @ '': '') err)
                | Inr data \<Rightarrow>
                    (let nodeName = op_NodeName (fb_options b);
                         nodeName1 = (if nodeName = [] then ns_NodeName (n_Spec node) else nodeName);
                         nodeName2 = (if nodeName1 = [] then n_Name node else nodeName1)
                     in case nodeConfigMapValue data nodeName2 of
                          None \<Rightarrow> Inr None
                        | Some value \<Rightarrow>
                            (case unmarshal value of
                               Inl err \<Rightarrow>
                                 Inl (wrapError (''parse fake node resource config for node '' @
                                        Quote nodeName2 @ '': '') err)
                             | Inr config \<Rightarrow> Inr (Some config)))))"

definition FakeBackend_Snapshot ::
    "(string \<Rightarrow> ApiError + FakeNodeResourceConfig) \<Rightarrow> 'w FakeBackend \<Rightarrow> SnapshotRequest \<Rightarrow> 'w \<Rightarrow>
     (ApiError + SnapshotResult) \<times> AINodeResourceProfile option \<times> 'w" where
  "FakeBackend_Snapshot unmarshal b req w =
     (case sq_Node req of
        None \<Rightarrow> (Inl (OtherError ''missing node profile''), None, w)
      | Some node \<Rightarrow>
          (case nodeResourceConfig unmarshal b node w of
             Inl err \<Rightarrow> (Inl err, Some node, w)
           | Inr config \<Rightarrow>
               (let allocatable =
                      (case Option.bind config fc_Allocatable of
                         Some a \<Rightarrow> a | None \<Rightarrow> allocatableFromNode node);
                    allocated = allocatedFromAllocations (sq_Allocations req);
                    status =
                      (n_Status node)
                        \<lparr>nst_Allocatable := Some allocatable, nst_Allocated := Some allocated,
                         nst_Available := Some (subtractResources (Some allocatable) (Some allocated)),
                         nst_Allocations := nodeAllocationStatuses (sq_Allocations req),
                         nst_HourlyForecast := Some (hourlyForecastFromAllocations (sq_Allocations req))\<rparr>;
                    shared = (Option.bind config fc_Runtime = None \<and> nst_Runtime (n_Status node) \<noteq> None);
                    runtime =
                      (case Option.bind config fc_Runtime of
                         Some r \<Rightarrow> r
                       | None \<Rightarrow>
                           (case nst_Runtime status of Some r \<Rightarrow> r | None \<Rightarrow> \<lparr>rst_Pressure = None\<rparr>));
                    runtime1 =
                      (if rst_Pressure runtime = None
                       then runtime \<lparr>rst_Pressure := Some (fakePressure allocatable allocated)\<rparr>
                       else runtime);
                    node1 =
                      (if shared
                       then node \<lparr>n_Status := (n_Status node) \<lparr>nst_Runtime := Some runtime1\<rparr>\<rparr> else node)
                in (Inr \<lparr>sr_Status = status \<lparr>nst_Runtime := Some runtime1\<rparr>\<rparr>, Some node1, w))))"

definition fakeBackend ::
    "(string \<Rightarrow> ApiError + FakeNodeResourceConfig) \<Rightarrow> 'w Options \<Rightarrow> 'w Backend" where
  "fakeBackend unmarshal options =
     \<lparr>be_Apply = FakeBackend_Apply (NewFakeBackend options),
      be_Snapshot = FakeBackend_Snapshot unmarshal (NewFakeBackend options)\<rparr>"

section \<open>The reports are sums\<close>

lemma backend_nonNegative_clamp: "backend_nonNegative v = clamp0 v"
  by (simp add: backend_nonNegative_def clamp0_def)

interpretation backend_adder: res_adder addResources
proof
  show "amount d (addResources a b) = amount d a + amount d b" for d a b
    by (cases d) (simp_all add: addResources_def)
qed

interpretation backend_subtracter: res_subtracter "\<lambda>a b. subtractResources (Some a) (Some b)"
proof
  show "amount d (subtractResources (Some a) (Some b)) = clamp0 (amount d a - amount d b)" for d a b
    by (cases d) (simp_all add: subtractResources_def backend_nonNegative_clamp)
qed

text \<open>What an allocation counts for in a report, and in hour \<open>h\<close> of the forecast.\<close>

definition hour_share :: "nat \<Rightarrow> AIResourceAllocation \<Rightarrow> ResourceSummary option" where
  "hour_share h a =
     (if EqualFold (ast_Phase (a_Status a)) AllocationPhaseReleased then None
      else case ast_HourlyForecast (a_Status a) of
        Some f \<Rightarrow> if h < length (hf_ResourceBuckets f) then Some (hf_ResourceBuckets f ! h) else None
      | None \<Rightarrow> allocationResources a)"

abbreviation add_all :: "ResourceSummary list \<Rightarrow> ResourceSummary \<Rightarrow> ResourceSummary" where
  "add_all rs acc \<equiv> fold (\<lambda>x acc. addResources acc x) rs acc"

lemma allocatedLoop_fold:
  "allocatedLoop als acc = add_all (List.map_filter allocationResources als) acc"
  by (induction als arbitrary: acc)
    (simp_all add: allocationResources_def Let_def map_filter_rules split: option.splits)

lemma nth_backend_addBuckets:
  "h < 24 \<Longrightarrow> backend_addBuckets bs fs ! h = (if h < length fs then addResources (bs ! h) (fs ! h) else bs ! h)"
  by (simp add: backend_addBuckets_def)

lemma hourlyLoop_buckets:
  assumes "length bs = 24"
  shows "length (hf_ResourceBuckets (hourlyLoop als bs z)) = 24 \<and>
    (h < 24 \<longrightarrow> hf_ResourceBuckets (hourlyLoop als bs z) ! h =
       add_all (List.map_filter (hour_share h) als) (bs ! h))"
  using assms
proof (induction als arbitrary: bs z)
  case Nil
  then show ?case by (simp add: map_filter_rules)
next
  case (Cons a als)
  show ?case
  proof (cases "ast_HourlyForecast (a_Status a)")
    case None
    then show ?thesis
      using Cons by (auto simp: hour_share_def map_filter_rules split: option.splits)
  next
    case (Some f)
    then show ?thesis
      using Cons.prems Cons.IH [of bs] Cons.IH [of "backend_addBuckets bs (hf_ResourceBuckets f)"]
      by (simp add: hour_share_def nth_backend_addBuckets map_filter_rules)
        (simp add: backend_addBuckets_def)
  qed
qed

lemma forecast_buckets:
  "length (hf_ResourceBuckets (hourlyForecastFromAllocations als)) = 24"
  "h < 24 \<Longrightarrow> hf_ResourceBuckets (hourlyForecastFromAllocations als) ! h =
     add_all (List.map_filter (hour_share h) als) ResourceSummary_zero"
  using hourlyLoop_buckets [of "replicate 24 ResourceSummary_zero" als "[]" h]
  by (simp_all add: hourlyForecastFromAllocations_def)

section \<open>The contract of a backend\<close>

text \<open>
  What the controller relies on: a successful apply had an allocation and observes the desired
  resources (the allocation's own where none are desired); a successful snapshot reports a
  capacity, the sum of the allocations, the difference, and one report per allocation; the
  caller's node keeps its identity and its spec.
\<close>

locale agent_backend =
  fixes be :: "'w Backend"
  assumes apply_observed:
      "be_Apply be req w = (Inr res, w') \<Longrightarrow> rq_Allocation req \<noteq> None \<and>
       rs_ObservedResources res =
         (if rq_DesiredResources req \<noteq> None then rq_DesiredResources req
          else Option.bind (rq_Allocation req) (\<lambda>a. as_Resources (a_Spec a)))"
    and snapshot_report:
      "be_Snapshot be sq w = (Inr rep, node', w') \<Longrightarrow> sq_Node sq \<noteq> None \<and>
       (\<exists>cap. nst_Allocatable (sr_Status rep) = Some cap \<and>
          nst_Available (sr_Status rep) =
            Some (subtractResources (Some cap) (Some (allocatedFromAllocations (sq_Allocations sq))))) \<and>
       nst_Allocated (sr_Status rep) = Some (allocatedFromAllocations (sq_Allocations sq)) \<and>
       nst_Allocations (sr_Status rep) = nodeAllocationStatuses (sq_Allocations sq) \<and>
       nst_HourlyForecast (sr_Status rep) = Some (hourlyForecastFromAllocations (sq_Allocations sq))"
    and snapshot_identity:
      "be_Snapshot be sq w = (r, node', w') \<Longrightarrow>
       rel_option (\<lambda>m n. n_Meta m = n_Meta n \<and> n_Spec m = n_Spec n) node' (sq_Node sq)"
begin

text \<open>A desired amount is what gets observed.\<close>

lemma apply_desired:
  "be_Apply be req w = (Inr res, w') \<Longrightarrow> rq_DesiredResources req = Some d \<Longrightarrow> rs_ObservedResources res = Some d"
  using apply_observed by simp

text \<open>The published numbers are consistent: available is what the capacity leaves, never negative.\<close>

lemma snapshot_available:
  assumes "be_Snapshot be req w = (Inr res, node', w')"
    and "list_all nonneg (List.map_filter allocationResources (sq_Allocations req))"
    and "sum_list (map (val d) (List.map_filter allocationResources (sq_Allocations req))) < 2147483648"
    and "nst_Allocatable (sr_Status res) = Some cap" and "0 \<le> val d cap"
    and "nst_Available (sr_Status res) = Some av"
  shows "val d av = max 0 (val d cap - sum_list (map (val d) (List.map_filter allocationResources (sq_Allocations req))))"
proof -
  let ?rs = "List.map_filter allocationResources (sq_Allocations req)"
  have sum: "val d (allocatedFromAllocations (sq_Allocations req)) = sum_list (map (val d) ?rs)"
    using backend_adder.val_fold_add [of ?rs d ResourceSummary_zero] assms(2,3)
    by (simp add: allocatedFromAllocations_def allocatedLoop_fold list_all_iff)
  have "0 \<le> sum_list (map (val d) ?rs)"
    by (rule sum_list_nonneg) (use assms(2) nonneg_val in \<open>auto simp: list_all_iff\<close>)
  moreover have "av = subtractResources (Some cap) (Some (allocatedFromAllocations (sq_Allocations req)))"
    using snapshot_report [OF assms(1)] assms(4,6) by auto
  ultimately show ?thesis
    using sum assms(3,5) val_range [of d cap] backend_subtracter.val_sub [of d cap] by simp
qed

text \<open>
  The scheduler reads a published node back hour by hour as the sum of what its own estimate of
  each allocation says, provided every allocation that is not released carries a full forecast
  or has no request to estimate from.
\<close>

lemma snapshot_forecast:
  assumes "be_Snapshot be req w = (Inr res, node', w')"
    and "n_Status node = sr_Status res" and "h < 24"
    and "\<forall>a\<in>set (sq_Allocations req). case ast_HourlyForecast (a_Status a) of
        Some f \<Rightarrow> length (hf_ResourceBuckets f) = 24 | None \<Rightarrow> as_ResourceRequest (a_Spec a) = None"
  shows "nodeForecastResourceForHour (Some node) (int h) =
    add_all (map (\<lambda>a. allocationResourceForHour (nodeAllocationStatus a) (int h))
       (filter (\<lambda>a. \<not> EqualFold (ast_Phase (a_Status a)) AllocationPhaseReleased) (sq_Allocations req)))
     ResourceSummary_zero"
proof -
  have share: "hour_share h a =
      (if EqualFold (ast_Phase (a_Status a)) AllocationPhaseReleased then None
       else case ast_HourlyForecast (a_Status a) of
          None \<Rightarrow> allocationResources a
        | Some f \<Rightarrow> Some (allocationResourceForHour (nodeAllocationStatus a) (int h)))"
    if "a \<in> set (sq_Allocations req)" for a
    using assms(3,4) that
    by (auto simp: hour_share_def allocationResourceForHour_def nodeAllocationStatus_def Let_def
        split: option.splits)
  have read: "allocationResourceForHour (nodeAllocationStatus a) (int h) =
      (case allocationResources a of None \<Rightarrow> ResourceSummary_zero | Some r \<Rightarrow> r)"
    if "a \<in> set (sq_Allocations req)" "ast_HourlyForecast (a_Status a) = None" for a
    using assms(3,4) that
    by (auto simp: allocationResourceForHour_def nodeAllocationStatus_def allocationResources_def Let_def
        split: option.splits)
  have "add_all (List.map_filter (hour_share h) als) acc =
      add_all (map (\<lambda>a. allocationResourceForHour (nodeAllocationStatus a) (int h))
        (filter (\<lambda>a. \<not> EqualFold (ast_Phase (a_Status a)) AllocationPhaseReleased) als)) acc"
    if "set als \<subseteq> set (sq_Allocations req)" for als acc
    using that
  proof (induction als arbitrary: acc)
    case (Cons a als)
    then show ?case
      using share [of a] read [of a] by (auto simp: map_filter_rules split: option.splits)
  qed (simp add: map_filter_rules)
  then show ?thesis
    using snapshot_report [OF assms(1)] assms(2,3) forecast_buckets(1) [of "sq_Allocations req"]
      forecast_buckets(2) [of h "sq_Allocations req"]
    by (simp add: nodeForecastResourceForHour_def)
qed

end

lemma fake_report:
  assumes "FakeBackend_Snapshot u b req w = (Inr res, node', w')"
  shows "sq_Node req \<noteq> None \<and>
       (\<exists>cap. nst_Allocatable (sr_Status res) = Some cap \<and>
          nst_Available (sr_Status res) =
            Some (subtractResources (Some cap) (Some (allocatedFromAllocations (sq_Allocations req))))) \<and>
       nst_Allocated (sr_Status res) = Some (allocatedFromAllocations (sq_Allocations req)) \<and>
       nst_Allocations (sr_Status res) = nodeAllocationStatuses (sq_Allocations req) \<and>
       nst_HourlyForecast (sr_Status res) = Some (hourlyForecastFromAllocations (sq_Allocations req))"
  using assms by (auto simp: FakeBackend_Snapshot_def Let_def split: option.splits sum.splits)

interpretation fake_backend: agent_backend "fakeBackend u options" for u options
proof
  fix req :: ApplyRequest and w w' res
  show "be_Apply (fakeBackend u options) req w = (Inr res, w') \<Longrightarrow> rq_Allocation req \<noteq> None \<and>
      rs_ObservedResources res =
        (if rq_DesiredResources req \<noteq> None then rq_DesiredResources req
         else Option.bind (rq_Allocation req) (\<lambda>a. as_Resources (a_Spec a)))"
    by (auto simp: fakeBackend_def FakeBackend_Apply_def Let_def split: option.splits)
next
  fix req :: SnapshotRequest and w w' r node'
  show "be_Snapshot (fakeBackend u options) req w = (r, node', w') \<Longrightarrow>
       rel_option (\<lambda>m n. n_Meta m = n_Meta n \<and> n_Spec m = n_Spec n) node' (sq_Node req)"
    by (cases "sq_Node req")
      (auto simp: fakeBackend_def FakeBackend_Snapshot_def Let_def intro: option.rel_refl split: sum.splits)
next
  fix req :: SnapshotRequest and w res node' w'
  assume "be_Snapshot (fakeBackend u options) req w = (Inr res, node', w')"
  then have "FakeBackend_Snapshot u (NewFakeBackend options) req w = (Inr res, node', w')"
    by (simp add: fakeBackend_def)
  from fake_report [OF this] show "sq_Node req \<noteq> None \<and>
       (\<exists>cap. nst_Allocatable (sr_Status res) = Some cap \<and>
          nst_Available (sr_Status res) =
            Some (subtractResources (Some cap) (Some (allocatedFromAllocations (sq_Allocations req))))) \<and>
       nst_Allocated (sr_Status res) = Some (allocatedFromAllocations (sq_Allocations req)) \<and>
       nst_Allocations (sr_Status res) = nodeAllocationStatuses (sq_Allocations req) \<and>
       nst_HourlyForecast (sr_Status res) = Some (hourlyForecastFromAllocations (sq_Allocations req))" .
qed

end
