(* ===== verification/AgentResources.thy ===== *)
theory AgentResources
  imports Resource "HOL-Library.AList"
begin

text \<open>
  The agent's resource managers (\<open>agent/resources\<close>) and local constraints
  (\<open>agent/constraints\<close>).  Both are interfaces of the source with a fixed set of
  implementations: a manager and a constraint are records of their methods, and every
  implementation is interpreted as an instance of the contract the local scheduler relies on
  (\<open>resource_manager\<close>: which dimensions a manager owns, what it observes, when it allows).
\<close>

section \<open>Managers (manager.go)\<close>

record Snapshot =
  sn_Name :: string
  sn_Capacity :: ResourceSummary
  sn_Allocated :: ResourceSummary
  sn_Available :: ResourceSummary
  sn_Description :: string

definition Snapshot_zero :: Snapshot where
  "Snapshot_zero =
     \<lparr>sn_Name = [], sn_Capacity = ResourceSummary_zero, sn_Allocated = ResourceSummary_zero,
      sn_Available = ResourceSummary_zero, sn_Description = []\<rparr>"

text \<open>A \<open>map[string]Snapshot\<close> as an association list with one entry per key.\<close>

type_synonym snapshots = "(string \<times> Snapshot) list"

definition snapshot_get :: "snapshots \<Rightarrow> string \<Rightarrow> Snapshot" where
  "snapshot_get m k = (case map_of m k of None \<Rightarrow> Snapshot_zero | Some s \<Rightarrow> s)"

record NodeState =
  st_Node :: "AINodeResourceProfile option"
  st_Allocations :: "AIResourceAllocation list"
  st_Snapshots :: snapshots

record ValidationRequest =
  vr_Node :: "AINodeResourceProfile option"
  vr_Allocation :: "AIResourceAllocation option"
  vr_Snapshot :: Snapshot

record ValidationResult =
  va_Allowed :: bool
  va_Reason :: string

record Manager =
  mg_Name :: string
  mg_Observe :: "AINodeResourceProfile option \<Rightarrow> AIResourceAllocation list \<Rightarrow> string + Snapshot"
  mg_Validate :: "ValidationRequest \<Rightarrow> ValidationResult"

definition resources_nonNegative :: "int32 \<Rightarrow> int32" where
  "resources_nonNegative value = (if value <s 0 then 0 else value)"

definition allocationSum :: "AIResourceAllocation list \<Rightarrow> ResourceSummary" where
  "allocationSum allocations =
     fold (\<lambda>allocation summary.
             case as_Resources (a_Spec allocation) of
               None \<Rightarrow> summary
             | Some r \<Rightarrow>
                 \<lparr>GPUCount = GPUCount summary + GPUCount r,
                  GPUMemoryGiB = GPUMemoryGiB summary + GPUMemoryGiB r,
                  KVCacheGiB = KVCacheGiB summary + KVCacheGiB r,
                  PrefillTokensPerSecond = PrefillTokensPerSecond summary + PrefillTokensPerSecond r,
                  DecodeTokensPerSecond = DecodeTokensPerSecond summary + DecodeTokensPerSecond r,
                  TotalTokensPerSecond = TotalTokensPerSecond summary + TotalTokensPerSecond r\<rparr>)
       allocations ResourceSummary_zero"

section \<open>The GPU manager (gpu\_manager.go)\<close>

definition GPUManagerName :: string where "GPUManagerName = ''gpu''"

definition GPUManager_Observe ::
    "AINodeResourceProfile option \<Rightarrow> AIResourceAllocation list \<Rightarrow> string + Snapshot" where
  "GPUManager_Observe node allocations =
     (let capacity1 =
            (case node of
               None \<Rightarrow> ResourceSummary_zero
             | Some n \<Rightarrow>
                 (case nst_Allocatable (n_Status n) of
                    None \<Rightarrow> ResourceSummary_zero
                  | Some al \<Rightarrow>
                      ResourceSummary_zero
                        \<lparr>GPUCount := GPUCount al, GPUMemoryGiB := GPUMemoryGiB al\<rparr>));
          capacity2 =
            (case node of
               Some n \<Rightarrow>
                 if GPUCount capacity1 = 0
                 then capacity1 \<lparr>GPUCount := word_of_int (int (length (ns_GPUs (n_Spec n))))\<rparr>
                 else capacity1
             | None \<Rightarrow> capacity1);
          capacity =
            (case node of
               Some n \<Rightarrow>
                 if GPUMemoryGiB capacity2 = 0
                 then fold (\<lambda>gpu c. c \<lparr>GPUMemoryGiB := GPUMemoryGiB c + gd_MemoryGiB gpu\<rparr>)
                        (ns_GPUs (n_Spec n)) capacity2
                 else capacity2
             | None \<Rightarrow> capacity2);
          total = allocationSum allocations;
          allocated =
            ResourceSummary_zero \<lparr>GPUCount := GPUCount total, GPUMemoryGiB := GPUMemoryGiB total\<rparr>
      in Inr \<lparr>sn_Name = GPUManagerName, sn_Capacity = capacity, sn_Allocated = allocated,
              sn_Available =
                ResourceSummary_zero
                  \<lparr>GPUCount := resources_nonNegative (GPUCount capacity - GPUCount allocated),
                   GPUMemoryGiB :=
                     resources_nonNegative (GPUMemoryGiB capacity - GPUMemoryGiB allocated)\<rparr>,
              sn_Description = ''GPU count and memory budget''\<rparr>)"

definition GPUManager_Validate :: "ValidationRequest \<Rightarrow> ValidationResult" where
  "GPUManager_Validate req =
     (let s = vr_Snapshot req in
      if GPUCount (sn_Capacity s) <s GPUCount (sn_Allocated s) then
        \<lparr>va_Allowed = False,
         va_Reason = ''local GPU count over capacity: allocated='' @
           show_int (sint (GPUCount (sn_Allocated s))) @ '' capacity='' @
           show_int (sint (GPUCount (sn_Capacity s)))\<rparr>
      else if GPUMemoryGiB (sn_Capacity s) <s GPUMemoryGiB (sn_Allocated s) then
        \<lparr>va_Allowed = False,
         va_Reason = ''local GPU memory over capacity: allocated='' @
           show_int (sint (GPUMemoryGiB (sn_Allocated s))) @ ''GiB capacity='' @
           show_int (sint (GPUMemoryGiB (sn_Capacity s))) @ ''GiB''\<rparr>
      else \<lparr>va_Allowed = True, va_Reason = ''GPU desired budget fits local capacity''\<rparr>)"

definition GPUManager :: Manager where
  "GPUManager =
     \<lparr>mg_Name = GPUManagerName, mg_Observe = GPUManager_Observe, mg_Validate = GPUManager_Validate\<rparr>"

section \<open>The KV cache manager (kv\_cache\_manager.go)\<close>

definition KVCacheManagerName :: string where "KVCacheManagerName = ''kv-cache''"

definition runtime_capacity :: "AINodeResourceProfile option \<Rightarrow> RuntimeCapacity option" where
  "runtime_capacity node =
     (case node of
        None \<Rightarrow> None
      | Some n \<Rightarrow> (case ns_Runtime (n_Spec n) of None \<Rightarrow> None | Some rt \<Rightarrow> rt_Capacity rt))"

definition KVCacheManager_Observe ::
    "AINodeResourceProfile option \<Rightarrow> AIResourceAllocation list \<Rightarrow> string + Snapshot" where
  "KVCacheManager_Observe node allocations =
     (let capacity1 =
            (case node of
               None \<Rightarrow> ResourceSummary_zero
             | Some n \<Rightarrow>
                 (case nst_Allocatable (n_Status n) of
                    None \<Rightarrow> ResourceSummary_zero
                  | Some al \<Rightarrow> ResourceSummary_zero \<lparr>KVCacheGiB := KVCacheGiB al\<rparr>));
          capacity =
            (case runtime_capacity node of
               Some rc \<Rightarrow>
                 if KVCacheGiB capacity1 = 0 then capacity1 \<lparr>KVCacheGiB := rc_KVCacheGiB rc\<rparr>
                 else capacity1
             | None \<Rightarrow> capacity1);
          total = allocationSum allocations;
          allocated = ResourceSummary_zero \<lparr>KVCacheGiB := KVCacheGiB total\<rparr>
      in Inr \<lparr>sn_Name = KVCacheManagerName, sn_Capacity = capacity, sn_Allocated = allocated,
              sn_Available =
                ResourceSummary_zero
                  \<lparr>KVCacheGiB := resources_nonNegative (KVCacheGiB capacity - KVCacheGiB allocated)\<rparr>,
              sn_Description = ''runtime KV cache budget''\<rparr>)"

definition KVCacheManager_Validate :: "ValidationRequest \<Rightarrow> ValidationResult" where
  "KVCacheManager_Validate req =
     (let s = vr_Snapshot req in
      if KVCacheGiB (sn_Capacity s) <s KVCacheGiB (sn_Allocated s) then
        \<lparr>va_Allowed = False,
         va_Reason = ''local KV cache over capacity: allocated='' @
           show_int (sint (KVCacheGiB (sn_Allocated s))) @ ''GiB capacity='' @
           show_int (sint (KVCacheGiB (sn_Capacity s))) @ ''GiB''\<rparr>
      else \<lparr>va_Allowed = True, va_Reason = ''KV cache desired budget fits local capacity''\<rparr>)"

definition KVCacheManager :: Manager where
  "KVCacheManager =
     \<lparr>mg_Name = KVCacheManagerName, mg_Observe = KVCacheManager_Observe,
      mg_Validate = KVCacheManager_Validate\<rparr>"

section \<open>The token throughput manager (token\_throughput\_manager.go)\<close>

definition TokenThroughputManagerName :: string where
  "TokenThroughputManagerName = ''token-throughput''"

definition TokenThroughputManager_Observe ::
    "AINodeResourceProfile option \<Rightarrow> AIResourceAllocation list \<Rightarrow> string + Snapshot" where
  "TokenThroughputManager_Observe node allocations =
     (let capacity1 =
            (case node of
               None \<Rightarrow> ResourceSummary_zero
             | Some n \<Rightarrow>
                 (case nst_Allocatable (n_Status n) of
                    None \<Rightarrow> ResourceSummary_zero
                  | Some al \<Rightarrow>
                      ResourceSummary_zero
                        \<lparr>PrefillTokensPerSecond := PrefillTokensPerSecond al,
                         DecodeTokensPerSecond := DecodeTokensPerSecond al,
                         TotalTokensPerSecond := TotalTokensPerSecond al\<rparr>));
          capacity =
            (case Option.bind (runtime_capacity node) rc_TokenThroughput of
               None \<Rightarrow> capacity1
             | Some tt \<Rightarrow>
                 (let c1 = (if PrefillTokensPerSecond capacity1 = 0
                            then capacity1 \<lparr>PrefillTokensPerSecond := tt_PrefillTokensPerSecond tt\<rparr>
                            else capacity1);
                      c2 = (if DecodeTokensPerSecond c1 = 0
                            then c1 \<lparr>DecodeTokensPerSecond := tt_DecodeTokensPerSecond tt\<rparr> else c1)
                  in if TotalTokensPerSecond c2 = 0
                     then c2 \<lparr>TotalTokensPerSecond := tt_TotalTokensPerSecond tt\<rparr> else c2));
          total = allocationSum allocations;
          allocated =
            ResourceSummary_zero
              \<lparr>PrefillTokensPerSecond := PrefillTokensPerSecond total,
               DecodeTokensPerSecond := DecodeTokensPerSecond total,
               TotalTokensPerSecond := TotalTokensPerSecond total\<rparr>
      in Inr \<lparr>sn_Name = TokenThroughputManagerName, sn_Capacity = capacity, sn_Allocated = allocated,
              sn_Available =
                ResourceSummary_zero
                  \<lparr>PrefillTokensPerSecond :=
                     resources_nonNegative
                       (PrefillTokensPerSecond capacity - PrefillTokensPerSecond allocated),
                   DecodeTokensPerSecond :=
                     resources_nonNegative
                       (DecodeTokensPerSecond capacity - DecodeTokensPerSecond allocated),
                   TotalTokensPerSecond :=
                     resources_nonNegative
                       (TotalTokensPerSecond capacity - TotalTokensPerSecond allocated)\<rparr>,
              sn_Description = ''prefill/decode token throughput budget''\<rparr>)"

definition TokenThroughputManager_Validate :: "ValidationRequest \<Rightarrow> ValidationResult" where
  "TokenThroughputManager_Validate req =
     (let s = vr_Snapshot req in
      if PrefillTokensPerSecond (sn_Capacity s) <s PrefillTokensPerSecond (sn_Allocated s) then
        \<lparr>va_Allowed = False,
         va_Reason = ''local prefill token throughput over capacity: allocated='' @
           show_int (sint (PrefillTokensPerSecond (sn_Allocated s))) @ '' capacity='' @
           show_int (sint (PrefillTokensPerSecond (sn_Capacity s)))\<rparr>
      else if DecodeTokensPerSecond (sn_Capacity s) <s DecodeTokensPerSecond (sn_Allocated s) then
        \<lparr>va_Allowed = False,
         va_Reason = ''local decode token throughput over capacity: allocated='' @
           show_int (sint (DecodeTokensPerSecond (sn_Allocated s))) @ '' capacity='' @
           show_int (sint (DecodeTokensPerSecond (sn_Capacity s)))\<rparr>
      else if TotalTokensPerSecond (sn_Capacity s) <s TotalTokensPerSecond (sn_Allocated s) then
        \<lparr>va_Allowed = False,
         va_Reason = ''local total token throughput over capacity: allocated='' @
           show_int (sint (TotalTokensPerSecond (sn_Allocated s))) @ '' capacity='' @
           show_int (sint (TotalTokensPerSecond (sn_Capacity s)))\<rparr>
      else \<lparr>va_Allowed = True, va_Reason = ''token throughput desired budget fits local capacity''\<rparr>)"

definition TokenThroughputManager :: Manager where
  "TokenThroughputManager =
     \<lparr>mg_Name = TokenThroughputManagerName, mg_Observe = TokenThroughputManager_Observe,
      mg_Validate = TokenThroughputManager_Validate\<rparr>"

lemmas manager_defs =
  GPUManager_def KVCacheManager_def TokenThroughputManager_def GPUManagerName_def
  KVCacheManagerName_def TokenThroughputManagerName_def
lemmas observe_defs =
  GPUManager_Observe_def KVCacheManager_Observe_def TokenThroughputManager_Observe_def
lemmas validate_defs =
  GPUManager_Validate_def KVCacheManager_Validate_def TokenThroughputManager_Validate_def

section \<open>The contract of a manager\<close>

locale resource_manager =
  fixes mgr :: Manager
    and owned :: "dim set"
  assumes observe_ok: "\<exists>s. mg_Observe mgr node als = Inr s \<and> sn_Name s = mg_Name mgr"
    and observe_owned:
      "mg_Observe mgr node als = Inr s \<Longrightarrow> d \<notin> owned \<Longrightarrow>
       amount d (sn_Capacity s) = 0 \<and> amount d (sn_Allocated s) = 0"
    and observe_allocated:
      "mg_Observe mgr node als = Inr s \<Longrightarrow> d \<in> owned \<Longrightarrow>
       amount d (sn_Allocated s) = amount d (allocationSum als)"
    and observe_available:
      "mg_Observe mgr node als = Inr s \<Longrightarrow>
       amount d (sn_Available s) = clamp0 (amount d (sn_Capacity s) - amount d (sn_Allocated s))"
    and validate_iff:
      "va_Allowed (mg_Validate mgr req) \<longleftrightarrow>
       (\<forall>d\<in>owned. val d (sn_Allocated (vr_Snapshot req)) \<le> val d (sn_Capacity (vr_Snapshot req)))"
begin

lemma observed_available_nonneg: "mg_Observe mgr node als = Inr s \<Longrightarrow> nonneg (sn_Available s)"
  by (simp add: nonneg_iff val_def observe_available sint_clamp0)

text \<open>What is validated against a capacity that covers it is allowed.\<close>

lemma validate_covered:
  "(\<And>d. d \<in> owned \<Longrightarrow> val d a \<le> val d (sn_Capacity s)) \<Longrightarrow>
   va_Allowed (mg_Validate mgr \<lparr>vr_Node = n, vr_Allocation = al,
     vr_Snapshot = s \<lparr>sn_Allocated := a, sn_Available := b\<rparr>\<rparr>)"
  by (simp add: validate_iff)

end

lemma resources_nonNegative_clamp: "resources_nonNegative v = clamp0 v"
  by (simp add: resources_nonNegative_def clamp0_def)

lemma fold_memory_keeps:
  "GPUCount (fold (\<lambda>gpu c. c \<lparr>GPUMemoryGiB := GPUMemoryGiB c + gd_MemoryGiB gpu\<rparr>) gs c) = GPUCount c"
  "KVCacheGiB (fold (\<lambda>gpu c. c \<lparr>GPUMemoryGiB := GPUMemoryGiB c + gd_MemoryGiB gpu\<rparr>) gs c) = KVCacheGiB c"
  "PrefillTokensPerSecond (fold (\<lambda>gpu c. c \<lparr>GPUMemoryGiB := GPUMemoryGiB c + gd_MemoryGiB gpu\<rparr>) gs c) =
     PrefillTokensPerSecond c"
  "DecodeTokensPerSecond (fold (\<lambda>gpu c. c \<lparr>GPUMemoryGiB := GPUMemoryGiB c + gd_MemoryGiB gpu\<rparr>) gs c) =
     DecodeTokensPerSecond c"
  "TotalTokensPerSecond (fold (\<lambda>gpu c. c \<lparr>GPUMemoryGiB := GPUMemoryGiB c + gd_MemoryGiB gpu\<rparr>) gs c) =
     TotalTokensPerSecond c"
  by (induction gs arbitrary: c) simp_all

interpretation gpu: resource_manager GPUManager "{DGpu, DMem}"
proof
  fix node als s d
  show "\<exists>s. mg_Observe GPUManager node als = Inr s \<and> sn_Name s = mg_Name GPUManager"
    by (simp add: manager_defs observe_defs Let_def)
  assume obs: "mg_Observe GPUManager node als = Inr s"
  show "amount d (sn_Capacity s) = 0 \<and> amount d (sn_Allocated s) = 0" if "d \<notin> {DGpu, DMem}"
    using that obs by (cases d)
      (auto simp: manager_defs observe_defs Let_def ResourceSummary_zero_def fold_memory_keeps
        split: option.splits)
  show "amount d (sn_Allocated s) = amount d (allocationSum als)" if "d \<in> {DGpu, DMem}"
    using that obs by (auto simp: manager_defs observe_defs Let_def)
  show "amount d (sn_Available s) = clamp0 (amount d (sn_Capacity s) - amount d (sn_Allocated s))"
    using obs by (cases d)
      (auto simp: manager_defs observe_defs Let_def ResourceSummary_zero_def fold_memory_keeps
        resources_nonNegative_clamp clamp0_def split: option.splits)
next
  show "va_Allowed (mg_Validate GPUManager req) \<longleftrightarrow>
    (\<forall>d\<in>{DGpu, DMem}. val d (sn_Allocated (vr_Snapshot req)) \<le> val d (sn_Capacity (vr_Snapshot req)))" for req
    by (auto simp: manager_defs validate_defs Let_def val_def sless_sint)
qed

interpretation kv: resource_manager KVCacheManager "{DKv}"
proof
  fix node als s d
  show "\<exists>s. mg_Observe KVCacheManager node als = Inr s \<and> sn_Name s = mg_Name KVCacheManager"
    by (simp add: manager_defs observe_defs Let_def)
  assume obs: "mg_Observe KVCacheManager node als = Inr s"
  show "amount d (sn_Capacity s) = 0 \<and> amount d (sn_Allocated s) = 0" if "d \<notin> {DKv}"
    using that obs by (cases d)
      (auto simp: manager_defs observe_defs Let_def ResourceSummary_zero_def split: option.splits)
  show "amount d (sn_Allocated s) = amount d (allocationSum als)" if "d \<in> {DKv}"
    using that obs by (auto simp: manager_defs observe_defs Let_def)
  show "amount d (sn_Available s) = clamp0 (amount d (sn_Capacity s) - amount d (sn_Allocated s))"
    using obs by (cases d)
      (auto simp: manager_defs observe_defs Let_def ResourceSummary_zero_def
        resources_nonNegative_clamp clamp0_def split: option.splits)
next
  show "va_Allowed (mg_Validate KVCacheManager req) \<longleftrightarrow>
    (\<forall>d\<in>{DKv}. val d (sn_Allocated (vr_Snapshot req)) \<le> val d (sn_Capacity (vr_Snapshot req)))" for req
    by (auto simp: manager_defs validate_defs Let_def val_def sless_sint)
qed

interpretation tokens: resource_manager TokenThroughputManager "{DPrefill, DDecode, DTotal}"
proof
  fix node als s d
  show "\<exists>s. mg_Observe TokenThroughputManager node als = Inr s \<and>
      sn_Name s = mg_Name TokenThroughputManager"
    by (simp add: manager_defs observe_defs Let_def)
  assume obs: "mg_Observe TokenThroughputManager node als = Inr s"
  show "amount d (sn_Capacity s) = 0 \<and> amount d (sn_Allocated s) = 0"
    if "d \<notin> {DPrefill, DDecode, DTotal}"
    using that obs by (cases d)
      (auto simp: manager_defs observe_defs Let_def ResourceSummary_zero_def split: option.splits)
  show "amount d (sn_Allocated s) = amount d (allocationSum als)" if "d \<in> {DPrefill, DDecode, DTotal}"
    using that obs by (auto simp: manager_defs observe_defs Let_def)
  show "amount d (sn_Available s) = clamp0 (amount d (sn_Capacity s) - amount d (sn_Allocated s))"
    using obs by (cases d)
      (auto simp: manager_defs observe_defs Let_def ResourceSummary_zero_def
        resources_nonNegative_clamp clamp0_def split: option.splits)
next
  show "va_Allowed (mg_Validate TokenThroughputManager req) \<longleftrightarrow>
    (\<forall>d\<in>{DPrefill, DDecode, DTotal}.
       val d (sn_Allocated (vr_Snapshot req)) \<le> val d (sn_Capacity (vr_Snapshot req)))" for req
    by (auto simp: manager_defs validate_defs Let_def val_def sless_sint)
qed

section \<open>Constraints\<close>

record CheckRequest =
  cr_Node :: "AINodeResourceProfile option"
  cr_Allocation :: "AIResourceAllocation option"
  cr_Action :: string
  cr_Snapshots :: snapshots

record CheckResult =
  ck_Allowed :: bool
  ck_Reason :: string

record Constraint =
  cn_Name :: string
  cn_Check :: "CheckRequest \<Rightarrow> CheckResult"

definition TokenThroughputRequiresGPU_Check :: "CheckRequest \<Rightarrow> CheckResult" where
  "TokenThroughputRequiresGPU_Check req =
     (case Option.bind (cr_Allocation req) (\<lambda>a. as_Resources (a_Spec a)) of
        None \<Rightarrow> \<lparr>ck_Allowed = True, ck_Reason = []\<rparr>
      | Some requested \<Rightarrow>
          let needsTokenBudget =
                (0 <s PrefillTokensPerSecond requested \<or> 0 <s DecodeTokensPerSecond requested \<or>
                 0 <s TotalTokensPerSecond requested)
          in if \<not> needsTokenBudget then \<lparr>ck_Allowed = True, ck_Reason = []\<rparr>
             else if GPUCount (sn_Capacity (snapshot_get (cr_Snapshots req) GPUManagerName)) \<le>s 0 then
               \<lparr>ck_Allowed = False,
                ck_Reason = ''token throughput allocation requires GPU capacity on the node''\<rparr>
             else \<lparr>ck_Allowed = True, ck_Reason = ''token throughput has GPU capacity backing''\<rparr>)"

definition TokenThroughputRequiresGPU :: Constraint where
  "TokenThroughputRequiresGPU =
     \<lparr>cn_Name = ''token-throughput-requires-gpu'', cn_Check = TokenThroughputRequiresGPU_Check\<rparr>"

definition RuntimeActionCapability_Check :: "CheckRequest \<Rightarrow> CheckResult" where
  "RuntimeActionCapability_Check req =
     (case Option.bind (cr_Node req) (\<lambda>n. ns_Capabilities (n_Spec n)) of
        None \<Rightarrow> \<lparr>ck_Allowed = True, ck_Reason = []\<rparr>
      | Some capabilities \<Rightarrow>
          let action = ToLower (cr_Action req) in
          if action = AllocationActionThrottle \<and> \<not> cap_Throttling capabilities then
            \<lparr>ck_Allowed = False, ck_Reason = ''node backend does not support throttling action''\<rparr>
          else if action = AllocationActionPause \<and> \<not> cap_PauseResume capabilities then
            \<lparr>ck_Allowed = False, ck_Reason = ''node backend does not support pause action''\<rparr>
          else if action = AllocationActionEvict \<and> \<not> cap_Eviction capabilities then
            \<lparr>ck_Allowed = False, ck_Reason = ''node backend does not support eviction action''\<rparr>
          else \<lparr>ck_Allowed = True, ck_Reason = ''runtime action capability is satisfied''\<rparr>)"

definition RuntimeActionCapability :: Constraint where
  "RuntimeActionCapability =
     \<lparr>cn_Name = ''runtime-action-capability'', cn_Check = RuntimeActionCapability_Check\<rparr>"

lemma runtime_action_apply:
  "ToLower (cr_Action req) = AllocationActionApply \<Longrightarrow> ck_Allowed (RuntimeActionCapability_Check req)"
  by (simp add: RuntimeActionCapability_Check_def Let_def action_defs split: option.splits)

end
