(* ===== verification/LocalLedger.thy ===== *)
theory LocalLedger
  imports AgentResources TimeWindows
    "HOL-Library.List_Lexorder" "HOL-Library.Char_ord" "HOL-Library.Product_Lexorder"
    "HOL-Library.Multiset"
begin

text \<open>
  The node-local ledger (\<open>agent/local/ledger.go\<close>) and the action policy
  (\<open>agent/local/action_policy.go\<close>): the budgets of an allocation, its active time window, the
  order and the grouping in which allocations are planned, and the reservation of budgets
  against the node's capacity.

  The mutable \<open>*ledger\<close> is a record passed from call to call.  The moment of planning is
  what the code asks of it: the minute of the day in the time's own location, and in each
  named location (\<open>None\<close> when \<open>time.LoadLocation\<close> fails; the time zone database is not part
  of the repository).
\<close>

section \<open>Resource arithmetic of the package\<close>

definition nonNegative :: "int32 \<Rightarrow> int32" where
  "nonNegative value = (if value <s 0 then 0 else value)"

definition maxInt32 :: "int32 \<Rightarrow> int32 \<Rightarrow> int32" where
  "maxInt32 left right = (if right <s left then left else right)"

definition fits :: "ResourceSummary \<Rightarrow> ResourceSummary \<Rightarrow> bool" where
  "fits required available \<longleftrightarrow>
     GPUCount required \<le>s GPUCount available \<and>
     GPUMemoryGiB required \<le>s GPUMemoryGiB available \<and>
     KVCacheGiB required \<le>s KVCacheGiB available \<and>
     PrefillTokensPerSecond required \<le>s PrefillTokensPerSecond available \<and>
     DecodeTokensPerSecond required \<le>s DecodeTokensPerSecond available \<and>
     TotalTokensPerSecond required \<le>s TotalTokensPerSecond available"

definition isZeroResource :: "ResourceSummary \<Rightarrow> bool" where
  "isZeroResource value \<longleftrightarrow>
     GPUCount value = 0 \<and> GPUMemoryGiB value = 0 \<and> KVCacheGiB value = 0 \<and>
     PrefillTokensPerSecond value = 0 \<and> DecodeTokensPerSecond value = 0 \<and>
     TotalTokensPerSecond value = 0"

definition addResource :: "ResourceSummary \<Rightarrow> ResourceSummary \<Rightarrow> ResourceSummary" where
  "addResource left right =
     \<lparr>GPUCount = GPUCount left + GPUCount right,
      GPUMemoryGiB = GPUMemoryGiB left + GPUMemoryGiB right,
      KVCacheGiB = KVCacheGiB left + KVCacheGiB right,
      PrefillTokensPerSecond = PrefillTokensPerSecond left + PrefillTokensPerSecond right,
      DecodeTokensPerSecond = DecodeTokensPerSecond left + DecodeTokensPerSecond right,
      TotalTokensPerSecond = TotalTokensPerSecond left + TotalTokensPerSecond right\<rparr>"

definition subtractResource :: "ResourceSummary \<Rightarrow> ResourceSummary \<Rightarrow> ResourceSummary" where
  "subtractResource left right =
     \<lparr>GPUCount = nonNegative (GPUCount left - GPUCount right),
      GPUMemoryGiB = nonNegative (GPUMemoryGiB left - GPUMemoryGiB right),
      KVCacheGiB = nonNegative (KVCacheGiB left - KVCacheGiB right),
      PrefillTokensPerSecond =
        nonNegative (PrefillTokensPerSecond left - PrefillTokensPerSecond right),
      DecodeTokensPerSecond = nonNegative (DecodeTokensPerSecond left - DecodeTokensPerSecond right),
      TotalTokensPerSecond = nonNegative (TotalTokensPerSecond left - TotalTokensPerSecond right)\<rparr>"

definition maxResource :: "ResourceSummary \<Rightarrow> ResourceSummary \<Rightarrow> ResourceSummary" where
  "maxResource left right =
     \<lparr>GPUCount = maxInt32 (GPUCount left) (GPUCount right),
      GPUMemoryGiB = maxInt32 (GPUMemoryGiB left) (GPUMemoryGiB right),
      KVCacheGiB = maxInt32 (KVCacheGiB left) (KVCacheGiB right),
      PrefillTokensPerSecond =
        maxInt32 (PrefillTokensPerSecond left) (PrefillTokensPerSecond right),
      DecodeTokensPerSecond = maxInt32 (DecodeTokensPerSecond left) (DecodeTokensPerSecond right),
      TotalTokensPerSecond = maxInt32 (TotalTokensPerSecond left) (TotalTokensPerSecond right)\<rparr>"

definition describeResource :: "ResourceSummary \<Rightarrow> string" where
  "describeResource value =
     ''gpu='' @ show_int (sint (GPUCount value)) @
     '' gpuMemoryGiB='' @ show_int (sint (GPUMemoryGiB value)) @
     '' kvCacheGiB='' @ show_int (sint (KVCacheGiB value)) @
     '' prefillTPS='' @ show_int (sint (PrefillTokensPerSecond value)) @
     '' decodeTPS='' @ show_int (sint (DecodeTokensPerSecond value)) @
     '' totalTPS='' @ show_int (sint (TotalTokensPerSecond value))"

section \<open>The ledger\<close>

record ledger =
  lg_Capacity :: ResourceSummary
  lg_Remaining :: ResourceSummary
  lg_Reserved :: "string \<rightharpoonup> ResourceSummary"

record budgetCandidate =
  bc_Tier :: string
  bc_Resources :: ResourceSummary

definition newLedger :: "ResourceSummary \<Rightarrow> ledger" where
  "newLedger capacity =
     \<lparr>lg_Capacity = capacity, lg_Remaining = capacity, lg_Reserved = Map.empty\<rparr>"

text \<open>The loop of \<open>reserve\<close> over its candidates, which stops at the first that fits.\<close>

fun chooseBudget ::
    "ResourceSummary \<Rightarrow> budgetCandidate list \<Rightarrow> ResourceSummary \<times> string \<Rightarrow> ResourceSummary \<times> string" where
  "chooseBudget remaining [] chosen = chosen"
| "chooseBudget remaining (candidate # candidates) chosen =
     (if isZeroResource (bc_Resources candidate) then chooseBudget remaining candidates chosen
      else if fits (bc_Resources candidate) remaining
      then (bc_Resources candidate, bc_Tier candidate)
      else chooseBudget remaining candidates chosen)"

definition reserve ::
    "ledger \<Rightarrow> string \<Rightarrow> ResourceSummary \<Rightarrow> budgetCandidate list \<Rightarrow>
     (ResourceSummary \<times> string \<times> bool) \<times> ledger" where
  "reserve l key required candidates =
     (if \<not> fits required (lg_Remaining l)
      then ((ResourceSummary_zero, AllocationTierRejected, False), l)
      else
        let (assigned, tier) =
              chooseBudget (lg_Remaining l) candidates (required, AllocationTierRequired)
        in ((assigned, tier, True),
            l \<lparr>lg_Remaining := subtractResource (lg_Remaining l) assigned,
               lg_Reserved := (lg_Reserved l)(key \<mapsto> assigned)\<rparr>))"

definition release :: "ledger \<Rightarrow> string \<Rightarrow> ledger" where
  "release l key =
     (case lg_Reserved l key of
        None \<Rightarrow> l
      | Some reserved \<Rightarrow>
          l \<lparr>lg_Remaining := addResource (lg_Remaining l) reserved,
             lg_Reserved := (lg_Reserved l)(key := None)\<rparr>)"

definition capacityFromState :: "NodeState \<Rightarrow> ResourceSummary" where
  "capacityFromState state =
     fold (\<lambda>(name, snapshot) capacity. maxResource capacity (sn_Capacity snapshot))
       (st_Snapshots state) ResourceSummary_zero"

section \<open>Budgets and windows of an allocation\<close>

definition requiredBudget :: "AIResourceAllocation \<Rightarrow> ResourceSummary" where
  "requiredBudget allocation =
     (case Option.bind (as_ResourceRequest (a_Spec allocation)) wr_Required of
        Some r \<Rightarrow> r
      | None \<Rightarrow>
          (case as_Resources (a_Spec allocation) of Some r \<Rightarrow> r | None \<Rightarrow> ResourceSummary_zero))"

definition preferredBudget :: "AIResourceAllocation \<Rightarrow> ResourceSummary" where
  "preferredBudget allocation =
     (case Option.bind (as_ResourceRequest (a_Spec allocation)) wr_Preferred of
        Some r \<Rightarrow> r
      | None \<Rightarrow> requiredBudget allocation)"

definition maxBudget :: "AIResourceAllocation \<Rightarrow> ResourceSummary" where
  "maxBudget allocation =
     (case Option.bind (as_ResourceRequest (a_Spec allocation)) wr_Max of
        Some r \<Rightarrow> r
      | None \<Rightarrow> preferredBudget allocation)"

record Clock =
  now_Minute :: int
  now_MinuteIn :: "string \<Rightarrow> int option"

definition minuteFor :: "Clock \<Rightarrow> string \<Rightarrow> int" where
  "minuteFor now timezone =
     (if timezone \<noteq> []
      then (case now_MinuteIn now timezone of Some m \<Rightarrow> m | None \<Rightarrow> now_Minute now)
      else now_Minute now)"

fun activeTimeWindow :: "TimeWindow list \<Rightarrow> Clock \<Rightarrow> string" where
  "activeTimeWindow [] now = []"
| "activeTimeWindow (window # windows) now =
     (case parseMinuteOfDay (tw_Start window) of
        None \<Rightarrow> activeTimeWindow windows now
      | Some start \<Rightarrow>
          (case parseMinuteOfDay (tw_End window) of
             None \<Rightarrow> activeTimeWindow windows now
           | Some end \<Rightarrow>
               if minuteInWindow (minuteFor now (tw_Timezone window)) start end
               then tw_Name window
               else activeTimeWindow windows now))"

definition hasAnyActiveTimeWindow :: "AIResourceAllocation list \<Rightarrow> Clock \<Rightarrow> bool" where
  "hasAnyActiveTimeWindow allocations now \<longleftrightarrow>
     list_ex (\<lambda>allocation. activeTimeWindow (as_TimeWindows (a_Spec allocation)) now \<noteq> []) allocations"

definition priorityOf :: "AIResourceAllocation \<Rightarrow> string" where
  "priorityOf allocation =
     (if as_Priority (a_Spec allocation) \<noteq> [] then as_Priority (a_Spec allocation)
      else map_get (a_Labels allocation) ''astra.aiinfra.io/priority'')"

definition priorityRank :: "string \<Rightarrow> int" where
  "priorityRank priority =
     (let p = ToLower priority in
      if p = WorkloadPriorityCritical then 4
      else if p = WorkloadPriorityHigh then 3
      else if p = WorkloadPriorityMedium then 2
      else if p = WorkloadPriorityLow then 1
      else 0)"

definition canYieldResources :: "AIResourceAllocation \<Rightarrow> bool" where
  "canYieldResources allocation =
     (case as_Actions (a_Spec allocation) of
        None \<Rightarrow> False
      | Some a \<Rightarrow> act_Reclaimable a \<or> act_Throttleable a \<or> act_Pauseable a \<or> act_Evictable a)"

definition allocationKey :: "AIResourceAllocation \<Rightarrow> string" where
  "allocationKey allocation =
     (let workloads = as_Workloads (a_Spec allocation) in
      if length workloads = 1 \<and> aw_Name (hd workloads) \<noteq> [] then aw_Name (hd workloads)
      else if a_Namespace allocation = [] then a_Name allocation
      else a_Namespace allocation @ ''/'' @ a_Name allocation)"

section \<open>Order and groups\<close>

text \<open>
  \<open>sort.SliceStable\<close>: elements are inserted from the back, each before the first element that
  is not less than it, so that equal elements keep their order.
\<close>

fun stable_insert :: "('a \<Rightarrow> 'a \<Rightarrow> bool) \<Rightarrow> 'a \<Rightarrow> 'a list \<Rightarrow> 'a list" where
  "stable_insert lt x [] = [x]"
| "stable_insert lt x (y # ys) = (if lt y x then y # stable_insert lt x ys else x # y # ys)"

definition SliceStable :: "('a \<Rightarrow> 'a \<Rightarrow> bool) \<Rightarrow> 'a list \<Rightarrow> 'a list" where
  "SliceStable lt xs = foldr (stable_insert lt) xs []"

text \<open>The comparison handed to it: priority, active window, age, name.\<close>

definition allocationLess :: "Clock \<Rightarrow> AIResourceAllocation \<Rightarrow> AIResourceAllocation \<Rightarrow> bool" where
  "allocationLess now left right =
     (let leftPriority = priorityRank (priorityOf left);
          rightPriority = priorityRank (priorityOf right);
          leftActive = (activeTimeWindow (as_TimeWindows (a_Spec left)) now \<noteq> []);
          rightActive = (activeTimeWindow (as_TimeWindows (a_Spec right)) now \<noteq> []);
          leftCreated = om_CreationTimestamp (a_Meta left);
          rightCreated = om_CreationTimestamp (a_Meta right)
      in if leftPriority \<noteq> rightPriority then leftPriority > rightPriority
         else if leftActive \<noteq> rightActive then leftActive
         else if leftCreated \<noteq> 0 \<and> rightCreated \<noteq> 0 \<and> leftCreated \<noteq> rightCreated
         then leftCreated < rightCreated
         else if leftCreated \<noteq> 0 \<and> rightCreated = 0 then True
         else if leftCreated = 0 \<and> rightCreated \<noteq> 0 then False
         else a_Name left < a_Name right)"

definition orderAllocationsByPriorityAndWindow ::
    "AIResourceAllocation list \<Rightarrow> Clock \<Rightarrow> AIResourceAllocation list" where
  "orderAllocationsByPriorityAndWindow allocations now = SliceStable (allocationLess now) allocations"

text \<open>The loop of \<open>groupAllocationsByPriority\<close>, with its variables \<open>groups\<close>, \<open>currentPriority\<close>
  and \<open>current\<close>.\<close>

fun groupLoop ::
    "AIResourceAllocation list list \<Rightarrow> string \<Rightarrow> AIResourceAllocation list \<Rightarrow>
     AIResourceAllocation list \<Rightarrow> AIResourceAllocation list list" where
  "groupLoop groups currentPriority current [] = groups @ [current]"
| "groupLoop groups currentPriority current (allocation # allocations) =
     (let priority = priorityOf allocation in
      if priority \<noteq> currentPriority
      then groupLoop (groups @ [current]) priority [allocation] allocations
      else groupLoop groups currentPriority (current @ [allocation]) allocations)"

definition groupAllocationsByPriority ::
    "AIResourceAllocation list \<Rightarrow> AIResourceAllocation list list" where
  "groupAllocationsByPriority allocations =
     (if allocations = [] then []
      else groupLoop [] (priorityOf (hd allocations)) [] allocations)"

section \<open>The action policy (action\_policy.go)\<close>

definition DefaultActionPolicy_ActionFor :: "AIResourceAllocation \<Rightarrow> string \<times> string" where
  "DefaultActionPolicy_ActionFor allocation =
     (AllocationActionApply, ''local scheduler accepted central allocation'')"

definition DefaultActionPolicy_FallbackFor :: "AIResourceAllocation \<Rightarrow> string" where
  "DefaultActionPolicy_FallbackFor allocation =
     (case as_Actions (a_Spec allocation) of
        None \<Rightarrow> AllocationActionApply
      | Some a \<Rightarrow>
          if act_Throttleable a then AllocationActionThrottle
          else if act_Pauseable a then AllocationActionPause
          else if act_Evictable a then AllocationActionEvict
          else AllocationActionApply)"

section \<open>The arithmetic keeps the interfaces\<close>

lemma nonNegative_clamp: "nonNegative v = clamp0 v"
  by (simp add: nonNegative_def clamp0_def)

interpretation local_books: res_books addResource subtractResource fits
proof
  show "amount d (addResource a b) = amount d a + amount d b" for d a b
    by (cases d) (simp_all add: addResource_def)
  show "amount d (subtractResource a b) = clamp0 (amount d a - amount d b)" for d a b
    by (cases d) (simp_all add: subtractResource_def nonNegative_clamp)
  show "fits a b \<longleftrightarrow> (\<forall>d. val d a \<le> val d b)" for a b
    by (simp add: fits_def all_dim val_def sle_sint)
qed

interpretation local_zero: res_zero_test isZeroResource
  by unfold_locales (auto simp: isZeroResource_def ResourceSummary_zero_def
      intro!: ResourceSummary.equality)

lemma val_maxResource [simp]: "val d (maxResource a b) = max (val d a) (val d b)"
  by (cases d) (auto simp: val_def maxResource_def maxInt32_def sless_sint)

text \<open>
  The capacity is the largest a manager reports, dimension by dimension, and does not depend
  on the order in which Go iterates over the map of snapshots.
\<close>

lemma val_capacity_fold:
  "val d (fold (\<lambda>(name, s) c. maxResource c (sn_Capacity s)) xs acc) =
   fold (\<lambda>(name, s) m. max m (val d (sn_Capacity s))) xs (val d acc)"
  by (induction xs arbitrary: acc) (simp_all add: case_prod_unfold)

lemma Max_insert_max: "finite S \<Longrightarrow> Max (insert (max a b) S) = max a (Max (insert b S))"
  by (cases "S = {}") (simp_all add: max.assoc)

lemma val_capacityFromState:
  "val d (capacityFromState st) = Max (insert 0 ((\<lambda>(name, s). val d (sn_Capacity s)) ` set (st_Snapshots st)))"
proof -
  have "fold (\<lambda>(name, s) m. max m (val d (sn_Capacity s))) xs acc =
    Max (insert acc ((\<lambda>(name, s). val d (sn_Capacity s)) ` set xs))" for xs :: snapshots and acc
    by (induction xs arbitrary: acc) (auto simp: case_prod_unfold Max_insert_max)
  then show ?thesis
    by (simp add: capacityFromState_def val_capacity_fold)
qed

lemma capacityFromState_nonneg: "nonneg (capacityFromState st)"
  by (simp add: nonneg_iff val_capacityFromState)

section \<open>Reservation\<close>

lemma chooseBudget_fits:
  "fits (fst chosen) remaining \<Longrightarrow> fits (fst (chooseBudget remaining cs chosen)) remaining"
  by (induction cs) auto

lemma chooseBudget_from:
  "chooseBudget remaining cs chosen = chosen \<or>
   (\<exists>c\<in>set cs. chooseBudget remaining cs chosen = (bc_Resources c, bc_Tier c) \<and>
      fits (bc_Resources c) remaining \<and> bc_Resources c \<noteq> ResourceSummary_zero)"
  by (induction cs) (auto simp: local_zero.is_zero_iff)

text \<open>A successful reservation assigns something that fits what remained, and books exactly that.\<close>

lemma reserve_ok:
  assumes "reserve l key required cs = ((assigned, tier, True), l')"
  shows "fits required (lg_Remaining l)" and "fits assigned (lg_Remaining l)"
    and "(assigned, tier) = chooseBudget (lg_Remaining l) cs (required, AllocationTierRequired)"
    and "l' = l \<lparr>lg_Remaining := subtractResource (lg_Remaining l) assigned,
                 lg_Reserved := (lg_Reserved l)(key \<mapsto> assigned)\<rparr>"
proof -
  have r: "fits required (lg_Remaining l)"
    and c: "chooseBudget (lg_Remaining l) cs (required, AllocationTierRequired) = (assigned, tier)"
    using assms by (auto simp: reserve_def case_prod_unfold Let_def split: if_splits)
  show "fits required (lg_Remaining l)" by (rule r)
  show "(assigned, tier) = chooseBudget (lg_Remaining l) cs (required, AllocationTierRequired)"
    using c by simp
  show "fits assigned (lg_Remaining l)"
    using chooseBudget_fits [of "(required, AllocationTierRequired)" "lg_Remaining l" cs] r c by simp
  show "l' = l \<lparr>lg_Remaining := subtractResource (lg_Remaining l) assigned,
               lg_Reserved := (lg_Reserved l)(key \<mapsto> assigned)\<rparr>"
    using assms r c by (simp add: reserve_def)
qed

lemma reserve_fails:
  "reserve l key required cs = ((assigned, tier, False), l') \<longleftrightarrow>
   \<not> fits required (lg_Remaining l) \<and> assigned = ResourceSummary_zero \<and>
   tier = AllocationTierRejected \<and> l' = l"
  by (auto simp: reserve_def case_prod_unfold Let_def)

lemma reserve_exact:
  assumes "reserve l key required cs = ((assigned, tier, True), l')" and "nonneg assigned"
  shows "val d (lg_Remaining l') = val d (lg_Remaining l) - val d assigned"
  using reserve_ok [OF assms(1)] assms(2) by (simp add: local_books.val_sub_fits)

lemma release_remaining:
  assumes "reserve l key required cs = ((assigned, tier, True), l')" and "nonneg assigned"
  shows "lg_Remaining (release l' key) = lg_Remaining l" and "lg_Capacity (release l' key) = lg_Capacity l"
  using reserve_ok [OF assms(1)] assms(2)
  by (simp_all add: release_def local_books.sub_add_cancel)

section \<open>The order is a stable sort by a key\<close>

lemma stable_insert_insort:
  "(\<And>y. lt y x \<longleftrightarrow> (f y :: 'k :: linorder) < f x) \<Longrightarrow> stable_insert lt x ys = insort_key f x ys"
  by (induction ys) (auto simp: not_le [symmetric])

lemma SliceStable_sort_key:
  "(\<And>x y. lt x y \<longleftrightarrow> (f x :: 'k :: linorder) < f y) \<Longrightarrow> SliceStable lt xs = sort_key f xs"
  unfolding SliceStable_def sort_key_def
  by (induction xs) (simp_all add: stable_insert_insort)

definition windowActive :: "Clock \<Rightarrow> AIResourceAllocation \<Rightarrow> bool" where
  "windowActive now a \<longleftrightarrow> activeTimeWindow (as_TimeWindows (a_Spec a)) now \<noteq> []"

definition precedence :: "Clock \<Rightarrow> AIResourceAllocation \<Rightarrow> int \<times> bool \<times> bool \<times> int \<times> string" where
  "precedence now a =
     (- priorityRank (priorityOf a), \<not> windowActive now a,
      om_CreationTimestamp (a_Meta a) = 0, om_CreationTimestamp (a_Meta a), a_Name a)"

lemma allocationLess_precedence: "allocationLess now a b \<longleftrightarrow> precedence now a < precedence now b"
  by (auto simp: allocationLess_def precedence_def windowActive_def Let_def less_prod_def less_eq_prod_def)

lemma order_sort_key:
  "orderAllocationsByPriorityAndWindow as now = sort_key (precedence now) as"
  unfolding orderAllocationsByPriorityAndWindow_def
  by (rule SliceStable_sort_key) (rule allocationLess_precedence)

text \<open>
  C17. The planning order: the code's comparison and stable sort arrange the allocations by
  priority, then active window, then age, then name; nothing is lost or duplicated, and
  allocations the comparison cannot tell apart keep their order.
\<close>
theorem order_stable_by_precedence:
  "let ordered = orderAllocationsByPriorityAndWindow as now in
     mset ordered = mset as \<and> sorted (map (precedence now) ordered) \<and>
     (\<forall>k. filter (\<lambda>a. precedence now a = k) ordered = filter (\<lambda>a. precedence now a = k) as)"
  by (simp add: order_sort_key Let_def sort_key_stable)

section \<open>Groups\<close>

lemma concat_groupLoop: "concat (groupLoop gs p cur as) = concat gs @ cur @ as"
  by (induction as arbitrary: gs p cur) (simp_all add: Let_def)

lemma concat_groups: "concat (groupAllocationsByPriority as) = as"
  by (simp add: groupAllocationsByPriority_def concat_groupLoop)

definition uniform :: "AIResourceAllocation list \<Rightarrow> bool" where
  "uniform g \<longleftrightarrow> (\<exists>p. g \<noteq> [] \<and> list_all (\<lambda>a. priorityOf a = p) g)"

lemma groupLoop_uniform:
  assumes "list_all uniform gs" and "list_all (\<lambda>a. priorityOf a = p) cur"
    and "cur \<noteq> [] \<or> (as \<noteq> [] \<and> priorityOf (hd as) = p)"
  shows "list_all uniform (groupLoop gs p cur as)"
  using assms
proof (induction as arbitrary: gs p cur)
  case (Cons a as)
  show ?case
  proof (cases "priorityOf a = p")
    case False
    with Cons.prems have "uniform cur"
      by (auto simp: uniform_def)
    with Cons.prems False show ?thesis
      using Cons.IH [of "gs @ [cur]" "priorityOf a" "[a]"] by simp
  qed (use Cons in simp)
qed (auto simp: uniform_def)

lemma groups_uniform: "list_all uniform (groupAllocationsByPriority as)"
  by (simp add: groupAllocationsByPriority_def groupLoop_uniform)

text \<open>Where the priority changes, the groups split: the two sides are grouped on their own.\<close>

lemma groupLoop_groups: "groupLoop gs p cur as = gs @ groupLoop [] p cur as"
proof (induction as arbitrary: gs p cur)
  case (Cons a as)
  show ?case
    using Cons [of "gs @ [cur]" "priorityOf a" "[a]"] Cons [of "[cur]" "priorityOf a" "[a]"]
      Cons [of gs p "cur @ [a]"]
    by (simp add: Let_def)
qed simp

lemma groupLoop_append:
  assumes "bs \<noteq> []" and "priorityOf (hd bs) \<noteq> (if as = [] then p else priorityOf (last as))"
  shows "groupLoop gs p cur (as @ bs) = groupLoop gs p cur as @ groupAllocationsByPriority bs"
  using assms
proof (induction as arbitrary: gs p cur)
  case Nil
  then obtain b bs' where bs: "bs = b # bs'" by (cases bs) auto
  with Nil show ?case
    using groupLoop_groups [of "gs @ [cur]" "priorityOf b" "[b]" bs']
    by (simp add: groupAllocationsByPriority_def)
next
  case (Cons a as)
  then show ?case by (cases "as = []") (auto simp: Let_def)
qed

lemma groups_append:
  assumes "as \<noteq> []" and "bs \<noteq> []" and "priorityOf (hd bs) \<noteq> priorityOf (last as)"
  shows "groupAllocationsByPriority (as @ bs) =
    groupAllocationsByPriority as @ groupAllocationsByPriority bs"
  using assms by (simp add: groupAllocationsByPriority_def [of "as @ bs"]
      groupAllocationsByPriority_def [of as] groupLoop_append)

end
