(* ===== verification/LocalScheduler.thy ===== *)
theory LocalScheduler
  imports LocalLedger
begin

text \<open>
  The node-local scheduler (\<open>agent/local/scheduler.go\<close>): one pass over a node's allocations
  in order of precedence, which reserves a budget for each in the ledger, validates it with
  the resource managers and the constraints, and emits one plan per allocation.

  The scheduler record holds the interfaces the Go struct holds; \<open>NewDefaultScheduler\<close> is the
  instance the agent runs.  The ledger the loops mutate is threaded through.
\<close>

section \<open>The program\<close>

record Plan =
  pl_Allocation :: AIResourceAllocation
  pl_Action :: string
  pl_Reason :: string
  pl_TargetPhase :: string
  pl_AllocationTier :: string
  pl_RequestedResources :: ResourceSummary
  pl_AssignedResources :: ResourceSummary
  pl_ActiveWindow :: string

record Scheduler =
  sc_resourceManagers :: "Manager list"
  sc_constraints :: "Constraint list"
  sc_ActionFor :: "AIResourceAllocation \<Rightarrow> string \<times> string"
  sc_FallbackFor :: "AIResourceAllocation \<Rightarrow> string"

definition NewScheduler :: "Manager list \<Rightarrow> Constraint list \<Rightarrow> Scheduler" where
  "NewScheduler resourceManagers constraints =
     \<lparr>sc_resourceManagers = resourceManagers, sc_constraints = constraints,
      sc_ActionFor = DefaultActionPolicy_ActionFor,
      sc_FallbackFor = DefaultActionPolicy_FallbackFor\<rparr>"

definition NewDefaultScheduler :: Scheduler where
  "NewDefaultScheduler =
     NewScheduler [GPUManager, KVCacheManager, TokenThroughputManager]
       [TokenThroughputRequiresGPU, RuntimeActionCapability]"

text \<open>\<open>observe\<close>: its loop over the managers, then the state.\<close>

fun observeLoop ::
    "Manager list \<Rightarrow> AINodeResourceProfile option \<Rightarrow> AIResourceAllocation list \<Rightarrow> snapshots \<Rightarrow>
     string + snapshots" where
  "observeLoop [] node allocations snapshots = Inr snapshots"
| "observeLoop (manager # managers) node allocations snapshots =
     (case mg_Observe manager node allocations of
        Inl err \<Rightarrow> Inl (''observe '' @ mg_Name manager @ '': '' @ err)
      | Inr snapshot \<Rightarrow>
          observeLoop managers node allocations
            (AList.update (mg_Name manager) snapshot snapshots))"

definition observe ::
    "Scheduler \<Rightarrow> AINodeResourceProfile option \<Rightarrow> AIResourceAllocation list \<Rightarrow> string + NodeState" where
  "observe s node allocations =
     (case observeLoop (sc_resourceManagers s) node allocations [] of
        Inl err \<Rightarrow> Inl err
      | Inr snapshots \<Rightarrow>
          Inr \<lparr>st_Node = node, st_Allocations = allocations, st_Snapshots = snapshots\<rparr>)"

fun validateLoop ::
    "Manager list \<Rightarrow> NodeState \<Rightarrow> AIResourceAllocation \<Rightarrow> string list \<Rightarrow> ValidationResult" where
  "validateLoop [] state allocation reasons =
     \<lparr>va_Allowed = True, va_Reason = Join reasons ''; ''\<rparr>"
| "validateLoop (manager # managers) state allocation reasons =
     (let snapshot0 = snapshot_get (st_Snapshots state) (mg_Name manager);
          snapshot =
            (case as_Resources (a_Spec allocation) of
               None \<Rightarrow> snapshot0
             | Some r \<Rightarrow>
                 snapshot0 \<lparr>sn_Allocated := r,
                            sn_Available := subtractResource (sn_Capacity snapshot0) r\<rparr>);
          result =
            mg_Validate manager
              \<lparr>vr_Node = st_Node state, vr_Allocation = Some allocation, vr_Snapshot = snapshot\<rparr>
      in if \<not> va_Allowed result then result
         else validateLoop managers state allocation
                (if va_Reason result \<noteq> [] then reasons @ [va_Reason result] else reasons))"

definition validateResources ::
    "Scheduler \<Rightarrow> NodeState \<Rightarrow> AIResourceAllocation \<Rightarrow> ValidationResult" where
  "validateResources s state allocation = validateLoop (sc_resourceManagers s) state allocation []"

fun checkLoop :: "Constraint list \<Rightarrow> CheckRequest \<Rightarrow> string list \<Rightarrow> CheckResult" where
  "checkLoop [] request reasons = \<lparr>ck_Allowed = True, ck_Reason = Join reasons ''; ''\<rparr>"
| "checkLoop (constraint # constraints) request reasons =
     (let result = cn_Check constraint request in
      if \<not> ck_Allowed result then result
      else checkLoop constraints request
             (if ck_Reason result \<noteq> [] then reasons @ [ck_Reason result] else reasons))"

definition checkConstraints :: "Scheduler \<Rightarrow> CheckRequest \<Rightarrow> CheckResult" where
  "checkConstraints s request = checkLoop (sc_constraints s) request []"

text \<open>
  The budget decision at the head of \<open>buildPlanForAllocation\<close>: the target, the amount that must
  fit, the candidates above it and the reason, one branch per case of the \<open>switch\<close>.
\<close>

record budgetChoice =
  ch_target :: ResourceSummary
  ch_requiredForFit :: ResourceSummary
  ch_candidates :: "budgetCandidate list"
  ch_reason :: string

definition chooseTarget :: "AIResourceAllocation \<Rightarrow> string \<Rightarrow> bool \<Rightarrow> string \<Rightarrow> budgetChoice" where
  "chooseTarget allocation activeWindow groupHasActiveWindow reason =
     (let required = requiredBudget allocation;
          preferred = preferredBudget allocation;
          maximum = maxBudget allocation
      in if activeWindow \<noteq> [] \<and> \<not> isZeroResource maximum then
           \<lparr>ch_target = maximum, ch_requiredForFit = maximum,
            ch_candidates = [\<lparr>bc_Tier = AllocationTierMax, bc_Resources = maximum\<rparr>],
            ch_reason = reason @ ''; active time window '' @ Quote activeWindow @
              '' requires max budget''\<rparr>
         else if groupHasActiveWindow \<and> canYieldResources allocation then
           \<lparr>ch_target = required, ch_requiredForFit = required, ch_candidates = [],
            ch_reason = reason @
              ''; same-priority active workload exists, reclaimable workload keeps required budget''\<rparr>
         else if groupHasActiveWindow then
           \<lparr>ch_target = required, ch_requiredForFit = required, ch_candidates = [],
            ch_reason = reason @
              ''; same-priority active workload exists, workload keeps required budget to match central time-window envelope''\<rparr>
         else if isZeroResource preferred then
           \<lparr>ch_target = required, ch_requiredForFit = required, ch_candidates = [],
            ch_reason = reason\<rparr>
         else
           \<lparr>ch_target = preferred, ch_requiredForFit = required,
            ch_candidates = [\<lparr>bc_Tier = AllocationTierPreferred, bc_Resources = preferred\<rparr>],
            ch_reason = reason\<rparr>)"

definition buildPlanForAllocation ::
    "Scheduler \<Rightarrow> AINodeResourceProfile option \<Rightarrow> NodeState \<Rightarrow> ledger \<Rightarrow> AIResourceAllocation \<Rightarrow>
     Clock \<Rightarrow> bool \<Rightarrow> Plan \<times> ledger" where
  "buildPlanForAllocation s node state l allocation now groupHasActiveWindow =
     (let (action, reason0) = sc_ActionFor s allocation;
          activeWindow = activeTimeWindow (as_TimeWindows (a_Spec allocation)) now;
          ch = chooseTarget allocation activeWindow groupHasActiveWindow reason0;
          ((assigned, assignedTier, ok), l') =
            reserve l (allocationKey allocation) (ch_requiredForFit ch) (ch_candidates ch)
      in if \<not> ok then
           (\<lparr>pl_Allocation = allocation, pl_Action = sc_FallbackFor s allocation,
             pl_Reason =
               ''budget does not fit local ledger: required='' @
               describeResource (ch_requiredForFit ch) @ '' remaining='' @
               describeResource (lg_Remaining l'),
             pl_TargetPhase = AllocationPhaseFailed, pl_AllocationTier = AllocationTierRejected,
             pl_RequestedResources = ch_requiredForFit ch,
             pl_AssignedResources = ResourceSummary_zero, pl_ActiveWindow = activeWindow\<rparr>, l')
         else
           let planned =
                 allocation \<lparr>a_Spec := (a_Spec allocation) \<lparr>as_Resources := Some assigned\<rparr>\<rparr>;
               degraded =
                 (\<lambda>reason.
                   (\<lparr>pl_Allocation = allocation, pl_Action = sc_FallbackFor s allocation,
                     pl_Reason = reason, pl_TargetPhase = AllocationPhaseFailed,
                     pl_AllocationTier = AllocationTierDegraded,
                     pl_RequestedResources = ch_target ch, pl_AssignedResources = assigned,
                     pl_ActiveWindow = activeWindow\<rparr>,
                    release l' (allocationKey allocation)));
               result = validateResources s state planned
           in if \<not> va_Allowed result then degraded (va_Reason result)
              else
                let check =
                      checkConstraints s
                        \<lparr>cr_Node = node, cr_Allocation = Some planned, cr_Action = action,
                         cr_Snapshots = st_Snapshots state\<rparr>
                in if \<not> ck_Allowed check then degraded (ck_Reason check)
                   else
                     (\<lparr>pl_Allocation = allocation, pl_Action = action,
                       pl_Reason = ch_reason ch @ ''; assigned '' @ assignedTier @ '' budget'',
                       pl_TargetPhase = AllocationPhasePendingApply,
                       pl_AllocationTier = assignedTier,
                       pl_RequestedResources = ch_target ch, pl_AssignedResources = assigned,
                       pl_ActiveWindow = activeWindow\<rparr>, l'))"

text \<open>The two loops of \<open>BuildPlansAt\<close>.\<close>

fun planGroup ::
    "Scheduler \<Rightarrow> AINodeResourceProfile option \<Rightarrow> NodeState \<Rightarrow> Clock \<Rightarrow> bool \<Rightarrow> ledger \<Rightarrow>
     AIResourceAllocation list \<Rightarrow> Plan list \<times> ledger" where
  "planGroup s node state now active l [] = ([], l)"
| "planGroup s node state now active l (allocation # allocations) =
     (let (plan, l1) = buildPlanForAllocation s node state l allocation now active;
          (plans, l2) = planGroup s node state now active l1 allocations
      in (plan # plans, l2))"

fun planGroups ::
    "Scheduler \<Rightarrow> AINodeResourceProfile option \<Rightarrow> NodeState \<Rightarrow> Clock \<Rightarrow> ledger \<Rightarrow>
     AIResourceAllocation list list \<Rightarrow> Plan list \<times> ledger" where
  "planGroups s node state now l [] = ([], l)"
| "planGroups s node state now l (grp # groups) =
     (let groupHasActiveWindow = hasAnyActiveTimeWindow grp now;
          (plans1, l1) = planGroup s node state now groupHasActiveWindow l grp;
          (plans2, l2) = planGroups s node state now l1 groups
      in (plans1 @ plans2, l2))"

definition BuildPlansAt ::
    "Scheduler \<Rightarrow> AINodeResourceProfile option \<Rightarrow> AIResourceAllocation list \<Rightarrow> Clock \<Rightarrow>
     string + Plan list" where
  "BuildPlansAt s node allocations now =
     (let ordered = orderAllocationsByPriorityAndWindow allocations now in
      case observe s node ordered of
        Inl err \<Rightarrow> Inl err
      | Inr state \<Rightarrow>
          Inr (fst (planGroups s node state now (newLedger (capacityFromState state))
                     (groupAllocationsByPriority ordered))))"

section \<open>One plan\<close>

definition admitted :: "Plan \<Rightarrow> bool" where
  "admitted p \<longleftrightarrow> pl_TargetPhase p = AllocationPhasePendingApply"

definition budgets_nonneg :: "AIResourceAllocation \<Rightarrow> bool" where
  "budgets_nonneg a \<longleftrightarrow> nonneg (requiredBudget a) \<and> nonneg (preferredBudget a) \<and> nonneg (maxBudget a)"

text \<open>The budget decision without its message.\<close>

lemma chooseTarget_cases:
  "ch_target (chooseTarget a w g r) =
     (if w \<noteq> [] \<and> maxBudget a \<noteq> ResourceSummary_zero then maxBudget a
      else if g \<or> preferredBudget a = ResourceSummary_zero then requiredBudget a
      else preferredBudget a)"
  "ch_requiredForFit (chooseTarget a w g r) =
     (if w \<noteq> [] \<and> maxBudget a \<noteq> ResourceSummary_zero then maxBudget a else requiredBudget a)"
  "ch_candidates (chooseTarget a w g r) =
     (if w \<noteq> [] \<and> maxBudget a \<noteq> ResourceSummary_zero
      then [\<lparr>bc_Tier = AllocationTierMax, bc_Resources = maxBudget a\<rparr>]
      else if g \<or> preferredBudget a = ResourceSummary_zero then []
      else [\<lparr>bc_Tier = AllocationTierPreferred, bc_Resources = preferredBudget a\<rparr>])"
  unfolding chooseTarget_def Let_def local_zero.is_zero_iff by simp_all

lemma choice_nonneg:
  assumes "budgets_nonneg a"
  shows "nonneg (ch_requiredForFit (chooseTarget a w g r))"
    and "c \<in> set (ch_candidates (chooseTarget a w g r)) \<Longrightarrow> nonneg (bc_Resources c)"
  using assms by (simp_all add: chooseTarget_cases budgets_nonneg_def split: if_splits)

lemma reserve_nonneg:
  assumes "reserve l key req cs = ((assigned, tier, True), l')"
    and "nonneg req" and "\<And>c. c \<in> set cs \<Longrightarrow> nonneg (bc_Resources c)"
  shows "nonneg assigned"
  using chooseBudget_from [of "lg_Remaining l" cs "(req, AllocationTierRequired)"]
    reserve_ok(3) [OF assms(1)] assms(2,3) by auto

text \<open>
  The four ways a call ends.  Every fact about a plan below is a case of this one: rejected by
  the ledger, degraded after a reservation that is released, or admitted.
\<close>

lemma plan_cases:
  assumes build: "buildPlanForAllocation s node st l a now g = (p, l')"
    and ch: "ch = chooseTarget a (activeTimeWindow (as_TimeWindows (a_Spec a)) now) g
           (snd (sc_ActionFor s a))"
  obtains (rejected) "pl_AllocationTier p = AllocationTierRejected" "\<not> admitted p" "l' = l"
      "\<not> fits (ch_requiredForFit ch) (lg_Remaining l)"
      "pl_RequestedResources p = ch_requiredForFit ch" "pl_AssignedResources p = ResourceSummary_zero"
  | (degraded) tier l1 where "pl_AllocationTier p = AllocationTierDegraded" "\<not> admitted p"
      "reserve l (allocationKey a) (ch_requiredForFit ch) (ch_candidates ch) =
         ((pl_AssignedResources p, tier, True), l1)" "l' = release l1 (allocationKey a)"
  | (accepted) "admitted p"
      "reserve l (allocationKey a) (ch_requiredForFit ch) (ch_candidates ch) =
         ((pl_AssignedResources p, pl_AllocationTier p, True), l')"
proof -
  obtain assigned tier ok l1 where
    r: "reserve l (allocationKey a) (ch_requiredForFit ch) (ch_candidates ch) = ((assigned, tier, ok), l1)"
    by (metis prod.exhaust)
  note unfolded = build [unfolded buildPlanForAllocation_def Let_def case_prod_unfold, folded ch]
  show ?thesis
  proof (cases ok)
    case False
    with r have l1: "l1 = l" "\<not> fits (ch_requiredForFit ch) (lg_Remaining l)"
      by (simp_all add: reserve_fails)
    have "pl_AllocationTier p = AllocationTierRejected \<and> \<not> admitted p \<and> l' = l1 \<and>
      pl_RequestedResources p = ch_requiredForFit ch \<and> pl_AssignedResources p = ResourceSummary_zero"
      using unfolded r False by (auto simp: admitted_def phase_defs)
    with l1 that(1) show ?thesis by blast
  next
    case True
    have "(admitted p \<and> l' = l1 \<and> pl_AllocationTier p = tier \<or>
        \<not> admitted p \<and> pl_AllocationTier p = AllocationTierDegraded \<and> l' = release l1 (allocationKey a))
      \<and> pl_AssignedResources p = assigned"
      using unfolded r True by (auto simp: admitted_def phase_defs split: if_splits)
    with r True that(2) [of tier l1] that(3) show ?thesis by auto
  qed
qed

lemma plan_allocation:
  "pl_Allocation (fst (buildPlanForAllocation s node st l a now g)) = a"
  by (simp add: buildPlanForAllocation_def case_prod_unfold Let_def)

text \<open>What one call does to the ledger: it takes out exactly what an admitted plan assigns.\<close>

lemma plan_books:
  assumes "buildPlanForAllocation s node st l a now g = (p, l')" and "budgets_nonneg a"
  shows "lg_Capacity l' = lg_Capacity l"
    and "val d (lg_Remaining l') =
      val d (lg_Remaining l) - (if admitted p then val d (pl_AssignedResources p) else 0)"
    and "admitted p \<Longrightarrow> nonneg (pl_AssignedResources p) \<and> fits (pl_AssignedResources p) (lg_Remaining l)"
proof -
  define ch where "ch = chooseTarget a (activeTimeWindow (as_TimeWindows (a_Spec a)) now) g
    (snd (sc_ActionFor s a))"
  have nn: "nonneg r" if "reserve l k (ch_requiredForFit ch) (ch_candidates ch) = ((r, t, True), l1)"
    for k r t l1
    using reserve_nonneg [OF that] choice_nonneg [OF assms(2)] unfolding ch_def by blast
  have "lg_Capacity l' = lg_Capacity l \<and>
    val d (lg_Remaining l') =
      val d (lg_Remaining l) - (if admitted p then val d (pl_AssignedResources p) else 0) \<and>
    (admitted p \<longrightarrow> nonneg (pl_AssignedResources p) \<and> fits (pl_AssignedResources p) (lg_Remaining l))"
  proof (rule plan_cases [OF assms(1) ch_def], goal_cases)
    case 1
    then show ?case by simp
  next
    case (2 tier l1)
    with release_remaining [OF 2(3) nn [OF 2(3)]] show ?case by simp
  next
    case 3
    with reserve_ok [OF 3(2)] reserve_exact [OF 3(2) nn [OF 3(2)]] nn [OF 3(2)] show ?case by simp
  qed
  then show "lg_Capacity l' = lg_Capacity l"
    "val d (lg_Remaining l') =
      val d (lg_Remaining l) - (if admitted p then val d (pl_AssignedResources p) else 0)"
    "admitted p \<Longrightarrow> nonneg (pl_AssignedResources p) \<and> fits (pl_AssignedResources p) (lg_Remaining l)"
    by simp_all
qed

section \<open>A pass over the allocations\<close>

text \<open>The pass as one loop: every allocation with the flag of its group.\<close>

fun planAll ::
    "Scheduler \<Rightarrow> AINodeResourceProfile option \<Rightarrow> NodeState \<Rightarrow> Clock \<Rightarrow> ledger \<Rightarrow>
     (AIResourceAllocation \<times> bool) list \<Rightarrow> Plan list \<times> ledger" where
  "planAll s node st now l [] = ([], l)"
| "planAll s node st now l ((a, g) # as) =
     (let (p, l1) = buildPlanForAllocation s node st l a now g;
          (ps, l2) = planAll s node st now l1 as
      in (p # ps, l2))"

lemma planAll_append:
  "planAll s node st now l (xs @ ys) =
     (let (ps, l1) = planAll s node st now l xs; (qs, l2) = planAll s node st now l1 ys
      in (ps @ qs, l2))"
  by (induction xs arbitrary: l) (auto simp: case_prod_unfold Let_def)

lemma planGroup_planAll:
  "planGroup s node st now g l as = planAll s node st now l (map (\<lambda>a. (a, g)) as)"
  by (induction as arbitrary: l) (simp_all add: case_prod_unfold Let_def)

definition flagged :: "Clock \<Rightarrow> AIResourceAllocation list list \<Rightarrow> (AIResourceAllocation \<times> bool) list" where
  "flagged now gs = concat (map (\<lambda>g. map (\<lambda>a. (a, hasAnyActiveTimeWindow g now)) g) gs)"

lemma map_fst_flagged: "map fst (flagged now gs) = concat gs"
  by (induction gs) (simp_all add: flagged_def comp_def)

lemma planGroups_planAll:
  "planGroups s node st now l gs = planAll s node st now l (flagged now gs)"
  by (induction gs arbitrary: l)
    (simp_all add: flagged_def planAll_append planGroup_planAll case_prod_unfold Let_def)

lemma BuildPlansAt_planAll:
  "BuildPlansAt s node as now =
     (case observe s node (orderAllocationsByPriorityAndWindow as now) of
        Inl e \<Rightarrow> Inl e
      | Inr st \<Rightarrow> Inr (fst (planAll s node st now (newLedger (capacityFromState st))
          (flagged now (groupAllocationsByPriority (orderAllocationsByPriorityAndWindow as now))))))"
  by (simp add: BuildPlansAt_def planGroups_planAll Let_def split: sum.splits)

lemma planAll_allocations: "map pl_Allocation (fst (planAll s node st now l xs)) = map fst xs"
  by (induction xs arbitrary: l) (auto simp: case_prod_unfold Let_def plan_allocation)

text \<open>The balance of the books after a pass.\<close>

definition assigned_total :: "dim \<Rightarrow> Plan list \<Rightarrow> int" where
  "assigned_total d ps = sum_list (map (\<lambda>p. val d (pl_AssignedResources p)) (filter admitted ps))"

lemma assigned_total_simps [simp]:
  "assigned_total d [] = 0"
  "assigned_total d (p # ps) =
     (if admitted p then val d (pl_AssignedResources p) else 0) + assigned_total d ps"
  "assigned_total d (ps @ qs) = assigned_total d ps + assigned_total d qs"
  by (simp_all add: assigned_total_def)

lemma planAll_books:
  assumes "planAll s node st now l xs = (ps, l')" and "list_all budgets_nonneg (map fst xs)"
  shows "lg_Capacity l' = lg_Capacity l"
    and "val d (lg_Remaining l') = val d (lg_Remaining l) - assigned_total d ps"
    and "nonneg (lg_Remaining l) \<Longrightarrow> nonneg (lg_Remaining l')"
proof -
  have "lg_Capacity l' = lg_Capacity l \<and>
    (\<forall>d. val d (lg_Remaining l') = val d (lg_Remaining l) - assigned_total d ps) \<and>
    (nonneg (lg_Remaining l) \<longrightarrow> nonneg (lg_Remaining l'))"
    using assms
  proof (induction xs arbitrary: l ps)
    case (Cons x xs)
    obtain a g where x: "x = (a, g)" by (cases x)
    obtain p l1 where p: "buildPlanForAllocation s node st l a now g = (p, l1)"
      by (metis prod.exhaust)
    define ps' where "ps' = fst (planAll s node st now l1 xs)"
    then have ps': "planAll s node st now l1 xs = (ps', l')" "ps = p # ps'"
      using Cons.prems(1) x p by (auto simp: case_prod_unfold Let_def)
    have a: "budgets_nonneg a" and xs: "list_all budgets_nonneg (map fst xs)"
      using Cons.prems(2) x by simp_all
    note books = plan_books [OF p a]
    have "nonneg (lg_Remaining l) \<Longrightarrow> nonneg (lg_Remaining l1)"
      using books(2,3) by (auto simp: nonneg_iff local_books.fits_iff)
    with Cons.IH [OF ps'(1) xs] books(1,2) ps'(2) show ?case by simp
  qed simp
  then show "lg_Capacity l' = lg_Capacity l"
    "val d (lg_Remaining l') = val d (lg_Remaining l) - assigned_total d ps"
    "nonneg (lg_Remaining l) \<Longrightarrow> nonneg (lg_Remaining l')"
    by simp_all
qed

lemma BuildPlansAt_balance:
  assumes "BuildPlansAt s node as now = Inr ps" and "list_all budgets_nonneg as"
    and "observe s node (orderAllocationsByPriorityAndWindow as now) = Inr st"
  shows "assigned_total d ps \<le> val d (capacityFromState st)"
proof -
  let ?ord = "orderAllocationsByPriorityAndWindow as now"
  let ?xs = "flagged now (groupAllocationsByPriority ?ord)"
  define l' where "l' = snd (planAll s node st now (newLedger (capacityFromState st)) ?xs)"
  then have run: "planAll s node st now (newLedger (capacityFromState st)) ?xs = (ps, l')"
    using assms(1,3) by (auto simp: BuildPlansAt_planAll)
  have "list_all budgets_nonneg (map fst ?xs)"
    using assms(2) by (simp add: map_fst_flagged concat_groups order_sort_key list_all_iff)
  note books = planAll_books [OF run this]
  have "nonneg (lg_Remaining l')"
    by (rule books(3)) (simp add: newLedger_def capacityFromState_nonneg)
  with books(2) [of d] nonneg_val [of "lg_Remaining l'" d] show ?thesis
    by (simp add: newLedger_def)
qed

section \<open>The capacity of the node\<close>

text \<open>
  What the three managers observe, dimension by dimension: the amount the node reports as
  allocatable, or, where that is zero, the amount its hardware and runtime declare.
\<close>

definition reported :: "dim \<Rightarrow> AINodeResourceProfile option \<Rightarrow> int32" where
  "reported d node =
     (case Option.bind node (\<lambda>n. nst_Allocatable (n_Status n)) of None \<Rightarrow> 0 | Some r \<Rightarrow> amount d r)"

definition runtime_tokens :: "AINodeResourceProfile option \<Rightarrow> TokenThroughput" where
  "runtime_tokens node =
     (case Option.bind (runtime_capacity node) rc_TokenThroughput of
        None \<Rightarrow> \<lparr>tt_PrefillTokensPerSecond = 0, tt_DecodeTokensPerSecond = 0, tt_TotalTokensPerSecond = 0\<rparr>
      | Some t \<Rightarrow> t)"

fun declared :: "dim \<Rightarrow> AINodeResourceProfile option \<Rightarrow> int32" where
  "declared DGpu node = (case node of None \<Rightarrow> 0 | Some n \<Rightarrow> word_of_int (int (length (ns_GPUs (n_Spec n)))))"
| "declared DMem node = (case node of None \<Rightarrow> 0 | Some n \<Rightarrow> sum_list (map gd_MemoryGiB (ns_GPUs (n_Spec n))))"
| "declared DKv node = (case runtime_capacity node of None \<Rightarrow> 0 | Some c \<Rightarrow> rc_KVCacheGiB c)"
| "declared DPrefill node = tt_PrefillTokensPerSecond (runtime_tokens node)"
| "declared DDecode node = tt_DecodeTokensPerSecond (runtime_tokens node)"
| "declared DTotal node = tt_TotalTokensPerSecond (runtime_tokens node)"

definition observed :: "dim \<Rightarrow> AINodeResourceProfile option \<Rightarrow> int32" where
  "observed d node = (if reported d node \<noteq> 0 then reported d node else declared d node)"

definition local_capacity :: "AINodeResourceProfile option \<Rightarrow> dim \<Rightarrow> int" where
  "local_capacity node d = max 0 (sint (observed d node))"

lemma fold_memory:
  "GPUMemoryGiB (fold (\<lambda>gpu c. c \<lparr>GPUMemoryGiB := GPUMemoryGiB c + gd_MemoryGiB gpu\<rparr>) gs c) =
   GPUMemoryGiB c + sum_list (map gd_MemoryGiB gs)"
  by (induction gs arbitrary: c) (simp_all add: add.assoc)

lemmas observed_simps =
  observed_def reported_def runtime_tokens_def Let_def ResourceSummary_zero_def

lemma gpu_capacity:
  assumes "mg_Observe GPUManager node as = Inr s"
  shows "amount d (sn_Capacity s) = (if d \<in> {DGpu, DMem} then observed d node else 0)"
proof (cases "d \<in> {DGpu, DMem}")
  case True
  with assms show ?thesis
    by (auto simp: GPUManager_def GPUManager_Observe_def observed_simps fold_memory fold_memory_keeps
        split: option.splits)
qed (use gpu.observe_owned [OF assms] in auto)

lemma kv_capacity:
  assumes "mg_Observe KVCacheManager node as = Inr s"
  shows "amount d (sn_Capacity s) = (if d = DKv then observed d node else 0)"
proof (cases "d = DKv")
  case True
  with assms show ?thesis
    by (auto simp: KVCacheManager_def KVCacheManager_Observe_def observed_simps split: option.splits)
qed (use kv.observe_owned [OF assms] in auto)

lemma tokens_capacity:
  assumes "mg_Observe TokenThroughputManager node as = Inr s"
  shows "amount d (sn_Capacity s) = (if d \<in> {DPrefill, DDecode, DTotal} then observed d node else 0)"
proof (cases "d \<in> {DPrefill, DDecode, DTotal}")
  case True
  with assms show ?thesis
    by (auto simp: TokenThroughputManager_def TokenThroughputManager_Observe_def observed_simps
        split: option.splits)
qed (use tokens.observe_owned [OF assms] in auto)

text \<open>The state the default scheduler observes.\<close>

definition manager_state ::
    "AINodeResourceProfile option \<Rightarrow> AIResourceAllocation list \<Rightarrow> NodeState \<Rightarrow> bool" where
  "manager_state node as st \<longleftrightarrow>
     st_Node st = node \<and>
     (\<exists>g k t. mg_Observe GPUManager node as = Inr g \<and> mg_Observe KVCacheManager node as = Inr k \<and>
        mg_Observe TokenThroughputManager node as = Inr t \<and>
        st_Snapshots st =
          [(GPUManagerName, g), (KVCacheManagerName, k), (TokenThroughputManagerName, t)])"

lemma observe_default: "\<exists>st. observe NewDefaultScheduler node as = Inr st \<and> manager_state node as st"
proof -
  obtain g k t where
    "mg_Observe GPUManager node as = Inr g" "mg_Observe KVCacheManager node as = Inr k"
    "mg_Observe TokenThroughputManager node as = Inr t"
    using gpu.observe_ok kv.observe_ok tokens.observe_ok by meson
  then show ?thesis
    by (simp add: observe_def NewDefaultScheduler_def NewScheduler_def manager_state_def)
      (simp add: manager_defs)
qed

lemma capacity_default:
  assumes "manager_state node as st"
  shows "val d (capacityFromState st) = local_capacity node d"
proof -
  obtain g k t where o: "mg_Observe GPUManager node as = Inr g"
    "mg_Observe KVCacheManager node as = Inr k" "mg_Observe TokenThroughputManager node as = Inr t"
    and st: "st_Snapshots st = [(GPUManagerName, g), (KVCacheManagerName, k), (TokenThroughputManagerName, t)]"
    using assms by (auto simp: manager_state_def)
  have "val d (sn_Capacity g) = (if d \<in> {DGpu, DMem} then sint (observed d node) else 0)"
    "val d (sn_Capacity k) = (if d = DKv then sint (observed d node) else 0)"
    "val d (sn_Capacity t) = (if d \<in> {DPrefill, DDecode, DTotal} then sint (observed d node) else 0)"
    by (simp_all add: val_def gpu_capacity [OF o(1)] kv_capacity [OF o(2)] tokens_capacity [OF o(3)])
  then show ?thesis
    by (cases d) (simp_all add: val_capacityFromState st local_capacity_def)
qed

lemma capacity_default_eq:
  assumes "manager_state node as st" and "manager_state node bs st'"
  shows "capacityFromState st = capacityFromState st'"
  using capacity_default [OF assms(1)] capacity_default [OF assms(2)] by (simp add: res_eq_val)

text \<open>
  C2. The node is never overcommitted.  The default local scheduler always returns, with
  one plan per allocation in the planning order; and however the allocations compete, the
  budgets of the plans that are to be applied sum, as integers, to at most the node's capacity
  in every dimension.  A plan that is rejected or degraded leaves no trace in the books.
\<close>
theorem BuildPlans_within_capacity:
  assumes "list_all budgets_nonneg as"
  shows "\<exists>ps. BuildPlansAt NewDefaultScheduler node as now = Inr ps \<and>
    map pl_Allocation ps = orderAllocationsByPriorityAndWindow as now \<and>
    assigned_total d ps \<le> local_capacity node d"
proof -
  let ?ord = "orderAllocationsByPriorityAndWindow as now"
  obtain st where st: "observe NewDefaultScheduler node ?ord = Inr st" "manager_state node ?ord st"
    using observe_default by blast
  then obtain ps where ps: "BuildPlansAt NewDefaultScheduler node as now = Inr ps"
    by (simp add: BuildPlansAt_def)
  then have "map pl_Allocation ps = ?ord"
    using st(1) by (auto simp: BuildPlansAt_planAll planAll_allocations map_fst_flagged concat_groups)
  with ps BuildPlansAt_balance [OF ps assms st(1)] capacity_default [OF st(2)] show ?thesis by simp
qed

section \<open>What the managers and constraints decide\<close>

lemma snapshot_capacity:
  assumes "manager_state node as st"
  shows
    "amount d (sn_Capacity (snapshot_get (st_Snapshots st) GPUManagerName)) =
       (if d \<in> {DGpu, DMem} then observed d node else 0)"
    "amount d (sn_Capacity (snapshot_get (st_Snapshots st) KVCacheManagerName)) =
       (if d = DKv then observed d node else 0)"
    "amount d (sn_Capacity (snapshot_get (st_Snapshots st) TokenThroughputManagerName)) =
       (if d \<in> {DPrefill, DDecode, DTotal} then observed d node else 0)"
proof -
  obtain g k t where o: "mg_Observe GPUManager node as = Inr g"
    "mg_Observe KVCacheManager node as = Inr k" "mg_Observe TokenThroughputManager node as = Inr t"
    and st: "st_Snapshots st = [(GPUManagerName, g), (KVCacheManagerName, k), (TokenThroughputManagerName, t)]"
    using assms by (auto simp: manager_state_def)
  have "snapshot_get (st_Snapshots st) GPUManagerName = g"
    "snapshot_get (st_Snapshots st) KVCacheManagerName = k"
    "snapshot_get (st_Snapshots st) TokenThroughputManagerName = t"
    by (simp_all add: st snapshot_get_def manager_defs)
  then show
    "amount d (sn_Capacity (snapshot_get (st_Snapshots st) GPUManagerName)) =
       (if d \<in> {DGpu, DMem} then observed d node else 0)"
    "amount d (sn_Capacity (snapshot_get (st_Snapshots st) KVCacheManagerName)) =
       (if d = DKv then observed d node else 0)"
    "amount d (sn_Capacity (snapshot_get (st_Snapshots st) TokenThroughputManagerName)) =
       (if d \<in> {DPrefill, DDecode, DTotal} then observed d node else 0)"
    using gpu_capacity [OF o(1)] kv_capacity [OF o(2)] tokens_capacity [OF o(3)] by simp_all
qed

lemma snapshot_capacity_eq:
  assumes "manager_state node as st" and "manager_state node bs st'"
  shows "sn_Capacity (snapshot_get (st_Snapshots st) GPUManagerName) =
      sn_Capacity (snapshot_get (st_Snapshots st') GPUManagerName)"
    and "sn_Capacity (snapshot_get (st_Snapshots st) KVCacheManagerName) =
      sn_Capacity (snapshot_get (st_Snapshots st') KVCacheManagerName)"
    and "sn_Capacity (snapshot_get (st_Snapshots st) TokenThroughputManagerName) =
      sn_Capacity (snapshot_get (st_Snapshots st') TokenThroughputManagerName)"
  by (rule res_eqI, simp add: snapshot_capacity [OF assms(1)] snapshot_capacity [OF assms(2)])+

lemma default_managers:
  "sc_resourceManagers NewDefaultScheduler = [GPUManager, KVCacheManager, TokenThroughputManager]"
  "sc_constraints NewDefaultScheduler = [TokenThroughputRequiresGPU, RuntimeActionCapability]"
  "sc_ActionFor NewDefaultScheduler = DefaultActionPolicy_ActionFor"
  by (simp_all add: NewDefaultScheduler_def NewScheduler_def)

lemma manager_names:
  "mg_Name GPUManager = GPUManagerName" "mg_Name KVCacheManager = KVCacheManagerName"
  "mg_Name TokenThroughputManager = TokenThroughputManagerName"
  "mg_Validate GPUManager = GPUManager_Validate" "mg_Validate KVCacheManager = KVCacheManager_Validate"
  "mg_Validate TokenThroughputManager = TokenThroughputManager_Validate"
  by (simp_all add: GPUManager_def KVCacheManager_def TokenThroughputManager_def)

text \<open>A planned budget is validated against the capacities alone: the other allocations do not matter.\<close>

lemma validate_capacity_only:
  assumes "manager_state node as st" and "manager_state node bs st'"
    and "as_Resources (a_Spec a) = Some r"
  shows "validateResources NewDefaultScheduler st a = validateResources NewDefaultScheduler st' a"
  by (simp add: validateResources_def default_managers manager_names validate_defs Let_def assms(3)
      snapshot_capacity_eq [OF assms(1,2)])

lemma check_capacity_only:
  assumes "manager_state node as st" and "manager_state node bs st'"
  shows "checkConstraints NewDefaultScheduler
      \<lparr>cr_Node = n, cr_Allocation = a, cr_Action = act, cr_Snapshots = st_Snapshots st\<rparr> =
    checkConstraints NewDefaultScheduler
      \<lparr>cr_Node = n, cr_Allocation = a, cr_Action = act, cr_Snapshots = st_Snapshots st'\<rparr>"
proof -
  let ?req = "\<lambda>s. \<lparr>cr_Node = n, cr_Allocation = a, cr_Action = act, cr_Snapshots = st_Snapshots s\<rparr>"
  have "TokenThroughputRequiresGPU_Check (?req st) = TokenThroughputRequiresGPU_Check (?req st')"
    by (simp add: TokenThroughputRequiresGPU_Check_def snapshot_capacity_eq(1) [OF assms]
        split: option.split)
  moreover have "RuntimeActionCapability_Check (?req st) = RuntimeActionCapability_Check (?req st')"
    by (simp add: RuntimeActionCapability_Check_def split: option.split)
  ultimately show ?thesis
    by (simp add: checkConstraints_def default_managers TokenThroughputRequiresGPU_def
        RuntimeActionCapability_def Let_def)
qed

lemma plan_capacity_only:
  assumes "manager_state node as st" and "manager_state node bs st'"
  shows "buildPlanForAllocation NewDefaultScheduler node st l a now g =
    buildPlanForAllocation NewDefaultScheduler node st' l a now g"
  unfolding buildPlanForAllocation_def Let_def case_prod_unfold
  by (simp add: validate_capacity_only [OF assms] check_capacity_only [OF assms])

lemma planAll_capacity_only:
  assumes "manager_state node as st" and "manager_state node bs st'"
  shows "planAll NewDefaultScheduler node st now l xs = planAll NewDefaultScheduler node st' now l xs"
  by (induction xs arbitrary: l)
    (auto simp: case_prod_unfold Let_def plan_capacity_only [OF assms])

section \<open>Isolation of priorities\<close>

lemma sort_key_split:
  fixes f :: "'a \<Rightarrow> 'k :: linorder"
  assumes "\<And>x y. x \<in> set xs \<Longrightarrow> y \<in> set xs \<Longrightarrow> P x \<Longrightarrow> \<not> P y \<Longrightarrow> f x < f y"
  shows "sort_key f xs = sort_key f (filter P xs) @ sort_key f (filter (\<lambda>x. \<not> P x) xs)"
proof (rule properties_for_sort_key)
  show "mset (sort_key f (filter P xs) @ sort_key f (filter (\<lambda>x. \<not> P x) xs)) = mset xs"
    by simp
next
  show "sorted (map f (sort_key f (filter P xs) @ sort_key f (filter (\<lambda>x. \<not> P x) xs)))"
    using assms by (auto simp: sorted_append less_imp_le)
next
  fix k
  assume "k \<in> set (sort_key f (filter P xs) @ sort_key f (filter (\<lambda>x. \<not> P x) xs))"
  then have k: "k \<in> set xs" by auto
  have same: "P x \<longleftrightarrow> P k" if "x \<in> set xs" "f k = f x" for x
    using that assms [of x k] assms [of k x] k by (cases "P x"; cases "P k") simp_all
  have "filter (\<lambda>x. f k = f x) (filter Q xs) = (if Q k then filter (\<lambda>x. f k = f x) xs else [])"
    if "Q = P \<or> Q = (\<lambda>x. \<not> P x)" for Q
    using that same by (auto simp: filter_empty_conv intro!: filter_cong)
  from this [of P] this [of "\<lambda>x. \<not> P x"]
  show "filter (\<lambda>x. f k = f x) (sort_key f (filter P xs) @ sort_key f (filter (\<lambda>x. \<not> P x) xs)) =
      filter (\<lambda>x. f k = f x) xs"
    using sort_key_stable [of f "f k"] by (simp add: eq_commute [of "f k"])
qed

definition rank_of :: "AIResourceAllocation \<Rightarrow> int" where
  "rank_of a = priorityRank (priorityOf a)"

lemma order_split:
  "orderAllocationsByPriorityAndWindow as now =
     orderAllocationsByPriorityAndWindow (filter (\<lambda>a. k \<le> rank_of a) as) now @
     orderAllocationsByPriorityAndWindow (filter (\<lambda>a. \<not> k \<le> rank_of a) as) now"
  unfolding order_sort_key
  by (rule sort_key_split) (simp add: precedence_def rank_of_def less_prod_def)

lemma groups_split:
  assumes "list_all (\<lambda>a. k \<le> rank_of a) as" and "list_all (\<lambda>a. \<not> k \<le> rank_of a) bs"
  shows "groupAllocationsByPriority (as @ bs) =
    groupAllocationsByPriority as @ groupAllocationsByPriority bs"
proof (cases "as = [] \<or> bs = []")
  case False
  then have "k \<le> rank_of (last as)" "\<not> k \<le> rank_of (hd bs)"
    using assms by (auto simp: list_all_iff)
  then have "priorityOf (hd bs) \<noteq> priorityOf (last as)"
    by (auto simp: rank_of_def)
  with False show ?thesis by (simp add: groups_append)
qed (auto simp: groupAllocationsByPriority_def)

text \<open>
  C15. Priorities are isolated.  For every rank \<open>k\<close>, the plans of the allocations of rank \<open>k\<close>
  and above are exactly those the scheduler would make if the lower ones did not exist: they
  come first, and no allocation of lower priority changes the budget, the action, the tier or
  even the message of a plan of higher priority.
\<close>
theorem lower_priorities_do_not_interfere:
  "\<exists>ps qs. BuildPlansAt NewDefaultScheduler node (filter (\<lambda>a. k \<le> rank_of a) as) now = Inr ps \<and>
     BuildPlansAt NewDefaultScheduler node as now = Inr (ps @ qs)"
proof -
  let ?hi = "filter (\<lambda>a. k \<le> rank_of a) as" and ?lo = "filter (\<lambda>a. \<not> k \<le> rank_of a) as"
  let ?ord = "\<lambda>xs. orderAllocationsByPriorityAndWindow xs now"
  let ?fl = "\<lambda>xs. flagged now (groupAllocationsByPriority (?ord xs))"
  obtain st where st: "observe NewDefaultScheduler node (?ord as) = Inr st" "manager_state node (?ord as) st"
    using observe_default by blast
  obtain sh where sh: "observe NewDefaultScheduler node (?ord ?hi) = Inr sh" "manager_state node (?ord ?hi) sh"
    using observe_default by blast
  have "?fl as = ?fl ?hi @ ?fl ?lo"
    by (subst order_split [of as now k], subst groups_split [where k = k])
      (simp_all add: order_sort_key list_all_iff flagged_def)
  then show ?thesis
    using st(1) sh(1) capacity_default_eq [OF st(2) sh(2)] planAll_capacity_only [OF st(2) sh(2)]
    by (simp add: BuildPlansAt_planAll planAll_append case_prod_unfold Let_def)
qed

section \<open>Refinement: a pass is a greedy assignment\<close>

text \<open>
  The abstract specification.  It knows nothing of ledgers, snapshots, reservations or
  releases: there is an integer amount left per dimension, each allocation in turn is decided
  against it, and only an assignment lowers it.
\<close>

datatype outcome = Rejected | Degraded ResourceSummary | Assigned string ResourceSummary

definition bursting :: "Clock \<Rightarrow> AIResourceAllocation \<Rightarrow> bool" where
  "bursting now a \<longleftrightarrow> windowActive now a \<and> maxBudget a \<noteq> ResourceSummary_zero"

definition covers :: "(dim \<Rightarrow> int) \<Rightarrow> ResourceSummary \<Rightarrow> bool" where
  "covers left r \<longleftrightarrow> (\<forall>d. val d r \<le> left d)"

definition needs_tokens :: "ResourceSummary \<Rightarrow> bool" where
  "needs_tokens r \<longleftrightarrow> 0 < val DPrefill r \<or> 0 < val DDecode r \<or> 0 < val DTotal r"

definition decide ::
    "AINodeResourceProfile option \<Rightarrow> Clock \<Rightarrow> (dim \<Rightarrow> int) \<Rightarrow> AIResourceAllocation \<Rightarrow> bool \<Rightarrow> outcome" where
  "decide node now left a contended =
     (let need = (if bursting now a then maxBudget a else requiredBudget a);
          (tier, grant) =
            (if bursting now a then (AllocationTierMax, maxBudget a)
             else if \<not> contended \<and> preferredBudget a \<noteq> ResourceSummary_zero \<and> covers left (preferredBudget a)
             then (AllocationTierPreferred, preferredBudget a)
             else (AllocationTierRequired, requiredBudget a))
      in if \<not> covers left need then Rejected
         else if needs_tokens grant \<and> local_capacity node DGpu = 0 then Degraded grant
         else Assigned tier grant)"

fun greedy ::
    "AINodeResourceProfile option \<Rightarrow> Clock \<Rightarrow> (dim \<Rightarrow> int) \<Rightarrow> (AIResourceAllocation \<times> bool) list \<Rightarrow>
     outcome list" where
  "greedy node now left [] = []"
| "greedy node now left ((a, contended) # as) =
     (let r = decide node now left a contended in
      r # greedy node now
            (case r of Assigned tier grant \<Rightarrow> (\<lambda>d. left d - val d grant) | _ \<Rightarrow> left) as)"

definition outcome_of :: "Plan \<Rightarrow> outcome" where
  "outcome_of p =
     (if admitted p then Assigned (pl_AllocationTier p) (pl_AssignedResources p)
      else if pl_AllocationTier p = AllocationTierDegraded then Degraded (pl_AssignedResources p)
      else Rejected)"

definition capacity_nonneg :: "AINodeResourceProfile option \<Rightarrow> bool" where
  "capacity_nonneg node \<longleftrightarrow> (\<forall>d. 0 \<le> sint (observed d node))"

text \<open>A budget within the node's capacity passes every manager; only tokens without a GPU are refused.\<close>

lemma validate_passes:
  assumes "manager_state node as st" and "capacity_nonneg node"
    and "as_Resources (a_Spec a) = Some r" and "covers (local_capacity node) r"
  shows "va_Allowed (validateResources NewDefaultScheduler st a)"
proof -
  have "val d r \<le> sint (observed d node)" for d
    using assms(2,4) by (simp add: covers_def local_capacity_def capacity_nonneg_def)
  then have "val d r \<le> val d (sn_Capacity (snapshot_get (st_Snapshots st) (mg_Name m)))"
    if "(m, d) \<in> {(GPUManager, DGpu), (GPUManager, DMem), (KVCacheManager, DKv),
      (TokenThroughputManager, DPrefill), (TokenThroughputManager, DDecode), (TokenThroughputManager, DTotal)}"
    for m d
    using that unfolding val_def [of _ "sn_Capacity _"]
    by (auto simp: manager_names snapshot_capacity [OF assms(1)])
  then show ?thesis
    by (simp add: validateResources_def default_managers Let_def assms(3) gpu.validate_iff
        kv.validate_iff tokens.validate_iff)
qed

lemma check_passes:
  assumes "manager_state node as st" and "as_Resources (a_Spec a) = Some r"
  shows "ck_Allowed (checkConstraints NewDefaultScheduler
      \<lparr>cr_Node = n, cr_Allocation = Some a, cr_Action = AllocationActionApply,
       cr_Snapshots = st_Snapshots st\<rparr>) \<longleftrightarrow> \<not> (needs_tokens r \<and> local_capacity node DGpu = 0)"
proof -
  let ?req = "\<lparr>cr_Node = n, cr_Allocation = Some a, cr_Action = AllocationActionApply,
       cr_Snapshots = st_Snapshots st\<rparr>"
  have cap: "ck_Allowed (RuntimeActionCapability_Check ?req)"
    by (rule runtime_action_apply) (simp add: action_defs lower_char_def)
  have gpu: "GPUCount (sn_Capacity (snapshot_get (st_Snapshots st) GPUManagerName)) = observed DGpu node"
    using snapshot_capacity(1) [OF assms(1), of DGpu] by simp
  have "ck_Allowed (TokenThroughputRequiresGPU_Check ?req) \<longleftrightarrow>
    \<not> (needs_tokens r \<and> local_capacity node DGpu = 0)"
    by (auto simp: TokenThroughputRequiresGPU_Check_def assms(2) gpu Let_def sle_sint sless_sint
        needs_tokens_def val_def local_capacity_def)
  with cap show ?thesis
    by (simp add: checkConstraints_def default_managers TokenThroughputRequiresGPU_def
        RuntimeActionCapability_def Let_def)
qed

lemma reserve_grant:
  assumes "bursting now a \<longleftrightarrow> w \<noteq> [] \<and> maxBudget a \<noteq> ResourceSummary_zero"
    and "ch = chooseTarget a w g r" and "left = (\<lambda>d. val d (lg_Remaining l))"
  shows "fst (reserve l key (ch_requiredForFit ch) (ch_candidates ch)) =
    (if \<not> covers left (if bursting now a then maxBudget a else requiredBudget a)
     then (ResourceSummary_zero, AllocationTierRejected, False)
     else if bursting now a then (maxBudget a, AllocationTierMax, True)
     else if \<not> g \<and> preferredBudget a \<noteq> ResourceSummary_zero \<and> covers left (preferredBudget a)
     then (preferredBudget a, AllocationTierPreferred, True)
     else (requiredBudget a, AllocationTierRequired, True))"
  using assms
  by (auto simp: reserve_def chooseTarget_cases covers_def local_books.fits_iff Let_def
      local_zero.is_zero_iff)

text \<open>The outcome of a call from its reservation and the two checks.\<close>

lemma plan_outcome:
  assumes "ch = chooseTarget a (activeTimeWindow (as_TimeWindows (a_Spec a)) now) g (snd (sc_ActionFor s a))"
    and "reserve l (allocationKey a) (ch_requiredForFit ch) (ch_candidates ch) = ((r, t, ok), l')"
    and "pa = a \<lparr>a_Spec := (a_Spec a) \<lparr>as_Resources := Some r\<rparr>\<rparr>"
  shows "outcome_of (fst (buildPlanForAllocation s node st l a now g)) =
    (if \<not> ok then Rejected
     else if va_Allowed (validateResources s st pa) \<and>
       ck_Allowed (checkConstraints s \<lparr>cr_Node = node, cr_Allocation = Some pa,
         cr_Action = fst (sc_ActionFor s a), cr_Snapshots = st_Snapshots st\<rparr>)
     then Assigned t r else Degraded r)"
  unfolding buildPlanForAllocation_def Let_def case_prod_unfold assms(1) [symmetric]
  by (simp add: assms(2) outcome_of_def admitted_def phase_defs tier_defs flip: assms(3))

lemma plan_decides:
  assumes "manager_state node as st" and "capacity_nonneg node"
    and "\<And>d. left d = val d (lg_Remaining l)" and "\<And>d. left d \<le> local_capacity node d"
  shows "outcome_of (fst (buildPlanForAllocation NewDefaultScheduler node st l a now g)) =
    decide node now left a g"
proof -
  define w where "w = activeTimeWindow (as_TimeWindows (a_Spec a)) now"
  define ch where "ch = chooseTarget a w g (snd (sc_ActionFor NewDefaultScheduler a))"
  obtain r t ok l' where res: "reserve l (allocationKey a) (ch_requiredForFit ch) (ch_candidates ch) = ((r, t, ok), l')"
    by (metis prod.exhaust)
  have lft: "left = (\<lambda>d. val d (lg_Remaining l))"
    using assms(3) by auto
  have burst: "bursting now a \<longleftrightarrow> w \<noteq> [] \<and> maxBudget a \<noteq> ResourceSummary_zero"
    by (simp add: bursting_def windowActive_def w_def)
  note grant = reserve_grant [OF burst ch_def lft, of "allocationKey a"]
  define pa where "pa = a \<lparr>a_Spec := (a_Spec a) \<lparr>as_Resources := Some r\<rparr>\<rparr>"
  have pa: "as_Resources (a_Spec pa) = Some r" and act: "fst (sc_ActionFor NewDefaultScheduler a) = AllocationActionApply"
    by (simp_all add: pa_def default_managers DefaultActionPolicy_ActionFor_def)
  have "va_Allowed (validateResources NewDefaultScheduler st pa)" if ok
  proof (rule validate_passes [OF assms(1,2) pa])
    have "fits r (lg_Remaining l)"
      using res that reserve_ok(2) by fastforce
    then show "covers (local_capacity node) r"
      using assms(4) by (auto simp: covers_def local_books.fits_iff lft intro: order_trans)
  qed
  then have "outcome_of (fst (buildPlanForAllocation NewDefaultScheduler node st l a now g)) =
    (if \<not> ok then Rejected
     else if needs_tokens r \<and> local_capacity node DGpu = 0 then Degraded r else Assigned t r)"
    using plan_outcome [OF ch_def [unfolded w_def] res pa_def, of node st]
      check_passes [OF assms(1) pa, of node] by (simp add: act)
  also have "\<dots> = decide node now left a g"
    using grant res
    by (cases "bursting now a";
        cases "\<not> g \<and> preferredBudget a \<noteq> ResourceSummary_zero \<and> covers left (preferredBudget a)";
        cases "covers left (if bursting now a then maxBudget a else requiredBudget a)")
      (auto simp: decide_def)
  finally show ?thesis .
qed

lemma planAll_greedy:
  assumes "manager_state node as st" and "capacity_nonneg node" and "list_all budgets_nonneg (map fst xs)"
    and "\<And>d. left d = val d (lg_Remaining l)" and "\<And>d. left d \<le> local_capacity node d"
  shows "map outcome_of (fst (planAll NewDefaultScheduler node st now l xs)) = greedy node now left xs"
  using assms(3-5)
proof (induction xs arbitrary: l left)
  case (Cons x xs)
  obtain a g where x: "x = (a, g)" by (cases x)
  obtain p l1 where p: "buildPlanForAllocation NewDefaultScheduler node st l a now g = (p, l1)"
    by (metis prod.exhaust)
  have a: "budgets_nonneg a" using Cons.prems(1) x by simp
  have dec: "outcome_of p = decide node now left a g"
    using plan_decides [OF assms(1,2) Cons.prems(2,3), of a now g] p by simp
  define left' where "left' = (case decide node now left a g of
    Assigned tier grant \<Rightarrow> (\<lambda>d. left d - val d grant) | _ \<Rightarrow> left)"
  have left': "left' d = left d - (if admitted p then val d (pl_AssignedResources p) else 0)" for d
    using dec by (auto simp: left'_def outcome_of_def split: outcome.splits if_splits)
  have rem: "left' d = val d (lg_Remaining l1)" for d
    using plan_books(2) [OF p a, of d] Cons.prems(2) by (simp add: left')
  have cap: "left' d \<le> local_capacity node d" for d
    using plan_books(3) [OF p a] Cons.prems(3) [of d] nonneg_val [of "pl_AssignedResources p" d]
    by (auto simp: left')
  have "map outcome_of (fst (planAll NewDefaultScheduler node st now l1 xs)) = greedy node now left' xs"
    by (rule Cons.IH [OF _ rem cap]) (use Cons.prems(1) in simp)
  with x p dec show ?case
    by (simp add: case_prod_unfold Let_def left'_def)
qed simp

text \<open>
  C3. Refinement.  For non-negative budgets and capacities, what the scheduler decides is
  the greedy assignment of the node's capacity along the planning order: an allocation in its
  active window gets its maximum or nothing, one that shares its group with an active one gets
  its requirement, any other its preferred budget where that fits and its requirement
  otherwise; it is rejected exactly when what it must have does not fit what the earlier
  assignments left, and degraded exactly when it asks for token throughput on a node
  without GPUs.  The managers' own validation never refuses what the ledger granted.
\<close>
theorem BuildPlans_refines_greedy:
  assumes "list_all budgets_nonneg as" and "capacity_nonneg node"
  shows "\<exists>ps. BuildPlansAt NewDefaultScheduler node as now = Inr ps \<and>
    map outcome_of ps =
      greedy node now (local_capacity node)
        (flagged now (groupAllocationsByPriority (orderAllocationsByPriorityAndWindow as now)))"
proof -
  let ?ord = "orderAllocationsByPriorityAndWindow as now"
  obtain st where st: "observe NewDefaultScheduler node ?ord = Inr st" "manager_state node ?ord st"
    using observe_default by blast
  have "map outcome_of (fst (planAll NewDefaultScheduler node st now (newLedger (capacityFromState st))
      (flagged now (groupAllocationsByPriority ?ord)))) =
    greedy node now (local_capacity node) (flagged now (groupAllocationsByPriority ?ord))"
    using assms capacity_default [OF st(2)]
    by (intro planAll_greedy [OF st(2)])
      (simp_all add: newLedger_def map_fst_flagged concat_groups order_sort_key list_all_iff)
  with st(1) show ?thesis
    by (simp add: BuildPlansAt_planAll)
qed

section \<open>Examples\<close>

text \<open>A node of four GPUs, and allocations that ask for a number of them.\<close>

definition four_gpu_node :: AINodeResourceProfile where
  "four_gpu_node =
     \<lparr>n_Meta = ObjectMeta_zero \<lparr>om_Name := ''node-a''\<rparr>,
      n_Spec =
        \<lparr>ns_NodeName = ''node-a'', ns_BackendType = [], ns_GPUs = [], ns_Runtime = None,
         ns_Capabilities = None\<rparr>,
      n_Status = AINodeResourceProfileStatus_zero \<lparr>nst_Allocatable := Some (gpuVec 4)\<rparr>\<rparr>"

definition asks_for :: "string \<Rightarrow> string \<Rightarrow> int \<Rightarrow> AIResourceAllocation" where
  "asks_for nm prio k =
     \<lparr>a_Meta = ObjectMeta_zero \<lparr>om_Name := nm\<rparr>,
      a_Spec = AIResourceAllocationSpec_zero \<lparr>as_Priority := prio, as_Resources := Some (gpuVec k)\<rparr>,
      a_Status = AIResourceAllocationStatus_zero\<rparr>"

definition midnight :: Clock where
  "midnight = \<lparr>now_Minute = 0, now_MinuteIn = (\<lambda>_. None)\<rparr>"

lemma asks_for_budgets:
  "requiredBudget (asks_for nm prio k) = gpuVec k" "preferredBudget (asks_for nm prio k) = gpuVec k"
  "maxBudget (asks_for nm prio k) = gpuVec k"
  by (simp_all add: requiredBudget_def preferredBudget_def maxBudget_def asks_for_def
      AIResourceAllocationSpec_zero_def)

lemma asks_for_nonneg: "0 \<le> k \<Longrightarrow> k < 2147483648 \<Longrightarrow> budgets_nonneg (asks_for nm prio k)"
  by (simp add: budgets_nonneg_def asks_for_budgets nonneg_gpus)

lemma four_gpu_observed: "observed d (Some four_gpu_node) = (if d = DGpu then 4 else 0)"
  by (cases d) (simp_all add: observed_def reported_def runtime_tokens_def runtime_capacity_def
      four_gpu_node_def gpuVec_def ResourceSummary_zero_def AINodeResourceProfileStatus_zero_def)

lemma four_gpu_capacity: "local_capacity (Some four_gpu_node) d = (if d = DGpu then 4 else 0)"
  by (simp add: local_capacity_def four_gpu_observed)

lemma four_gpu_nonneg: "capacity_nonneg (Some four_gpu_node)"
  by (simp add: capacity_nonneg_def four_gpu_observed)


theorem BuildPlans_within_capacity_witness:
  "\<exists>ps. BuildPlansAt NewDefaultScheduler (Some four_gpu_node)
       [asks_for ''batch'' ''low'' 3, asks_for ''chat'' ''high'' 2] midnight = Inr ps \<and>
     map pl_Allocation ps = orderAllocationsByPriorityAndWindow
       [asks_for ''batch'' ''low'' 3, asks_for ''chat'' ''high'' 2] midnight \<and>
     assigned_total DGpu ps \<le> 4"
  using BuildPlans_within_capacity [of "[asks_for ''batch'' ''low'' 3, asks_for ''chat'' ''high'' 2]"
      "Some four_gpu_node" midnight DGpu]
  by (simp add: asks_for_nonneg four_gpu_capacity)

text \<open>The workload of higher priority is served first and the other does not fit any more.\<close>

lemma two_ordered:
  "orderAllocationsByPriorityAndWindow [asks_for ''batch'' ''low'' 3, asks_for ''chat'' ''high'' 2] now =
   [asks_for ''chat'' ''high'' 2, asks_for ''batch'' ''low'' 3]"
  by (simp add: orderAllocationsByPriorityAndWindow_def SliceStable_def allocationLess_def Let_def
      priorityOf_def priorityRank_def asks_for_def priority_defs lower_char_def)

lemma two_flagged:
  "flagged midnight (groupAllocationsByPriority [asks_for ''chat'' ''high'' 2, asks_for ''batch'' ''low'' 3]) =
   [(asks_for ''chat'' ''high'' 2, False), (asks_for ''batch'' ''low'' 3, False)]"
  by (simp add: flagged_def groupAllocationsByPriority_def priorityOf_def asks_for_def
      hasAnyActiveTimeWindow_def AIResourceAllocationSpec_zero_def)

theorem BuildPlans_refines_greedy_witness:
  "\<exists>ps. BuildPlansAt NewDefaultScheduler (Some four_gpu_node)
       [asks_for ''batch'' ''low'' 3, asks_for ''chat'' ''high'' 2] midnight = Inr ps \<and>
     map outcome_of ps = [Assigned AllocationTierPreferred (gpuVec 2), Rejected]"
proof -
  have "\<not> bursting midnight (asks_for nm prio k)" for nm prio k
    by (simp add: bursting_def windowActive_def asks_for_def AIResourceAllocationSpec_zero_def)
  then have "greedy (Some four_gpu_node) midnight (local_capacity (Some four_gpu_node))
      [(asks_for ''chat'' ''high'' 2, False), (asks_for ''batch'' ''low'' 3, False)] =
    [Assigned AllocationTierPreferred (gpuVec 2), Rejected]"
    by (simp add: decide_def asks_for_budgets covers_def four_gpu_capacity val_gpus gpus_zero_iff
        needs_tokens_def all_dim)
  then show ?thesis
    using BuildPlans_refines_greedy [of "[asks_for ''batch'' ''low'' 3, asks_for ''chat'' ''high'' 2]"
        "Some four_gpu_node" midnight]
    by (simp add: asks_for_nonneg four_gpu_nonneg two_ordered two_flagged)
qed

end
