(* ===== verification/StatusRecorder.thy ===== *)
theory StatusRecorder
  imports Backend LocalScheduler
begin

text \<open>
  The agent's status writer (\<open>agent/status_recorder.go\<close>) with the two message functions of
  \<open>controller.go\<close> it uses.

  The controller-runtime client is the parameter \<open>AgentClient\<close>, a record of the calls the agent
  makes, over a type \<open>'w\<close> of states of the world; \<open>ac_Retry\<close> is \<open>retry.RetryOnConflict\<close> and
  \<open>ac_Now\<close>, \<open>ac_Clock\<close> are the clock.  Operations that mutate the allocation they are given
  return it.
\<close>

text \<open>The fields of a pod that the agent reads or writes; the rest of its spec and status is opaque.\<close>

record CorePod =
  cp_Meta :: ObjectMeta
  cp_NodeName :: string
  cp_SchedulerName :: string
  cp_Phase :: string
  cp_Rest :: string

record 'w AgentClient =
  ac_GetAllocation :: "'w \<Rightarrow> string \<Rightarrow> string \<Rightarrow> (ApiError + AIResourceAllocation) \<times> 'w"
  ac_ListAllocations :: "'w \<Rightarrow> (string \<rightharpoonup> string) \<Rightarrow> (ApiError + AIResourceAllocation list) \<times> 'w"
  ac_UpdateAllocationStatus :: "'w \<Rightarrow> AIResourceAllocation \<Rightarrow> ApiError option \<times> 'w"
  ac_GetNodeProfile :: "'w \<Rightarrow> string \<Rightarrow> string \<Rightarrow> (ApiError + AINodeResourceProfile) \<times> 'w"
  ac_ListNodeProfiles :: "'w \<Rightarrow> (ApiError + AINodeResourceProfile list) \<times> 'w"
  ac_CreateNodeProfile :: "'w \<Rightarrow> AINodeResourceProfile \<Rightarrow> ApiError option \<times> 'w"
  ac_UpdateNodeProfileStatus :: "'w \<Rightarrow> AINodeResourceProfile \<Rightarrow> ApiError option \<times> 'w"
  ac_GetPod :: "'w \<Rightarrow> string \<Rightarrow> string \<Rightarrow> (ApiError + CorePod) \<times> 'w"
  ac_CreatePod :: "'w \<Rightarrow> CorePod \<Rightarrow> ApiError option \<times> 'w"
  ac_DeletePod :: "'w \<Rightarrow> CorePod \<Rightarrow> ApiError option \<times> 'w"
  ac_Retry :: "('w \<Rightarrow> ApiError option \<times> 'w) \<Rightarrow> 'w \<Rightarrow> ApiError option \<times> 'w"
  ac_Now :: "'w \<Rightarrow> Time"
  ac_Clock :: "'w \<Rightarrow> Clock"

section \<open>Messages (controller.go)\<close>

definition agent_describeResource :: "ResourceSummary \<Rightarrow> string" where
  "agent_describeResource value =
     ''gpu='' @ show_int (sint (GPUCount value)) @
     '' gpuMemoryGiB='' @ show_int (sint (GPUMemoryGiB value)) @
     '' kvCacheGiB='' @ show_int (sint (KVCacheGiB value)) @
     '' prefillTPS='' @ show_int (sint (PrefillTokensPerSecond value)) @
     '' decodeTPS='' @ show_int (sint (DecodeTokensPerSecond value)) @
     '' totalTPS='' @ show_int (sint (TotalTokensPerSecond value))"

definition planStatusMessage :: "Plan \<Rightarrow> string" where
  "planStatusMessage plan =
     (let message =
            ''plan action='' @ pl_Action plan @ '' tier='' @ pl_AllocationTier plan @
            '' phase='' @ pl_TargetPhase plan @
            '' requested=('' @ agent_describeResource (pl_RequestedResources plan) @
            '') assigned=('' @ agent_describeResource (pl_AssignedResources plan) @ '')'';
          message1 =
            (if pl_ActiveWindow plan \<noteq> [] then message @ '' activeWindow='' @ pl_ActiveWindow plan
             else message)
      in if pl_Reason plan \<noteq> [] then message1 @ ''; '' @ pl_Reason plan else message1)"

section \<open>Writing a status (status\_recorder.go)\<close>

definition setWorkloadStatus ::
    "AIResourceAllocation \<Rightarrow> ResourceSummary option \<Rightarrow> ResourceSummary option \<Rightarrow> string \<Rightarrow> string \<Rightarrow>
     AIResourceAllocation" where
  "setWorkloadStatus allocation desired applied action message =
     (let entry = workloadStatusFromAllocation allocation desired applied action message;
          workloads = mergeWorkloadStatus (ast_Workloads (a_Status allocation)) entry
      in allocation
           \<lparr>a_Status :=
              (a_Status allocation)
                \<lparr>ast_Workloads := workloads,
                 ast_NodeLedger := Some (allocationLedgerSummary workloads)\<rparr>\<rparr>)"

definition setWorkloadStatusFromPlan ::
    "AIResourceAllocation \<Rightarrow> Plan \<Rightarrow> string \<Rightarrow> string \<Rightarrow> AIResourceAllocation" where
  "setWorkloadStatusFromPlan allocation plan action message =
     setWorkloadStatus allocation (Some (pl_AssignedResources plan)) (Some (pl_AssignedResources plan))
       action message"

text \<open>The status a ledger gets when one entry is merged into it.\<close>

definition mergedStatus ::
    "AIResourceAllocationStatus \<Rightarrow> AIResourceAllocationStatus \<Rightarrow> AllocationWorkloadStatus \<Rightarrow>
     AIResourceAllocationStatus" where
  "mergedStatus latest status entry =
     (let workloads = mergeWorkloadStatus (ast_Workloads latest) entry;
          node_ledger = allocationLedgerSummary workloads
      in latest
           \<lparr>ast_Phase := ast_Phase status, ast_ObservedAt := ast_ObservedAt status,
            ast_AppliedAt := ast_AppliedAt status, ast_Message := ast_Message status,
            ast_Workloads := workloads, ast_NodeLedger := Some node_ledger,
            ast_ObservedResources := nl_Allocated node_ledger,
            ast_Current := nl_Allocated node_ledger,
            ast_HourlyForecast := Some (aggregateHourlyForecastFromStatuses workloads)\<rparr>)"

text \<open>The body of both retry loops; \<open>change\<close> is what happens to the latest status.\<close>

definition statusAttempt ::
    "'w AgentClient \<Rightarrow> AIResourceAllocation \<Rightarrow> string \<Rightarrow>
     (AIResourceAllocationStatus \<Rightarrow> AIResourceAllocationStatus) \<Rightarrow> 'w \<Rightarrow> ApiError option \<times> 'w" where
  "statusAttempt c allocation action change w =
     (let wrap = wrapError (action @ '' '' @ a_Namespace allocation @ ''/'' @ a_Name allocation @ '': '') in
      case ac_GetAllocation c w (a_Namespace allocation) (a_Name allocation) of
        (Inl err, w1) \<Rightarrow> if IsNotFound err then (None, w1) else (Some (wrap err), w1)
      | (Inr latest, w1) \<Rightarrow>
          (case ac_UpdateAllocationStatus c w1 (latest \<lparr>a_Status := change (a_Status latest)\<rparr>) of
             (Some err, w2) \<Rightarrow> if IsNotFound err then (None, w2) else (Some (wrap err), w2)
           | (None, w2) \<Rightarrow> (None, w2)))"

definition updateAllocationStatus ::
    "'w AgentClient \<Rightarrow> AIResourceAllocation \<Rightarrow> string \<Rightarrow> 'w \<Rightarrow> ApiError option \<times> 'w" where
  "updateAllocationStatus c allocation action w =
     (case ast_Workloads (a_Status allocation) of
        [] \<Rightarrow> ac_Retry c (statusAttempt c allocation action (\<lambda>latest. a_Status allocation)) w
      | entry # _ \<Rightarrow>
          ac_Retry c
            (statusAttempt c allocation action
               (\<lambda>latest. mergedStatus latest (a_Status allocation) entry)) w)"

section \<open>The phases (status\_recorder.go)\<close>

type_synonym 'w recorded = "ApiError option \<times> AIResourceAllocation \<times> 'w"

definition writeStatus ::
    "'w AgentClient \<Rightarrow> AIResourceAllocation \<Rightarrow> string \<Rightarrow> 'w \<Rightarrow> 'w recorded" where
  "writeStatus c allocation action w =
     (case updateAllocationStatus c allocation action w of (err, w') \<Rightarrow> (err, allocation, w'))"

definition markPendingApply ::
    "'w AgentClient \<Rightarrow> AIResourceAllocation \<Rightarrow> Plan \<Rightarrow> 'w \<Rightarrow> 'w recorded" where
  "markPendingApply c allocation plan w =
     (let now = Some (ac_Now c w);
          allocation1 =
            allocation
              \<lparr>a_Status :=
                 (a_Status allocation)
                   \<lparr>ast_Phase := AllocationPhasePendingApply, ast_ObservedAt := now,
                    ast_ObservedResources := Some (pl_AssignedResources plan),
                    ast_Current := Some (pl_AssignedResources plan),
                    ast_HourlyForecast := Some (buildHourlyForecast (Some allocation) now),
                    ast_Message := planStatusMessage plan\<rparr>\<rparr>
      in writeStatus c
           (setWorkloadStatusFromPlan allocation1 plan (pl_Action plan) (planStatusMessage plan))
           ''mark allocation pending apply'' w)"

definition markApplying ::
    "'w AgentClient \<Rightarrow> AIResourceAllocation \<Rightarrow> Plan \<Rightarrow> 'w \<Rightarrow> 'w recorded" where
  "markApplying c allocation plan w =
     (let now = Some (ac_Now c w);
          allocation1 =
            allocation
              \<lparr>a_Status :=
                 (a_Status allocation)
                   \<lparr>ast_Phase := AllocationPhaseApplying, ast_ObservedAt := now,
                    ast_Message := planStatusMessage plan\<rparr>\<rparr>
      in writeStatus c
           (setWorkloadStatusFromPlan allocation1 plan (pl_Action plan) (planStatusMessage plan))
           ''mark allocation applying'' w)"

definition markApplied ::
    "'w AgentClient \<Rightarrow> AIResourceAllocation \<Rightarrow> Plan \<Rightarrow> ApplyResult \<Rightarrow> 'w \<Rightarrow> 'w recorded" where
  "markApplied c allocation plan result w =
     (let now = Some (ac_Now c w);
          allocation1 =
            allocation
              \<lparr>a_Status :=
                 (a_Status allocation)
                   \<lparr>ast_Phase := AllocationPhaseApplied, ast_ObservedAt := now, ast_AppliedAt := now,
                    ast_ObservedResources := rs_ObservedResources result,
                    ast_Current := rs_ObservedResources result,
                    ast_HourlyForecast := Some (buildHourlyForecast (Some allocation) now),
                    ast_Message := rs_Message result\<rparr>\<rparr>
      in writeStatus c
           (setWorkloadStatus allocation1 (Some (pl_AssignedResources plan))
              (rs_ObservedResources result) (pl_Action plan) (rs_Message result))
           ''mark allocation applied'' w)"

definition markMigrating ::
    "'w AgentClient \<Rightarrow> AIResourceAllocation \<Rightarrow> Plan \<Rightarrow> 'w \<Rightarrow> 'w recorded" where
  "markMigrating c allocation plan w =
     (let now = Some (ac_Now c w);
          allocation1 =
            allocation
              \<lparr>a_Status :=
                 (a_Status allocation)
                   \<lparr>ast_Phase := AllocationPhaseMigrating, ast_ObservedAt := now,
                    ast_ObservedResources := Some (pl_AssignedResources plan),
                    ast_Current := Some (pl_AssignedResources plan),
                    ast_HourlyForecast := Some (buildHourlyForecast (Some allocation) now),
                    ast_Message := planStatusMessage plan\<rparr>\<rparr>
      in writeStatus c
           (setWorkloadStatusFromPlan allocation1 plan AllocationActionEvict (planStatusMessage plan))
           ''mark allocation migrating'' w)"

definition markReleased ::
    "'w AgentClient \<Rightarrow> AIResourceAllocation \<Rightarrow> string \<Rightarrow> 'w \<Rightarrow> 'w recorded" where
  "markReleased c allocation message w =
     (let now = Some (ac_Now c w);
          allocation1 =
            allocation
              \<lparr>a_Status :=
                 (a_Status allocation)
                   \<lparr>ast_Phase := AllocationPhaseReleased, ast_ObservedAt := now,
                    ast_ObservedResources := Some ResourceSummary_zero,
                    ast_Current := Some ResourceSummary_zero,
                    ast_HourlyForecast := Some (emptyHourlyForecast now),
                    ast_Message := message\<rparr>\<rparr>
      in writeStatus c
           (setWorkloadStatus allocation1 (Some ResourceSummary_zero) (Some ResourceSummary_zero)
              AllocationActionEvict message)
           ''mark allocation released'' w)"

definition markFailedWith ::
    "'w AgentClient \<Rightarrow> AIResourceAllocation \<Rightarrow> Plan \<Rightarrow> string \<Rightarrow> string \<Rightarrow> 'w \<Rightarrow> 'w recorded" where
  "markFailedWith c allocation plan message action w =
     (let now = Some (ac_Now c w);
          allocation1 =
            allocation
              \<lparr>a_Status :=
                 (a_Status allocation)
                   \<lparr>ast_Phase := AllocationPhaseFailed, ast_ObservedAt := now,
                    ast_ObservedResources := Some (pl_AssignedResources plan),
                    ast_Current := Some (pl_AssignedResources plan),
                    ast_HourlyForecast := Some (buildHourlyForecast (Some allocation) now),
                    ast_Message := message\<rparr>\<rparr>
      in writeStatus c
           (setWorkloadStatusFromPlan allocation1 plan (pl_Action plan) message) action w)"

definition markPlanFailed ::
    "'w AgentClient \<Rightarrow> AIResourceAllocation \<Rightarrow> Plan \<Rightarrow> 'w \<Rightarrow> 'w recorded" where
  "markPlanFailed c allocation plan w =
     markFailedWith c allocation plan (planStatusMessage plan) ''mark allocation plan failed'' w"

definition markFailed ::
    "'w AgentClient \<Rightarrow> AIResourceAllocation \<Rightarrow> Plan \<Rightarrow> ApiError \<Rightarrow> 'w \<Rightarrow> AIResourceAllocation \<times> 'w" where
  "markFailed c allocation plan err w =
     snd (markFailedWith c allocation plan (error_text err) ''mark allocation failed'' w)"

section \<open>What reaches the server\<close>

text \<open>
  The documented behaviour of the API server towards a client that nothing else races with: reads
  return what is stored, an update of the status subresource of a stored object succeeds and
  replaces its status only, and a retry loop ends with its first successful run.
\<close>

definition status_store ::
    "'w AgentClient \<Rightarrow> ('w \<Rightarrow> string \<times> string \<rightharpoonup> AIResourceAllocation) \<Rightarrow> bool" where
  "status_store c st \<longleftrightarrow>
     (\<forall>w ns n a. st w (ns, n) = Some a \<longrightarrow>
        ac_GetAllocation c w ns n = (Inr a, w) \<and> object_key a = (ns, n)) \<and>
     (\<forall>w a old. st w (object_key a) = Some old \<longrightarrow>
        (\<exists>w'. ac_UpdateAllocationStatus c w a = (None, w') \<and>
           st w' = (st w)(object_key a \<mapsto> old \<lparr>a_Status := a_Status a\<rparr>))) \<and>
     (\<forall>f w w'. f w = (None, w') \<longrightarrow> ac_Retry c f w = (None, w'))"

lemma status_store_laws:
  assumes "status_store c st"
  shows "st w (ns, n) = Some a \<Longrightarrow> ac_GetAllocation c w ns n = (Inr a, w) \<and> object_key a = (ns, n)"
    and "st w (object_key b) = Some old \<Longrightarrow> \<exists>w'. ac_UpdateAllocationStatus c w b = (None, w') \<and>
       st w' = (st w)(object_key b \<mapsto> old \<lparr>a_Status := a_Status b\<rparr>)"
    and "f w = (None, w') \<Longrightarrow> ac_Retry c f w = (None, w')"
proof -
  note store = assms [unfolded status_store_def]
  show "st w (ns, n) = Some a \<Longrightarrow> ac_GetAllocation c w ns n = (Inr a, w) \<and> object_key a = (ns, n)"
    by (rule store [THEN conjunct1, rule_format])
  show "st w (object_key b) = Some old \<Longrightarrow> \<exists>w'. ac_UpdateAllocationStatus c w b = (None, w') \<and>
       st w' = (st w)(object_key b \<mapsto> old \<lparr>a_Status := a_Status b\<rparr>)"
    by (rule store [THEN conjunct2, THEN conjunct1, rule_format])
  show "f w = (None, w') \<Longrightarrow> ac_Retry c f w = (None, w')"
    by (rule store [THEN conjunct2, THEN conjunct2, rule_format])
qed

lemma updateAllocationStatus_store:
  assumes "status_store c st" and "st w (object_key a) = Some latest"
    and "ast_Workloads (a_Status a) = entry # entries"
  shows "\<exists>w'. updateAllocationStatus c a action w = (None, w') \<and>
    st w' = (st w)(object_key a \<mapsto>
      latest \<lparr>a_Status := mergedStatus (a_Status latest) (a_Status a) entry\<rparr>)"
proof -
  note laws = status_store_laws [OF assms(1)]
  let ?f = "statusAttempt c a action (\<lambda>latest. mergedStatus latest (a_Status a) entry)"
  let ?new = "latest \<lparr>a_Status := mergedStatus (a_Status latest) (a_Status a) entry\<rparr>"
  have get: "ac_GetAllocation c w (a_Namespace a) (a_Name a) = (Inr latest, w)" "object_key ?new = object_key a"
    using laws(1) [OF assms(2)] by simp_all
  obtain w' where "ac_UpdateAllocationStatus c w ?new = (None, w')" and st: "st w' = (st w)(object_key a \<mapsto> ?new)"
    using laws(2) [of w ?new latest] assms(2) get(2) by auto
  with get(1) have "?f w = (None, w')"
    by (simp add: statusAttempt_def)
  from laws(3) [of ?f, OF this] st show ?thesis
    by (simp add: updateAllocationStatus_def assms(3))
qed

text \<open>
  The writer sends the first entry of the allocation's status list.  \<open>own_first\<close> says that this is
  the allocation's own entry: it is so when the list is empty, as after the expansion of a
  workload without a status, and when the workload is the first one of its ledger.
\<close>

abbreviation entry_name :: "AIResourceAllocation \<Rightarrow> string" where
  "entry_name a \<equiv> workloadEntryNameFromAllocation (Some a)"

definition own_first :: "AIResourceAllocation \<Rightarrow> bool" where
  "own_first a \<longleftrightarrow>
     (case ast_Workloads (a_Status a) of [] \<Rightarrow> True | e # _ \<Rightarrow> ws_Name e = entry_name a)"

lemma entry_name_cong:
  "a_Spec a = a_Spec b \<Longrightarrow> a_Meta a = a_Meta b \<Longrightarrow> entry_name a = entry_name b"
  by (simp add: workloadEntryNameFromAllocation_def Let_def)

lemma workloadStatus_name [simp]: "ws_Name (workloadStatusFromAllocation a des app act msg) = entry_name a"
  by (simp add: workloadStatusFromAllocation_def Let_def split: option.splits)

lemma workloadStatus_fields [simp]:
  "ws_Phase (workloadStatusFromAllocation a des app act msg) = ast_Phase (a_Status a)"
  "ws_Applied (workloadStatusFromAllocation a des app act msg) = app"
  "ws_Desired (workloadStatusFromAllocation a des app act msg) = des"
  "ws_HourlyForecast (workloadStatusFromAllocation a des app act msg) = ast_HourlyForecast (a_Status a)"
  "ws_Message (workloadStatusFromAllocation a des app act msg) = msg"
  "ws_Action (workloadStatusFromAllocation a des app act msg) = act"
  by (simp_all add: workloadStatusFromAllocation_def Let_def split: option.splits)

lemma setWorkloadStatus_keeps [simp]:
  "a_Spec (setWorkloadStatus a des app act msg) = a_Spec a"
  "a_Meta (setWorkloadStatus a des app act msg) = a_Meta a"
  "ast_Phase (a_Status (setWorkloadStatus a des app act msg)) = ast_Phase (a_Status a)"
  "ast_HourlyForecast (a_Status (setWorkloadStatus a des app act msg)) = ast_HourlyForecast (a_Status a)"
  by (simp_all add: setWorkloadStatus_def Let_def)

lemma setWorkloadStatus_head:
  "ast_Workloads (a_Status (setWorkloadStatus a des app act msg)) =
     mergeWorkloadStatus (ast_Workloads (a_Status a)) (workloadStatusFromAllocation a des app act msg)"
  by (simp add: setWorkloadStatus_def Let_def)

lemma own_first_head:
  assumes "own_first a"
  shows "\<exists>rest. ast_Workloads (a_Status (setWorkloadStatus a des app act msg)) =
    workloadStatusFromAllocation a des app act msg # rest"
  using assms by (auto simp: own_first_def setWorkloadStatus_head split: list.splits)

lemma own_first_set: "own_first a \<Longrightarrow> own_first (setWorkloadStatus a des app act msg)"
  using own_first_head [of a des app act msg] entry_name_cong [of "setWorkloadStatus a des app act msg" a]
  by (auto simp: own_first_def)

lemma other_first_head:
  assumes "ast_Workloads (a_Status a) = e # es" and "ws_Name e \<noteq> entry_name a"
  shows "\<exists>rest. ast_Workloads (a_Status (setWorkloadStatus a des app act msg)) = e # rest"
  using assms by (simp add: setWorkloadStatus_head)

text \<open>The ledger of a server's object, entry by entry.\<close>

definition recorded ::
    "('w \<Rightarrow> string \<times> string \<rightharpoonup> AIResourceAllocation) \<Rightarrow> 'w \<Rightarrow> string \<times> string \<Rightarrow>
     string \<rightharpoonup> AllocationWorkloadStatus" where
  "recorded st w k = (case st w k of
     None \<Rightarrow> Map.empty | Some a \<Rightarrow> workloadStatusByName (ast_Workloads (a_Status a)))"

lemma mergedStatus_find:
  "workloadStatusByName (ast_Workloads (mergedStatus latest status entry)) =
   (workloadStatusByName (ast_Workloads latest))(ws_Name entry \<mapsto> entry)"
  by (simp add: mergedStatus_def Let_def workloadStatusByName_find status_entries.find_upsert fun_eq_iff)

text \<open>One write: the own entry is set, the other entries, the spec and the other objects stay.\<close>

lemma writeStatus_own:
  assumes "status_store c st" and "st w (object_key a) = Some latest" and "own_first a"
    and "b = setWorkloadStatus a des app act msg"
  shows "\<exists>w' new. writeStatus c b action w = (None, b, w') \<and> st w' = (st w)(object_key a \<mapsto> new) \<and>
    a_Spec new = a_Spec latest \<and> a_Meta new = a_Meta latest \<and>
    ast_Phase (a_Status new) = ast_Phase (a_Status a) \<and>
    recorded st w' (object_key a) =
      (recorded st w (object_key a))(entry_name a \<mapsto> workloadStatusFromAllocation a des app act msg)"
proof -
  obtain rest where head: "ast_Workloads (a_Status b) = workloadStatusFromAllocation a des app act msg # rest"
    using own_first_head [OF assms(3)] assms(4) by blast
  have key: "object_key b = object_key a" and phase: "ast_Phase (a_Status b) = ast_Phase (a_Status a)"
    using assms(4) by simp_all
  from updateAllocationStatus_store [OF assms(1) _ head, of w latest action] assms(2) key
  obtain w' where "updateAllocationStatus c b action w = (None, w')"
    and st: "st w' = (st w)(object_key a \<mapsto> latest \<lparr>a_Status :=
      mergedStatus (a_Status latest) (a_Status b) (workloadStatusFromAllocation a des app act msg)\<rparr>)"
    by auto
  moreover have "recorded st w' (object_key a) =
      (recorded st w (object_key a))(entry_name a \<mapsto> workloadStatusFromAllocation a des app act msg)"
    by (simp add: recorded_def st assms(2) mergedStatus_find)
  ultimately show ?thesis
    using phase by (intro exI) (auto simp: writeStatus_def mergedStatus_def Let_def)
qed

text \<open>
  Every \<open>mark\<close> operation sets some status fields of the allocation and then writes: the caller's
  allocation, the written object and the ledger afterwards.
\<close>

definition records ::
    "('w \<Rightarrow> string \<times> string \<rightharpoonup> AIResourceAllocation) \<Rightarrow> 'w \<Rightarrow> AIResourceAllocation \<Rightarrow> 'w recorded \<Rightarrow>
     AllocationWorkloadStatus \<Rightarrow> bool" where
  "records st w a out e \<longleftrightarrow>
     (\<exists>b w' new old. out = (None, b, w') \<and> st w (object_key a) = Some old \<and>
        st w' = (st w)(object_key a \<mapsto> new) \<and> a_Spec new = a_Spec old \<and> a_Meta new = a_Meta old \<and>
        ast_Phase (a_Status new) = ws_Phase e \<and> ws_Name e = entry_name a \<and>
        recorded st w' (object_key a) = (recorded st w (object_key a))(entry_name a \<mapsto> e) \<and>
        a_Spec b = a_Spec a \<and> a_Meta b = a_Meta a \<and> own_first b)"

lemma mark_own:
  assumes "status_store c st" and "st w (object_key a) = Some latest" and "own_first a"
    and "a_Spec a1 = a_Spec a" and "a_Meta a1 = a_Meta a"
    and "ast_Workloads (a_Status a1) = ast_Workloads (a_Status a)"
  shows "records st w a (writeStatus c (setWorkloadStatus a1 des app act msg) action w)
    (workloadStatusFromAllocation a1 des app act msg)"
proof -
  have name: "entry_name a1 = entry_name a"
    using assms(4,5) by (rule entry_name_cong)
  have key: "object_key a1 = object_key a"
    using assms(5) by simp
  have own: "own_first a1"
    using assms(3,6) by (simp only: own_first_def name)
  have latest: "st w (object_key a1) = Some latest"
    using assms(2) key by simp
  let ?b = "setWorkloadStatus a1 des app act msg" and ?e = "workloadStatusFromAllocation a1 des app act msg"
  obtain w' new where "writeStatus c ?b action w = (None, ?b, w')" "st w' = (st w)(object_key a \<mapsto> new)"
    "a_Spec new = a_Spec latest" "a_Meta new = a_Meta latest" "ast_Phase (a_Status new) = ws_Phase ?e"
    "recorded st w' (object_key a) = (recorded st w (object_key a))(entry_name a \<mapsto> ?e)"
    using writeStatus_own [OF assms(1) latest own refl, of des app act msg action, unfolded key name]
    by (elim exE conjE) (rule that, (assumption | simp only: workloadStatus_fields)+)
  moreover have "a_Spec ?b = a_Spec a" "a_Meta ?b = a_Meta a" "own_first ?b" "ws_Name ?e = entry_name a"
    using assms(4,5) own_first_set [OF own] name by simp_all
  ultimately show ?thesis
    unfolding records_def using assms(2) by (intro exI conjI)
qed

lemma mark_records:
  assumes "status_store c st" and "st w (object_key a) = Some latest" and "own_first a"
  shows "\<exists>e. records st w a (markPendingApply c a plan w) e \<and> ws_Phase e = AllocationPhasePendingApply"
    and "\<exists>e. records st w a (markApplying c a plan w) e \<and> ws_Phase e = AllocationPhaseApplying"
    and "\<exists>e. records st w a (markApplied c a plan result w) e \<and> ws_Phase e = AllocationPhaseApplied \<and>
      ws_Applied e = rs_ObservedResources result \<and> ws_Desired e = Some (pl_AssignedResources plan) \<and>
      ws_HourlyForecast e \<noteq> None"
    and "\<exists>e. records st w a (markMigrating c a plan w) e \<and> ws_Phase e = AllocationPhaseMigrating"
    and "\<exists>e. records st w a (markReleased c a message w) e \<and> ws_Phase e = AllocationPhaseReleased \<and>
      ws_Applied e = Some ResourceSummary_zero"
    and "\<exists>e. records st w a (markFailedWith c a plan message action w) e \<and> ws_Phase e = AllocationPhaseFailed \<and>
      ws_Message e = message"
  unfolding markPendingApply_def markApplying_def markApplied_def markMigrating_def markReleased_def
    markFailedWith_def setWorkloadStatusFromPlan_def Let_def
  by (rule exI, rule conjI, rule mark_own [OF assms], simp_all)+

end
