(* ===== verification/RealBackend.thy ===== *)
theory RealBackend
  imports Backend
begin

text \<open>
  The real backend (\<open>backend/real.go\<close>), its low-level driver
  (\<open>backend/low_level_resource.go\<close>) and the command isolator (\<open>backend/isolation.go\<close>).

  The operating system is the parameter \<open>Host\<close>: environment variables, the search path, running
  a command (arguments and, where the caller sets one, the environment) and the clock.  A Go
  interface is a record of its methods, a nil interface is \<open>None\<close>.  The operation table is a Go
  map; here it is the list of its entries, so the order of \<open>Capabilities\<close> is one of those Go
  allows.
\<close>

record 'w Host =
  ho_Getenv :: "string \<Rightarrow> string"
  ho_Environ :: "string list"
  ho_LookPath :: "string \<Rightarrow> 'w \<Rightarrow> ApiError + string"
  ho_Exec :: "string \<Rightarrow> string list \<Rightarrow> string list option \<Rightarrow> 'w \<Rightarrow> (string \<times> ApiError option) \<times> 'w"
  ho_Now :: "'w \<Rightarrow> Time"

section \<open>Isolation (isolation.go)\<close>

definition isolationCommandApply :: string where
  "isolationCommandApply = ''ASTRA_ISOLATION_APPLY_COMMAND''"
definition isolationCommandThrottle :: string where
  "isolationCommandThrottle = ''ASTRA_ISOLATION_THROTTLE_COMMAND''"
definition isolationCommandPause :: string where
  "isolationCommandPause = ''ASTRA_ISOLATION_PAUSE_COMMAND''"
definition isolationCommandEvict :: string where
  "isolationCommandEvict = ''ASTRA_ISOLATION_EVICT_COMMAND''"

record IsolationRequest =
  ir_Node :: "AINodeResourceProfile option"
  ir_Allocation :: "AIResourceAllocation option"
  ir_Action :: string
  ir_DesiredResources :: "ResourceSummary option"
  ir_Reason :: string

record IsolationResult =
  is_Applied :: bool
  is_Message :: string

record 'w ResourceIsolator =
  ri_ApplyIsolation :: "IsolationRequest \<Rightarrow> 'w \<Rightarrow> (ApiError + IsolationResult) \<times> 'w"

record CommandResourceIsolator =
  ci_commands :: "string \<rightharpoonup> string"

definition NewCommandResourceIsolator :: "'w Host \<Rightarrow> CommandResourceIsolator" where
  "NewCommandResourceIsolator os =
     \<lparr>ci_commands =
        [AllocationActionApply \<mapsto> ho_Getenv os isolationCommandApply,
         AllocationActionThrottle \<mapsto> ho_Getenv os isolationCommandThrottle,
         AllocationActionPause \<mapsto> ho_Getenv os isolationCommandPause,
         AllocationActionEvict \<mapsto> ho_Getenv os isolationCommandEvict]\<rparr>"

definition isolationEnv :: "IsolationRequest \<Rightarrow> AIResourceAllocation \<Rightarrow> string list" where
  "isolationEnv req allocation =
     (let resources =
            (case ir_DesiredResources req of
               Some r \<Rightarrow> r
             | None \<Rightarrow>
                 (case as_Resources (a_Spec allocation) of Some r \<Rightarrow> r | None \<Rightarrow> ResourceSummary_zero));
          nodeName =
            (case ir_Node req of
               None \<Rightarrow> []
             | Some node \<Rightarrow>
                 (if ns_NodeName (n_Spec node) = [] then n_Name node else ns_NodeName (n_Spec node)));
          workloadName = ref_Name (as_WorkloadRef (a_Spec allocation));
          workloadNamespace = ref_Namespace (as_WorkloadRef (a_Spec allocation));
          workloadNamespace1 =
            (if workloadNamespace = [] then a_Namespace allocation else workloadNamespace);
          assigned =
            (if as_Workloads (a_Spec allocation) \<noteq> [] \<and>
                aw_AssignedGPU (as_Workloads (a_Spec allocation) ! 0) \<noteq> None
             then aw_AssignedGPU (as_Workloads (a_Spec allocation) ! 0)
             else as_AssignedGPU (a_Spec allocation));
          gpuID = (case assigned of None \<Rightarrow> [] | Some g \<Rightarrow> ag_GPUID g);
          migSliceID = (case assigned of None \<Rightarrow> [] | Some g \<Rightarrow> ag_MIGSliceID g)
      in [''ASTRA_NODE_NAME='' @ nodeName,
          ''ASTRA_ALLOCATION_NAMESPACE='' @ a_Namespace allocation,
          ''ASTRA_ALLOCATION_NAME='' @ a_Name allocation,
          ''ASTRA_WORKLOAD_NAMESPACE='' @ workloadNamespace1,
          ''ASTRA_WORKLOAD_NAME='' @ workloadName,
          ''ASTRA_ACTION='' @ ir_Action req,
          ''ASTRA_REASON='' @ ir_Reason req,
          ''ASTRA_GPU_ID='' @ gpuID,
          ''ASTRA_MIG_SLICE_ID='' @ migSliceID,
          ''ASTRA_GPU_COUNT='' @ show_int (sint (GPUCount resources)),
          ''ASTRA_GPU_MEMORY_GIB='' @ show_int (sint (GPUMemoryGiB resources)),
          ''ASTRA_KV_CACHE_GIB='' @ show_int (sint (KVCacheGiB resources)),
          ''ASTRA_PREFILL_TOKENS_PER_SECOND='' @ show_int (sint (PrefillTokensPerSecond resources)),
          ''ASTRA_DECODE_TOKENS_PER_SECOND='' @ show_int (sint (DecodeTokensPerSecond resources)),
          ''ASTRA_TOTAL_TOKENS_PER_SECOND='' @ show_int (sint (TotalTokensPerSecond resources))])"

definition ApplyIsolation ::
    "'w Host \<Rightarrow> CommandResourceIsolator \<Rightarrow> IsolationRequest \<Rightarrow> 'w \<Rightarrow> (ApiError + IsolationResult) \<times> 'w" where
  "ApplyIsolation os i req w =
     (case ir_Allocation req of
        None \<Rightarrow> (Inl (OtherError ''missing allocation''), w)
      | Some allocation \<Rightarrow>
          (let action = ToLower (ir_Action req);
               command = map_get (ci_commands i) action
           in if command = [] then
                (Inr \<lparr>is_Applied = False,
                      is_Message =
                        ''no isolation command configured for action '' @ Quote (ir_Action req) @
                        ''; recorded desired resources only''\<rparr>, w)
              else
                (case ho_Exec os command [] (Some (ho_Environ os @ isolationEnv req allocation)) w of
                   ((output, err), w') \<Rightarrow>
                     (let message = TrimSpace output in
                      case err of
                        Some e \<Rightarrow>
                          (Inl (mapError (\<lambda>t. ''run isolation command '' @ command @ '' for action '' @
                             Quote (ir_Action req) @ '': '' @ t @ '' output='' @ message) e), w')
                      | None \<Rightarrow>
                          (Inr \<lparr>is_Applied = True,
                                is_Message =
                                  (if message = [] then
                                     ''isolation command '' @ command @ '' completed for action '' @
                                     Quote (ir_Action req)
                                   else message)\<rparr>, w')))))"

section \<open>The operation table (real.go)\<close>

definition RealOperationObserveGPU :: string where "RealOperationObserveGPU = ''observe_gpu''"
definition RealOperationObserveMIG :: string where "RealOperationObserveMIG = ''observe_mig''"
definition RealOperationConfigureMIG :: string where "RealOperationConfigureMIG = ''configure_mig''"
definition RealOperationObserveRuntime :: string where
  "RealOperationObserveRuntime = ''observe_runtime''"
definition RealOperationThrottleRuntime :: string where
  "RealOperationThrottleRuntime = ''throttle_runtime''"
definition RealOperationPauseRuntime :: string where "RealOperationPauseRuntime = ''pause_runtime''"
definition RealOperationEvictWorkload :: string where
  "RealOperationEvictWorkload = ''evict_workload''"
definition RealOperationObserveCRI :: string where "RealOperationObserveCRI = ''observe_cri''"
definition RealOperationUpdatePodResource :: string where
  "RealOperationUpdatePodResource = ''update_pod_resource''"

lemmas operation_defs =
  RealOperationObserveGPU_def RealOperationObserveMIG_def RealOperationConfigureMIG_def
  RealOperationObserveRuntime_def RealOperationThrottleRuntime_def RealOperationPauseRuntime_def
  RealOperationEvictWorkload_def RealOperationObserveCRI_def RealOperationUpdatePodResource_def

record RealOperationSupport =
  os_Operation :: string
  os_Layer :: string
  os_Backend :: string
  os_ReadOnly :: bool
  os_Supported :: bool
  os_Notes :: string

definition RealOperationSupport_zero :: RealOperationSupport where
  "RealOperationSupport_zero =
     \<lparr>os_Operation = [], os_Layer = [], os_Backend = [], os_ReadOnly = False, os_Supported = False,
      os_Notes = []\<rparr>"

definition defaultRealOperationSupport :: "(string \<times> RealOperationSupport) list" where
  "defaultRealOperationSupport =
     [(RealOperationObserveGPU,
        \<lparr>os_Operation = RealOperationObserveGPU, os_Layer = ''node-metrics'',
         os_Backend = ''NVML/DCGM/NVIDIA device plugin'', os_ReadOnly = True, os_Supported = True,
         os_Notes = ''GPU UUID, memory, utilization, and health can be observed through NVML/DCGM or Kubernetes device plugin state.''\<rparr>),
      (RealOperationObserveMIG,
        \<lparr>os_Operation = RealOperationObserveMIG, os_Layer = ''node-metrics'',
         os_Backend = ''NVML/NVIDIA device plugin'', os_ReadOnly = True, os_Supported = True,
         os_Notes = ''MIG device identity and capacity can be observed through NVIDIA tooling and device-plugin advertised resources.''\<rparr>),
      (RealOperationConfigureMIG,
        \<lparr>os_Operation = RealOperationConfigureMIG, os_Layer = ''gpu-management'',
         os_Backend = ''NVML/nvidia-smi/GPU Operator'', os_ReadOnly = False, os_Supported = True,
         os_Notes = ''Dynamic MIG reconfiguration is hardware and cluster-policy dependent, so it should be guarded and usually handled outside the hot scheduling path.''\<rparr>),
      (RealOperationObserveRuntime,
        \<lparr>os_Operation = RealOperationObserveRuntime, os_Layer = ''inference-runtime'',
         os_Backend = ''vLLM/SGLang/TGI/Triton metrics'', os_ReadOnly = True, os_Supported = True,
         os_Notes = ''Queue depth, TTFT, TPOT, KV cache usage, and token throughput are usually available through runtime metrics or Prometheus exporters.''\<rparr>),
      (RealOperationThrottleRuntime,
        \<lparr>os_Operation = RealOperationThrottleRuntime, os_Layer = ''inference-runtime'',
         os_Backend = ''runtime-specific adapter'', os_ReadOnly = False, os_Supported = True,
         os_Notes = ''Throttle can be implemented by controlling concurrency, request admission, token budget, or gateway routing, but APIs are runtime-specific.''\<rparr>),
      (RealOperationPauseRuntime,
        \<lparr>os_Operation = RealOperationPauseRuntime, os_Layer = ''workload-control'',
         os_Backend = ''job queue/runtime adapter'', os_ReadOnly = False, os_Supported = True,
         os_Notes = ''Pause/resume is realistic for batch, embedding, evaluation, and fine-tuning jobs, but not for most online inference requests.''\<rparr>),
      (RealOperationEvictWorkload,
        \<lparr>os_Operation = RealOperationEvictWorkload, os_Layer = ''kubernetes-control'',
         os_Backend = ''Kubernetes eviction/delete APIs'', os_ReadOnly = False, os_Supported = True,
         os_Notes = ''Eviction is supported by Kubernetes, but should be used as a last-resort policy action.''\<rparr>),
      (RealOperationObserveCRI,
        \<lparr>os_Operation = RealOperationObserveCRI, os_Layer = ''container-runtime'',
         os_Backend = ''CRI/containerd'', os_ReadOnly = True, os_Supported = True,
         os_Notes = ''CRI/containerd can observe container and sandbox state; fine-grained GPU sharing is usually delegated to device plugins/runtime hooks.''\<rparr>),
      (RealOperationUpdatePodResource,
        \<lparr>os_Operation = RealOperationUpdatePodResource, os_Layer = ''kubernetes-resource'',
         os_Backend = ''DRA/device-plugin/runtime adapter'', os_ReadOnly = False, os_Supported = True,
         os_Notes = ''Post-scheduling resource updates require integration with Kubernetes DRA, device plugin semantics, or runtime-level admission rather than plain Pod spec mutation.''\<rparr>)]"


section \<open>Reading nvidia-smi (real.go)\<close>

record observedGPU =
  og_Index :: string
  og_UUID :: string
  og_Product :: string
  og_MemoryTotalMiB :: int32
  og_MemoryUsedMiB :: int32
  og_UtilizationGPUPct :: int32

text \<open>The error text of \<open>strconv.ParseInt\<close>, which scans from the left and reports what it meets first.\<close>

fun scan_error :: "nat \<Rightarrow> int \<Rightarrow> string \<Rightarrow> string" where
  "scan_error bits acc [] = ''value out of range''"
| "scan_error bits acc (c # s) =
     (if \<not> is_digit c then ''invalid syntax''
      else if 10 * acc + digit_val c \<ge> 2 ^ bits then ''value out of range''
      else scan_error bits (10 * acc + digit_val c) s)"

definition ParseInt_error :: "nat \<Rightarrow> string \<Rightarrow> ApiError" where
  "ParseInt_error bits s =
     (let body = (if s \<noteq> [] \<and> (hd s = CHR ''-'' \<or> hd s = CHR ''+'') then tl s else s)
      in OtherError (''strconv.ParseInt: parsing '' @ Quote s @ '': '' @
           (if body = [] then ''invalid syntax'' else scan_error bits 0 body)))"

definition parseInt32 :: "string \<Rightarrow> ApiError + int32" where
  "parseInt32 value =
     (case ParseInt 32 (TrimSpace value) of
        None \<Rightarrow> Inl (ParseInt_error 32 (TrimSpace value))
      | Some parsed \<Rightarrow> Inr (word_of_int parsed))"

definition parseGPULine :: "string \<Rightarrow> ApiError + observedGPU" where
  "parseGPULine line =
     (let parts = Split line CHR '','' in
      if length parts \<noteq> 6 then
        Inl (OtherError (''unexpected nvidia-smi csv line '' @ Quote line))
      else
        (let parts1 = map TrimSpace parts in
         case parseInt32 (parts1 ! 3) of
           Inl err \<Rightarrow> Inl (wrapError (''parse GPU memory.total from '' @ Quote line @ '': '') err)
         | Inr tot \<Rightarrow>
             (case parseInt32 (parts1 ! 4) of
                Inl err \<Rightarrow> Inl (wrapError (''parse GPU memory.used from '' @ Quote line @ '': '') err)
              | Inr used \<Rightarrow>
                  (case parseInt32 (parts1 ! 5) of
                     Inl err \<Rightarrow>
                       Inl (wrapError (''parse GPU utilization from '' @ Quote line @ '': '') err)
                   | Inr utilization \<Rightarrow>
                       Inr \<lparr>og_Index = parts1 ! 0, og_UUID = parts1 ! 1, og_Product = parts1 ! 2,
                            og_MemoryTotalMiB = tot, og_MemoryUsedMiB = used,
                            og_UtilizationGPUPct = utilization\<rparr>))))"

fun parseGPULines :: "string list \<Rightarrow> observedGPU list \<Rightarrow> ApiError + observedGPU list" where
  "parseGPULines [] gpus = Inr gpus"
| "parseGPULines (line # lines) gpus =
     (let line1 = TrimSpace line in
      if line1 = [] then parseGPULines lines gpus
      else case parseGPULine line1 of
        Inl err \<Rightarrow> Inl err
      | Inr gpu \<Rightarrow> parseGPULines lines (gpus @ [gpu]))"

definition parseNvidiaSMI :: "string \<Rightarrow> ApiError + observedGPU list" where
  "parseNvidiaSMI output =
     (case parseGPULines (Split (TrimSpace output) (CHR 0x0A)) [] of
        Inl err \<Rightarrow> Inl err
      | Inr gpus \<Rightarrow>
          if gpus = [] then Inl (OtherError ''nvidia-smi returned no GPU rows'') else Inr gpus)"

definition observedGPUStatuses :: "observedGPU list \<Rightarrow> GPUDeviceStatus list" where
  "observedGPUStatuses gpus =
     map (\<lambda>gpu. \<lparr>gs_ID = og_Index gpu, gs_UUID = og_UUID gpu, gs_Allocated = False,
                 gs_MIGEnabled = False, gs_AllocatedTo = None, gs_MIGSlices = []\<rparr>) gpus"

definition mibToGiB :: "int32 \<Rightarrow> int32" where
  "mibToGiB value = (if value \<le>s 0 then 0 else quot32 (value + 1023) 1024)"

definition average :: "int32 \<Rightarrow> int32 \<Rightarrow> int32" where
  "average tot count = (if count \<le>s 0 then 0 else quot32 tot count)"

definition observedSLORisk :: "int32 \<Rightarrow> int32 \<Rightarrow> string" where
  "observedSLORisk gpuUtilizationPercent memoryUtilizationPercent =
     (if 90 \<le>s gpuUtilizationPercent \<or> 90 \<le>s memoryUtilizationPercent then SLORiskHigh
      else if 70 \<le>s gpuUtilizationPercent \<or> 75 \<le>s memoryUtilizationPercent then SLORiskMedium
      else SLORiskLow)"

definition observedAllocatable :: "AINodeResourceProfile \<Rightarrow> observedGPU list \<Rightarrow> ResourceSummary" where
  "observedAllocatable node gpus =
     (let summary =
            ResourceSummary_zero
              \<lparr>GPUCount := word_of_int (int (length gpus)),
               GPUMemoryGiB := fold (\<lambda>gpu sum. sum + mibToGiB (og_MemoryTotalMiB gpu)) gpus 0\<rparr>
      in case Option.bind (ns_Runtime (n_Spec node)) rt_Capacity of
           None \<Rightarrow> summary
         | Some capacity \<Rightarrow>
             (let summary1 = summary \<lparr>KVCacheGiB := rc_KVCacheGiB capacity\<rparr> in
              case rc_TokenThroughput capacity of
                None \<Rightarrow> summary1
              | Some t \<Rightarrow>
                  summary1
                    \<lparr>PrefillTokensPerSecond := tt_PrefillTokensPerSecond t,
                     DecodeTokensPerSecond := tt_DecodeTokensPerSecond t,
                     TotalTokensPerSecond := tt_TotalTokensPerSecond t\<rparr>))"

definition observedRuntimeStatus ::
    "AINodeResourceProfile \<Rightarrow> observedGPU list \<Rightarrow> AIResourceAllocation list \<Rightarrow> RuntimeStatus" where
  "observedRuntimeStatus node gpus allocations =
     (let totalMemory = fold (\<lambda>gpu sum. sum + og_MemoryTotalMiB gpu) gpus 0;
          usedMemory = fold (\<lambda>gpu sum. sum + og_MemoryUsedMiB gpu) gpus 0;
          totalUtilization = fold (\<lambda>gpu sum. sum + og_UtilizationGPUPct gpu) gpus 0;
          count = word_of_int (int (length gpus));
          allocatable = observedAllocatable node gpus;
          allocated = allocatedFromAllocations allocations
      in \<lparr>rst_Pressure =
            Some \<lparr>pr_GPUUtilizationPercent = average totalUtilization count,
                  pr_GPUMemoryUtilizationPercent = percent usedMemory totalMemory,
                  pr_KVCacheUtilizationPercent = percent (KVCacheGiB allocated) (KVCacheGiB allocatable),
                  pr_PrefillUtilizationPercent =
                    percent (PrefillTokensPerSecond allocated) (PrefillTokensPerSecond allocatable),
                  pr_DecodeUtilizationPercent =
                    percent (DecodeTokensPerSecond allocated) (DecodeTokensPerSecond allocatable),
                  pr_QueueDepth = 0, pr_TTFTP95Ms = 0, pr_TPOTP95Ms = 0, pr_LatencyP99Ms = 0,
                  pr_SLORisk =
                    observedSLORisk (average totalUtilization count) (percent usedMemory totalMemory)\<rparr>\<rparr>)"

definition fallbackRuntimeStatus ::
    "AINodeResourceProfile \<Rightarrow> AIResourceAllocation list \<Rightarrow> RuntimeStatus" where
  "fallbackRuntimeStatus node allocations =
     \<lparr>rst_Pressure =
        Some (fakePressure (allocatableFromNode node) (allocatedFromAllocations allocations))\<rparr>"

section \<open>The low-level driver (low\_level\_resource.go)\<close>

record 'w commandRunner =
  rn_Run :: "string \<Rightarrow> string list \<Rightarrow> 'w \<Rightarrow> (string \<times> ApiError option) \<times> 'w"
  rn_LookPath :: "string \<Rightarrow> 'w \<Rightarrow> ApiError + string"

definition osCommandRunner :: "'w Host \<Rightarrow> 'w commandRunner" where
  "osCommandRunner os =
     \<lparr>rn_Run = (\<lambda>name args. ho_Exec os name args None), rn_LookPath = ho_LookPath os\<rparr>"

record LowLevelObserveRequest =
  lo_Node :: "AINodeResourceProfile option"
  lo_Allocations :: "AIResourceAllocation list"

record LowLevelObserveResult =
  lr_GPUs :: "observedGPU list"
  lr_Allocatable :: "ResourceSummary option"
  lr_Runtime :: "RuntimeStatus option"
  lr_Message :: string

record LowLevelApplyRequest =
  la_Node :: "AINodeResourceProfile option"
  la_Allocation :: "AIResourceAllocation option"
  la_Action :: string
  la_DesiredResources :: "ResourceSummary option"
  la_Reason :: string

record LowLevelApplyResult =
  lp_Applied :: bool
  lp_Message :: string

record 'w LowLevelResourceDriver =
  ld_Observe :: "LowLevelObserveRequest \<Rightarrow> 'w \<Rightarrow> (ApiError + LowLevelObserveResult) \<times> 'w"
  ld_Apply :: "LowLevelApplyRequest \<Rightarrow> 'w \<Rightarrow> (ApiError + LowLevelApplyResult) \<times> 'w"
  ld_Capabilities :: "RealOperationSupport list"

record 'w CommonLowLevelResourceDriver =
  cd_runner :: "'w commandRunner"
  cd_isolator :: "'w ResourceIsolator option"
  cd_operation :: "(string \<times> RealOperationSupport) list"

definition NewCommonLowLevelResourceDriver ::
    "'w Host \<Rightarrow> 'w commandRunner option \<Rightarrow> 'w ResourceIsolator option \<Rightarrow> 'w CommonLowLevelResourceDriver" where
  "NewCommonLowLevelResourceDriver os runner isolator =
     \<lparr>cd_runner = (case runner of None \<Rightarrow> osCommandRunner os | Some r \<Rightarrow> r),
      cd_isolator =
        Some (case isolator of
                None \<Rightarrow> \<lparr>ri_ApplyIsolation = ApplyIsolation os (NewCommandResourceIsolator os)\<rparr>
              | Some i \<Rightarrow> i),
      cd_operation = defaultRealOperationSupport\<rparr>"

definition queryNvidiaSMI ::
    "'w Host \<Rightarrow> 'w CommonLowLevelResourceDriver \<Rightarrow> 'w \<Rightarrow> (ApiError + observedGPU list) \<times> 'w" where
  "queryNvidiaSMI os d w =
     (let found =
            (if ho_Getenv os ''NVIDIA_SMI_PATH'' \<noteq> [] then Inr (ho_Getenv os ''NVIDIA_SMI_PATH'')
             else case rn_LookPath (cd_runner d) ''nvidia-smi'' w of
               Inl err \<Rightarrow> Inl (wrapError ''nvidia-smi not found: '' err)
             | Inr path \<Rightarrow> Inr path)
      in case found of
           Inl err \<Rightarrow> (Inl err, w)
         | Inr path \<Rightarrow>
             (case rn_Run (cd_runner d) path
                     [''--query-gpu=index,uuid,name,memory.total,memory.used,utilization.gpu'',
                      ''--format=csv,noheader,nounits''] w of
                ((output, Some err), w') \<Rightarrow>
                  (Inl (mapError (\<lambda>t. ''run nvidia-smi query: '' @ t @ '' output='' @ TrimSpace output) err), w')
              | ((output, None), w') \<Rightarrow> (parseNvidiaSMI output, w')))"

definition Driver_Observe ::
    "'w Host \<Rightarrow> 'w CommonLowLevelResourceDriver \<Rightarrow> LowLevelObserveRequest \<Rightarrow> 'w \<Rightarrow>
     (ApiError + LowLevelObserveResult) \<times> 'w" where
  "Driver_Observe os d req w =
     (case lo_Node req of
        None \<Rightarrow> (Inl (OtherError ''missing node profile''), w)
      | Some node \<Rightarrow>
          (case queryNvidiaSMI os d w of
             (Inl err, w') \<Rightarrow> (Inl err, w')
           | (Inr gpus, w') \<Rightarrow>
               (Inr \<lparr>lr_GPUs = gpus, lr_Allocatable = Some (observedAllocatable node gpus),
                     lr_Runtime = Some (observedRuntimeStatus node gpus (lo_Allocations req)),
                     lr_Message = ''observed GPU resources through nvidia-smi''\<rparr>, w')))"

definition Driver_Apply ::
    "'w CommonLowLevelResourceDriver \<Rightarrow> LowLevelApplyRequest \<Rightarrow> 'w \<Rightarrow>
     (ApiError + LowLevelApplyResult) \<times> 'w" where
  "Driver_Apply d req w =
     (case la_Allocation req of
        None \<Rightarrow> (Inl (OtherError ''missing allocation''), w)
      | Some allocation \<Rightarrow>
          (case cd_isolator d of
             None \<Rightarrow>
               (Inr \<lparr>lp_Applied = False,
                     lp_Message = ''no resource isolator configured; desired resources recorded only''\<rparr>, w)
           | Some isolator \<Rightarrow>
               (case ri_ApplyIsolation isolator
                       \<lparr>ir_Node = la_Node req, ir_Allocation = la_Allocation req,
                        ir_Action = la_Action req, ir_DesiredResources = la_DesiredResources req,
                        ir_Reason = la_Reason req\<rparr> w of
                  (Inl err, w') \<Rightarrow> (Inl err, w')
                | (Inr result, w') \<Rightarrow>
                    (Inr \<lparr>lp_Applied = is_Applied result, lp_Message = is_Message result\<rparr>, w'))))"

definition Driver_Capabilities :: "'w CommonLowLevelResourceDriver \<Rightarrow> RealOperationSupport list" where
  "Driver_Capabilities d = map snd (cd_operation d)"

definition commonDriver ::
    "'w Host \<Rightarrow> 'w CommonLowLevelResourceDriver \<Rightarrow> 'w LowLevelResourceDriver" where
  "commonDriver os d =
     \<lparr>ld_Observe = Driver_Observe os d, ld_Apply = Driver_Apply d,
      ld_Capabilities = Driver_Capabilities d\<rparr>"

section \<open>The real backend (real.go)\<close>

record 'w RealBackend =
  rb_name :: string
  rb_options :: "'w Options"
  rb_operation :: "(string \<times> RealOperationSupport) list"
  rb_driver :: "'w LowLevelResourceDriver option"

definition NewRealBackend :: "'w Host \<Rightarrow> string \<Rightarrow> 'w Options \<Rightarrow> 'w RealBackend" where
  "NewRealBackend os name options =
     \<lparr>rb_name = (if name = [] then ''real'' else name), rb_options = options,
      rb_operation = defaultRealOperationSupport,
      rb_driver =
        Some (commonDriver os
                (NewCommonLowLevelResourceDriver os (Some (osCommandRunner os))
                   (Some \<lparr>ri_ApplyIsolation = ApplyIsolation os (NewCommandResourceIsolator os)\<rparr>)))\<rparr>"

definition recordDesiredResources ::
    "'w RealBackend \<Rightarrow> ApplyRequest \<Rightarrow> AIResourceAllocation \<Rightarrow> string \<Rightarrow> ApplyResult" where
  "recordDesiredResources b req allocation operation =
     (let observed =
            (if rq_DesiredResources req \<noteq> None then rq_DesiredResources req
             else as_Resources (a_Spec allocation));
          support =
            (case map_of (rb_operation b) operation of
               Some s \<Rightarrow> s | None \<Rightarrow> RealOperationSupport_zero);
          message =
            ''real backend recorded action '' @ Quote (rq_Action req) @ '' tier='' @
            Quote (rq_AllocationTier req) @ '' targetPhase='' @ Quote (rq_TargetPhase req) @
            '' reason='' @ rq_Reason req
      in \<lparr>rs_ObservedResources = observed,
          rs_Message =
            (if os_Operation support \<noteq> [] \<and> \<not> os_ReadOnly support
             then message @ ''; lower-level adapter='' @ os_Layer support @ ''/'' @ os_Backend support
             else message)\<rparr>)"

definition applyWithIsolation ::
    "'w RealBackend \<Rightarrow> ApplyRequest \<Rightarrow> AIResourceAllocation \<Rightarrow> string \<Rightarrow> 'w \<Rightarrow>
     (ApiError + ApplyResult) \<times> 'w" where
  "applyWithIsolation b req allocation operation w =
     (let result = recordDesiredResources b req allocation operation in
      case rb_driver b of
        None \<Rightarrow> (Inr result, w)
      | Some driver \<Rightarrow>
          (case ld_Apply driver
                  \<lparr>la_Node = rq_Node req, la_Allocation = rq_Allocation req, la_Action = rq_Action req,
                   la_DesiredResources = rq_DesiredResources req, la_Reason = rq_Reason req\<rparr> w of
             (Inl err, w') \<Rightarrow> (Inl err, w')
           | (Inr isolation, w') \<Rightarrow>
               (let message1 =
                      (if lp_Message isolation \<noteq> []
                       then rs_Message result @ ''; isolation='' @ lp_Message isolation
                       else rs_Message result);
                    message2 =
                      (if lp_Applied isolation then message1 @ ''; isolationApplied=true'' else message1)
                in (Inr (result \<lparr>rs_Message := message2\<rparr>), w'))))"

definition RealBackend_Apply ::
    "'w RealBackend \<Rightarrow> ApplyRequest \<Rightarrow> 'w \<Rightarrow> (ApiError + ApplyResult) \<times> 'w" where
  "RealBackend_Apply b req w =
     (case rq_Allocation req of
        None \<Rightarrow> (Inl (OtherError ''missing allocation''), w)
      | Some allocation \<Rightarrow>
          (let action = ToLower (rq_Action req) in
           if action = AllocationActionApply then
             applyWithIsolation b req allocation RealOperationUpdatePodResource w
           else if action = AllocationActionThrottle then
             applyWithIsolation b req allocation RealOperationThrottleRuntime w
           else if action = AllocationActionPause then
             applyWithIsolation b req allocation RealOperationPauseRuntime w
           else if action = AllocationActionEvict then
             applyWithIsolation b req allocation RealOperationEvictWorkload w
           else
             (Inl (OtherError (''real backend does not recognize action '' @ Quote (rq_Action req))), w)))"

definition RealBackend_Snapshot ::
    "'w Host \<Rightarrow> 'w RealBackend \<Rightarrow> SnapshotRequest \<Rightarrow> 'w \<Rightarrow>
     (ApiError + SnapshotResult) \<times> AINodeResourceProfile option \<times> 'w" where
  "RealBackend_Snapshot os b req w =
     (case sq_Node req of
        None \<Rightarrow> (Inl (OtherError ''missing node profile''), None, w)
      | Some node \<Rightarrow>
          (let status = (n_Status node) \<lparr>nst_ObservedAt := Some (ho_Now os w)\<rparr>;
               (observed, w') =
                 (case rb_driver b of
                    None \<Rightarrow> (Inl (OtherError ''no low-level resource driver configured''), w)
                  | Some driver \<Rightarrow>
                      ld_Observe driver
                        \<lparr>lo_Node = Some node, lo_Allocations = sq_Allocations req\<rparr> w);
               status1 =
                 (case observed of
                    Inr o1 \<Rightarrow>
                      if lr_GPUs o1 \<noteq> [] then
                        status \<lparr>nst_Phase := ''Ready'', nst_GPUs := observedGPUStatuses (lr_GPUs o1),
                                nst_Allocatable := lr_Allocatable o1, nst_Runtime := lr_Runtime o1\<rparr>
                      else
                        status \<lparr>nst_Phase := ''Degraded'', nst_Allocatable := Some (allocatableFromNode node),
                                nst_Runtime := Some (fallbackRuntimeStatus node (sq_Allocations req))\<rparr>
                  | Inl _ \<Rightarrow>
                      status \<lparr>nst_Phase := ''Degraded'', nst_Allocatable := Some (allocatableFromNode node),
                              nst_Runtime := Some (fallbackRuntimeStatus node (sq_Allocations req))\<rparr>);
               allocated = allocatedFromAllocations (sq_Allocations req);
               status2 =
                 status1
                   \<lparr>nst_Allocated := Some allocated,
                    nst_Available := Some (subtractResources (nst_Allocatable status1) (Some allocated)),
                    nst_Allocations := nodeAllocationStatuses (sq_Allocations req),
                    nst_HourlyForecast := Some (hourlyForecastFromAllocations (sq_Allocations req))\<rparr>;
               runtime = (case nst_Runtime status2 of Some r \<Rightarrow> r | None \<Rightarrow> \<lparr>rst_Pressure = None\<rparr>);
               pressure =
                 (case rst_Pressure runtime of
                    Some p \<Rightarrow> p
                  | None \<Rightarrow>
                      \<lparr>pr_GPUUtilizationPercent = 0, pr_GPUMemoryUtilizationPercent = 0,
                       pr_KVCacheUtilizationPercent = 0, pr_PrefillUtilizationPercent = 0,
                       pr_DecodeUtilizationPercent = 0, pr_QueueDepth = 0, pr_TTFTP95Ms = 0,
                       pr_TPOTP95Ms = 0, pr_LatencyP99Ms = 0, pr_SLORisk = ''unknown''\<rparr>);
               pressure1 =
                 (case observed of
                    Inl _ \<Rightarrow> pressure \<lparr>pr_SLORisk := ''unknown''\<rparr> | Inr _ \<Rightarrow> pressure)
           in (Inr \<lparr>sr_Status = status2 \<lparr>nst_Runtime := Some (runtime \<lparr>rst_Pressure := Some pressure1\<rparr>)\<rparr>\<rparr>,
               Some node, w')))"

definition OperationSupport :: "'w RealBackend \<Rightarrow> RealOperationSupport list" where
  "OperationSupport b =
     (case rb_driver b of
        Some driver \<Rightarrow> ld_Capabilities driver
      | None \<Rightarrow> map snd (rb_operation b))"

definition notImplemented :: "'w RealBackend \<Rightarrow> string \<Rightarrow> string \<Rightarrow> ApiError" where
  "notImplemented b operation message =
     (case map_of (rb_operation b) operation of
        None \<Rightarrow>
          OtherError (rb_name b @ '' backend operation '' @ Quote operation @ '' is not mapped: '' @ message)
      | Some support \<Rightarrow>
          OtherError (rb_name b @ '' backend operation '' @ Quote operation @ '' is mapped to '' @
            os_Layer support @ ''/'' @ os_Backend support @ '' but not implemented yet: '' @ message @
            ''; notes='' @ os_Notes support))"

definition realBackend :: "'w Host \<Rightarrow> 'w RealBackend \<Rightarrow> 'w Backend" where
  "realBackend os b =
     \<lparr>be_Apply = RealBackend_Apply b, be_Snapshot = RealBackend_Snapshot os b\<rparr>"

section \<open>Choosing a backend (backend.go)\<close>

definition NewWithOptions ::
    "'w Host \<Rightarrow> (string \<Rightarrow> ApiError + FakeNodeResourceConfig) \<Rightarrow> string \<Rightarrow> 'w Options \<Rightarrow>
     ApiError + 'w Backend" where
  "NewWithOptions os unmarshal name options =
     (if name \<in> {[], ''fake''} then Inr (fakeBackend unmarshal options)
      else if name \<in> {''real'', ''nvidia'', ''runtime'', ''cri''}
      then Inr (realBackend os (NewRealBackend os name options))
      else Inl (OtherError (''unsupported agent backend '' @ Quote name)))"

definition NewBackend ::
    "'w Host \<Rightarrow> (string \<Rightarrow> ApiError + FakeNodeResourceConfig) \<Rightarrow> string \<Rightarrow> ApiError + 'w Backend" where
  "NewBackend os unmarshal name =
     NewWithOptions os unmarshal name
       \<lparr>op_Client = None, op_NodeName = [], op_ConfigMapNamespace = [], op_ConfigMapName = []\<rparr>"

section \<open>The real backend keeps the contract\<close>

lemma observe_capacity:
  "Driver_Observe os d req w = (Inr o1, w') \<Longrightarrow> \<exists>cap. lr_Allocatable o1 = Some cap"
  by (auto simp: Driver_Observe_def split: option.splits sum.splits prod.splits)

lemma NewRealBackend_driver:
  "\<exists>d. rb_driver (NewRealBackend os name options) = Some (commonDriver os d)"
  unfolding NewRealBackend_def by fastforce

lemma real_apply_observed:
  assumes "RealBackend_Apply b req w = (Inr res, w')"
  shows "rq_Allocation req \<noteq> None \<and> rs_ObservedResources res =
    (if rq_DesiredResources req \<noteq> None then rq_DesiredResources req
     else Option.bind (rq_Allocation req) (\<lambda>a. as_Resources (a_Spec a)))"
proof -
  have iso: "rs_ObservedResources res = (if rq_DesiredResources req \<noteq> None then rq_DesiredResources req
      else as_Resources (a_Spec a))" if "applyWithIsolation b req a operation w = (Inr res, w')" for a operation
    using that
    by (auto simp: applyWithIsolation_def recordDesiredResources_def Let_def
        split: option.splits sum.splits prod.splits)
  obtain a where "rq_Allocation req = Some a"
    using assms by (cases "rq_Allocation req") (simp_all add: RealBackend_Apply_def)
  moreover obtain operation where "applyWithIsolation b req a operation w = (Inr res, w')"
    using assms calculation by (auto simp: RealBackend_Apply_def Let_def split: if_splits)
  ultimately show ?thesis using iso by auto
qed

lemma real_report:
  assumes "RealBackend_Snapshot os (NewRealBackend os name options) req w = (Inr res, node', w')"
  shows "sq_Node req \<noteq> None \<and>
       (\<exists>cap. nst_Allocatable (sr_Status res) = Some cap \<and>
          nst_Available (sr_Status res) =
            Some (subtractResources (Some cap) (Some (allocatedFromAllocations (sq_Allocations req))))) \<and>
       nst_Allocated (sr_Status res) = Some (allocatedFromAllocations (sq_Allocations req)) \<and>
       nst_Allocations (sr_Status res) = nodeAllocationStatuses (sq_Allocations req) \<and>
       nst_HourlyForecast (sr_Status res) = Some (hourlyForecastFromAllocations (sq_Allocations req))"
proof -
  obtain node where node: "sq_Node req = Some node"
    using assms by (cases "sq_Node req") (simp_all add: RealBackend_Snapshot_def)
  obtain d where d: "rb_driver (NewRealBackend os name options) = Some (commonDriver os d)"
    using NewRealBackend_driver by blast
  obtain obs w1 where obs: "Driver_Observe os d \<lparr>lo_Node = Some node, lo_Allocations = sq_Allocations req\<rparr> w = (obs, w1)"
    by fastforce
  show ?thesis
  proof (cases "\<exists>o1. obs = Inr o1 \<and> lr_GPUs o1 \<noteq> []")
    case True
    then obtain o1 where o1: "obs = Inr o1" "lr_GPUs o1 \<noteq> []" by blast
    obtain cap where "lr_Allocatable o1 = Some cap"
      using observe_capacity [OF obs [unfolded o1(1)]] by blast
    with o1 obs show ?thesis
      using assms by (auto simp: RealBackend_Snapshot_def node d commonDriver_def Let_def)
  next
    case False
    with obs show ?thesis
      using assms
      by (cases obs) (auto simp: RealBackend_Snapshot_def node d commonDriver_def Let_def)
  qed
qed

interpretation real_backend: agent_backend "realBackend os (NewRealBackend os name options)"
  for os name options
proof
  fix req :: ApplyRequest and w w' res
  show "be_Apply (realBackend os (NewRealBackend os name options)) req w = (Inr res, w') \<Longrightarrow>
      rq_Allocation req \<noteq> None \<and>
      rs_ObservedResources res =
        (if rq_DesiredResources req \<noteq> None then rq_DesiredResources req
         else Option.bind (rq_Allocation req) (\<lambda>a. as_Resources (a_Spec a)))"
    using real_apply_observed [of "NewRealBackend os name options" req w res w'] by (simp add: realBackend_def)
next
  fix req :: SnapshotRequest and w w' r node'
  show "be_Snapshot (realBackend os (NewRealBackend os name options)) req w = (r, node', w') \<Longrightarrow>
       rel_option (\<lambda>m n. n_Meta m = n_Meta n \<and> n_Spec m = n_Spec n) node' (sq_Node req)"
    by (cases "sq_Node req")
      (auto simp: realBackend_def RealBackend_Snapshot_def Let_def intro: option.rel_refl split: prod.splits)
next
  fix req :: SnapshotRequest and w res node' w'
  assume "be_Snapshot (realBackend os (NewRealBackend os name options)) req w = (Inr res, node', w')"
  then have "RealBackend_Snapshot os (NewRealBackend os name options) req w = (Inr res, node', w')"
    by (simp add: realBackend_def)
  from real_report [OF this] show "sq_Node req \<noteq> None \<and>
       (\<exists>cap. nst_Allocatable (sr_Status res) = Some cap \<and>
          nst_Available (sr_Status res) =
            Some (subtractResources (Some cap) (Some (allocatedFromAllocations (sq_Allocations req))))) \<and>
       nst_Allocated (sr_Status res) = Some (allocatedFromAllocations (sq_Allocations req)) \<and>
       nst_Allocations (sr_Status res) = nodeAllocationStatuses (sq_Allocations req) \<and>
       nst_HourlyForecast (sr_Status res) = Some (hourlyForecastFromAllocations (sq_Allocations req))" .
qed

text \<open>Whatever name is accepted, the backend keeps the contract.\<close>

lemma NewWithOptions_contract: "NewWithOptions os u name options = Inr be \<Longrightarrow> agent_backend be"
  using fake_backend.agent_backend_axioms real_backend.agent_backend_axioms
  by (fastforce simp: NewWithOptions_def split: if_splits)

text \<open>
  C21. The numbers a node publishes add up, whichever backend the agent runs: when the amounts of
  its allocations are not negative and their exact total stays below 2147483648, the available
  vector of a snapshot is in every dimension the reported capacity less the sum over the
  allocations, and zero where that would be negative.
\<close>
theorem published_available_exact:
  assumes "NewWithOptions os u name options = Inr be"
    and "be_Snapshot be req w = (Inr res, node', w')"
    and "list_all nonneg (List.map_filter allocationResources (sq_Allocations req))"
    and "sum_list (map (val d) (List.map_filter allocationResources (sq_Allocations req))) < 2147483648"
    and "nst_Allocatable (sr_Status res) = Some cap" and "0 \<le> val d cap"
    and "nst_Available (sr_Status res) = Some av"
  shows "val d av = max 0 (val d cap - sum_list (map (val d) (List.map_filter allocationResources (sq_Allocations req))))"
  by (rule agent_backend.snapshot_available [OF NewWithOptions_contract [OF assms(1)] assms(2-)])

definition two_gpu_node :: AINodeResourceProfile where
  "two_gpu_node =
     example_node
       \<lparr>n_Spec := (n_Spec example_node)
          \<lparr>ns_GPUs := [\<lparr>gd_ID = ''0'', gd_UUID = [], gd_Product = [], gd_MemoryGiB = 80, gd_ComputeScore = 0,
                       gd_MIGEnabled = False\<rparr>,
                      \<lparr>gd_ID = ''1'', gd_UUID = [], gd_Product = [], gd_MemoryGiB = 80, gd_ComputeScore = 0,
                       gd_MIGEnabled = False\<rparr>]\<rparr>\<rparr>"

definition one_gpu_allocation :: AIResourceAllocation where
  "one_gpu_allocation =
     sample_allocation
       \<lparr>a_Status := AIResourceAllocationStatus_zero
          \<lparr>ast_Phase := AllocationPhaseApplied, ast_Current := Some (gpuVec 1),
           ast_HourlyForecast := Some (buildHourlyForecast (Some sample_allocation) None)\<rparr>\<rparr>"

definition sample_request :: SnapshotRequest where
  "sample_request = \<lparr>sq_Node = Some two_gpu_node, sq_Allocations = [one_gpu_allocation]\<rparr>"

definition no_options :: "'w Options" where
  "no_options = \<lparr>op_Client = None, op_NodeName = [], op_ConfigMapNamespace = [], op_ConfigMapName = []\<rparr>"

text \<open>A host without commands, and a reader that takes every text for an empty configuration.\<close>

definition bare_host :: "'w Host" where
  "bare_host =
     \<lparr>ho_Getenv = (\<lambda>v. []), ho_Environ = [], ho_LookPath = (\<lambda>n w. Inl (NotFound ''not found'')),
      ho_Exec = (\<lambda>n args env w. (([], Some (OtherError ''no such command'')), w)), ho_Now = (\<lambda>w. 0)\<rparr>"

definition empty_config :: "string \<Rightarrow> ApiError + FakeNodeResourceConfig" where
  "empty_config s = Inr \<lparr>fc_Allocatable = None, fc_Runtime = None\<rparr>"

abbreviation sample_backend :: "unit Backend" where
  "sample_backend \<equiv> fakeBackend empty_config no_options"

lemma sample_snapshot:
  obtains res node' where
    "be_Snapshot sample_backend sample_request () = (Inr res, node', ())"
    "nst_Allocatable (sr_Status res) = Some (allocatableFromNode two_gpu_node)"
  by (simp add: fakeBackend_def FakeBackend_Snapshot_def NewFakeBackend_def nodeResourceConfig_def no_options_def
      sample_request_def Let_def)

lemma sample_amounts: "List.map_filter allocationResources (sq_Allocations sample_request) = [gpuVec 1]"
  by (simp add: sample_request_def one_gpu_allocation_def allocationResources_def map_filter_rules)

lemma two_gpu_capacity: "val DGpu (allocatableFromNode two_gpu_node) = 2"
  by (simp add: val_def allocatableFromNode_def two_gpu_node_def example_node_def Let_def)

theorem published_available_exact_witness:
  "\<exists>res node' av. be_Snapshot sample_backend sample_request () = (Inr res, node', ()) \<and>
     nst_Available (sr_Status res) = Some av \<and> val DGpu av = 1"
proof -
  obtain res node' where snap: "be_Snapshot sample_backend sample_request () = (Inr res, node', ())"
    and cap: "nst_Allocatable (sr_Status res) = Some (allocatableFromNode two_gpu_node)"
    by (rule sample_snapshot)
  obtain av where av: "nst_Available (sr_Status res) = Some av"
    using fake_backend.snapshot_report [OF snap] by blast
  have "NewWithOptions bare_host empty_config ''fake'' no_options = Inr sample_backend"
    by (simp add: NewWithOptions_def)
  from published_available_exact [OF this snap _ _ cap _ av, of DGpu] have "val DGpu av = 1"
    by (simp add: sample_amounts two_gpu_capacity nonneg_gpus val_gpus)
  with snap av show ?thesis by blast
qed

text \<open>
  C22. Agent and scheduler agree on every hour of a published node on which each allocation carries a
  full forecast of 24 buckets, or neither a forecast nor a request: for every hour the node
  forecast that the filter reads is the sum, over the allocations that are not released, of what
  the filter computes for each published allocation by itself.  Reclaiming a workload therefore
  frees exactly its share of the forecast.  An allocation with a request and no forecast yet, as
  after a new reservation, is not covered: the agent adds its flat resources, the filter estimates
  from its request and windows.
\<close>
theorem published_forecast_is_sum:
  assumes "NewWithOptions os u name options = Inr be"
    and "be_Snapshot be req w = (Inr res, node', w')"
    and "n_Status node = sr_Status res" and "h < 24"
    and "\<forall>a\<in>set (sq_Allocations req). case ast_HourlyForecast (a_Status a) of
        Some f \<Rightarrow> length (hf_ResourceBuckets f) = 24 | None \<Rightarrow> as_ResourceRequest (a_Spec a) = None"
  shows "nodeForecastResourceForHour (Some node) (int h) =
    fold (\<lambda>x acc. addResources acc x)
      (map (\<lambda>a. allocationResourceForHour (nodeAllocationStatus a) (int h))
        (filter (\<lambda>a. \<not> EqualFold (ast_Phase (a_Status a)) AllocationPhaseReleased) (sq_Allocations req)))
      ResourceSummary_zero"
  by (rule agent_backend.snapshot_forecast [OF NewWithOptions_contract [OF assms(1)] assms(2-)])

theorem published_forecast_is_sum_witness:
  "\<exists>res node'. be_Snapshot sample_backend sample_request () = (Inr res, node', ()) \<and>
     nodeForecastResourceForHour (Some (two_gpu_node \<lparr>n_Status := sr_Status res\<rparr>)) 9 =
       allocationResourceForHour (nodeAllocationStatus one_gpu_allocation) 9"
proof -
  obtain res node' where snap: "be_Snapshot sample_backend sample_request () = (Inr res, node', ())"
    by (rule sample_snapshot)
  have name: "NewWithOptions bare_host empty_config ''fake'' no_options = Inr sample_backend"
    by (simp add: NewWithOptions_def)
  have full: "ast_HourlyForecast (a_Status one_gpu_allocation) = Some (buildHourlyForecast (Some sample_allocation) None)"
      "length (hf_ResourceBuckets (buildHourlyForecast (Some sample_allocation) None)) = 24"
      "\<not> EqualFold (ast_Phase (a_Status one_gpu_allocation)) AllocationPhaseReleased"
    by (simp_all add: one_gpu_allocation_def buildHourlyForecast_def Let_def hourlyForecastBucketCount_def
        phase_defs sample_phases)
  show ?thesis
    using published_forecast_is_sum [OF name snap, of "two_gpu_node \<lparr>n_Status := sr_Status res\<rparr>" 9] snap full
    by (simp add: sample_request_def)
qed

section \<open>nvidia-smi output read back\<close>

definition blank :: "char list" where
  "blank = [CHR '' '', CHR 0x09, CHR 0x0A, CHR 0x0B, CHR 0x0C, CHR 0x0D]"

lemma TrimSpace_blank: "TrimSpace s = Trim s blank"
  by (simp add: TrimSpace_def blank_def)

lemma TrimSpace_id: "s = [] \<or> hd s \<notin> set blank \<and> last s \<notin> set blank \<Longrightarrow> TrimSpace s = s"
  unfolding TrimSpace_blank using Trim_id [of s blank] by (cases "s = []") (simp_all add: Trim_def)

lemma Trim_Cons_in: "c \<in> set cs \<Longrightarrow> Trim (c # s) cs = Trim s cs"
  by (simp add: Trim_def)

lemma Trim_snoc_in: "c \<in> set cs \<Longrightarrow> Trim (s @ [c]) cs = Trim s cs"
proof (cases "\<forall>x\<in>set s. x \<in> set cs")
  case True
  moreover assume "c \<in> set cs"
  ultimately have "Trim (s @ [c]) cs = [] \<and> Trim s cs = []" by (auto simp: Trim_Nil_iff)
  then show ?thesis by simp
next
  case False
  moreover assume "c \<in> set cs"
  ultimately show ?thesis by (auto simp: Trim_def dropWhile_append)
qed

text \<open>A field as nvidia-smi prints it: no comma, no line break, no blank at either end.\<close>

definition clean_field :: "string \<Rightarrow> bool" where
  "clean_field s \<longleftrightarrow> CHR '','' \<notin> set s \<and> CHR 0x0A \<notin> set s \<and>
     (s = [] \<or> hd s \<notin> set blank \<and> last s \<notin> set blank)"

lemma clean_trim:
  assumes "clean_field s"
  shows "TrimSpace s = s" and "TrimSpace (CHR '' '' # s) = s"
proof -
  show id: "TrimSpace s = s"
    using assms by (intro TrimSpace_id) (simp add: clean_field_def)
  have "CHR '' '' \<in> set blank" by (simp add: blank_def)
  then show "TrimSpace (CHR '' '' # s) = s"
    using id by (simp add: TrimSpace_blank Trim_Cons_in)
qed

lemma digit_not_blank: "is_digit c \<or> c = CHR ''-'' \<Longrightarrow> c \<noteq> CHR '','' \<and> c \<noteq> CHR 0x0A \<and> c \<notin> set blank"
  by (auto simp: is_digit_def blank_def)

lemma clean_show_int: "clean_field (show_int i)"
proof -
  have chars: "is_digit c \<or> c = CHR ''-''" if "c \<in> set (show_int i)" for c
    using that show_nat_digits by (auto simp: show_int_def split: if_splits)
  have "show_int i \<noteq> []" by (simp add: show_int_def)
  then have "hd (show_int i) \<in> set (show_int i)" "last (show_int i) \<in> set (show_int i)" by simp_all
  with chars digit_not_blank show ?thesis
    unfolding clean_field_def by metis
qed

definition smi_row :: "observedGPU \<Rightarrow> string" where
  "smi_row g =
     Join [og_Index g, og_UUID g, og_Product g, show_int (sint (og_MemoryTotalMiB g)),
       show_int (sint (og_MemoryUsedMiB g)), show_int (sint (og_UtilizationGPUPct g))] '', ''"

definition smi_output :: "observedGPU list \<Rightarrow> string" where
  "smi_output gs = Join (map smi_row gs) [CHR 0x0A] @ [CHR 0x0A]"

definition clean_gpu :: "observedGPU \<Rightarrow> bool" where
  "clean_gpu g \<longleftrightarrow> clean_field (og_Index g) \<and> clean_field (og_UUID g) \<and> clean_field (og_Product g)"

lemma parseInt32_show: "parseInt32 (show_int (sint v)) = Inr v"
  using sint32_range [of v] clean_trim [OF clean_show_int, of "sint v"]
  by (simp add: parseInt32_def ParseInt_show_int)

lemma Split_fields:
  assumes "CHR '','' \<notin> set s"
  shows "Split (s @ '', '' @ t) CHR '','' = s # Split (CHR '' '' # t) CHR '',''"
  using Split_append_sep [OF assms, of "CHR '' '' # t"] by simp

lemma Split_space: "CHR '','' \<notin> set s \<Longrightarrow>
    Split (CHR '' '' # s @ '', '' @ t) CHR '','' = (CHR '' '' # s) # Split (CHR '' '' # t) CHR '',''"
  using Split_fields [of "CHR '' '' # s" t] by simp

lemma smi_row_split:
  assumes "clean_gpu g"
  shows "Split (smi_row g) CHR '','' =
    [og_Index g, CHR '' '' # og_UUID g, CHR '' '' # og_Product g,
     CHR '' '' # show_int (sint (og_MemoryTotalMiB g)), CHR '' '' # show_int (sint (og_MemoryUsedMiB g)),
     CHR '' '' # show_int (sint (og_UtilizationGPUPct g))]"
proof -
  have no_comma: "CHR '','' \<notin> set (og_Index g)" "CHR '','' \<notin> set (og_UUID g)" "CHR '','' \<notin> set (og_Product g)"
    using assms by (simp_all add: clean_gpu_def clean_field_def)
  have num: "CHR '','' \<notin> set (show_int i)" for i
    using clean_show_int by (simp add: clean_field_def)
  show ?thesis
    unfolding smi_row_def Join.simps
    by (simp only: Split_fields Split_space no_comma num not_False_eq_True)
      (simp add: Split_no_sep num)
qed

lemma parseGPULine_row: "clean_gpu g \<Longrightarrow> parseGPULine (smi_row g) = Inr g"
  by (simp add: parseGPULine_def smi_row_split clean_trim clean_show_int clean_gpu_def parseInt32_show)

lemma smi_row_ends:
  assumes "clean_gpu g"
  shows "hd (smi_row g) \<notin> set blank" and "last (smi_row g) \<notin> set blank"
proof -
  let ?u = "show_int (sint (og_UtilizationGPUPct g))"
  have "last (smi_row g) = last ?u" by (simp add: smi_row_def show_int_def)
  moreover have "?u \<noteq> []" by (simp add: show_int_def)
  ultimately show "last (smi_row g) \<notin> set blank"
    using clean_show_int [of "sint (og_UtilizationGPUPct g)"] by (simp add: clean_field_def)
  show "hd (smi_row g) \<notin> set blank"
    using assms by (cases "og_Index g") (auto simp: smi_row_def clean_gpu_def clean_field_def blank_def)
qed

lemma smi_row_line:
  assumes "clean_gpu g"
  shows "CHR 0x0A \<notin> set (smi_row g)" and "TrimSpace (smi_row g) = smi_row g" and "smi_row g \<noteq> []"
proof -
  show "CHR 0x0A \<notin> set (smi_row g)"
    using assms clean_show_int by (simp add: smi_row_def clean_gpu_def clean_field_def)
  show "smi_row g \<noteq> []" by (simp add: smi_row_def)
  show "TrimSpace (smi_row g) = smi_row g"
    using smi_row_ends [OF assms] by (intro TrimSpace_id) simp
qed

lemma Join_ends:
  "ss \<noteq> [] \<Longrightarrow> [] \<notin> set ss \<Longrightarrow> Join ss sep \<noteq> [] \<and> hd (Join ss sep) = hd (hd ss) \<and> last (Join ss sep) = last (last ss)"
  by (induction ss sep rule: Join.induct) auto

lemma Split_Join:
  "ss \<noteq> [] \<Longrightarrow> \<forall>s\<in>set ss. c \<notin> set s \<Longrightarrow> Split (Join ss [c]) c = ss"
  by (induction ss rule: list_nonempty_induct) (auto simp: Split_no_sep Split_append_sep neq_Nil_conv)

lemma parseGPULines_rows:
  "list_all clean_gpu gs \<Longrightarrow> parseGPULines (map smi_row gs) acc = Inr (acc @ gs)"
  by (induction gs arbitrary: acc) (simp_all add: smi_row_line parseGPULine_row)

text \<open>
  C34. Reading nvidia-smi output gives back the devices that were printed: for any non-empty list
  of devices whose text fields have no comma, line break or outer blanks, and for all values of
  the numeric columns, the parser accepts the printed table and returns exactly that list in
  that order.
\<close>
theorem parseNvidiaSMI_round_trip:
  assumes "gs \<noteq> []" and "list_all clean_gpu gs"
  shows "parseNvidiaSMI (smi_output gs) = Inr gs"
proof -
  let ?rows = "map smi_row gs"
  have row: "CHR 0x0A \<notin> set r \<and> r \<noteq> [] \<and> hd r \<notin> set blank \<and> last r \<notin> set blank" if "r \<in> set ?rows" for r
    using that assms(2) smi_row_line smi_row_ends by (auto simp: list_all_iff)
  have "hd ?rows \<in> set ?rows" "last ?rows \<in> set ?rows" "[] \<notin> set ?rows"
    using assms(1) row by (force intro!: hd_in_set last_in_set)+
  then have "hd (Join ?rows [CHR 0x0A]) \<notin> set blank" and "last (Join ?rows [CHR 0x0A]) \<notin> set blank"
    using Join_ends [of ?rows "[CHR 0x0A]"] row assms(1) by auto
  then have "TrimSpace (smi_output gs) = Join ?rows [CHR 0x0A]"
    unfolding smi_output_def TrimSpace_blank
    by (subst Trim_snoc_in) (simp add: blank_def, fold TrimSpace_blank, simp add: TrimSpace_id)
  moreover have "Split (Join ?rows [CHR 0x0A]) (CHR 0x0A) = ?rows"
    using assms(1) row by (intro Split_Join) auto
  ultimately show ?thesis
    using parseGPULines_rows [OF assms(2), of "[]"] assms(1) by (simp add: parseNvidiaSMI_def)
qed

theorem parseNvidiaSMI_round_trip_witness:
  "parseNvidiaSMI (smi_output
     [\<lparr>og_Index = ''0'', og_UUID = ''GPU-1'', og_Product = ''A100 80GB'', og_MemoryTotalMiB = 81920,
       og_MemoryUsedMiB = 4096, og_UtilizationGPUPct = 37\<rparr>]) =
   Inr [\<lparr>og_Index = ''0'', og_UUID = ''GPU-1'', og_Product = ''A100 80GB'', og_MemoryTotalMiB = 81920,
       og_MemoryUsedMiB = 4096, og_UtilizationGPUPct = 37\<rparr>]"
  by (rule parseNvidiaSMI_round_trip) (simp_all add: clean_gpu_def clean_field_def blank_def)

section \<open>Arithmetic of the reports\<close>

lemma sint_quot32:
  assumes "0 \<le> sint a" and "0 < sint b"
  shows "sint (quot32 a b) = sint a div sint b"
proof -
  have "sint a sdiv sint b = sint a div sint b"
    using assms by (cases "sint a = 0") (simp_all add: signed_divide_int_def sgn_if)
  moreover have "0 \<le> sint a div sint b" "sint a div sint b \<le> sint a"
    using assms zdiv_mono2 [of "sint a" 1 "sint b"] by (simp_all add: pos_imp_zdiv_nonneg_iff)
  ultimately show ?thesis
    using sint32_range [of a] by (simp add: quot32_def sint32_of_int)
qed

lemma sint32_mult:
  "- 2147483648 \<le> sint (a :: int32) * sint b \<Longrightarrow> sint a * sint b < 2147483648 \<Longrightarrow>
   sint (a * b) = sint a * sint b"
proof -
  assume r: "- 2147483648 \<le> sint a * sint b" "sint a * sint b < 2147483648"
  have "a * b = word_of_int (sint a * sint b)" by simp
  then show ?thesis using r by (simp only: sint32_of_int)
qed

lemma round_up_1024:
  fixes m :: int
  shows "1024 * ((m + 1023) div 1024 - 1) < m \<and> m \<le> 1024 * ((m + 1023) div 1024)"
proof -
  define q r where "q = (m + 1023) div 1024" and "r = (m + 1023) mod 1024"
  then have "m + 1023 = 1024 * q + r" "0 \<le> r" "r < 1024"
    by simp_all
  then show ?thesis unfolding q_def [symmetric] by simp
qed

text \<open>
  C37. The utilisation percentages and memory sizes in a report are exact where they mean
  anything: for an amount between 0 and 21474836 that does not exceed a positive total, the
  percentage is the rounded-down quotient and lies between 0 and 100; a device memory between 1
  and 2147482624 MiB is reported as the smallest number of GiB that holds it.
\<close>
theorem report_arithmetic_exact:
  assumes "0 \<le> sint used" and "sint used \<le> 21474836" and "sint used \<le> sint tot" and "0 < sint tot"
    and "0 < sint mib" and "sint mib \<le> 2147482624"
  shows "sint (percent used tot) = 100 * sint used div sint tot \<and>
    0 \<le> sint (percent used tot) \<and> sint (percent used tot) \<le> 100 \<and>
    1024 * (sint (mibToGiB mib) - 1) < sint mib \<and> sint mib \<le> 1024 * sint (mibToGiB mib)"
proof -
  have "sint (used * 100) = sint used * 100"
    using assms(1,2) sint32_mult [of used 100] by simp
  then have "sint (quot32 (used * 100) tot) = 100 * sint used div sint tot"
    using assms sint_quot32 [of "used * 100" tot] by (simp add: mult.commute)
  moreover have "0 \<le> 100 * sint used div sint tot"
    using assms by (simp add: pos_imp_zdiv_nonneg_iff)
  moreover have "100 * sint used div sint tot \<le> 100"
    using assms zdiv_mono1 [of "100 * sint used" "100 * sint tot" "sint tot"] by simp
  ultimately have p: "sint (percent used tot) = 100 * sint used div sint tot"
    using assms(4) by (simp add: percent_def backend_nonNegative_clamp sint_clamp0 sle_sint)
  have "sint (mib + 1023) = sint mib + 1023"
    using assms(5,6) sint32_add [of mib 1023] by simp
  then have "sint (mibToGiB mib) = (sint mib + 1023) div 1024"
    using assms(5) sint_quot32 [of "mib + 1023" 1024] by (simp add: mibToGiB_def sle_sint)
  then have "1024 * (sint (mibToGiB mib) - 1) < sint mib \<and> sint mib \<le> 1024 * sint (mibToGiB mib)"
    using round_up_1024 [of "sint mib"] by simp
  with p \<open>0 \<le> 100 * sint used div sint tot\<close> \<open>100 * sint used div sint tot \<le> 100\<close> show ?thesis
    by simp
qed

theorem report_arithmetic_exact_witness:
  "sint (percent 3 8) = 37 \<and> sint (mibToGiB 81559) \<le> 80"
  using report_arithmetic_exact [of 3 8 81559] by simp




end
