(* ===== verification/Controller.thy ===== *)
theory Controller
  imports StatusRecorder RealBackend
begin

text \<open>
  The agent's reconciler (\<open>agent/controller.go\<close>): reading the node's ledgers, publishing the node
  status, applying the local plans and migrating workloads away.

  Every operation passes the state \<open>'w\<close> of the world through the client and the backend in the
  order of the source.  The local scheduler's error is a text.  \<open>SetupWithManager\<close> registers the
  predicates below with controller-runtime, which calls \<open>Reconcile\<close>; that registration is not
  modelled.  Durations are nanoseconds.
\<close>

section \<open>Names\<close>

definition nodePhaseReady :: string where "nodePhaseReady = ''Ready''"

definition defaultRequeueAfter :: int where "defaultRequeueAfter = 60000000000"

definition dns_char :: "char \<Rightarrow> bool" where
  "dns_char c \<longleftrightarrow>
     (let n = (of_char c :: nat) in 97 \<le> n \<and> n \<le> 122 \<or> 48 \<le> n \<and> n \<le> 57) \<or> c = CHR ''-''"

definition sanitizeDNSLabel :: "string \<Rightarrow> string" where
  "sanitizeDNSLabel value =
     Trim (map (\<lambda>c. if dns_char c then c else CHR ''-'') (ToLower value)) ''-''"

definition replacementPodName :: "string \<Rightarrow> string \<Rightarrow> string" where
  "replacementPodName sourcePodName allocationName =
     (let suffix = take 8 (sha256_hex allocationName);
          base = sanitizeDNSLabel sourcePodName;
          maxBaseLen = 63 - length ''-astra-'' - length suffix;
          base1 = (if length base > maxBaseLen then Trim (take maxBaseLen base) ''-'' else base);
          base2 = (if base1 = [] then ''pod'' else base1)
      in base2 @ ''-astra-'' @ suffix)"

definition copyStringMap :: "(string \<rightharpoonup> string) \<Rightarrow> (string \<rightharpoonup> string)" where
  "copyStringMap source = (\<lambda>key. source key)"

section \<open>State\<close>

record Config =
  cf_NodeName :: string
  cf_NodeProfileNamespace :: string
  cf_FakeResourceConfigMap :: string
  cf_FakeResourceConfigMapNS :: string

record 'w Reconciler =
  rc_client :: "'w AgentClient"
  rc_config :: Config
  rc_backend :: "'w Backend"
  rc_local :: Scheduler

definition NewReconciler :: "Config \<Rightarrow> 'w AgentClient \<Rightarrow> 'w Backend \<Rightarrow> 'w Reconciler" where
  "NewReconciler config client backend =
     \<lparr>rc_client = client, rc_config = config, rc_backend = backend, rc_local = NewDefaultScheduler\<rparr>"

section \<open>Reading the node's state\<close>

definition listNodeAllocations ::
    "'w Reconciler \<Rightarrow> 'w \<Rightarrow> (ApiError + AIResourceAllocation list) \<times> 'w" where
  "listNodeAllocations r w =
     (case ac_ListAllocations (rc_client r) w
             [AllocationLabelManagedBy \<mapsto> ''astra-scheduler'',
              AllocationLabelNodeName \<mapsto> cf_NodeName (rc_config r)] of
        (Inl err, w1) \<Rightarrow> (Inl err, w1)
      | (Inr items, w1) \<Rightarrow>
          (Inr (expandNodeAllocationLedgers
                  (filter (\<lambda>allocation.
                     as_NodeName (a_Spec allocation) = cf_NodeName (rc_config r) \<and>
                     ast_Phase (a_Status allocation) \<noteq> AllocationPhaseReleased) items)), w1))"

definition getNodeProfile :: "'w Reconciler \<Rightarrow> 'w \<Rightarrow> (ApiError + AINodeResourceProfile) \<times> 'w" where
  "getNodeProfile r w =
     (let namespace = cf_NodeProfileNamespace (rc_config r);
          name = cf_NodeName (rc_config r);
          c = rc_client r
      in case ac_GetNodeProfile c w namespace name of
           (Inr profile, w1) \<Rightarrow> (Inr profile, w1)
         | (Inl err, w1) \<Rightarrow>
             if \<not> IsNotFound err then (Inl err, w1)
             else
               (case ac_ListNodeProfiles c w1 of
                  (Inl err, w2) \<Rightarrow> (Inl err, w2)
                | (Inr items, w2) \<Rightarrow>
                    (case find (\<lambda>item. ns_NodeName (n_Spec item) = name \<or> n_Name item = name) items of
                       Some item \<Rightarrow> (Inr item, w2)
                     | None \<Rightarrow>
                         (let profile =
                                \<lparr>n_Meta = ObjectMeta_zero \<lparr>om_Namespace := namespace, om_Name := name\<rparr>,
                                 n_Spec =
                                   \<lparr>ns_NodeName = name, ns_BackendType = ''fake'', ns_GPUs = [],
                                    ns_Runtime = None, ns_Capabilities = None\<rparr>,
                                 n_Status = AINodeResourceProfileStatus_zero\<rparr>
                          in case ac_CreateNodeProfile c w2 profile of
                               (Some err, w3) \<Rightarrow>
                                 if IsAlreadyExists err then ac_GetNodeProfile c w3 namespace name
                                 else
                                   (Inl (wrapError (''create AINodeResourceProfile for node '' @
                                           Quote name @ '': '') err), w3)
                             | (None, w3) \<Rightarrow> ac_GetNodeProfile c w3 namespace name))))"

section \<open>Publishing the node status\<close>

definition updateNodeProfileStatus ::
    "'w Reconciler \<Rightarrow> AINodeResourceProfile \<Rightarrow> AINodeResourceProfileStatus \<Rightarrow> 'w \<Rightarrow>
     ApiError option \<times> 'w" where
  "updateNodeProfileStatus r nodeProfile status w =
     ac_Retry (rc_client r)
       (\<lambda>w. case ac_GetNodeProfile (rc_client r) w (n_Namespace nodeProfile) (n_Name nodeProfile) of
              (Inl err, w1) \<Rightarrow> (Some err, w1)
            | (Inr latest, w1) \<Rightarrow>
                ac_UpdateNodeProfileStatus (rc_client r) w1 (latest \<lparr>n_Status := status\<rparr>)) w"

text \<open>The tail that \<open>syncNodeStatus\<close> and \<open>refreshNodeStatus\<close> share: snapshot, stamp, update.\<close>

definition publishSnapshot ::
    "'w Reconciler \<Rightarrow> AINodeResourceProfile \<Rightarrow> AIResourceAllocation list \<Rightarrow> 'w \<Rightarrow>
     ApiError option \<times> AINodeResourceProfile \<times> 'w" where
  "publishSnapshot r nodeProfile allocations w =
     (case be_Snapshot (rc_backend r) \<lparr>sq_Node = Some nodeProfile, sq_Allocations = allocations\<rparr> w of
        (Inl err, node', w1) \<Rightarrow> (Some err, (case node' of Some n \<Rightarrow> n | None \<Rightarrow> nodeProfile), w1)
      | (Inr snapshot, node', w1) \<Rightarrow>
          (let status =
                 (sr_Status snapshot)
                   \<lparr>nst_Phase := nodePhaseReady, nst_ObservedAt := Some (ac_Now (rc_client r) w1)\<rparr>;
               node1 = (case node' of Some n \<Rightarrow> n | None \<Rightarrow> nodeProfile)
           in case updateNodeProfileStatus r node1 status w1 of (err, w2) \<Rightarrow> (err, node1, w2)))"

definition syncNodeStatus ::
    "'w Reconciler \<Rightarrow> AINodeResourceProfile \<Rightarrow> AIResourceAllocation list \<Rightarrow> 'w \<Rightarrow>
     ApiError option \<times> AINodeResourceProfile \<times> 'w" where
  "syncNodeStatus r nodeProfile allocations w = publishSnapshot r nodeProfile allocations w"

definition refreshNodeStatus ::
    "'w Reconciler \<Rightarrow> AINodeResourceProfile \<Rightarrow> 'w \<Rightarrow> ApiError option \<times> AINodeResourceProfile \<times> 'w" where
  "refreshNodeStatus r nodeProfile w =
     (case listNodeAllocations r w of
        (Inl err, w1) \<Rightarrow> (Some err, nodeProfile, w1)
      | (Inr allocations, w1) \<Rightarrow>
          publishSnapshot r nodeProfile
            (filter (\<lambda>allocation. ast_Phase (a_Status allocation) = AllocationPhaseApplied) allocations) w1)"

section \<open>Migration\<close>

definition sourcePodForAllocation ::
    "'w Reconciler \<Rightarrow> AIResourceAllocation \<Rightarrow> 'w \<Rightarrow> (ApiError + CorePod) \<times> 'w" where
  "sourcePodForAllocation r allocation w =
     (let podName = map_get (a_Annotations allocation) AllocationAnnotationSourcePodName;
          podName1 =
            (if podName = [] then map_get (a_Labels allocation) AllocationLabelWorkloadName else podName)
      in if podName1 = [] then
           (Inl (OtherError (''allocation '' @ a_Namespace allocation @ ''/'' @ a_Name allocation @
              '' has no source pod reference'')), w)
         else
           (let namespace = ref_Namespace (as_WorkloadRef (a_Spec allocation));
                namespace1 =
                  (if namespace = [] \<and> length (as_Workloads (a_Spec allocation)) = 1
                   then ref_Namespace (aw_WorkloadRef (as_Workloads (a_Spec allocation) ! 0))
                   else namespace);
                namespace2 =
                  (if namespace1 = [] then map_get (a_Labels allocation) AllocationLabelWorkloadNamespace
                   else namespace1);
                namespace3 = (if namespace2 = [] then a_Namespace allocation else namespace2)
            in ac_GetPod (rc_client r) w namespace3 podName1))"

definition replacementPod :: "CorePod \<Rightarrow> string \<Rightarrow> string \<Rightarrow> CorePod" where
  "replacementPod sourcePod name allocationName =
     sourcePod
       \<lparr>cp_Meta :=
          ObjectMeta_zero
            \<lparr>om_Name := name, om_Namespace := om_Namespace (cp_Meta sourcePod),
             om_Labels :=
               (copyStringMap (om_Labels (cp_Meta sourcePod)))
                 (''astra.aiinfra.io/replacement-for-allocation'' \<mapsto> allocationName,
                  ''astra.aiinfra.io/replacement-for-pod'' \<mapsto> om_Name (cp_Meta sourcePod)),
             om_Annotations :=
               (copyStringMap (om_Annotations (cp_Meta sourcePod)))
                 (''astra.aiinfra.io/replacement-reason'' \<mapsto> ''node-local-migration'')\<rparr>,
        cp_NodeName := [], cp_SchedulerName := SchedulerName\<rparr>"

definition ensureReplacementPod ::
    "'w Reconciler \<Rightarrow> AIResourceAllocation \<Rightarrow> CorePod \<Rightarrow> 'w \<Rightarrow> (ApiError + CorePod) \<times> 'w" where
  "ensureReplacementPod r allocation sourcePod w =
     (let name = replacementPodName (om_Name (cp_Meta sourcePod)) (a_Name allocation);
          namespace = om_Namespace (cp_Meta sourcePod);
          c = rc_client r
      in case ac_GetPod c w namespace name of
           (Inr replacement, w1) \<Rightarrow> (Inr replacement, w1)
         | (Inl err, w1) \<Rightarrow>
             if \<not> IsNotFound err then (Inl err, w1)
             else
               (case ac_CreatePod c w1 (replacementPod sourcePod name (a_Name allocation)) of
                  (Some err, w2) \<Rightarrow>
                    if IsAlreadyExists err then ac_GetPod c w2 namespace name else (Inl err, w2)
                | (None, w2) \<Rightarrow> ac_GetPod c w2 namespace name))"

definition handleMigrationPlan ::
    "'w Reconciler \<Rightarrow> AIResourceAllocation \<Rightarrow> Plan \<Rightarrow> 'w \<Rightarrow> ApiError option \<times> 'w" where
  "handleMigrationPlan r allocation plan w =
     (let c = rc_client r;
          (err0, allocation1, w1) =
            (if ast_Phase (a_Status allocation) \<noteq> AllocationPhaseMigrating
             then markMigrating c allocation plan w else (None, allocation, w))
      in case err0 of
           Some err \<Rightarrow> (Some err, w1)
         | None \<Rightarrow>
             (case sourcePodForAllocation r allocation1 w1 of
                (Inl err, w2) \<Rightarrow>
                  if IsNotFound err then
                    (case markReleased c allocation1 ''source pod is already gone; allocation released'' w2 of
                       (err2, _, w3) \<Rightarrow> (err2, w3))
                  else (Some err, w2)
              | (Inr sourcePod, w2) \<Rightarrow>
                  (case ensureReplacementPod r allocation1 sourcePod w2 of
                     (Inl err, w3) \<Rightarrow> (Some err, w3)
                   | (Inr replacement, w3) \<Rightarrow>
                       if cp_Phase replacement \<noteq> ''Running'' then (None, w3)
                       else
                         (let (err4, w4) =
                                (if om_DeletionTimestamp (cp_Meta sourcePod) = None
                                 then ac_DeletePod c w3 sourcePod else (None, w3))
                          in if (case err4 of Some e \<Rightarrow> \<not> IsNotFound e | None \<Rightarrow> False) then (err4, w4)
                             else
                               (case markReleased c allocation1
                                       (''replacement pod '' @ om_Namespace (cp_Meta replacement) @ ''/'' @
                                        om_Name (cp_Meta replacement) @
                                        '' is running; source pod released'') w4 of
                                  (err5, _, w5) \<Rightarrow> (err5, w5))))))"

section \<open>Applying plans\<close>

definition applyPlan ::
    "'w Reconciler \<Rightarrow> AINodeResourceProfile \<Rightarrow> Plan \<Rightarrow> 'w \<Rightarrow> ApiError option \<times> 'w" where
  "applyPlan r nodeProfile plan w =
     (let allocation = pl_Allocation plan;
          c = rc_client r
      in if ast_Phase (a_Status allocation) = AllocationPhaseApplied \<and>
            ast_ObservedResources (a_Status allocation) \<noteq> None \<and>
            ast_Current (a_Status allocation) \<noteq> None \<and>
            ast_HourlyForecast (a_Status allocation) \<noteq> None \<and>
            ast_ObservedResources (a_Status allocation) = Some (pl_AssignedResources plan)
         then (None, w)
         else if pl_TargetPhase plan = AllocationPhaseFailed then
           (if pl_Action plan = AllocationActionEvict then handleMigrationPlan r allocation plan w
            else (case markPlanFailed c allocation plan w of (err, _, w1) \<Rightarrow> (err, w1)))
         else
           (case markPendingApply c allocation plan w of
              (Some err, _, w1) \<Rightarrow> (Some err, w1)
            | (None, allocation1, w1) \<Rightarrow>
                (case markApplying c allocation1 plan w1 of
                   (Some err, _, w2) \<Rightarrow> (Some err, w2)
                 | (None, allocation2, w2) \<Rightarrow>
                     (case be_Apply (rc_backend r)
                             \<lparr>rq_Node = Some nodeProfile, rq_Allocation = Some allocation2,
                              rq_Action = pl_Action plan,
                              rq_DesiredResources = Some (pl_AssignedResources plan),
                              rq_AllocationTier = pl_AllocationTier plan,
                              rq_TargetPhase = pl_TargetPhase plan, rq_Reason = pl_Reason plan\<rparr> w2 of
                        (Inl err, w3) \<Rightarrow>
                          (case markFailed c allocation2 plan err w3 of (_, w4) \<Rightarrow> (Some err, w4))
                      | (Inr result, w3) \<Rightarrow>
                          (case markApplied c allocation2 plan result w3 of (err, _, w4) \<Rightarrow> (err, w4))))))"

fun applyPlans ::
    "'w Reconciler \<Rightarrow> AINodeResourceProfile \<Rightarrow> Plan list \<Rightarrow> 'w \<Rightarrow> ApiError option \<times> 'w" where
  "applyPlans r nodeProfile [] w = (None, w)"
| "applyPlans r nodeProfile (plan # plans) w =
     (case applyPlan r nodeProfile plan w of
        (Some err, w1) \<Rightarrow> (Some err, w1)
      | (None, w1) \<Rightarrow> applyPlans r nodeProfile plans w1)"

section \<open>Reconciliation\<close>

record Result =
  re_RequeueAfter :: int

definition reconcileNode :: "'w Reconciler \<Rightarrow> 'w \<Rightarrow> Result \<times> ApiError option \<times> 'w" where
  "reconcileNode r w =
     (let again = \<lparr>re_RequeueAfter = 5000000000\<rparr> in
      case getNodeProfile r w of
        (Inl err, w1) \<Rightarrow> (\<lparr>re_RequeueAfter = 0\<rparr>, Some err, w1)
      | (Inr nodeProfile, w1) \<Rightarrow>
          (case listNodeAllocations r w1 of
             (Inl err, w2) \<Rightarrow> (\<lparr>re_RequeueAfter = 0\<rparr>, Some err, w2)
           | (Inr allocations, w2) \<Rightarrow>
               (case syncNodeStatus r nodeProfile allocations w2 of
                  (Some err, _, w3) \<Rightarrow> (again, Some err, w3)
                | (None, nodeProfile1, w3) \<Rightarrow>
                    (case BuildPlansAt (rc_local r) (Some nodeProfile1) allocations
                            (ac_Clock (rc_client r) w3) of
                       Inl err \<Rightarrow> (again, Some (OtherError err), w3)
                     | Inr plans \<Rightarrow>
                         (case applyPlans r nodeProfile1 plans w3 of
                            (Some err, w4) \<Rightarrow> (again, Some err, w4)
                          | (None, w4) \<Rightarrow>
                              (case refreshNodeStatus r nodeProfile1 w4 of
                                 (Some err, _, w5) \<Rightarrow> (again, Some err, w5)
                               | (None, _, w5) \<Rightarrow>
                                   (\<lparr>re_RequeueAfter = defaultRequeueAfter\<rparr>, None, w5)))))))"

definition Reconcile ::
    "'w Reconciler \<Rightarrow> string \<Rightarrow> string \<Rightarrow> 'w \<Rightarrow> Result \<times> ApiError option \<times> 'w" where
  "Reconcile r namespace name w =
     (case ac_GetAllocation (rc_client r) w namespace name of
        (Inl err, w1) \<Rightarrow>
          if IsNotFound err then reconcileNode r w1 else (\<lparr>re_RequeueAfter = 0\<rparr>, Some err, w1)
      | (Inr allocation, w1) \<Rightarrow>
          if as_NodeName (a_Spec allocation) \<noteq> cf_NodeName (rc_config r)
          then (\<lparr>re_RequeueAfter = 0\<rparr>, None, w1)
          else reconcileNode r w1)"

section \<open>What applying a plan records\<close>

lemma recordsE:
  assumes "records st w a out e"
  obtains b w' new old where "out = (None, b, w')" "st w (object_key a) = Some old"
    "st w' = (st w)(object_key a \<mapsto> new)" "a_Spec new = a_Spec old" "a_Meta new = a_Meta old"
    "ast_Phase (a_Status new) = ws_Phase e" "ws_Name e = entry_name a"
    "recorded st w' (object_key a) = (recorded st w (object_key a))(entry_name a \<mapsto> e)"
    "a_Spec b = a_Spec a" "a_Meta b = a_Meta a" "own_first b"
  using assms unfolding records_def by (elim exE conjE) (rule that)

text \<open>Two writes for the same allocation: the ledger is as after the second one alone.\<close>

lemma records_trans:
  assumes "records st w a (err1, b, w1) e1" and "records st w2 b out e2" and "st w2 = st w1"
  shows "err1 = None \<and> records st w a out e2"
proof -
  from assms(1) obtain new1 old where one: "err1 = None" "st w (object_key a) = Some old"
    "st w1 = (st w)(object_key a \<mapsto> new1)" "a_Spec new1 = a_Spec old" "a_Meta new1 = a_Meta old"
    "recorded st w1 (object_key a) = (recorded st w (object_key a))(entry_name a \<mapsto> e1)"
    "a_Spec b = a_Spec a" "a_Meta b = a_Meta a"
    by (elim recordsE) simp
  from assms(2) obtain b2 w' new old' where two: "out = (None, b2, w')"
    "st w2 (object_key b) = Some old'" "st w' = (st w2)(object_key b \<mapsto> new)"
    "a_Spec new = a_Spec old'" "a_Meta new = a_Meta old'" "ast_Phase (a_Status new) = ws_Phase e2"
    "ws_Name e2 = entry_name b"
    "recorded st w' (object_key b) = (recorded st w2 (object_key b))(entry_name b \<mapsto> e2)"
    "a_Spec b2 = a_Spec b" "a_Meta b2 = a_Meta b" "own_first b2"
    by (elim recordsE)
  have name: "entry_name b = entry_name a" using one(7,8) by (rule entry_name_cong)
  have key: "object_key b = object_key a" using one(8) by simp
  have same: "recorded st w2 (object_key a) = recorded st w1 (object_key a)"
    using assms(3) by (simp add: recorded_def)
  have "old' = new1" using two(2) one(3) assms(3) key by simp
  then have "records st w a out e2"
    unfolding records_def using one two same name key assms(3)
    by (intro exI [of _ b2] exI [of _ w'] exI [of _ new] exI [of _ old]) simp
  with one(1) show ?thesis by simp
qed

lemma records_next:
  assumes "records st w a (err, b, w1) e" and "st w2 = st w1"
  shows "\<exists>latest. st w2 (object_key b) = Some latest" and "own_first b"
  using assms by (auto simp: records_def)

abbreviation settled :: "Plan \<Rightarrow> bool" where
  "settled plan \<equiv>
     ast_Phase (a_Status (pl_Allocation plan)) = AllocationPhaseApplied \<and>
     ast_Current (a_Status (pl_Allocation plan)) \<noteq> None \<and>
     ast_HourlyForecast (a_Status (pl_Allocation plan)) \<noteq> None \<and>
     ast_ObservedResources (a_Status (pl_Allocation plan)) = Some (pl_AssignedResources plan)"

lemma applyPlan_settled: "settled plan \<Longrightarrow> applyPlan r node plan w = (None, w)"
  by (simp add: applyPlan_def Let_def)

abbreviation applyRequest :: "AINodeResourceProfile \<Rightarrow> AIResourceAllocation \<Rightarrow> Plan \<Rightarrow> ApplyRequest" where
  "applyRequest node a plan \<equiv>
     \<lparr>rq_Node = Some node, rq_Allocation = Some a, rq_Action = pl_Action plan,
      rq_DesiredResources = Some (pl_AssignedResources plan), rq_AllocationTier = pl_AllocationTier plan,
      rq_TargetPhase = pl_TargetPhase plan, rq_Reason = pl_Reason plan\<rparr>"

text \<open>The run up to the backend: the allocation is marked pending and then applying.\<close>

lemma applyPlan_prepares:
  assumes "status_store (rc_client r) st"
    and "st w (object_key (pl_Allocation plan)) = Some old" and "own_first (pl_Allocation plan)"
    and "pl_TargetPhase plan \<noteq> AllocationPhaseFailed" and "\<not> settled plan"
  shows "\<exists>b w2 e. records st w (pl_Allocation plan) (None, b, w2) e \<and>
    applyPlan r node plan w = (case be_Apply (rc_backend r) (applyRequest node b plan) w2 of
      (Inl err, w3) \<Rightarrow> (case markFailed (rc_client r) b plan err w3 of (_, w4) \<Rightarrow> (Some err, w4))
    | (Inr result, w3) \<Rightarrow> (case markApplied (rc_client r) b plan result w3 of (err, _, w4) \<Rightarrow> (err, w4)))"
proof -
  let ?a = "pl_Allocation plan" and ?c = "rc_client r"
  note mark = mark_records [OF assms(1)]
  obtain err1 b1 w1 where pend: "markPendingApply ?c ?a plan w = (err1, b1, w1)"
    by (cases "markPendingApply ?c ?a plan w")
  with mark(1) [OF assms(2,3)] obtain e1 where r1: "records st w ?a (err1, b1, w1) e1" by metis
  obtain err2 b2 w2 where appl: "markApplying ?c b1 plan w1 = (err2, b2, w2)"
    by (cases "markApplying ?c b1 plan w1")
  obtain e2 where "records st w1 b1 (err2, b2, w2) e2"
    using records_next [OF r1 refl] mark(2) [of w1 b1 _ plan] appl by metis
  from records_trans [OF r1 this refl] have none1: "err1 = None" and r2: "records st w ?a (err2, b2, w2) e2"
    by simp_all
  then have none2: "err2 = None" by (auto simp: records_def)
  moreover have "applyPlan r node plan w = (case be_Apply (rc_backend r) (applyRequest node b2 plan) w2 of
      (Inl err, w3) \<Rightarrow> (case markFailed ?c b2 plan err w3 of (_, w4) \<Rightarrow> (Some err, w4))
    | (Inr result, w3) \<Rightarrow> (case markApplied ?c b2 plan result w3 of (err, _, w4) \<Rightarrow> (err, w4)))"
    using assms(4,5) pend appl none1 none2 by (auto simp: applyPlan_def Let_def)
  ultimately show ?thesis using r2 by blast
qed

lemma applyPlan_records:
  assumes "agent_backend (rc_backend r)" and "status_store (rc_client r) st"
    and "\<forall>req w res w'. be_Apply (rc_backend r) req w = (res, w') \<longrightarrow> st w' = st w"
    and "st w (object_key (pl_Allocation plan)) = Some old" and "own_first (pl_Allocation plan)"
    and "pl_TargetPhase plan \<noteq> AllocationPhaseFailed" and "\<not> settled plan"
  shows "\<exists>err w' e b. applyPlan r node plan w = (err, w') \<and>
    records st w (pl_Allocation plan) (None, b, w') e \<and>
    (case err of
       None \<Rightarrow> ws_Phase e = AllocationPhaseApplied \<and> ws_Applied e = Some (pl_AssignedResources plan) \<and>
         ws_HourlyForecast e \<noteq> None
     | Some x \<Rightarrow> ws_Phase e = AllocationPhaseFailed \<and> ws_Message e = error_text x)"
proof -
  let ?a = "pl_Allocation plan" and ?c = "rc_client r"
  note mark = mark_records [OF assms(2)]
  obtain b2 w2 e2 where r2: "records st w ?a (None, b2, w2) e2" and start: "applyPlan r node plan w =
      (case be_Apply (rc_backend r) (applyRequest node b2 plan) w2 of
        (Inl err, w3) \<Rightarrow> (case markFailed ?c b2 plan err w3 of (_, w4) \<Rightarrow> (Some err, w4))
      | (Inr result, w3) \<Rightarrow> (case markApplied ?c b2 plan result w3 of (err, _, w4) \<Rightarrow> (err, w4)))"
    using applyPlan_prepares [OF assms(2,4-7)] by blast
  obtain res w3 where ran: "be_Apply (rc_backend r) (applyRequest node b2 plan) w2 = (res, w3)"
    by (cases "be_Apply (rc_backend r) (applyRequest node b2 plan) w2")
  then have st3: "st w3 = st w2" using assms(3) by blast
  obtain latest3 where latest3: "st w3 (object_key b2) = Some latest3" and own2: "own_first b2"
    using records_next [OF r2 st3] by blast
  show ?thesis
  proof (cases res)
    case (Inl x)
    obtain e b err w4 where out: "markFailedWith ?c b2 plan (error_text x) ''mark allocation failed'' w3 = (err, b, w4)"
      and r4: "records st w3 b2 (err, b, w4) e" and e: "ws_Phase e = AllocationPhaseFailed" "ws_Message e = error_text x"
      using mark(6) [OF latest3 own2, of plan "error_text x" "''mark allocation failed''"]
      by (metis prod_cases3)
    have "records st w ?a (err, b, w4) e" and "err = None"
      using records_trans [OF r2 r4 st3] r4 by (auto simp: records_def)
    moreover have "applyPlan r node plan w = (Some x, w4)"
      using start ran Inl out by (simp add: markFailed_def)
    ultimately show ?thesis using e by (intro exI [of _ "Some x"] exI [of _ w4] exI [of _ e] exI [of _ b]) simp
  next
    case (Inr result)
    have obs: "rs_ObservedResources result = Some (pl_AssignedResources plan)"
      using agent_backend.apply_desired [OF assms(1)] ran Inr by simp
    obtain e b err w4 where out: "markApplied ?c b2 plan result w3 = (err, b, w4)"
      and r4: "records st w3 b2 (err, b, w4) e" and e: "ws_Phase e = AllocationPhaseApplied"
        "ws_Applied e = rs_ObservedResources result" "ws_HourlyForecast e \<noteq> None"
      using mark(3) [OF latest3 own2, of plan result] by (metis prod_cases3)
    have "records st w ?a (err, b, w4) e" and "err = None"
      using records_trans [OF r2 r4 st3] r4 by (auto simp: records_def)
    moreover have "applyPlan r node plan w = (err, w4)"
      using start ran Inr out by simp
    ultimately show ?thesis using e obs by (intro exI [of _ None] exI [of _ w4] exI [of _ e] exI [of _ b]) simp
  qed
qed

section \<open>A world without other clients\<close>

text \<open>For the examples: a server that is a map of allocations and a map of pods; it lists the ledger
  of one node.\<close>

type_synonym map_world = "(string \<times> string \<rightharpoonup> AIResourceAllocation) \<times> (string \<times> string \<rightharpoonup> CorePod)"

definition stored :: "map_world \<Rightarrow> string \<times> string \<rightharpoonup> AIResourceAllocation" where
  "stored w = map_objects (fst w)"

definition pod_key :: "CorePod \<Rightarrow> string \<times> string" where
  "pod_key p = (om_Namespace (cp_Meta p), om_Name (cp_Meta p))"

definition stored_pods :: "map_world \<Rightarrow> string \<times> string \<rightharpoonup> CorePod" where
  "stored_pods w = (\<lambda>(ns, n). map_option (\<lambda>p. p \<lparr>cp_Meta := (cp_Meta p) \<lparr>om_Name := n, om_Namespace := ns\<rparr>\<rparr>)
     (snd w (ns, n)))"

definition map_agent_client :: "map_world AgentClient" where
  "map_agent_client =
     \<lparr>ac_GetAllocation = (\<lambda>w ns n. (case stored w (ns, n) of
         None \<Rightarrow> Inl (NotFound ''not found'') | Some a \<Rightarrow> Inr a, w)),
      ac_ListAllocations =
        (\<lambda>w labels. (Inr (List.map_filter (stored w) [(''astra-system'', ''n1-allocation'')]), w)),
      ac_UpdateAllocationStatus = (\<lambda>w a. case stored w (object_key a) of
         None \<Rightarrow> (Some (NotFound ''not found''), w)
       | Some old \<Rightarrow> (None, ((fst w)(object_key a \<mapsto> old \<lparr>a_Status := a_Status a\<rparr>), snd w))),
      ac_GetNodeProfile = (\<lambda>w ns n. (Inr example_node, w)),
      ac_ListNodeProfiles = (\<lambda>w. (Inr [], w)),
      ac_CreateNodeProfile = (\<lambda>w p. (None, w)),
      ac_UpdateNodeProfileStatus = (\<lambda>w p. (None, w)),
      ac_GetPod = (\<lambda>w ns n. (case stored_pods w (ns, n) of
         None \<Rightarrow> Inl (NotFound ''not found'') | Some p \<Rightarrow> Inr p, w)),
      ac_CreatePod = (\<lambda>w p. (None, (fst w, (snd w)(pod_key p \<mapsto> p \<lparr>cp_Phase := ''Pending''\<rparr>)))),
      ac_DeletePod = (\<lambda>w p. (None, (fst w, (snd w)(pod_key p := None)))),
      ac_Retry = (\<lambda>f. f), ac_Now = (\<lambda>w. 0),
      ac_Clock = (\<lambda>w. \<lparr>now_Minute = 0, now_MinuteIn = (\<lambda>z. None)\<rparr>)\<rparr>"

lemma stored_update:
  "stored w k = Some old \<Longrightarrow>
   stored ((fst w)(k \<mapsto> old \<lparr>a_Status := s\<rparr>), ps) = (stored w)(k \<mapsto> old \<lparr>a_Status := s\<rparr>)"
  by (auto simp: stored_def map_objects_def fun_eq_iff)

lemma stored_key: "stored w (ns, n) = Some a \<Longrightarrow> object_key a = (ns, n)"
  by (auto simp: stored_def map_objects_def)

lemma status_store_map_client: "status_store map_agent_client stored"
  unfolding status_store_def
  by (simp add: map_agent_client_def stored_update) (auto dest: stored_key)

lemma fake_apply_quiet: "be_Apply (fakeBackend u options) req w = (res, w') \<Longrightarrow> w' = w"
  by (auto simp: fakeBackend_def FakeBackend_Apply_def Let_def split: option.splits)

definition sample_reconciler :: "map_world Reconciler" where
  "sample_reconciler =
     NewReconciler
       \<lparr>cf_NodeName = ''n1'', cf_NodeProfileNamespace = ''astra-system'', cf_FakeResourceConfigMap = [],
        cf_FakeResourceConfigMapNS = []\<rparr>
       map_agent_client (fakeBackend empty_config no_options)"

lemma sample_reconciler_simps:
  "rc_client sample_reconciler = map_agent_client"
  "rc_backend sample_reconciler = fakeBackend empty_config no_options"
  "cf_NodeName (rc_config sample_reconciler) = ''n1''"
  by (simp_all add: sample_reconciler_def NewReconciler_def)

text \<open>A ledger with one workload that has no status yet, and the plan to give it two GPUs.\<close>

definition sample_workload :: AllocationWorkloadSpec where
  "sample_workload =
     allocationWorkloadSpec sample_pod example_profile (gpuVec 1) ''guaranteed'' ''scheduled''"

definition sample_ledger :: AIResourceAllocation where
  "sample_ledger =
     \<lparr>a_Meta = ObjectMeta_zero \<lparr>om_Name := ''n1-allocation'', om_Namespace := ''astra-system''\<rparr>,
      a_Spec = AIResourceAllocationSpec_zero \<lparr>as_NodeName := ''n1'', as_Workloads := [sample_workload]\<rparr>,
      a_Status = AIResourceAllocationStatus_zero\<rparr>"

definition sample_world :: map_world where
  "sample_world = ([(''astra-system'', ''n1-allocation'') \<mapsto> sample_ledger], Map.empty)"

definition sample_plan :: Plan where
  "sample_plan =
     \<lparr>pl_Allocation = expandWorkload sample_ledger sample_workload, pl_Action = AllocationActionApply,
      pl_Reason = [], pl_TargetPhase = AllocationPhasePendingApply, pl_AllocationTier = AllocationTierMax,
      pl_RequestedResources = gpuVec 2, pl_AssignedResources = gpuVec 2, pl_ActiveWindow = []\<rparr>"

lemma sample_plan_simps:
  "object_key (pl_Allocation sample_plan) = (''astra-system'', ''n1-allocation'')"
  "own_first (pl_Allocation sample_plan)"
  "pl_TargetPhase sample_plan \<noteq> AllocationPhaseFailed"
  "\<not> settled sample_plan"
  "stored sample_world (object_key (pl_Allocation sample_plan)) = Some sample_ledger"
proof -
  show key: "object_key (pl_Allocation sample_plan) = (''astra-system'', ''n1-allocation'')"
    by (simp add: sample_plan_def expandWorkload_def sample_ledger_def Let_def)
  show "own_first (pl_Allocation sample_plan)" "\<not> settled sample_plan"
    by (simp_all add: own_first_def sample_plan_def expandWorkload_def sample_ledger_def Let_def
        AIResourceAllocationStatus_zero_def phase_defs)
  show "pl_TargetPhase sample_plan \<noteq> AllocationPhaseFailed"
    by (simp add: sample_plan_def phase_defs)
  show "stored sample_world (object_key (pl_Allocation sample_plan)) = Some sample_ledger"
    unfolding key by (simp add: sample_world_def stored_def map_objects_def sample_ledger_def)
qed

lemma sample_backend_accepts:
  "NewWithOptions bare_host empty_config ''fake'' no_options = Inr (rc_backend sample_reconciler)"
  by (simp add: NewWithOptions_def sample_reconciler_simps)

text \<open>
  C10. Applying a plan records its outcome.  For a plan whose target is not Failed, that is not
  already settled, and whose workload is the first of its ledger's status list or is read without
  a status, on whichever backend the agent runs: the run ends; when it returns no error the ledger
  entry of the workload has phase Applied and the assigned resources, when it returns an error the
  entry has phase Failed and the error's text.  Every other entry, the metadata and the spec of the
  ledger and every other object stay as they were; the status of the ledger as a whole does not:
  its phase becomes the phase of this entry.  A later workload of the status list is outside: its
  writes are never recorded.
\<close>
theorem applyPlan_outcome:
  assumes "NewWithOptions os u name options = Inr (rc_backend r)" and "status_store (rc_client r) st"
    and "\<forall>req w res w'. be_Apply (rc_backend r) req w = (res, w') \<longrightarrow> st w' = st w"
    and "st w (object_key (pl_Allocation plan)) = Some old" and "own_first (pl_Allocation plan)"
    and "pl_TargetPhase plan \<noteq> AllocationPhaseFailed" and "\<not> settled plan"
  shows "\<exists>err w' e new. applyPlan r node plan w = (err, w') \<and>
    st w' = (st w)(object_key (pl_Allocation plan) \<mapsto> new) \<and> a_Spec new = a_Spec old \<and>
    a_Meta new = a_Meta old \<and> ast_Phase (a_Status new) = ws_Phase e \<and>
    recorded st w' (object_key (pl_Allocation plan)) =
      (recorded st w (object_key (pl_Allocation plan)))(entry_name (pl_Allocation plan) \<mapsto> e) \<and>
    (case err of
       None \<Rightarrow> ws_Phase e = AllocationPhaseApplied \<and> ws_Applied e = Some (pl_AssignedResources plan)
     | Some x \<Rightarrow> ws_Phase e = AllocationPhaseFailed \<and> ws_Message e = error_text x)"
proof -
  obtain err w' e b where run: "applyPlan r node plan w = (err, w')"
    and rec: "records st w (pl_Allocation plan) (None, b, w') e"
    and e: "case err of
       None \<Rightarrow> ws_Phase e = AllocationPhaseApplied \<and> ws_Applied e = Some (pl_AssignedResources plan) \<and>
         ws_HourlyForecast e \<noteq> None
     | Some x \<Rightarrow> ws_Phase e = AllocationPhaseFailed \<and> ws_Message e = error_text x"
    using applyPlan_records [OF NewWithOptions_contract [OF assms(1)] assms(2-)] by blast
  from rec obtain new where "st w' = (st w)(object_key (pl_Allocation plan) \<mapsto> new)" "a_Spec new = a_Spec old"
    "a_Meta new = a_Meta old" "ast_Phase (a_Status new) = ws_Phase e"
    "recorded st w' (object_key (pl_Allocation plan)) =
      (recorded st w (object_key (pl_Allocation plan)))(entry_name (pl_Allocation plan) \<mapsto> e)"
    using assms(4) by (auto elim!: recordsE)
  with run e show ?thesis
    by (intro exI conjI) (assumption | simp split: option.splits)+
qed

theorem applyPlan_outcome_witness:
  "\<exists>err w' e. applyPlan sample_reconciler example_node sample_plan sample_world = (err, w') \<and>
     recorded stored w' (''astra-system'', ''n1-allocation'') (entry_name (pl_Allocation sample_plan)) = Some e \<and>
     (err = None \<longrightarrow> ws_Applied e = Some (gpuVec 2))"
proof -
  have quiet: "\<forall>req w res w'. be_Apply (rc_backend sample_reconciler) req w = (res, w') \<longrightarrow> stored w' = stored w"
    using fake_apply_quiet by (fastforce simp: sample_reconciler_simps)
  have store: "status_store (rc_client sample_reconciler) stored"
    by (simp add: sample_reconciler_simps status_store_map_client)
  have assigned: "pl_AssignedResources sample_plan = gpuVec 2" by (simp add: sample_plan_def)
  show ?thesis
    using applyPlan_outcome [OF sample_backend_accepts store quiet sample_plan_simps(5,2,3,4), of example_node]
    unfolding sample_plan_simps(1) assigned
    by (elim exE conjE, intro exI conjI) (assumption | simp split: option.splits)+
qed

text \<open>
  C11. Applying converges.  Take a plan whose target is not Failed, that is not yet settled, and
  whose workload is the first of its ledger's status list or is read without a status.  Once it
  was applied without error, the allocation that the agent reads back from the stored ledger for
  this workload makes a plan with the same assignment a no-op, in every later state of the server,
  so repeated reconciliation with an unchanged assignment stops writing.  A later workload of the
  status list is outside: nothing is recorded for it.
\<close>
theorem applied_plan_is_stable:
  assumes "NewWithOptions os u name options = Inr (rc_backend r)" and "status_store (rc_client r) st"
    and "\<forall>req w res w'. be_Apply (rc_backend r) req w = (res, w') \<longrightarrow> st w' = st w"
    and "st w (object_key (pl_Allocation plan)) = Some old" and "own_first (pl_Allocation plan)"
    and "pl_TargetPhase plan \<noteq> AllocationPhaseFailed" and "\<not> settled plan"
    and "applyPlan r node plan w = (None, w')" and "st w' (object_key (pl_Allocation plan)) = Some new"
    and "aw_Name workload = entry_name (pl_Allocation plan)"
    and "pl_Allocation plan2 = expandWorkload new workload"
    and "pl_AssignedResources plan2 = pl_AssignedResources plan"
  shows "applyPlan r node2 plan2 w2 = (None, w2)"
proof -
  obtain e b where rec: "records st w (pl_Allocation plan) (None, b, w') e"
    and e: "ws_Phase e = AllocationPhaseApplied" "ws_Applied e = Some (pl_AssignedResources plan)"
      "ws_HourlyForecast e \<noteq> None"
    using applyPlan_records [OF NewWithOptions_contract [OF assms(1)] assms(2-7), of node] assms(8) by auto
  have "recorded st w' (object_key (pl_Allocation plan)) (entry_name (pl_Allocation plan)) = Some e"
    using rec by (auto elim!: recordsE)
  then have "workloadStatusByName (ast_Workloads (a_Status new)) (aw_Name workload) = Some e"
    using assms(9,10) by (simp add: recorded_def)
  then have "settled plan2"
    using e assms(11,12) by (simp add: expandWorkload_def Let_def)
  then show ?thesis by (rule applyPlan_settled)
qed

lemma sample_workload_name: "aw_Name sample_workload = ''team-chat-0''"
  by (simp add: sample_workload_def allocationWorkloadSpec_name workloadEntryName_def sample_pod_simps
      sanitizeName_def name_char_def lower_char_def Trim_def)

lemma sample_entry_name: "entry_name (pl_Allocation sample_plan) = aw_Name sample_workload"
  by (simp add: sample_plan_def workloadEntryNameFromAllocation_def expandWorkload_def Let_def sample_workload_name)

lemma fake_apply_succeeds:
  assumes "rc_backend r = fakeBackend u options" and "status_store (rc_client r) st"
    and "st w (object_key (pl_Allocation plan)) = Some old" and "own_first (pl_Allocation plan)"
    and "pl_TargetPhase plan \<noteq> AllocationPhaseFailed" and "\<not> settled plan"
  shows "fst (applyPlan r node plan w) = None"
proof -
  obtain b w2 e where rec: "records st w (pl_Allocation plan) (None, b, w2) e"
    and run: "applyPlan r node plan w =
      (case be_Apply (rc_backend r) (applyRequest node b plan) w2 of
        (Inl err, w3) \<Rightarrow> (case markFailed (rc_client r) b plan err w3 of (_, w4) \<Rightarrow> (Some err, w4))
      | (Inr result, w3) \<Rightarrow> (case markApplied (rc_client r) b plan result w3 of (err, _, w4) \<Rightarrow> (err, w4)))"
    using applyPlan_prepares [OF assms(2-6)] by blast
  obtain latest where latest: "st w2 (object_key b) = Some latest" and own: "own_first b"
    using records_next [OF rec refl] by blast
  obtain result where "be_Apply (rc_backend r) (applyRequest node b plan) w2 = (Inr result, w2)"
    by (simp add: assms(1) fakeBackend_def FakeBackend_Apply_def)
  with run mark_records(3) [OF assms(2) latest own, of plan result] show ?thesis
    by (auto simp: records_def)
qed

lemma sample_store: "status_store (rc_client sample_reconciler) stored"
  by (simp add: sample_reconciler_simps status_store_map_client)

lemma sample_quiet:
  "\<forall>req w res w'. be_Apply (rc_backend sample_reconciler) req w = (res, w') \<longrightarrow> stored w' = stored w"
  using fake_apply_quiet by (fastforce simp: sample_reconciler_simps)

theorem applied_plan_is_stable_witness:
  "\<exists>w' new. applyPlan sample_reconciler example_node sample_plan sample_world = (None, w') \<and>
     stored w' (''astra-system'', ''n1-allocation'') = Some new \<and>
     applyPlan sample_reconciler example_node (sample_plan \<lparr>pl_Allocation := expandWorkload new sample_workload\<rparr>) w' =
       (None, w')"
proof -
  obtain w' where run: "applyPlan sample_reconciler example_node sample_plan sample_world = (None, w')"
    using fake_apply_succeeds [OF sample_reconciler_simps(2) sample_store sample_plan_simps(5,2,3,4)]
    by (metis prod.collapse)
  note quiet = sample_quiet and store = sample_store
  obtain b e where "records stored sample_world (pl_Allocation sample_plan) (None, b, w') e"
    using applyPlan_records [OF NewWithOptions_contract [OF sample_backend_accepts] store quiet
        sample_plan_simps(5,2,3,4), of example_node] run by auto
  then obtain new where new: "stored w' (object_key (pl_Allocation sample_plan)) = Some new"
    by (auto elim!: recordsE)
  let ?plan2 = "sample_plan \<lparr>pl_Allocation := expandWorkload new sample_workload\<rparr>"
  have "applyPlan sample_reconciler example_node ?plan2 w' = (None, w')"
    by (rule applied_plan_is_stable [OF sample_backend_accepts store quiet sample_plan_simps(5,2,3,4) run new
          sample_entry_name [symmetric]]) simp_all
  with run new show ?thesis unfolding sample_plan_simps(1) by blast
qed

section \<open>Names of replacement pods\<close>

definition dns_label :: "string \<Rightarrow> bool" where
  "dns_label s \<longleftrightarrow> s \<noteq> [] \<and> list_all dns_char s \<and> hd s \<noteq> CHR ''-'' \<and> last s \<noteq> CHR ''-''"

lemma dns_label_trim:
  assumes "list_all dns_char s" and "Trim s ''-'' \<noteq> []"
  shows "dns_label (Trim s ''-'')"
  using assms set_Trim [of s "''-''"] Trim_ends [of s "''-''"]
  by (auto simp: dns_label_def list_all_iff)

lemma sanitize_dns: "sanitizeDNSLabel s = [] \<or> dns_label (sanitizeDNSLabel s)"
proof -
  have "list_all dns_char (map (\<lambda>c. if dns_char c then c else CHR ''-'') (ToLower s))"
    by (auto simp: list_all_iff dns_char_def)
  then show ?thesis
    unfolding sanitizeDNSLabel_def using dns_label_trim by blast
qed

lemma dns_char_name: "dns_char c \<Longrightarrow> name_char c"
  by (auto simp: dns_char_def name_char_def)

lemma sanitize_id:
  assumes "dns_label s"
  shows "sanitizeDNSLabel s = s"
proof -
  have "ToLower s = s"
    using assms dns_char_name by (intro ToLower_name) (auto simp: dns_label_def list_all_iff)
  moreover have "map (\<lambda>c. if dns_char c then c else CHR ''-'') s = s"
    using assms by (intro map_idI) (auto simp: dns_label_def list_all_iff)
  ultimately show ?thesis
    using assms by (simp add: sanitizeDNSLabel_def dns_label_def Trim_id)
qed

lemma suffix_dns:
  "list_all dns_char (take 8 (sha256_hex a))" "last (take 8 (sha256_hex a)) \<noteq> CHR ''-''"
proof -
  show "list_all dns_char (take 8 (sha256_hex a))"
    using set_sha256_hex
    by (fastforce simp: list_all_iff dns_char_def is_digit_def Let_def dest!: in_set_takeD)
  show "last (take 8 (sha256_hex a)) \<noteq> CHR ''-''"
    using hash_suffix(3) [of a] by auto
qed

text \<open>The part of the name before the suffix.\<close>

definition replacementBase :: "string \<Rightarrow> string" where
  "replacementBase s =
     (let base = sanitizeDNSLabel s;
          base1 = (if length base > 48 then Trim (take 48 base) ''-'' else base)
      in if base1 = [] then ''pod'' else base1)"

lemma replacementPodName_eq:
  "replacementPodName s a = replacementBase s @ ''-astra-'' @ take 8 (sha256_hex a)"
  by (simp add: replacementPodName_def replacementBase_def Let_def length_sha256_hex)

lemma replacementBase_dns: "dns_label (replacementBase s) \<and> length (replacementBase s) \<le> 48"
proof (cases "sanitizeDNSLabel s = []")
  case True
  then show ?thesis by (simp add: replacementBase_def dns_label_def dns_char_def)
next
  case False
  let ?b = "sanitizeDNSLabel s"
  have b: "dns_label ?b" using sanitize_dns False by blast
  then have "list_all dns_char (take 48 ?b)" and "hd (take 48 ?b) \<notin> set ''-''" and "take 48 ?b \<noteq> []"
    by (auto simp: dns_label_def list_all_iff hd_take dest: in_set_takeD)
  then have cut: "dns_label (Trim (take 48 ?b) ''-'')"
    using Trim_Nil_iff [of "take 48 ?b" "''-''"] hd_in_set by (intro dns_label_trim) blast+
  have "length (Trim (take 48 ?b) ''-'') \<le> 48"
    using length_Trim [of "take 48 ?b" "''-''"] by simp
  with b cut False show ?thesis
    by (auto simp: replacementBase_def Let_def dns_label_def)
qed

text \<open>
  C32. The name of a replacement pod is a valid DNS label of at most 63 characters, whatever the
  names of the source pod and of the allocation are.
\<close>
theorem replacement_name_valid:
  "dns_label (replacementPodName s a) \<and> length (replacementPodName s a) \<le> 63"
proof -
  have "list_all dns_char ''-astra-''" by (simp add: dns_char_def)
  moreover have "take 8 (sha256_hex a) \<noteq> []" using hash_suffix(1) [of a] by auto
  ultimately show ?thesis
    using replacementBase_dns [of s] suffix_dns [of a] hash_suffix(1) [of a]
    by (simp add: replacementPodName_eq dns_label_def)
qed

text \<open>
  A replacement pod with a long name is its own replacement: when the base of the name has the
  full 48 characters, deriving the replacement name once more for the same allocation object gives
  the same name.  A second migration from the same node then finds the running pod itself, takes
  it for the replacement and deletes it.
\<close>
lemma replacement_of_replacement:
  "\<exists>s. dns_label s \<and> length s \<le> 63 \<and> replacementPodName (replacementPodName s a) a = replacementPodName s a"
proof (intro exI [of _ "replicate 48 (CHR ''a'')"] conjI)
  let ?s = "replicate 48 (CHR ''a'')"
  show label: "dns_label ?s" by (simp add: dns_label_def dns_char_def list_all_iff)
  have base: "replacementBase ?s = ?s"
    by (simp add: replacementBase_def sanitize_id [OF label])
  let ?n = "replacementPodName ?s a"
  have n: "?n = ?s @ ''-astra-'' @ take 8 (sha256_hex a)"
    by (simp only: replacementPodName_eq base)
  have "dns_label ?n"
    using replacementBase_dns [of ?s] suffix_dns [of a] hash_suffix(1) [of a] label
    by (auto simp: n dns_label_def dns_char_def)
  then have "replacementBase ?n = ?s"
    using hash_suffix(1) [of a] by (simp add: replacementBase_def sanitize_id n Trim_def)
  then show "replacementPodName ?n a = ?n"
    by (simp only: replacementPodName_eq base)
qed simp

section \<open>Migration never loses the running pod\<close>

text \<open>
  What the migration relies on: the client reads pods as they are stored, a create or a delete
  touches the pod it names only, and writing an allocation status touches no pod.
\<close>

definition pod_store :: "'w AgentClient \<Rightarrow> ('w \<Rightarrow> string \<times> string \<rightharpoonup> CorePod) \<Rightarrow> bool" where
  "pod_store c pods \<longleftrightarrow>
     (\<forall>w ns n. case pods w (ns, n) of
        None \<Rightarrow> \<exists>t. ac_GetPod c w ns n = (Inl (NotFound t), w)
      | Some p \<Rightarrow> ac_GetPod c w ns n = (Inr p, w) \<and> pod_key p = (ns, n)) \<and>
     (\<forall>w p k. k \<noteq> pod_key p \<longrightarrow> pods (snd (ac_CreatePod c w p)) k = pods w k) \<and>
     (\<forall>w p k. k \<noteq> pod_key p \<longrightarrow> pods (snd (ac_DeletePod c w p)) k = pods w k) \<and>
     (\<forall>w a. pods (snd (ac_UpdateAllocationStatus c w a)) = pods w) \<and>
     (\<forall>w ns n. pods (snd (ac_GetAllocation c w ns n)) = pods w) \<and>
     (\<forall>f w. (\<forall>w. pods (snd (f w)) = pods w) \<longrightarrow> pods (snd (ac_Retry c f w)) = pods w)"

lemma pod_store_laws:
  assumes "pod_store c pods"
  shows "case pods w (ns, n) of
        None \<Rightarrow> \<exists>t. ac_GetPod c w ns n = (Inl (NotFound t), w)
      | Some p \<Rightarrow> ac_GetPod c w ns n = (Inr p, w) \<and> pod_key p = (ns, n)"
    and "k \<noteq> pod_key p \<Longrightarrow> pods (snd (ac_CreatePod c w p)) k = pods w k"
    and "k \<noteq> pod_key p \<Longrightarrow> pods (snd (ac_DeletePod c w p)) k = pods w k"
    and "pods (snd (ac_UpdateAllocationStatus c w a)) = pods w"
    and "pods (snd (ac_GetAllocation c w ns n)) = pods w"
    and "(\<And>w. pods (snd (f w)) = pods w) \<Longrightarrow> pods (snd (ac_Retry c f w)) = pods w"
proof -
  note laws = assms [unfolded pod_store_def]
  show "case pods w (ns, n) of
        None \<Rightarrow> \<exists>t. ac_GetPod c w ns n = (Inl (NotFound t), w)
      | Some p \<Rightarrow> ac_GetPod c w ns n = (Inr p, w) \<and> pod_key p = (ns, n)"
    by (rule laws [THEN conjunct1, rule_format])
  note laws = laws [THEN conjunct2]
  show "k \<noteq> pod_key p \<Longrightarrow> pods (snd (ac_CreatePod c w p)) k = pods w k"
    by (rule laws [THEN conjunct1, rule_format])
  note laws = laws [THEN conjunct2]
  show "k \<noteq> pod_key p \<Longrightarrow> pods (snd (ac_DeletePod c w p)) k = pods w k"
    by (rule laws [THEN conjunct1, rule_format])
  note laws = laws [THEN conjunct2]
  show "pods (snd (ac_UpdateAllocationStatus c w a)) = pods w"
    by (rule laws [THEN conjunct1, rule_format])
  note laws = laws [THEN conjunct2]
  show "pods (snd (ac_GetAllocation c w ns n)) = pods w"
    by (rule laws [THEN conjunct1, rule_format])
  show "(\<And>w. pods (snd (f w)) = pods w) \<Longrightarrow> pods (snd (ac_Retry c f w)) = pods w"
    by (rule laws [THEN conjunct2, rule_format])
qed

lemma writeStatus_pods:
  assumes "pod_store c pods" and "writeStatus c a action w = (err, b, w')"
  shows "pods w' = pods w"
proof -
  note laws = pod_store_laws [OF assms(1)]
  have attempt: "pods (snd (statusAttempt c a action change v)) = pods v" for change v
    using laws(4,5)
    by (auto simp: statusAttempt_def Let_def split: prod.splits sum.splits option.splits) (metis snd_conv)+
  have "pods (snd (updateAllocationStatus c a action w)) = pods w"
    unfolding updateAllocationStatus_def by (cases "ast_Workloads (a_Status a)") (simp_all add: laws(6) attempt)
  then show ?thesis
    using assms(2) by (cases "updateAllocationStatus c a action w") (simp add: writeStatus_def)
qed

lemma mark_pods:
  assumes "pod_store c pods"
  shows "markMigrating c a plan w = (err, b, w') \<Longrightarrow> pods w' = pods w"
    and "markReleased c a message w = (err, b, w') \<Longrightarrow> pods w' = pods w"
  using writeStatus_pods [OF assms] by (auto simp: markMigrating_def markReleased_def Let_def)

lemma mark_meta:
  "markMigrating c a plan w = (err, b, w') \<Longrightarrow> a_Meta b = a_Meta a \<and> a_Spec b = a_Spec a"
  by (auto simp: markMigrating_def Let_def writeStatus_def setWorkloadStatusFromPlan_def split: prod.splits)

lemma sourcePod_found:
  assumes "pod_store (rc_client r) pods" and "sourcePodForAllocation r a w = (res, w')"
  shows "w' = w" and "res = Inr p \<Longrightarrow> pods w (pod_key p) = Some p"
proof -
  have "(\<exists>x. sourcePodForAllocation r a w = (Inl x, w)) \<or>
      (\<exists>ns n. sourcePodForAllocation r a w = ac_GetPod (rc_client r) w ns n)"
    unfolding sourcePodForAllocation_def Let_def by (simp only: split: if_split) blast
  moreover have "w' = w \<and> (res = Inr p \<longrightarrow> pods w (pod_key p) = Some p)"
    if "ac_GetPod (rc_client r) w ns n = (res, w')" for ns n
    using that pod_store_laws(1) [OF assms(1), of w ns n] by (cases "pods w (ns, n)") auto
  ultimately have "w' = w \<and> (res = Inr p \<longrightarrow> pods w (pod_key p) = Some p)"
    using assms(2) by auto
  then show "w' = w" and "res = Inr p \<Longrightarrow> pods w (pod_key p) = Some p" by simp_all
qed

text \<open>The source pod depends on the allocation's metadata and spec and on the stored pods only.\<close>

lemma sourcePod_cong:
  assumes "pod_store (rc_client r) pods" and "pods v = pods w"
    and "a_Meta b = a_Meta a" and "a_Spec b = a_Spec a" and "sourcePodForAllocation r b v = (Inr p, v')"
  shows "fst (sourcePodForAllocation r a w) = Inr p"
proof -
  have same: "fst (ac_GetPod (rc_client r) w ns n) = Inr p"
    if "ac_GetPod (rc_client r) v ns n = (Inr p, v')" for ns n
    using that pod_store_laws(1) [OF assms(1), of v ns n] pod_store_laws(1) [OF assms(1), of w ns n] assms(2)
    by (cases "pods w (ns, n)") auto
  show ?thesis
    using assms(5) same unfolding sourcePodForAllocation_def Let_def assms(3,4)
    by (simp split: if_splits)
qed

abbreviation replacement_key :: "AIResourceAllocation \<Rightarrow> CorePod \<Rightarrow> string \<times> string" where
  "replacement_key a p \<equiv>
     (om_Namespace (cp_Meta p), replacementPodName (om_Name (cp_Meta p)) (a_Name a))"

lemma ensureReplacement_found:
  assumes "pod_store (rc_client r) pods" and "ensureReplacementPod r a p w = (res, w')"
  shows "(pods w k \<noteq> None \<longrightarrow> pods w' k = pods w k) \<and> (\<forall>q. res = Inr q \<longrightarrow> pods w' (replacement_key a p) = Some q)"
proof -
  note laws = pod_store_laws [OF assms(1)]
  let ?name = "replacementPodName (om_Name (cp_Meta p)) (a_Name a)" and ?ns = "om_Namespace (cp_Meta p)"
  let ?new = "replacementPod p ?name (a_Name a)"
  have key: "pod_key ?new = replacement_key a p"
    by (simp add: pod_key_def replacementPod_def)
  show ?thesis
  proof (cases "pods w (replacement_key a p)")
    case (Some q)
    then show ?thesis
      using laws(1) [of w ?ns ?name] assms(2) by (auto simp: ensureReplacementPod_def Let_def)
  next
    case None
    then obtain t where get: "ac_GetPod (rc_client r) w ?ns ?name = (Inl (NotFound t), w)"
      using laws(1) [of w ?ns ?name] by auto
    obtain e w2 where cr: "ac_CreatePod (rc_client r) w ?new = (e, w2)"
      by (cases "ac_CreatePod (rc_client r) w ?new")
    have keep: "pods w k \<noteq> None \<longrightarrow> pods w2 k = pods w k"
      using laws(2) [of k ?new w] cr key None by (cases "k = replacement_key a p") simp_all
    have "(res, w') = ac_GetPod (rc_client r) w2 ?ns ?name \<or> (\<exists>x. (res, w') = (Inl x, w2))"
      using assms(2) get cr by (auto simp: ensureReplacementPod_def Let_def split: option.splits if_splits)
    then show ?thesis
      using keep laws(1) [of w2 ?ns ?name] by (cases "pods w2 (?ns, ?name)") auto
  qed
qed

text \<open>The tail of a migration, once source and replacement are known.\<close>

lemma migration_tail:
  assumes "pod_store (rc_client r) pods"
    and "handleMigrationPlan r a plan w = (err, w')" and "pods w k = Some p" and "pods w' k \<noteq> Some p"
  shows "\<exists>q. fst (sourcePodForAllocation r a w) = Inr p \<and> k = pod_key p \<and> cp_Phase q = ''Running'' \<and>
    (if replacement_key a p = k then q = p else pods w' (replacement_key a p) = Some q)"
proof -
  let ?c = "rc_client r"
  note laws = pod_store_laws [OF assms(1)] and mark = mark_pods [OF assms(1)]
  obtain err0 a1 w1 where first: "(if ast_Phase (a_Status a) \<noteq> AllocationPhaseMigrating
      then markMigrating ?c a plan w else (None, a, w)) = (err0, a1, w1)"
    by (metis prod_cases3)
  have w1: "pods w1 = pods w" and meta: "a_Meta a1 = a_Meta a" "a_Spec a1 = a_Spec a"
    using first mark(1) mark_meta [of ?c a plan w err0 a1 w1] by (auto split: if_splits)
  obtain res2 w2 where src: "sourcePodForAllocation r a1 w1 = (res2, w2)"
    by (cases "sourcePodForAllocation r a1 w1")
  have w2: "w2 = w1" using sourcePod_found(1) [OF assms(1) src] .
  note run = assms(2) [unfolded handleMigrationPlan_def Let_def first prod.case src w2]
  have "err0 = None"
    using run w1 assms(3,4) by (cases err0) auto
  note run = run [unfolded this option.case]
  obtain sp where sp: "res2 = Inr sp"
    using run w1 assms(3,4) mark(2) by (cases res2) (auto split: if_splits prod.splits)
  then have stored: "pods w (pod_key sp) = Some sp"
    using sourcePod_found(2) [OF assms(1) src] w1 by simp
  obtain res3 w3 where ens: "ensureReplacementPod r a1 sp w1 = (res3, w3)"
    by (cases "ensureReplacementPod r a1 sp w1")
  note found = ensureReplacement_found [OF assms(1) ens, of k]
  have k3: "pods w3 k = Some p" using found w1 assms(3) by simp
  note run = run [unfolded sp sum.case ens prod.case]
  obtain q where q: "res3 = Inr q"
    using run k3 assms(4) by (cases res3) auto
  note run = run [unfolded q sum.case]
  have running: "cp_Phase q = ''Running''"
    using run k3 assms(4) by (auto split: if_splits)
  obtain err4 w4 where del: "(if om_DeletionTimestamp (cp_Meta sp) = None then ac_DeletePod ?c w3 sp else (None, w3)) =
      (err4, w4)"
    by (metis prod.exhaust)
  have w': "pods w' = pods w4"
    using run running del mark(2) by (auto split: if_splits prod.splits option.splits)
  have others: "pods w4 x = pods w3 x" if "x \<noteq> pod_key sp" for x
    using del laws(3) [OF that, of w3] by (auto split: if_splits)
  then have k: "k = pod_key sp"
    using w' k3 assms(4) others [of k] by (cases "k = pod_key sp") simp_all
  then have "sp = p" using stored assms(3) by simp
  moreover have "pods w3 (replacement_key a1 sp) = Some q" using found q by simp
  moreover have "fst (sourcePodForAllocation r a w) = Inr sp"
    by (rule sourcePod_cong [OF assms(1) w1 meta src [unfolded sp]])
  ultimately show ?thesis
    using running k k3 w' others meta by (intro exI [of _ q]) auto
qed

text \<open>
  C19. A migration deletes no pod without a running replacement.  When a stored pod is gone or
  changed after a migration step, it is the source pod of the allocation (the pod that
  \<open>sourcePodForAllocation\<close> finds when the step starts), and the pod that the step took for the
  replacement is running.  When the name derived for the replacement differs from the pod's own
  name, that pod is stored under the derived name after the step.  When the derived name is the
  pod's own name, the pod took itself for its replacement and nothing replaces it; a pod that is
  itself a replacement with a long name is such a pod.
\<close>
theorem migration_replaces_before_delete:
  assumes "pod_store (rc_client r) pods" and "handleMigrationPlan r a plan w = (err, w')"
    and "pods w k = Some p" and "pods w' k \<noteq> Some p"
  shows "fst (sourcePodForAllocation r a w) = Inr p \<and> k = (om_Namespace (cp_Meta p), om_Name (cp_Meta p)) \<and>
    (let name = replacementPodName (om_Name (cp_Meta p)) (a_Name a) in
       if name = om_Name (cp_Meta p) then cp_Phase p = ''Running''
       else \<exists>q. pods w' (om_Namespace (cp_Meta p), name) = Some q \<and> cp_Phase q = ''Running'')"
proof -
  obtain q where "fst (sourcePodForAllocation r a w) = Inr p" "k = pod_key p" "cp_Phase q = ''Running''"
    "if replacement_key a p = k then q = p else pods w' (replacement_key a p) = Some q"
    using migration_tail [OF assms] by blast
  then show ?thesis by (simp add: pod_key_def Let_def split: if_splits)
qed

lemma pod_store_map_client: "pod_store map_agent_client stored_pods"
proof -
  have "case stored_pods w (ns, n) of
        None \<Rightarrow> \<exists>t. ac_GetPod map_agent_client w ns n = (Inl (NotFound t), w)
      | Some p \<Rightarrow> ac_GetPod map_agent_client w ns n = (Inr p, w) \<and> pod_key p = (ns, n)" for w ns n
    by (auto simp: map_agent_client_def stored_pods_def pod_key_def split: option.splits)
  then show ?thesis
    unfolding pod_store_def by (simp add: map_agent_client_def stored_pods_def split: option.splits)
qed

text \<open>The sample workload in migration, with its replacement already running.\<close>

definition migrating_allocation :: AIResourceAllocation where
  "migrating_allocation =
     (expandWorkload sample_ledger sample_workload)
       \<lparr>a_Status := AIResourceAllocationStatus_zero \<lparr>ast_Phase := AllocationPhaseMigrating\<rparr>\<rparr>"

definition running_pod :: "string \<Rightarrow> CorePod" where
  "running_pod n =
     \<lparr>cp_Meta = ObjectMeta_zero \<lparr>om_Name := n, om_Namespace := ''prod''\<rparr>, cp_NodeName = ''n1'',
      cp_SchedulerName = SchedulerName, cp_Phase = ''Running'', cp_Rest = []\<rparr>"

lemma running_pod_simps [simp]:
  "om_Name (cp_Meta (running_pod n)) = n" "om_Namespace (cp_Meta (running_pod n)) = ''prod''"
  "om_DeletionTimestamp (cp_Meta (running_pod n)) = None" "cp_Phase (running_pod n) = ''Running''"
  by (simp_all add: running_pod_def ObjectMeta_zero_def)

lemma migrating_allocation_simps [simp]:
  "ast_Phase (a_Status migrating_allocation) = AllocationPhaseMigrating"
  "a_Name migrating_allocation = ''n1-allocation''"
  by (simp_all add: migrating_allocation_def expandWorkload_def sample_ledger_def Let_def)

definition migration_world :: map_world where
  "migration_world =
     (Map.empty,
      [(''prod'', ''chat-0'') \<mapsto> running_pod ''chat-0'',
       (''prod'', replacementPodName ''chat-0'' ''n1-allocation'') \<mapsto>
         running_pod (replacementPodName ''chat-0'' ''n1-allocation'')])"

lemma sample_replacement_name: "replacementPodName ''chat-0'' ''n1-allocation'' \<noteq> ''chat-0''"
proof
  assume "replacementPodName ''chat-0'' ''n1-allocation'' = ''chat-0''"
  then have "length (replacementPodName ''chat-0'' ''n1-allocation'') = 6" by simp
  then show False by (simp add: replacementPodName_eq length_sha256_hex)
qed

lemma migration_world_pods:
  "stored_pods migration_world (''prod'', ''chat-0'') = Some (running_pod ''chat-0'')"
  "stored_pods migration_world (''prod'', replacementPodName ''chat-0'' ''n1-allocation'') =
     Some (running_pod (replacementPodName ''chat-0'' ''n1-allocation''))"
  using sample_replacement_name by (simp_all add: stored_pods_def migration_world_def running_pod_def)

lemma sample_source: "sourcePodForAllocation sample_reconciler migrating_allocation migration_world =
    (Inr (running_pod ''chat-0''), migration_world)"
  using migration_world_pods(1)
  by (simp add: sourcePodForAllocation_def migrating_allocation_def expandWorkload_def sample_workload_def
      allocationWorkloadSpec_def sample_pod_def example_profile_def sample_reconciler_simps map_agent_client_def
      map_get_def allocation_key_defs ObjectMeta_zero_def Let_def)

lemma sample_replacement: "ensureReplacementPod sample_reconciler migrating_allocation (running_pod ''chat-0'') migration_world =
    (Inr (running_pod (replacementPodName ''chat-0'' ''n1-allocation'')), migration_world)"
  using migration_world_pods(2)
  by (simp add: ensureReplacementPod_def sample_reconciler_simps map_agent_client_def Let_def)

lemma sample_migration:
  "\<exists>err w'. handleMigrationPlan sample_reconciler migrating_allocation sample_plan migration_world = (err, w') \<and>
     stored_pods w' (''prod'', ''chat-0'') = None"
proof -
  let ?w = "(fst migration_world, (snd migration_world)((''prod'', ''chat-0'') := None))"
  obtain err b w' where rel: "markReleased map_agent_client migrating_allocation
      (''replacement pod '' @ ''prod'' @ ''/'' @ replacementPodName ''chat-0'' ''n1-allocation'' @
       '' is running; source pod released'') ?w = (err, b, w')"
    by (metis prod_cases3)
  have "ac_DeletePod map_agent_client migration_world (running_pod ''chat-0'') = (None, ?w)"
    by (simp add: map_agent_client_def pod_key_def)
  then have "handleMigrationPlan sample_reconciler migrating_allocation sample_plan migration_world = (err, w')"
    using rel by (simp add: handleMigrationPlan_def sample_source sample_replacement sample_reconciler_simps)
  moreover have "stored_pods w' = stored_pods ?w"
    using mark_pods(2) [OF pod_store_map_client rel] .
  moreover have "stored_pods ?w (''prod'', ''chat-0'') = None"
    by (simp add: stored_pods_def)
  ultimately show ?thesis by simp
qed

theorem migration_replaces_before_delete_witness:
  "\<exists>err w' q. handleMigrationPlan sample_reconciler migrating_allocation sample_plan migration_world = (err, w') \<and>
     stored_pods w' (''prod'', ''chat-0'') = None \<and>
     stored_pods w' (''prod'', replacementPodName ''chat-0'' ''n1-allocation'') = Some q \<and> cp_Phase q = ''Running''"
proof -
  obtain err w' where run: "handleMigrationPlan sample_reconciler migrating_allocation sample_plan migration_world = (err, w')"
    and gone: "stored_pods w' (''prod'', ''chat-0'') = None"
    using sample_migration by blast
  have store: "pod_store (rc_client sample_reconciler) stored_pods"
    by (simp add: sample_reconciler_simps pod_store_map_client)
  have "stored_pods w' (''prod'', ''chat-0'') \<noteq> Some (running_pod ''chat-0'')" using gone by simp
  from migration_replaces_before_delete [where pods = stored_pods, OF store run migration_world_pods(1) this]
  show ?thesis
    using sample_replacement_name run gone by auto
qed

section \<open>What the recorder gets wrong\<close>

text \<open>A write for an allocation whose status list starts with another workload's entry.\<close>

lemma writeStatus_other:
  assumes "status_store c st" and "st w (object_key a) = Some latest"
    and "ast_Workloads (a_Status a) = e # es" and "ws_Name e \<noteq> entry_name a"
    and "a_Spec a1 = a_Spec a" and "a_Meta a1 = a_Meta a"
    and "ast_Workloads (a_Status a1) = ast_Workloads (a_Status a)"
    and "writeStatus c (setWorkloadStatus a1 des app act msg) action w = (err, b, w')"
  shows "err = None \<and> recorded st w' (object_key a) (entry_name a) = recorded st w (object_key a) (entry_name a) \<and>
    (\<exists>latest'. st w' (object_key a) = Some latest') \<and> a_Spec b = a_Spec a \<and> a_Meta b = a_Meta a \<and>
    (\<exists>es'. ast_Workloads (a_Status b) = e # es')"
proof -
  let ?b = "setWorkloadStatus a1 des app act msg"
  have name: "entry_name a1 = entry_name a" using assms(5,6) by (rule entry_name_cong)
  have b: "b = ?b" using assms(8) by (auto simp: writeStatus_def split: prod.splits)
  have ne: "ws_Name e \<noteq> entry_name a1" using assms(4) name by simp
  obtain rest where head: "ast_Workloads (a_Status ?b) = e # rest"
    using other_first_head [OF assms(7) [unfolded assms(3)] ne] by blast
  have latest: "st w (object_key ?b) = Some latest" and key: "object_key ?b = object_key a"
    using assms(2,6) by simp_all
  obtain v where run: "updateAllocationStatus c ?b action w = (None, v)"
    and st: "st v = (st w)(object_key a \<mapsto> latest \<lparr>a_Status := mergedStatus (a_Status latest) (a_Status ?b) e\<rparr>)"
    using updateAllocationStatus_store [OF assms(1) latest head, of action] unfolding key by blast
  have "err = None" "w' = v" using assms(8) run by (simp_all add: writeStatus_def)
  moreover have "recorded st v (object_key a) (entry_name a) = recorded st w (object_key a) (entry_name a)"
    using assms(4) by (simp add: recorded_def st assms(2) mergedStatus_find)
  ultimately show ?thesis
    using b st head assms(5,6) by simp
qed

definition writes_for :: "'w AgentClient \<Rightarrow> AIResourceAllocation \<Rightarrow> 'w \<Rightarrow> 'w recorded \<Rightarrow> bool" where
  "writes_for c a w out \<longleftrightarrow>
     (\<exists>a1 des app act msg action. a_Spec a1 = a_Spec a \<and> a_Meta a1 = a_Meta a \<and>
        ast_Workloads (a_Status a1) = ast_Workloads (a_Status a) \<and>
        out = writeStatus c (setWorkloadStatus a1 des app act msg) action w)"

lemma writes_forI:
  "a_Spec a1 = a_Spec a \<Longrightarrow> a_Meta a1 = a_Meta a \<Longrightarrow> ast_Workloads (a_Status a1) = ast_Workloads (a_Status a) \<Longrightarrow>
   writes_for c a w (writeStatus c (setWorkloadStatus a1 des app act msg) action w)"
  unfolding writes_for_def by blast

lemma mark_writes:
  "writes_for c a w (markPendingApply c a plan w)" "writes_for c a w (markApplying c a plan w)"
  "writes_for c a w (markApplied c a plan result w)" "writes_for c a w (markMigrating c a plan w)"
  "writes_for c a w (markReleased c a message w)" "writes_for c a w (markPlanFailed c a plan w)"
  unfolding markPendingApply_def markApplying_def markApplied_def markMigrating_def markReleased_def
    markPlanFailed_def markFailedWith_def setWorkloadStatusFromPlan_def Let_def
  by (rule writes_forI, simp_all)+

text \<open>
  C39. The recorder writes the first entry of the allocation's status list, not the allocation's
  own.  For a workload that already has a status but is not the first of its ledger, every one of
  the writes pending, applying, applied, migrating, released and failed succeeds and leaves the
  workload's recorded status as it was, so a changed plan for it is never recorded.
\<close>
theorem later_workload_never_recorded:
  assumes "status_store c st" and "st w (object_key a) = Some latest"
    and "ast_Workloads (a_Status a) = e # es" and "ws_Name e \<noteq> entry_name a"
    and "out \<in> {markPendingApply c a plan w, markApplying c a plan w, markApplied c a plan result w,
      markMigrating c a plan w, markReleased c a message w, markPlanFailed c a plan w}"
  shows "\<exists>b w'. out = (None, b, w') \<and>
    recorded st w' (object_key a) (entry_name a) = recorded st w (object_key a) (entry_name a)"
proof -
  obtain err b w' where out: "out = (err, b, w')" by (cases out)
  have "writes_for c a w out" using assms(5) mark_writes by auto
  then show ?thesis
    using writeStatus_other [OF assms(1-4), where err = err and b = b and w' = w'] out
    unfolding writes_for_def by metis
qed

definition two_workload_allocation :: AIResourceAllocation where
  "two_workload_allocation =
     (expandWorkload sample_ledger sample_workload)
       \<lparr>a_Status := AIResourceAllocationStatus_zero
          \<lparr>ast_Workloads := [sample_status ''team-other'' ''Applied'' 1, sample_status ''team-chat-0'' ''Applied'' 1]\<rparr>\<rparr>"

theorem later_workload_never_recorded_witness:
  "\<exists>b w'. markApplied map_agent_client two_workload_allocation sample_plan
      \<lparr>rs_ObservedResources = Some (gpuVec 2), rs_Message = []\<rparr> sample_world = (None, b, w') \<and>
     recorded stored w' (''astra-system'', ''n1-allocation'') (entry_name two_workload_allocation) =
     recorded stored sample_world (''astra-system'', ''n1-allocation'') (entry_name two_workload_allocation)"
proof -
  have key: "object_key two_workload_allocation = (''astra-system'', ''n1-allocation'')"
    using sample_plan_simps(1) by (simp add: two_workload_allocation_def sample_plan_def)
  have name: "entry_name two_workload_allocation = entry_name (pl_Allocation sample_plan)"
    by (rule entry_name_cong) (simp_all add: two_workload_allocation_def sample_plan_def)
  have "ws_Name (sample_status ''team-other'' ''Applied'' 1) \<noteq> entry_name two_workload_allocation"
    unfolding name sample_entry_name sample_workload_name by (simp add: sample_status_def)
  moreover have "ast_Workloads (a_Status two_workload_allocation) =
      sample_status ''team-other'' ''Applied'' 1 # [sample_status ''team-chat-0'' ''Applied'' 1]"
    by (simp add: two_workload_allocation_def)
  moreover have "stored sample_world (object_key two_workload_allocation) = Some sample_ledger"
    using sample_plan_simps(5) unfolding key sample_plan_simps(1) .
  ultimately show ?thesis
    using later_workload_never_recorded [OF status_store_map_client, of sample_world two_workload_allocation]
    unfolding key by blast
qed

section \<open>Released workloads\<close>

lemma expandWorkload_key [simp]:
  "a_Namespace (expandWorkload ledger workload) = a_Namespace ledger"
  "a_Name (expandWorkload ledger workload) = a_Name ledger"
  by (simp_all add: expandWorkload_def Let_def)

lemma expand_from_ledger:
  "x \<in> set (expandNodeAllocationLedgers ledgers) \<Longrightarrow> \<exists>ledger\<in>set ledgers. object_key x = object_key ledger"
  by (induction ledgers) (auto split: if_splits)

lemma listed_ledger:
  assumes "listNodeAllocations r w = (Inr as, w')" and "x \<in> set as"
    and "ac_ListAllocations (rc_client r) w
      [AllocationLabelManagedBy \<mapsto> ''astra-scheduler'', AllocationLabelNodeName \<mapsto> cf_NodeName (rc_config r)] =
        (Inr items, w')"
  shows "\<exists>ledger\<in>set items. object_key x = object_key ledger \<and>
    ast_Phase (a_Status ledger) \<noteq> AllocationPhaseReleased"
  using assms(1,2) expand_from_ledger [of x] unfolding listNodeAllocations_def assms(3) by fastforce

text \<open>Whichever entry the recorder sends, the phase of the allocation becomes the ledger's.\<close>

lemma markReleased_phase:
  assumes "status_store c st" and "st w (object_key a) = Some old"
    and "markReleased c a message w = (None, b, w')"
  shows "\<exists>new. st w' (object_key a) = Some new \<and> ast_Phase (a_Status new) = AllocationPhaseReleased"
proof (cases "own_first a")
  case True
  then show ?thesis
    using mark_records(5) [OF assms(1,2) True, of message] unfolding assms(3) records_def by auto
next
  case False
  then obtain e es where list: "ast_Workloads (a_Status a) = e # es" and ne: "ws_Name e \<noteq> entry_name a"
    by (auto simp: own_first_def split: list.splits)
  obtain a1 des app act msg where a1: "a_Spec a1 = a_Spec a" "a_Meta a1 = a_Meta a"
      "ast_Workloads (a_Status a1) = e # es" "ast_Phase (a_Status a1) = AllocationPhaseReleased"
    and sent: "writeStatus c (setWorkloadStatus a1 des app act msg) ''mark allocation released'' w = (None, b, w')"
    by (rule that [OF _ _ _ _ assms(3) [unfolded markReleased_def Let_def]]) (simp_all add: list)
  have "entry_name a1 = entry_name a" using a1(1,2) by (rule entry_name_cong)
  with ne have "ws_Name e \<noteq> entry_name a1" by simp
  from other_first_head [OF a1(3) this] obtain rest where
    head: "ast_Workloads (a_Status (setWorkloadStatus a1 des app act msg)) = e # rest" by blast
  have "st w (object_key (setWorkloadStatus a1 des app act msg)) = Some old" using assms(2) a1(2) by simp
  from updateAllocationStatus_store [OF assms(1) this head, of "''mark allocation released''"] sent a1(2,4)
  show ?thesis by (auto simp: writeStatus_def mergedStatus_def Let_def)
qed

text \<open>
  C40. Releasing one workload hides its whole ledger from the agent.  The recorder writes the phase
  of the workload into the ledger itself, and the listing skips a ledger whose phase is Released:
  after a successful release the next listing has no allocation of that ledger at all, the other
  workloads that still hold resources of the node included.
\<close>
theorem released_workload_hides_ledger:
  assumes "status_store (rc_client r) st" and "st w (object_key a) = Some old"
    and "markReleased (rc_client r) a message w = (None, b, w')"
    and "ac_ListAllocations (rc_client r) w'
      [AllocationLabelManagedBy \<mapsto> ''astra-scheduler'', AllocationLabelNodeName \<mapsto> cf_NodeName (rc_config r)] =
        (Inr items, w'')"
    and "\<forall>ledger\<in>set items. st w' (object_key ledger) = Some ledger"
  shows "\<exists>as. listNodeAllocations r w' = (Inr as, w'') \<and> (\<forall>x\<in>set as. object_key x \<noteq> object_key a)"
proof -
  obtain new where new: "st w' (object_key a) = Some new" "ast_Phase (a_Status new) = AllocationPhaseReleased"
    using markReleased_phase [OF assms(1-3)] by blast
  obtain as where list: "listNodeAllocations r w' = (Inr as, w'')"
    unfolding listNodeAllocations_def assms(4) by simp
  have "object_key x \<noteq> object_key a" if "x \<in> set as" for x
    using listed_ledger [OF list that assms(4)] assms(5) new by fastforce
  with list show ?thesis by blast
qed

theorem released_workload_hides_ledger_witness:
  "\<exists>b w' as. markReleased map_agent_client (pl_Allocation sample_plan) ''preempted'' sample_world = (None, b, w') \<and>
     listNodeAllocations sample_reconciler w' = (Inr as, w') \<and>
     (\<forall>x\<in>set as. object_key x \<noteq> (''astra-system'', ''n1-allocation''))"
proof -
  obtain b w' where marked: "markReleased (rc_client sample_reconciler) (pl_Allocation sample_plan) ''preempted'' sample_world = (None, b, w')"
    using mark_records(5) [OF sample_store sample_plan_simps(5,2), of "''preempted''"] unfolding records_def by blast
  have items: "ac_ListAllocations (rc_client sample_reconciler) w' labels =
      (Inr (List.map_filter (stored w') [(''astra-system'', ''n1-allocation'')]), w')" for labels
    by (simp add: sample_reconciler_simps map_agent_client_def)
  have "\<forall>ledger\<in>set (List.map_filter (stored w') [(''astra-system'', ''n1-allocation'')]).
      stored w' (object_key ledger) = Some ledger"
    using stored_key by (auto simp: map_filter_def)
  from released_workload_hides_ledger [OF sample_store sample_plan_simps(5) marked items this] marked show ?thesis
    unfolding sample_plan_simps(1) sample_reconciler_simps(1) by auto
qed

end
