(* ===== verification/AgentPass.thy ===== *)
theory AgentPass
  imports Controller
begin

text \<open>
  One pass of the agent over its node (\<open>reconcileNode\<close> in src/internal/agent/controller.go): the
  ledgers are expanded to allocations, the local scheduler plans them all and the plans are applied
  one after the other.  The theory composes the lemmas on the ledger, the local scheduler and the
  application of one plan into statements about what the ledgers record after the pass.
\<close>

section \<open>Slots\<close>

text \<open>A workload is recorded in an entry of an object: its slot.\<close>

definition slot :: "AIResourceAllocation \<Rightarrow> (string \<times> string) \<times> string" where
  "slot a = (object_key a, entry_name a)"

definition recorded_at ::
    "('w \<Rightarrow> string \<times> string \<rightharpoonup> AIResourceAllocation) \<Rightarrow> 'w \<Rightarrow> (string \<times> string) \<times> string \<rightharpoonup>
     AllocationWorkloadStatus" where
  "recorded_at st w s = recorded st w (fst s) (snd s)"

definition holds :: "dim \<Rightarrow> AllocationWorkloadStatus option \<Rightarrow> int" where
  "holds d e = (case e of
     Some s \<Rightarrow> if ws_Phase s = AllocationPhaseApplied
       then (case ws_Applied s of Some r \<Rightarrow> val d r | None \<Rightarrow> 0) else 0
   | None \<Rightarrow> 0)"

lemma records_slot:
  assumes "records st w a (err, b, w') e"
  shows "recorded_at st w' (slot a) = Some e"
    and "s \<noteq> slot a \<Longrightarrow> recorded_at st w' s = recorded_at st w s"
    and "st w k \<noteq> None \<Longrightarrow> st w' k \<noteq> None"
proof -
  obtain new where st: "st w' = (st w)(object_key a \<mapsto> new)"
    and rec: "recorded st w' (object_key a) = (recorded st w (object_key a))(entry_name a \<mapsto> e)"
    using assms by (auto elim!: recordsE)
  show "recorded_at st w' (slot a) = Some e"
    by (simp add: recorded_at_def slot_def rec)
  have other: "recorded st w' k = recorded st w k" if "k \<noteq> object_key a" for k
    using that by (simp add: recorded_def st)
  show "recorded_at st w' s = recorded_at st w s" if "s \<noteq> slot a"
  proof (cases "fst s = object_key a")
    case True
    with that have "snd s \<noteq> entry_name a" by (cases s) (auto simp: slot_def)
    with True show ?thesis by (simp add: recorded_at_def rec)
  qed (simp add: recorded_at_def other)
  show "st w k \<noteq> None \<Longrightarrow> st w' k \<noteq> None"
    by (simp add: st)
qed

section \<open>Applying all plans\<close>

text \<open>
  A plan whose outcome the ledger can record.  A settled plan (the workload already holds the
  assignment) must not be a failed one: \<open>applyPlan\<close> returns early for it and the failure is lost.
  For every other plan the workload must be the first of its ledger's status list or be read
  without a status: the recorder writes the first entry of the list.
\<close>

definition recordable :: "Plan \<Rightarrow> bool" where
  "recordable p \<longleftrightarrow>
     (if settled p then pl_TargetPhase p \<noteq> AllocationPhaseFailed else own_first (pl_Allocation p))"

text \<open>What the entry of a plan's workload says once the plan was dealt with.\<close>

definition outcome_entry :: "Plan \<Rightarrow> AllocationWorkloadStatus option \<Rightarrow> bool" where
  "outcome_entry p x \<longleftrightarrow> (\<exists>e. x = Some e \<and>
     (if pl_TargetPhase p = AllocationPhaseFailed then ws_Phase e \<noteq> AllocationPhaseApplied
      else ws_Phase e = AllocationPhaseApplied \<and> ws_Applied e = Some (pl_AssignedResources p) \<and>
        ws_HourlyForecast e \<noteq> None))"

text \<open>Reading, creating and deleting pods does not change the stored allocations.\<close>

definition quiet_pods :: "'w AgentClient \<Rightarrow> ('w \<Rightarrow> string \<times> string \<rightharpoonup> AIResourceAllocation) \<Rightarrow> bool" where
  "quiet_pods c st \<longleftrightarrow>
     (\<forall>w ns n x w'. ac_GetPod c w ns n = (x, w') \<longrightarrow> st w' = st w) \<and>
     (\<forall>w p x w'. ac_CreatePod c w p = (x, w') \<longrightarrow> st w' = st w) \<and>
     (\<forall>w p x w'. ac_DeletePod c w p = (x, w') \<longrightarrow> st w' = st w)"

lemma quiet_podsD:
  assumes "quiet_pods c st"
  shows "ac_GetPod c w ns n = (x, w') \<Longrightarrow> st w' = st w"
    and "ac_CreatePod c w p = (y, w') \<Longrightarrow> st w' = st w"
    and "ac_DeletePod c w p = (y, w') \<Longrightarrow> st w' = st w"
  using assms unfolding quiet_pods_def by blast+

lemma source_quiet:
  assumes "quiet_pods (rc_client r) st" and "sourcePodForAllocation r a w = (x, w')"
  shows "st w' = st w"
  using assms(2) by (auto simp: sourcePodForAllocation_def Let_def split: if_splits
      dest!: quiet_podsD(1) [OF assms(1)])

lemma replacement_quiet:
  assumes "quiet_pods (rc_client r) st" and "ensureReplacementPod r a p w = (x, w')"
  shows "st w' = st w"
  using assms(2) by (auto simp: ensureReplacementPod_def Let_def split: prod.splits sum.splits option.splits if_splits
      dest!: quiet_podsD(1,2) [OF assms(1)])

lemma records_cong:
  "records st w a (err, b, v) e \<Longrightarrow> st w' = st v \<Longrightarrow> records st w a (err, b, w') e"
  "records st v a out e \<Longrightarrow> st v = st w \<Longrightarrow> records st w a out e"
  by (simp_all add: records_def recorded_def)

text \<open>
  A step of a migration that reports no error: either it only looked, for an allocation that is
  already migrating, or the workload's entry says that it migrates or is released.
\<close>

lemma migration_records:
  assumes "status_store (rc_client r) st" and "quiet_pods (rc_client r) st"
    and "st w (object_key a) = Some old" and "own_first a"
    and "handleMigrationPlan r a plan w = (None, w')"
  shows "ast_Phase (a_Status a) = AllocationPhaseMigrating \<and> st w' = st w \<or>
    (\<exists>b e. records st w a (None, b, w') e \<and> ws_Phase e \<noteq> AllocationPhaseApplied)"
proof -
  let ?c = "rc_client r"
  obtain err0 a1 w1 where first: "(if ast_Phase (a_Status a) \<noteq> AllocationPhaseMigrating
      then markMigrating ?c a plan w else (None, a, w)) = (err0, a1, w1)"
    by (metis prod_cases3)
  have start: "ast_Phase (a_Status a) = AllocationPhaseMigrating \<and> a1 = a \<and> w1 = w \<or>
      (\<exists>e. records st w a (err0, a1, w1) e \<and> ws_Phase e \<noteq> AllocationPhaseApplied)"
    using first mark_records(4) [OF assms(1,3,4), of plan]
    by (cases "ast_Phase (a_Status a) = AllocationPhaseMigrating") (auto simp: phase_defs)
  note run = assms(5) [unfolded handleMigrationPlan_def Let_def first prod.case]
  have none: "err0 = None" using run by (cases err0) simp_all
  obtain v where v: "st v = st w1" and last: "st w' = st v \<or>
      (\<exists>message b. markReleased ?c a1 message v = (None, b, w'))"
    using run unfolding none
    by (auto split: prod.splits sum.splits if_splits option.splits
        dest!: source_quiet [OF assms(2)] replacement_quiet [OF assms(2)] quiet_podsD(3) [OF assms(2)]) blast+
  show ?thesis
  proof (cases "st w' = st v")
    case True
    with start v none show ?thesis by (auto dest: records_cong(1))
  next
    case False
    with last obtain message b where rel: "markReleased ?c a1 message v = (None, b, w')" by blast
    from start show ?thesis
    proof (elim disjE exE conjE)
      assume "a1 = a" "w1 = w"
      with mark_records(5) [OF assms(1) _ assms(4), of v old message] rel v assms(3)
      obtain e where "records st v a (None, b, w') e" "ws_Phase e = AllocationPhaseReleased" by auto
      then have "records st w a (None, b, w') e \<and> ws_Phase e \<noteq> AllocationPhaseApplied"
        using v \<open>w1 = w\<close> by (simp add: records_cong(2) phase_defs)
      then show ?thesis by blast
    next
      fix e assume one: "records st w a (err0, a1, w1) e"
      obtain latest where "st v (object_key a1) = Some latest" "own_first a1"
        using records_next [OF one v] by blast
      from mark_records(5) [OF assms(1) this, of message] rel
      obtain e2 where "records st v a1 (None, b, w') e2" "ws_Phase e2 = AllocationPhaseReleased" by auto
      then have "records st w a (None, b, w') e2 \<and> ws_Phase e2 \<noteq> AllocationPhaseApplied"
        using records_trans [OF one _ v] by (simp add: phase_defs)
      then show ?thesis by blast
    qed
  qed
qed

text \<open>
  Applying one plan leaves the server alone (the plan is settled, or the workload is migrating
  and the step only looked), or records the outcome in the workload's entry.
\<close>

abbreviation untouched :: "Plan \<Rightarrow> bool" where
  "untouched p \<equiv> settled p \<or>
     pl_TargetPhase p = AllocationPhaseFailed \<and> ast_Phase (a_Status (pl_Allocation p)) = AllocationPhaseMigrating"

lemma applyPlan_slot:
  assumes "agent_backend (rc_backend r)" and "status_store (rc_client r) st"
    and "\<forall>req w res w'. be_Apply (rc_backend r) req w = (res, w') \<longrightarrow> st w' = st w"
    and "pl_TargetPhase p = AllocationPhaseFailed \<longrightarrow> quiet_pods (rc_client r) st"
    and "st w (object_key (pl_Allocation p)) \<noteq> None" and "recordable p"
    and "applyPlan r node p w = (None, w')"
  shows "untouched p \<and> st w' = st w \<or>
    (\<exists>b e. records st w (pl_Allocation p) (None, b, w') e \<and> outcome_entry p (Some e))"
proof (cases "settled p")
  case True
  then show ?thesis
    using assms(7) applyPlan_settled [OF True, of r node w] by simp
next
  case False
  have own: "own_first (pl_Allocation p)" using assms(6) by (simp only: recordable_def False if_False)
  obtain old where old: "st w (object_key (pl_Allocation p)) = Some old" using assms(5) by blast
  show ?thesis
  proof (cases "pl_TargetPhase p = AllocationPhaseFailed")
    case failed: True
    show ?thesis
    proof (cases "pl_Action p = AllocationActionEvict")
      case True
      then have "handleMigrationPlan r (pl_Allocation p) p w = (None, w')"
        using False failed assms(7) by (auto simp: applyPlan_def Let_def)
      from migration_records [OF assms(2) _ old own this] assms(4) failed show ?thesis
        by (auto simp: outcome_entry_def)
    next
      case mark: False
      have "(case markPlanFailed (rc_client r) (pl_Allocation p) p w of (err, _, w1) \<Rightarrow> (err, w1)) = (None, w')"
        using False failed mark assms(7) by (auto simp: applyPlan_def Let_def)
      with mark_records(6) [OF assms(2) old own, of p "planStatusMessage p" "''mark allocation plan failed''"] failed
      show ?thesis
        by (auto simp: markPlanFailed_def outcome_entry_def phase_defs split: prod.splits)
    qed
  next
    case target: False
    from applyPlan_records [OF assms(1-3) old own target False, of node] assms(7) target show ?thesis
      by (auto simp: outcome_entry_def)
  qed
qed

text \<open>What one plan needs, and what it leaves in its slot.\<close>

definition ready ::
    "('w \<Rightarrow> string \<times> string \<rightharpoonup> AIResourceAllocation) \<Rightarrow> 'w \<Rightarrow> Plan \<Rightarrow> bool" where
  "ready st w p \<longleftrightarrow> st w (object_key (pl_Allocation p)) \<noteq> None \<and> recordable p \<and>
     (untouched p \<longrightarrow> outcome_entry p (recorded_at st w (slot (pl_Allocation p))))"

text \<open>The part of an object the agent never writes.\<close>

definition fixed_part :: "AIResourceAllocation option \<Rightarrow> (ObjectMeta \<times> AIResourceAllocationSpec) option" where
  "fixed_part x = map_option (\<lambda>a. (a_Meta a, a_Spec a)) x"

lemma records_fixed: "records st w a (err, b, w') e \<Longrightarrow> fixed_part (st w' k) = fixed_part (st w k)"
  by (auto simp: fixed_part_def elim!: recordsE)

lemma fixed_part_None: "fixed_part x = fixed_part y \<Longrightarrow> x = None \<longleftrightarrow> y = None"
  by (cases x; cases y) (simp_all add: fixed_part_def)

lemma applyPlan_settles:
  assumes "agent_backend (rc_backend r)" and "status_store (rc_client r) st"
    and "\<forall>req w res w'. be_Apply (rc_backend r) req w = (res, w') \<longrightarrow> st w' = st w"
    and "pl_TargetPhase p = AllocationPhaseFailed \<longrightarrow> quiet_pods (rc_client r) st"
    and "ready st w p" and "applyPlan r node p w = (None, w1)"
  shows "outcome_entry p (recorded_at st w1 (slot (pl_Allocation p)))"
    and "s \<noteq> slot (pl_Allocation p) \<Longrightarrow> recorded_at st w1 s = recorded_at st w s"
    and "fixed_part (st w1 k) = fixed_part (st w k)"
proof -
  consider (kept) "untouched p" "st w1 = st w"
    | (wrote) b e where "records st w (pl_Allocation p) (None, b, w1) e" "outcome_entry p (Some e)"
    using applyPlan_slot [OF assms(1-4) _ _ assms(6)] assms(5) by (auto simp only: ready_def)
  then have "outcome_entry p (recorded_at st w1 (slot (pl_Allocation p))) \<and>
    (s \<noteq> slot (pl_Allocation p) \<longrightarrow> recorded_at st w1 s = recorded_at st w s) \<and> fixed_part (st w1 k) = fixed_part (st w k)"
  proof cases
    case kept
    have "recorded_at st w1 = recorded_at st w" by (simp add: fun_eq_iff recorded_at_def recorded_def kept(2))
    with kept assms(5) show ?thesis by (auto simp only: ready_def)
  next
    case wrote
    from records_slot [OF wrote(1)] records_fixed [OF wrote(1)] wrote(2) show ?thesis by simp
  qed
  then show "outcome_entry p (recorded_at st w1 (slot (pl_Allocation p)))"
    "s \<noteq> slot (pl_Allocation p) \<Longrightarrow> recorded_at st w1 s = recorded_at st w s"
    "fixed_part (st w1 k) = fixed_part (st w k)"
    by auto
qed

lemma applyPlans_settle:
  assumes "agent_backend (rc_backend r)" and "status_store (rc_client r) st"
    and "\<forall>req w res w'. be_Apply (rc_backend r) req w = (res, w') \<longrightarrow> st w' = st w"
    and "\<forall>p\<in>set ps. pl_TargetPhase p = AllocationPhaseFailed \<longrightarrow> quiet_pods (rc_client r) st"
    and "\<forall>p\<in>set ps. ready st w p"
    and "distinct (map (slot \<circ> pl_Allocation) ps)" and "applyPlans r node ps w = (None, w')"
  shows "(\<forall>p\<in>set ps. outcome_entry p (recorded_at st w' (slot (pl_Allocation p)))) \<and>
    (\<forall>s. s \<notin> (slot \<circ> pl_Allocation) ` set ps \<longrightarrow> recorded_at st w' s = recorded_at st w s) \<and>
    (\<forall>k. fixed_part (st w' k) = fixed_part (st w k))"
  using assms(4-)
proof (induction ps arbitrary: w)
  case (Cons p ps)
  obtain w1 where one: "applyPlan r node p w = (None, w1)" and rest: "applyPlans r node ps w1 = (None, w')"
    using Cons.prems(4) by (auto split: prod.splits option.splits)
  have p: "ready st w p" and pods: "pl_TargetPhase p = AllocationPhaseFailed \<longrightarrow> quiet_pods (rc_client r) st"
    using Cons.prems(1,2) by simp_all
  note step = applyPlan_settles [OF assms(1-3) pods p one]
  have fresh: "slot (pl_Allocation p) \<notin> (slot \<circ> pl_Allocation) ` set ps"
    using Cons.prems(3) by simp
  have "ready st w1 q" if q: "q \<in> set ps" for q
  proof -
    have "slot (pl_Allocation q) \<noteq> slot (pl_Allocation p)" using fresh q by (metis comp_apply image_eqI)
    then have "recorded_at st w1 (slot (pl_Allocation q)) = recorded_at st w (slot (pl_Allocation q))"
      by (rule step(2))
    with Cons.prems(2) q fixed_part_None [OF step(3)] show ?thesis by (simp add: ready_def)
  qed
  then have rest_ps: "\<forall>q\<in>set ps. outcome_entry q (recorded_at st w' (slot (pl_Allocation q)))"
    and others: "\<And>s. s \<notin> (slot \<circ> pl_Allocation) ` set ps \<Longrightarrow> recorded_at st w' s = recorded_at st w1 s"
    and fixed: "\<And>k. fixed_part (st w' k) = fixed_part (st w1 k)"
    using Cons.IH [OF _ _ _ rest] Cons.prems(1,3) by auto
  have "outcome_entry p (recorded_at st w' (slot (pl_Allocation p)))"
    using others [OF fresh] step(1) by simp
  moreover have "recorded_at st w' s = recorded_at st w s" if "s \<notin> (slot \<circ> pl_Allocation) ` set (p # ps)" for s
    using that others [of s] step(2) [of s] by simp
  moreover have "fixed_part (st w' k) = fixed_part (st w k)" for k
    using fixed step(3) by simp
  ultimately show ?case using rest_ps by simp
qed simp

section \<open>A whole pass\<close>

text \<open>
  The ledgers as the listing returns them: stored objects of different names, each with at least
  one entry, the entries of a ledger under different names that are not empty (the invariant of
  the scheduler's side).
\<close>

definition readable_ledgers ::
    "('w \<Rightarrow> string \<times> string \<rightharpoonup> AIResourceAllocation) \<Rightarrow> 'w \<Rightarrow> AIResourceAllocation list \<Rightarrow> bool" where
  "readable_ledgers st w ledgers \<longleftrightarrow> distinct (map object_key ledgers) \<and>
     (\<forall>l\<in>set ledgers. st w (object_key l) = Some l \<and> as_Workloads (a_Spec l) \<noteq> [] \<and>
        distinct (map aw_Name (as_Workloads (a_Spec l))) \<and> (\<forall>e\<in>set (as_Workloads (a_Spec l)). aw_Name e \<noteq> []))"

lemma expandWorkload_slot: "aw_Name e \<noteq> [] \<Longrightarrow> slot (expandWorkload l e) = (object_key l, aw_Name e)"
  by (simp add: slot_def workloadEntryNameFromAllocation_def) (simp add: expandWorkload_def Let_def)

lemma expanded:
  assumes "readable_ledgers st w ledgers" and "a \<in> set (expandNodeAllocationLedgers ledgers)"
  shows "\<exists>l e. l \<in> set ledgers \<and> e \<in> set (as_Workloads (a_Spec l)) \<and> aw_Name e \<noteq> [] \<and> a = expandWorkload l e"
proof -
  have "\<forall>l\<in>set ledgers. as_Workloads (a_Spec l) \<noteq> []"
    using assms(1) by (simp add: readable_ledgers_def)
  with assms(2) have "\<exists>l e. l \<in> set ledgers \<and> e \<in> set (as_Workloads (a_Spec l)) \<and> a = expandWorkload l e"
    by (induction ledgers) auto
  with assms(1) show ?thesis
    by (fastforce simp: readable_ledgers_def image_iff)
qed

lemma expanded_slots_distinct:
  "readable_ledgers st w ledgers \<Longrightarrow> distinct (map slot (expandNodeAllocationLedgers ledgers))"
proof (induction ledgers)
  case (Cons l ledgers)
  have l: "as_Workloads (a_Spec l) \<noteq> []" "distinct (map aw_Name (as_Workloads (a_Spec l)))"
      "\<forall>e\<in>set (as_Workloads (a_Spec l)). aw_Name e \<noteq> []" "object_key l \<notin> object_key ` set ledgers"
    and rest: "readable_ledgers st w ledgers"
    using Cons.prems by (auto simp: readable_ledgers_def)
  have own: "map slot (map (expandWorkload l) (as_Workloads (a_Spec l))) =
      map (Pair (object_key l)) (map aw_Name (as_Workloads (a_Spec l)))"
    using l(3) by (simp add: expandWorkload_slot)
  have "fst s \<noteq> object_key l" if "s \<in> slot ` set (expandNodeAllocationLedgers ledgers)" for s
  proof -
    obtain a where a: "a \<in> set (expandNodeAllocationLedgers ledgers)" "s = slot a"
      using \<open>s \<in> slot ` set (expandNodeAllocationLedgers ledgers)\<close> by blast
    obtain l' e where l': "l' \<in> set ledgers" "aw_Name e \<noteq> []" and e: "a = expandWorkload l' e"
      using expanded [OF rest a(1)] by blast
    have "fst s = object_key l'"
      by (simp only: a(2) e expandWorkload_slot [OF l'(2)] fst_conv)
    moreover have "object_key l' \<in> object_key ` set ledgers"
      using l'(1) by (rule imageI)
    ultimately show ?thesis using l(4) by metis
  qed
  then have "set (map (Pair (object_key l)) (map aw_Name (as_Workloads (a_Spec l)))) \<inter>
      set (map slot (expandNodeAllocationLedgers ledgers)) = {}"
    by fastforce
  moreover have "distinct (map (Pair (object_key l)) (map aw_Name (as_Workloads (a_Spec l))))"
    using l(2) by (subst distinct_map) (simp add: inj_on_def)
  ultimately show ?case
    using Cons.IH [OF rest] l(1) own by (simp add: map_append del: map_map)
qed simp

lemma expanded_recorded:
  assumes "readable_ledgers st w ledgers" and "a \<in> set (expandNodeAllocationLedgers ledgers)"
  shows "\<exists>l e. l \<in> set ledgers \<and> st w (object_key a) = Some l \<and> a = expandWorkload l e \<and>
    recorded_at st w (slot a) = workloadStatusByName (ast_Workloads (a_Status l)) (aw_Name e)"
proof -
  obtain l e where l: "l \<in> set ledgers" "aw_Name e \<noteq> []" and a: "a = expandWorkload l e"
    using expanded [OF assms] by blast
  have stored: "st w (object_key l) = Some l"
    using assms(1) l(1) by (simp add: readable_ledgers_def)
  have "recorded_at st w (slot a) = workloadStatusByName (ast_Workloads (a_Status l)) (aw_Name e)"
    by (simp only: a expandWorkload_slot [OF l(2)] recorded_at_def recorded_def stored fst_conv snd_conv option.case)
  with l(1) stored a show ?thesis by (intro exI [of _ l] exI [of _ e]) simp
qed

lemma expanded_ready:
  assumes "readable_ledgers st w ledgers" and "pl_Allocation p \<in> set (expandNodeAllocationLedgers ledgers)"
    and "recordable p"
  shows "ready st w p"
proof -
  obtain l e where stored: "st w (object_key (pl_Allocation p)) = Some l" and a: "pl_Allocation p = expandWorkload l e"
    and "recorded_at st w (slot (pl_Allocation p)) = workloadStatusByName (ast_Workloads (a_Status l)) (aw_Name e)"
    using expanded_recorded [OF assms(1,2)] by blast
  then have "untouched p \<Longrightarrow> outcome_entry p (recorded_at st w (slot (pl_Allocation p)))"
    using assms(3) by (auto simp: outcome_entry_def recordable_def a expandWorkload_def Let_def
        AIResourceAllocationStatus_zero_def phase_defs split: option.splits)
  then show ?thesis
    using assms(3) stored by (simp add: ready_def)
qed

definition plan_amount :: "dim \<Rightarrow> Plan \<Rightarrow> int" where
  "plan_amount d p = (if pl_TargetPhase p = AllocationPhaseFailed then 0 else val d (pl_AssignedResources p))"

lemma outcome_holds: "outcome_entry p x \<Longrightarrow> holds d x = plan_amount d p"
  by (auto simp: outcome_entry_def holds_def plan_amount_def phase_defs split: if_splits)

lemma plan_phases:
  "p \<in> set (fst (planAll s node st now l xs)) \<Longrightarrow>
   (admitted p \<longleftrightarrow> pl_TargetPhase p \<noteq> AllocationPhaseFailed) \<and>
   (pl_TargetPhase p = AllocationPhaseFailed \<longrightarrow> pl_Action p = sc_FallbackFor s (pl_Allocation p))"
proof (induction xs arbitrary: l)
  case (Cons x xs)
  have "(admitted p \<longleftrightarrow> pl_TargetPhase p \<noteq> AllocationPhaseFailed) \<and>
      (pl_TargetPhase p = AllocationPhaseFailed \<longrightarrow> pl_Action p = sc_FallbackFor s (pl_Allocation p))"
    if "p = fst (buildPlanForAllocation s node st l a now g)" for a g
    unfolding that by (simp add: buildPlanForAllocation_def admitted_def phase_defs case_prod_unfold Let_def)
  with Cons show ?case
    by (cases x) (auto simp: case_prod_unfold Let_def)
qed simp

lemma BuildPlans_facts:
  assumes "BuildPlansAt NewDefaultScheduler node as now = Inr ps" and "list_all budgets_nonneg as"
  shows "mset (map pl_Allocation ps) = mset as"
    and "sum_list (map (plan_amount d) ps) \<le> local_capacity node d"
    and "p \<in> set ps \<Longrightarrow> pl_TargetPhase p = AllocationPhaseFailed \<Longrightarrow>
      pl_Action p = DefaultActionPolicy_FallbackFor (pl_Allocation p)"
proof -
  let ?ord = "orderAllocationsByPriorityAndWindow as now"
  obtain state where state: "observe NewDefaultScheduler node ?ord = Inr state" "manager_state node ?ord state"
    using observe_default by blast
  have ps: "ps = fst (planAll NewDefaultScheduler node state now (newLedger (capacityFromState state))
      (flagged now (groupAllocationsByPriority ?ord)))"
    using assms(1) state(1) by (simp add: BuildPlansAt_planAll)
  show "mset (map pl_Allocation ps) = mset as"
    by (simp add: ps planAll_allocations map_fst_flagged concat_groups order_sort_key del: mset_map)
  have "plan_amount d p = (if admitted p then val d (pl_AssignedResources p) else 0)" if "p \<in> set ps" for p
    using plan_phases that unfolding ps by (simp add: plan_amount_def)
  then have "sum_list (map (plan_amount d) ps) = assigned_total d ps"
    by (induction ps) simp_all
  with BuildPlansAt_balance [OF assms state(1), of d] capacity_default [OF state(2)]
  show "sum_list (map (plan_amount d) ps) \<le> local_capacity node d"
    by simp
  show "p \<in> set ps \<Longrightarrow> pl_TargetPhase p = AllocationPhaseFailed \<Longrightarrow>
      pl_Action p = DefaultActionPolicy_FallbackFor (pl_Allocation p)"
    using plan_phases unfolding ps by (fastforce simp: NewDefaultScheduler_def NewScheduler_def)
qed

text \<open>
  For the ledgers the agent lists, with the plans of the default local scheduler, whichever backend
  applies them, when every plan was applied without an error: the entry of every plan has its
  outcome, and the amounts that the ledgers record as applied, over all workloads of all ledgers,
  sum as integers to at most the node's capacity.  Every plan has to be recordable.
\<close>

lemma pass_settles:
  assumes "agent_backend (rc_backend r)" and "status_store (rc_client r) st"
    and "\<forall>req w res w'. be_Apply (rc_backend r) req w = (res, w') \<longrightarrow> st w' = st w"
    and "readable_ledgers st w ledgers" and "as = expandNodeAllocationLedgers ledgers"
    and "list_all budgets_nonneg as"
    and "BuildPlansAt NewDefaultScheduler (Some node) as now = Inr ps" and "list_all recordable ps"
    and "\<forall>p\<in>set ps. pl_TargetPhase p = AllocationPhaseFailed \<longrightarrow> quiet_pods (rc_client r) st"
    and "applyPlans r node ps w = (None, w')"
  shows "\<forall>p\<in>set ps. outcome_entry p (recorded_at st w' (slot (pl_Allocation p)))"
    and "fixed_part (st w' k) = fixed_part (st w k)"
proof -
  note facts = BuildPlans_facts [OF assms(7,6)]
  have "set (map pl_Allocation ps) = set as"
    using facts(1) by (rule mset_eq_setD)
  then have "pl_Allocation p \<in> set as" if "p \<in> set ps" for p
    using that by auto
  then have ready: "\<forall>p\<in>set ps. ready st w p"
    using expanded_ready [OF assms(4)] assms(5,8) by (simp add: list_all_iff)
  have "mset (map (slot \<circ> pl_Allocation) ps) = mset (map slot as)"
    unfolding map_map [symmetric] mset_map [of slot] by (simp only: facts(1))
  then have "distinct (map (slot \<circ> pl_Allocation) ps)"
    using expanded_slots_distinct [OF assms(4)] assms(5) by (metis mset_eq_imp_distinct_iff)
  from applyPlans_settle [OF assms(1-3,9) ready this assms(10)]
  show "\<forall>p\<in>set ps. outcome_entry p (recorded_at st w' (slot (pl_Allocation p)))"
    "fixed_part (st w' k) = fixed_part (st w k)" by blast+
qed

lemma pass_capacity:
  assumes "agent_backend (rc_backend r)" and "status_store (rc_client r) st"
    and "\<forall>req w res w'. be_Apply (rc_backend r) req w = (res, w') \<longrightarrow> st w' = st w"
    and "readable_ledgers st w ledgers" and "as = expandNodeAllocationLedgers ledgers"
    and "list_all budgets_nonneg as"
    and "BuildPlansAt NewDefaultScheduler (Some node) as now = Inr ps" and "list_all recordable ps"
    and "\<forall>p\<in>set ps. pl_TargetPhase p = AllocationPhaseFailed \<longrightarrow> quiet_pods (rc_client r) st"
    and "applyPlans r node ps w = (None, w')"
  shows "sum_list (map (\<lambda>a. holds d (recorded_at st w' (slot a))) as) \<le> local_capacity (Some node) d"
proof -
  note facts = BuildPlans_facts [OF assms(7,6)]
  have "sum_list (map (\<lambda>a. holds d (recorded_at st w' (slot a))) as) =
      sum_list (map (\<lambda>a. holds d (recorded_at st w' (slot a))) (map pl_Allocation ps))"
    unfolding sum_mset_sum_list [symmetric] mset_map [of "\<lambda>a. holds d (recorded_at st w' (slot a))"]
    by (simp only: facts(1))
  also have "\<dots> = sum_list (map (plan_amount d) ps)"
    unfolding map_map using pass_settles(1) [OF assms] by (auto intro!: arg_cong [of _ _ sum_list] map_cong outcome_holds)
  finally show ?thesis using facts(2) [of d] by simp
qed

section \<open>A whole reconciliation\<close>

text \<open>
  What the client's other calls and the backend leave alone: reading and writing node profiles,
  listing, a retry loop around such calls, taking a snapshot, applying and the calls on pods do not
  change the stored allocations.
\<close>

definition keeps_allocations ::
    "'w Reconciler \<Rightarrow> ('w \<Rightarrow> string \<times> string \<rightharpoonup> AIResourceAllocation) \<Rightarrow> bool" where
  "keeps_allocations r st \<longleftrightarrow> (let c = rc_client r; b = rc_backend r in
     (\<forall>w ns n x w'. ac_GetNodeProfile c w ns n = (x, w') \<longrightarrow> st w' = st w) \<and>
     (\<forall>w x w'. ac_ListNodeProfiles c w = (x, w') \<longrightarrow> st w' = st w) \<and>
     (\<forall>w p x w'. ac_CreateNodeProfile c w p = (x, w') \<longrightarrow> st w' = st w) \<and>
     (\<forall>w p x w'. ac_UpdateNodeProfileStatus c w p = (x, w') \<longrightarrow> st w' = st w) \<and>
     (\<forall>w l x w'. ac_ListAllocations c w l = (x, w') \<longrightarrow> st w' = st w) \<and>
     (\<forall>f w x w'. (\<forall>v y v'. f v = (y, v') \<longrightarrow> st v' = st v) \<longrightarrow> ac_Retry c f w = (x, w') \<longrightarrow> st w' = st w) \<and>
     (\<forall>req w x n w'. be_Snapshot b req w = (x, n, w') \<longrightarrow> st w' = st w) \<and>
     (\<forall>req w x w'. be_Apply b req w = (x, w') \<longrightarrow> st w' = st w) \<and> quiet_pods c st)"

lemma keeps_laws:
  assumes "keeps_allocations r st"
  shows "ac_GetNodeProfile (rc_client r) w ns n = (x1, w') \<Longrightarrow> st w' = st w"
    and "ac_ListNodeProfiles (rc_client r) w = (x2, w') \<Longrightarrow> st w' = st w"
    and "ac_CreateNodeProfile (rc_client r) w p = (x3, w') \<Longrightarrow> st w' = st w"
    and "ac_UpdateNodeProfileStatus (rc_client r) w p = (x3, w') \<Longrightarrow> st w' = st w"
    and "ac_ListAllocations (rc_client r) w l = (x4, w') \<Longrightarrow> st w' = st w"
    and "(\<And>v y v'. f v = (y, v') \<Longrightarrow> st v' = st v) \<Longrightarrow> ac_Retry (rc_client r) f w = (x3, w') \<Longrightarrow> st w' = st w"
    and "be_Snapshot (rc_backend r) req w = (x5, node, w') \<Longrightarrow> st w' = st w"
    and "be_Apply (rc_backend r) areq w = (x6, w') \<Longrightarrow> st w' = st w"
    and "quiet_pods (rc_client r) st"
proof -
  note k = assms [unfolded keeps_allocations_def Let_def]
  show "ac_GetNodeProfile (rc_client r) w ns n = (x1, w') \<Longrightarrow> st w' = st w"
    by (rule k [THEN conjunct1, rule_format])
  show "ac_ListNodeProfiles (rc_client r) w = (x2, w') \<Longrightarrow> st w' = st w"
    by (rule k [THEN conjunct2, THEN conjunct1, rule_format])
  show "ac_CreateNodeProfile (rc_client r) w p = (x3, w') \<Longrightarrow> st w' = st w"
    by (rule k [THEN conjunct2, THEN conjunct2, THEN conjunct1, rule_format])
  show "ac_UpdateNodeProfileStatus (rc_client r) w p = (x3, w') \<Longrightarrow> st w' = st w"
    by (rule k [THEN conjunct2, THEN conjunct2, THEN conjunct2, THEN conjunct1, rule_format])
  show "ac_ListAllocations (rc_client r) w l = (x4, w') \<Longrightarrow> st w' = st w"
    by (rule k [THEN conjunct2, THEN conjunct2, THEN conjunct2, THEN conjunct2, THEN conjunct1, rule_format])
  show "(\<And>v y v'. f v = (y, v') \<Longrightarrow> st v' = st v) \<Longrightarrow> ac_Retry (rc_client r) f w = (x3, w') \<Longrightarrow> st w' = st w"
    by (rule k [THEN conjunct2, THEN conjunct2, THEN conjunct2, THEN conjunct2, THEN conjunct2, THEN conjunct1, THEN spec, of f, rule_format]) blast+
  show "be_Snapshot (rc_backend r) req w = (x5, node, w') \<Longrightarrow> st w' = st w"
    by (rule k [THEN conjunct2, THEN conjunct2, THEN conjunct2, THEN conjunct2, THEN conjunct2, THEN conjunct2, THEN conjunct1, rule_format])
  show "be_Apply (rc_backend r) areq w = (x6, w') \<Longrightarrow> st w' = st w"
    by (rule k [THEN conjunct2, THEN conjunct2, THEN conjunct2, THEN conjunct2, THEN conjunct2, THEN conjunct2, THEN conjunct2, THEN conjunct1, rule_format])
  show "quiet_pods (rc_client r) st"
    by (rule k [THEN conjunct2, THEN conjunct2, THEN conjunct2, THEN conjunct2, THEN conjunct2, THEN conjunct2, THEN conjunct2, THEN conjunct2])
qed

lemma getNodeProfile_keeps:
  assumes "keeps_allocations r st" and "getNodeProfile r w = (x, w')"
  shows "st w' = st w"
  using assms(2)
  by (auto simp: getNodeProfile_def Let_def split: prod.splits sum.splits option.splits if_splits
      dest!: keeps_laws(1-3) [OF assms(1)])

lemma listNodeAllocations_keeps:
  assumes "keeps_allocations r st" and "listNodeAllocations r w = (x, w')"
  shows "st w' = st w"
  using assms(2) by (auto simp: listNodeAllocations_def split: prod.splits sum.splits
      dest!: keeps_laws(5) [OF assms(1)])

lemma updateNodeProfileStatus_keeps:
  assumes "keeps_allocations r st" and "updateNodeProfileStatus r node status w = (x, w')"
  shows "st w' = st w"
  using assms(2) unfolding updateNodeProfileStatus_def
  by (rule keeps_laws(6) [OF assms(1), rotated])
    (auto split: prod.splits sum.splits dest!: keeps_laws(1,4) [OF assms(1)])

lemma publishSnapshot_keeps:
  assumes "keeps_allocations r st" and "publishSnapshot r node as w = (x, n, w')"
  shows "st w' = st w"
  using assms(2) by (auto simp: publishSnapshot_def Let_def split: prod.splits sum.splits
      dest!: updateNodeProfileStatus_keeps [OF assms(1)] keeps_laws(7) [OF assms(1)])

lemma refreshNodeStatus_keeps:
  assumes "keeps_allocations r st" and "refreshNodeStatus r node w = (x, n, w')"
  shows "st w' = st w"
  using assms(2) by (auto simp: refreshNodeStatus_def split: prod.splits sum.splits
      dest!: publishSnapshot_keeps [OF assms(1)] listNodeAllocations_keeps [OF assms(1)])

lemma reconcileNode_ok:
  assumes "reconcileNode r w = (res, None, w')"
  shows "\<exists>node0 node as ps w1 w2 w3 w4 n. getNodeProfile r w = (Inr node0, w1) \<and> listNodeAllocations r w1 = (Inr as, w2) \<and>
    syncNodeStatus r node0 as w2 = (None, node, w3) \<and>
    BuildPlansAt (rc_local r) (Some node) as (ac_Clock (rc_client r) w3) = Inr ps \<and>
    applyPlans r node ps w3 = (None, w4) \<and> refreshNodeStatus r node w4 = (None, n, w') \<and>
    res = \<lparr>re_RequeueAfter = defaultRequeueAfter\<rparr>"
  using assms unfolding reconcileNode_def Let_def
  by (auto split: prod.splits sum.splits option.splits)

lemma readable_ledgers_cong: "st v = st w \<Longrightarrow> readable_ledgers st v ledgers = readable_ledgers st w ledgers"
  by (simp add: readable_ledgers_def)

lemma recorded_at_cong: "st v = st w \<Longrightarrow> recorded_at st v = recorded_at st w"
  by (simp add: fun_eq_iff recorded_at_def recorded_def)

abbreviation node_labels :: "'w Reconciler \<Rightarrow> string \<rightharpoonup> string" where
  "node_labels r \<equiv>
     [AllocationLabelManagedBy \<mapsto> ''astra-scheduler'', AllocationLabelNodeName \<mapsto> cf_NodeName (rc_config r)]"

abbreviation listed_ledgers :: "'w Reconciler \<Rightarrow> AIResourceAllocation list \<Rightarrow> AIResourceAllocation list" where
  "listed_ledgers r items \<equiv>
     filter (\<lambda>l. as_NodeName (a_Spec l) = cf_NodeName (rc_config r) \<and>
       ast_Phase (a_Status l) \<noteq> AllocationPhaseReleased) items"

text \<open>
  C4. A reconciliation of the node ends within its capacity.  When \<open>reconcileNode\<close> returns no error
  it has read the node's profile, listed the ledgers, published the node's status, planned with the
  published profile exactly the listed workloads, applied the plans one after the other and
  published again, and it comes back after the default interval.  If every plan is recordable, the
  amounts that the ledgers then record as applied are at most the capacity of the profile it
  planned with, in every dimension, whether plans were assigned, failed, or evicted and migrated.
  A plan is recordable when the workload already holds its assignment and the plan is no failure,
  or when the workload is the first of its ledger's status list or is read without a status; the
  plans that are not recordable are those of the recorder's fault with later workloads and of the
  early return for a failed plan.  The ledgers have distinct, non-empty entry names, the requested
  amounts are not negative, and no other client changes the stored allocations during the pass.
\<close>
theorem reconcile_within_capacity:
  assumes "NewWithOptions os u name options = Inr (rc_backend r)" and "status_store (rc_client r) st"
    and "keeps_allocations r st" and "rc_local r = NewDefaultScheduler"
    and "\<forall>v. st v = st w \<longrightarrow> (\<exists>v'. ac_ListAllocations (rc_client r) v (node_labels r) = (Inr items, v'))"
    and "readable_ledgers st w (listed_ledgers r items)"
    and "as = expandNodeAllocationLedgers (listed_ledgers r items)" and "list_all budgets_nonneg as"
    and "reconcileNode r w = (res, None, w')"
  shows "\<exists>node0 node ps w1 w2 w3 w4 n. getNodeProfile r w = (Inr node0, w1) \<and>
    listNodeAllocations r w1 = (Inr as, w2) \<and> syncNodeStatus r node0 as w2 = (None, node, w3) \<and>
    BuildPlansAt NewDefaultScheduler (Some node) as (ac_Clock (rc_client r) w3) = Inr ps \<and>
    mset (map pl_Allocation ps) = mset as \<and> applyPlans r node ps w3 = (None, w4) \<and>
    refreshNodeStatus r node w4 = (None, n, w') \<and> res = \<lparr>re_RequeueAfter = defaultRequeueAfter\<rparr> \<and>
    (list_all recordable ps \<longrightarrow>
      (\<forall>d. sum_list (map (\<lambda>a. holds d (recorded_at st w' (slot a))) as) \<le> local_capacity (Some node) d))"
proof -
  obtain node0 node as' ps w1 w2 w3 w4 n where run: "getNodeProfile r w = (Inr node0, w1)"
      "listNodeAllocations r w1 = (Inr as', w2)" "syncNodeStatus r node0 as' w2 = (None, node, w3)"
      "BuildPlansAt (rc_local r) (Some node) as' (ac_Clock (rc_client r) w3) = Inr ps"
      "applyPlans r node ps w3 = (None, w4)" "refreshNodeStatus r node w4 = (None, n, w')"
      "res = \<lparr>re_RequeueAfter = defaultRequeueAfter\<rparr>"
    using reconcileNode_ok [OF assms(9)] by (elim exE conjE) (rule that)
  have st1: "st w1 = st w" by (rule getNodeProfile_keeps [OF assms(3) run(1)])
  have as: "as' = as"
    using run(2) assms(5) st1 unfolding assms(7) listNodeAllocations_def by fastforce
  have st2: "st w2 = st w" using listNodeAllocations_keeps [OF assms(3) run(2)] st1 by simp
  have st3: "st w3 = st w"
    using publishSnapshot_keeps [OF assms(3) run(3) [unfolded syncNodeStatus_def]] st2 by simp
  have st': "st w' = st w4" by (rule refreshNodeStatus_keeps [OF assms(3) run(6)])
  note plans = run(4) [unfolded assms(4) as]
  have quiet: "\<forall>req w res w'. be_Apply (rc_backend r) req w = (res, w') \<longrightarrow> st w' = st w"
    using keeps_laws(8) [OF assms(3)] by blast
  have "sum_list (map (\<lambda>a. holds d (recorded_at st w4 (slot a))) as) \<le> local_capacity (Some node) d"
    if "list_all recordable ps" for d
    using assms(6) readable_ledgers_cong [OF st3] keeps_laws(9) [OF assms(3)]
    by (intro pass_capacity [OF NewWithOptions_contract [OF assms(1)] assms(2) quiet _ assms(7,8) plans that _ run(5)])
      simp_all
  then show ?thesis
    using run(1-3,5-7) plans BuildPlans_facts(1) [OF plans assms(8)] unfolding as recorded_at_cong [OF st'] by blast
qed

text \<open>The reconciliation of the sample ledger.\<close>

abbreviation sample_as :: "AIResourceAllocation list" where
  "sample_as \<equiv> expandNodeAllocationLedgers [sample_ledger]"

lemma sample_as_simps:
  "sample_as = [expandWorkload sample_ledger sample_workload]"
  "a_Status (expandWorkload sample_ledger sample_workload) = AIResourceAllocationStatus_zero"
  "readable_ledgers stored sample_world [sample_ledger]" "list_all own_first sample_as"
  "list_all budgets_nonneg sample_as"
proof -
  let ?a = "expandWorkload sample_ledger sample_workload"
  show as: "sample_as = [?a]" by (simp add: sample_ledger_def)
  show zero: "a_Status ?a = AIResourceAllocationStatus_zero"
    by (simp add: expandWorkload_def sample_ledger_def Let_def AIResourceAllocationStatus_zero_def)
  show "readable_ledgers stored sample_world [sample_ledger]"
    by (simp add: readable_ledgers_def sample_world_def stored_def map_objects_def sample_ledger_def
        sample_workload_name)
  show "list_all own_first sample_as"
    unfolding as by (simp add: zero own_first_def AIResourceAllocationStatus_zero_def)
  show "list_all budgets_nonneg sample_as"
    unfolding as by (simp add: budgets_nonneg_def requiredBudget_def preferredBudget_def maxBudget_def
        expandWorkload_def Let_def sample_workload_def allocationWorkloadSpec_def example_profile_def nonneg_iff val_gpus)
qed

lemma sample_plans:
  assumes "BuildPlansAt NewDefaultScheduler node sample_as now = Inr ps"
  obtains p where "ps = [p]" "pl_Allocation p = expandWorkload sample_ledger sample_workload" "\<not> settled p" "recordable p"
    "pl_TargetPhase p = AllocationPhaseFailed \<longrightarrow> pl_Action p \<noteq> AllocationActionEvict"
proof -
  let ?a = "expandWorkload sample_ledger sample_workload"
  note facts = BuildPlans_facts [OF assms sample_as_simps(5)]
  have "map pl_Allocation ps = [?a]"
    using facts(1) unfolding sample_as_simps(1) by (simp del: mset_map)
  then obtain p where ps: "ps = [p]" "pl_Allocation p = ?a" by (auto simp: map_eq_Cons_conv)
  have new: "\<not> settled p"
    by (simp add: ps(2) sample_as_simps(2) AIResourceAllocationStatus_zero_def phase_defs)
  have "own_first (pl_Allocation p)"
    using sample_as_simps(4) unfolding sample_as_simps(1) ps(2) by simp
  then have "recordable p" using new by (simp only: recordable_def if_False)
  have "DefaultActionPolicy_FallbackFor ?a = AllocationActionApply"
    by (simp add: DefaultActionPolicy_FallbackFor_def expandWorkload_def Let_def sample_workload_def
        allocationWorkloadSpec_def allocationActions_def example_profile_def AllocationActions_zero_def)
  then have "pl_TargetPhase p = AllocationPhaseFailed \<longrightarrow> pl_Action p \<noteq> AllocationActionEvict"
    using facts(3) [of p] ps by (simp add: action_defs)
  with ps new \<open>recordable p\<close> that show ?thesis by blast
qed

lemma sample_applied:
  assumes "BuildPlansAt NewDefaultScheduler node sample_as now = Inr ps"
  shows "\<exists>w'. applyPlans sample_reconciler n ps sample_world = (None, w')"
proof -
  obtain p where p: "ps = [p]" "pl_Allocation p = expandWorkload sample_ledger sample_workload" "\<not> settled p"
      "recordable p" "pl_TargetPhase p = AllocationPhaseFailed \<longrightarrow> pl_Action p \<noteq> AllocationActionEvict"
    by (rule sample_plans [OF assms])
  have stored: "stored sample_world (object_key (pl_Allocation p)) = Some sample_ledger"
    using sample_plan_simps(5) by (simp add: p(2) sample_plan_def)
  have own: "own_first (pl_Allocation p)"
    using sample_as_simps(4) unfolding sample_as_simps(1) p(2) by simp
  have "fst (applyPlan sample_reconciler n p sample_world) = None"
  proof (cases "pl_TargetPhase p = AllocationPhaseFailed")
    case True
    with mark_records(6) [OF sample_store stored own, of p "planStatusMessage p" "''mark allocation plan failed''"]
      p(3,5) show ?thesis
      by (auto simp: applyPlan_def markPlanFailed_def records_def Let_def)
  next
    case False
    then show ?thesis
      using fake_apply_succeeds [OF sample_reconciler_simps(2) sample_store stored own _ p(3)] by simp
  qed
  then show ?thesis
    by (cases "applyPlan sample_reconciler n p sample_world") (simp add: p(1))
qed

lemma sample_keeps: "keeps_allocations sample_reconciler stored"
  unfolding keeps_allocations_def sample_reconciler_simps
  by (auto simp: map_agent_client_def fakeBackend_def FakeBackend_Apply_def FakeBackend_Snapshot_def Let_def
      quiet_pods_def stored_def split: option.splits sum.splits)

lemma sample_publish: "\<exists>node'. publishSnapshot sample_reconciler node as w = (None, node', w)"
  by (simp add: publishSnapshot_def sample_reconciler_simps fakeBackend_def FakeBackend_Snapshot_def
      NewFakeBackend_def nodeResourceConfig_def no_options_def updateNodeProfileStatus_def map_agent_client_def Let_def)

lemma sample_listing:
  "stored v = stored sample_world \<Longrightarrow>
   ac_ListAllocations (rc_client sample_reconciler) v labels = (Inr [sample_ledger], v)"
  "listed_ledgers sample_reconciler [sample_ledger] = [sample_ledger]"
  using sample_plan_simps(5) unfolding sample_plan_simps(1)
  by (simp_all add: sample_reconciler_simps map_agent_client_def map_filter_simps sample_ledger_def
      AIResourceAllocationStatus_zero_def phase_defs)

lemma sample_read:
  "getNodeProfile sample_reconciler w = (Inr example_node, w)"
  "listNodeAllocations sample_reconciler sample_world = (Inr sample_as, sample_world)"
  "\<exists>as. listNodeAllocations sample_reconciler w = (Inr as, w)"
  using sample_listing(1) [OF refl] sample_listing(2)
  by (simp_all add: getNodeProfile_def listNodeAllocations_def)
    (simp_all add: sample_reconciler_simps map_agent_client_def)

lemma sample_reconciled:
  "\<exists>res w'. reconcileNode sample_reconciler sample_world = (res, None, w')"
proof -
  obtain node where sync: "syncNodeStatus sample_reconciler example_node sample_as sample_world = (None, node, sample_world)"
    using sample_publish unfolding syncNodeStatus_def by blast
  let ?now = "ac_Clock (rc_client sample_reconciler) sample_world"
  obtain state where "observe NewDefaultScheduler (Some node) (orderAllocationsByPriorityAndWindow sample_as ?now) = Inr state"
    using observe_default by blast
  then obtain ps where ps: "BuildPlansAt NewDefaultScheduler (Some node) sample_as ?now = Inr ps"
    by (simp only: BuildPlansAt_planAll sum.case)
  obtain w4 where run: "applyPlans sample_reconciler node ps sample_world = (None, w4)"
    using sample_applied [OF ps] by blast
  obtain as4 n where "listNodeAllocations sample_reconciler w4 = (Inr as4, w4)"
    "publishSnapshot sample_reconciler node
       (filter (\<lambda>allocation. ast_Phase (a_Status allocation) = AllocationPhaseApplied) as4) w4 = (None, n, w4)"
    using sample_read(3) sample_publish by meson
  then have "refreshNodeStatus sample_reconciler node w4 = (None, n, w4)"
    by (simp add: refreshNodeStatus_def)
  moreover have "rc_local sample_reconciler = NewDefaultScheduler"
    by (simp add: sample_reconciler_def NewReconciler_def)
  ultimately show ?thesis
    using sync ps run by (simp add: reconcileNode_def sample_read Let_def)
qed

theorem reconcile_within_capacity_witness:
  "\<exists>node w3 res w'. reconcileNode sample_reconciler sample_world = (res, None, w') \<and>
     syncNodeStatus sample_reconciler example_node sample_as sample_world = (None, node, w3) \<and>
     sum_list (map (\<lambda>a. holds DGpu (recorded_at stored w' (slot a))) sample_as) \<le> local_capacity (Some node) DGpu"
proof -
  have list: "\<forall>v. stored v = stored sample_world \<longrightarrow>
      (\<exists>v'. ac_ListAllocations (rc_client sample_reconciler) v (node_labels sample_reconciler) = (Inr [sample_ledger], v'))"
    using sample_listing(1) by blast
  have local: "rc_local sample_reconciler = NewDefaultScheduler"
    by (simp add: sample_reconciler_def NewReconciler_def)
  obtain res w' where run: "reconcileNode sample_reconciler sample_world = (res, None, w')"
    using sample_reconciled by blast
  have ledgers: "readable_ledgers stored sample_world (listed_ledgers sample_reconciler [sample_ledger])"
    "sample_as = expandNodeAllocationLedgers (listed_ledgers sample_reconciler [sample_ledger])"
    unfolding sample_listing(2) by (rule sample_as_simps(3), rule refl)
  obtain node0 node ps w1 w2 w3 where at: "getNodeProfile sample_reconciler sample_world = (Inr node0, w1)"
      "listNodeAllocations sample_reconciler w1 = (Inr sample_as, w2)"
      "syncNodeStatus sample_reconciler node0 sample_as w2 = (None, node, w3)"
    and plans: "BuildPlansAt NewDefaultScheduler (Some node) sample_as (ac_Clock (rc_client sample_reconciler) w3) = Inr ps"
    and sum: "list_all recordable ps \<longrightarrow>
      (\<forall>d. sum_list (map (\<lambda>a. holds d (recorded_at stored w' (slot a))) sample_as) \<le> local_capacity (Some node) d)"
    using reconcile_within_capacity [OF sample_backend_accepts sample_store sample_keeps local list ledgers
        sample_as_simps(5) run] by (elim exE conjE) (rule that)
  have recs: "list_all recordable ps" by (rule sample_plans [OF plans]) simp
  have node0: "node0 = example_node" "w1 = sample_world" using at(1) by (simp_all add: sample_read(1))
  have "w2 = sample_world" using at(2) unfolding node0 sample_read(2) by blast
  with at(3) have "syncNodeStatus sample_reconciler example_node sample_as sample_world = (None, node, w3)"
    by (simp only: node0)
  with run sum recs show ?thesis by blast
qed

end
