(* ===== verification/Convergence.thy ===== *)
theory Convergence
  imports AgentPass
begin

text \<open>
  Repeated reconciliation comes to rest.  Planning reads the specification and the metadata of an
  allocation and nothing of its status, so a second pass over the same ledgers makes the same
  assignments; when the first pass applied all of them, the second one finds every workload
  settled and writes nothing.
\<close>

section \<open>Planning does not read the status\<close>

definition erase :: "AIResourceAllocation \<Rightarrow> AIResourceAllocation" where
  "erase a = a \<lparr>a_Status := AIResourceAllocationStatus_zero\<rparr>"

definition erase_plan :: "Plan \<Rightarrow> Plan" where
  "erase_plan p = p \<lparr>pl_Allocation := erase (pl_Allocation p)\<rparr>"

lemma erase_simps [simp]:
  "a_Spec (erase a) = a_Spec a" "a_Meta (erase a) = a_Meta a"
  "erase (a \<lparr>a_Spec := s\<rparr>) = (erase a) \<lparr>a_Spec := s\<rparr>"
  by (simp_all add: erase_def)

lemma erase_plan_simps [simp]:
  "pl_Allocation (erase_plan p) = erase (pl_Allocation p)"
  "pl_TargetPhase (erase_plan p) = pl_TargetPhase p"
  "pl_AssignedResources (erase_plan p) = pl_AssignedResources p"
  by (simp_all add: erase_plan_def)

lemma erase_reads [simp]:
  "priorityOf (erase a) = priorityOf a" "precedence now (erase a) = precedence now a"
  "allocationKey (erase a) = allocationKey a"
  "DefaultActionPolicy_FallbackFor (erase a) = DefaultActionPolicy_FallbackFor a"
  "canYieldResources (erase a) = canYieldResources a"
  unfolding priorityOf_def precedence_def windowActive_def allocationKey_def
    DefaultActionPolicy_FallbackFor_def canYieldResources_def erase_simps by (rule refl)+

lemma erase_budgets [simp]:
  "requiredBudget (erase a) = requiredBudget a" "preferredBudget (erase a) = preferredBudget a"
  "maxBudget (erase a) = maxBudget a" "budgets_nonneg (erase a) = budgets_nonneg a"
  unfolding budgets_nonneg_def maxBudget_def preferredBudget_def requiredBudget_def erase_simps by (rule refl)+

lemma sort_key_map: "sort_key f (map g xs) = map g (sort_key (f \<circ> g) xs)"
proof -
  have "insort_key f (g x) (map g ys) = map g (insort_key (f \<circ> g) x ys)" for x ys
    by (induction ys) simp_all
  then show ?thesis
    by (induction xs) simp_all
qed

lemma order_erase: "orderAllocationsByPriorityAndWindow (map erase as) now = map erase (orderAllocationsByPriorityAndWindow as now)"
proof -
  have "precedence now \<circ> erase = precedence now" by (simp add: fun_eq_iff)
  then show ?thesis by (simp add: order_sort_key sort_key_map)
qed

lemma groupLoop_erase: "groupLoop (map (map erase) gs) p (map erase c) (map erase as) = map (map erase) (groupLoop gs p c as)"
proof (induction as arbitrary: gs p c)
  case (Cons a as)
  from Cons.IH [of "gs @ [c]" "priorityOf a" "[a]"] Cons.IH [of gs p "c @ [a]"] show ?case
    by (simp add: Let_def)
qed simp

lemma groups_erase: "groupAllocationsByPriority (map erase as) = map (map erase) (groupAllocationsByPriority as)"
  using groupLoop_erase [of "[]" _ "[]"] by (simp add: groupAllocationsByPriority_def hd_map)

lemma flagged_erase: "flagged now (map (map erase) gs) = map (\<lambda>(a, g). (erase a, g)) (flagged now gs)"
  by (simp add: flagged_def map_concat comp_def hasAnyActiveTimeWindow_def list_ex_iff)

lemma validate_erase:
  "validateResources NewDefaultScheduler st (erase a) = validateResources NewDefaultScheduler st a"
  by (simp add: validateResources_def default_managers manager_names validate_defs Let_def)

lemma check_erase:
  "checkConstraints NewDefaultScheduler
      \<lparr>cr_Node = n, cr_Allocation = Some (erase a), cr_Action = act, cr_Snapshots = sn\<rparr> =
   checkConstraints NewDefaultScheduler
      \<lparr>cr_Node = n, cr_Allocation = Some a, cr_Action = act, cr_Snapshots = sn\<rparr>"
proof -
  let ?req = "\<lambda>a. \<lparr>cr_Node = n, cr_Allocation = Some a, cr_Action = act, cr_Snapshots = sn\<rparr>"
  have "TokenThroughputRequiresGPU_Check (?req (erase a)) = TokenThroughputRequiresGPU_Check (?req a)"
    "RuntimeActionCapability_Check (?req (erase a)) = RuntimeActionCapability_Check (?req a)"
    by (simp_all add: TokenThroughputRequiresGPU_Check_def RuntimeActionCapability_Check_def Let_def
        split: option.split)
  then show ?thesis
    by (simp add: checkConstraints_def NewDefaultScheduler_def NewScheduler_def TokenThroughputRequiresGPU_def
        RuntimeActionCapability_def Let_def)
qed

lemma plan_erase:
  "buildPlanForAllocation NewDefaultScheduler node st l (erase a) now g =
   (let (p, l') = buildPlanForAllocation NewDefaultScheduler node st l a now g in (erase_plan p, l'))"
proof -
  have choose: "chooseTarget (erase a) w b r = chooseTarget a w b r" for w b r
    by (simp add: chooseTarget_def Let_def)
  have policy: "sc_ActionFor NewDefaultScheduler (erase a) = sc_ActionFor NewDefaultScheduler a"
    "sc_FallbackFor NewDefaultScheduler (erase a) = sc_FallbackFor NewDefaultScheduler a"
    by (simp_all add: NewDefaultScheduler_def NewScheduler_def DefaultActionPolicy_ActionFor_def)
  have planned: "(erase a) \<lparr>a_Spec := s\<rparr> = erase (a \<lparr>a_Spec := s\<rparr>)" for s by simp
  show ?thesis
    unfolding buildPlanForAllocation_def Let_def case_prod_unfold choose policy planned validate_erase check_erase
    by (simp add: erase_plan_def)
qed

lemma planAll_erase:
  "planAll NewDefaultScheduler node st now l (map (\<lambda>(a, g). (erase a, g)) xs) =
   (let (ps, l') = planAll NewDefaultScheduler node st now l xs in (map erase_plan ps, l'))"
  by (induction xs arbitrary: l) (auto simp: plan_erase case_prod_unfold Let_def)

lemma BuildPlans_erase:
  assumes "map erase as = map erase bs"
    and "BuildPlansAt NewDefaultScheduler node as now = Inr ps"
  shows "\<exists>qs. BuildPlansAt NewDefaultScheduler node bs now = Inr qs \<and> map erase_plan qs = map erase_plan ps"
proof -
  have plan: "\<exists>qs. BuildPlansAt NewDefaultScheduler node cs now = Inr qs \<and>
      BuildPlansAt NewDefaultScheduler node (map erase cs) now = Inr (map erase_plan qs)" for cs
  proof -
    let ?ord = "\<lambda>xs. orderAllocationsByPriorityAndWindow xs now"
    obtain s1 where s1: "observe NewDefaultScheduler node (?ord cs) = Inr s1" "manager_state node (?ord cs) s1"
      using observe_default by blast
    obtain s2 where s2: "observe NewDefaultScheduler node (?ord (map erase cs)) = Inr s2"
        "manager_state node (?ord (map erase cs)) s2"
      using observe_default by blast
    show ?thesis
      using s1(1) s2(1) capacity_default_eq [OF s2(2) s1(2)] planAll_capacity_only [OF s2(2) s1(2)]
      by (simp add: BuildPlansAt_planAll order_erase groups_erase flagged_erase
          planAll_erase [unfolded case_prod_unfold Let_def] case_prod_unfold)
  qed
  from plan [of as] plan [of bs] assms show ?thesis by auto
qed

section \<open>The second pass\<close>

lemma applyPlans_settled: "\<forall>p\<in>set ps. settled p \<Longrightarrow> applyPlans r node ps w = (None, w)"
  by (induction ps) (simp_all add: applyPlan_settled)

text \<open>The ledgers as a later listing returns them.\<close>

definition reread ::
    "('w \<Rightarrow> string \<times> string \<rightharpoonup> AIResourceAllocation) \<Rightarrow> 'w \<Rightarrow> AIResourceAllocation list \<Rightarrow>
     AIResourceAllocation list" where
  "reread st w ledgers = map (\<lambda>l. the (st w (object_key l))) ledgers"

lemma expand_erase:
  assumes "\<forall>l\<in>set ledgers. a_Meta (f l) = a_Meta l \<and> a_Spec (f l) = a_Spec l"
  shows "map erase (expandNodeAllocationLedgers (map f ledgers)) = map erase (expandNodeAllocationLedgers ledgers)"
  using assms
proof (induction ledgers)
  case (Cons l ledgers)
  have l: "a_Meta (f l) = a_Meta l" "a_Spec (f l) = a_Spec l" using Cons.prems by simp_all
  have "erase (expandWorkload (f l) e) = erase (expandWorkload l e)" for e
    unfolding erase_def expandWorkload_def Let_def l by simp
  moreover have "erase (f l) = erase l" by (simp add: erase_def l)
  ultimately show ?case
    using Cons.IH Cons.prems by (simp add: l(2))
qed simp

lemma reread_ledgers:
  assumes "readable_ledgers st w ledgers" and "\<And>k. fixed_part (st w' k) = fixed_part (st w k)"
  shows "readable_ledgers st w' (reread st w' ledgers)"
    and "map erase (expandNodeAllocationLedgers (reread st w' ledgers)) = map erase (expandNodeAllocationLedgers ledgers)"
proof -
  have same: "a_Meta (the (st w' (object_key l))) = a_Meta l \<and> a_Spec (the (st w' (object_key l))) = a_Spec l \<and>
      st w' (object_key l) \<noteq> None" if "l \<in> set ledgers" for l
  proof -
    have "st w (object_key l) = Some l" using assms(1) that by (simp add: readable_ledgers_def)
    with assms(2) [of "object_key l"] show ?thesis
      by (cases "st w' (object_key l)") (simp_all add: fixed_part_def)
  qed
  have keys: "map object_key (reread st w' ledgers) = map object_key ledgers"
    using same by (simp add: reread_def)
  show "map erase (expandNodeAllocationLedgers (reread st w' ledgers)) = map erase (expandNodeAllocationLedgers ledgers)"
    unfolding reread_def by (rule expand_erase) (use same in blast)
  show "readable_ledgers st w' (reread st w' ledgers)"
    using assms(1) same unfolding readable_ledgers_def keys by (auto simp: reread_def)
qed

lemma erase_slot [simp]: "slot (erase a) = slot a"
  using entry_name_cong [of "erase a" a] by (simp add: slot_def)

lemma map_eq_member: "map f xs = map f ys \<Longrightarrow> x \<in> set xs \<Longrightarrow> \<exists>y\<in>set ys. f y = f x"
  by (metis (no_types, lifting) image_iff list.set_map)

text \<open>
  C9. Planning and applying come to rest.  Take the ledgers of a node (distinct, non-empty entry
  names), requested amounts that are not negative, and a run that plans them and applies every
  plan without an error, where every plan is an assignment and every workload is the first of its
  ledger's status list, is read without a status, or already holds its assignment.  Then planning
  the ledgers as they are stored afterwards, at the same time of day and with the same node
  profile, ends with the same assignments, and applying those performs no write at all: every
  workload is settled.  The publishing of the node's status around the two steps is not part of
  the statement.
\<close>
theorem second_pass_writes_nothing:
  assumes "NewWithOptions os u name options = Inr (rc_backend r)" and "status_store (rc_client r) st"
    and "\<forall>req w res w'. be_Apply (rc_backend r) req w = (res, w') \<longrightarrow> st w' = st w"
    and "readable_ledgers st w ledgers" and "as = expandNodeAllocationLedgers ledgers"
    and "list_all budgets_nonneg as"
    and "BuildPlansAt NewDefaultScheduler (Some node) as now = Inr ps"
    and "list_all (\<lambda>p. pl_TargetPhase p \<noteq> AllocationPhaseFailed) ps"
    and "list_all (\<lambda>p. own_first (pl_Allocation p) \<or> settled p) ps"
    and "applyPlans r node ps w = (None, w')"
  shows "\<exists>qs. BuildPlansAt NewDefaultScheduler (Some node) (expandNodeAllocationLedgers (reread st w' ledgers)) now = Inr qs \<and>
    map pl_AssignedResources qs = map pl_AssignedResources ps \<and> applyPlans r node qs w' = (None, w')"
proof -
  have recs: "list_all recordable ps" using assms(8,9) by (auto simp: list_all_iff recordable_def)
  have pods: "\<forall>p\<in>set ps. pl_TargetPhase p = AllocationPhaseFailed \<longrightarrow> quiet_pods (rc_client r) st"
    using assms(8) by (simp add: list_all_iff)
  note first = pass_settles [OF NewWithOptions_contract [OF assms(1)] assms(2-7) recs pods assms(10)]
  note later = reread_ledgers [OF assms(4) first(2)]
  let ?bs = "expandNodeAllocationLedgers (reread st w' ledgers)"
  obtain qs where qs: "BuildPlansAt NewDefaultScheduler (Some node) ?bs now = Inr qs" "map erase_plan qs = map erase_plan ps"
    using BuildPlans_erase [OF _ assms(7), of ?bs] later(2) assms(5) by auto
  have "list_all budgets_nonneg (map erase ?bs)"
    using assms(6) by (simp only: later(2) assms(5) list.pred_map) (simp add: list_all_iff)
  then have nonneg: "list_all budgets_nonneg ?bs" by (simp add: list_all_iff)
  have mem: "pl_Allocation q \<in> set ?bs" if "q \<in> set qs" for q
    using mset_eq_setD [OF BuildPlans_facts(1) [OF qs(1) nonneg]] that by auto
  have "settled q" if q: "q \<in> set qs" for q
  proof -
    obtain p where p: "p \<in> set ps" "erase_plan p = erase_plan q"
      using map_eq_member [OF qs(2) q] by blast
    have same: "pl_TargetPhase q = pl_TargetPhase p" "pl_AssignedResources q = pl_AssignedResources p"
        "slot (pl_Allocation q) = slot (pl_Allocation p)"
      using p(2) by (metis erase_plan_simps erase_slot)+
    have "outcome_entry p (recorded_at st w' (slot (pl_Allocation q)))"
      using first(1) p(1) by (simp add: same(3))
    then have out: "outcome_entry q (recorded_at st w' (slot (pl_Allocation q)))"
      unfolding outcome_entry_def same(1,2) .
    moreover have "pl_TargetPhase q \<noteq> AllocationPhaseFailed"
      using assms(8) p(1) by (simp add: same(1) list_all_iff)
    moreover obtain l e where "pl_Allocation q = expandWorkload l e"
      "recorded_at st w' (slot (pl_Allocation q)) = workloadStatusByName (ast_Workloads (a_Status l)) (aw_Name e)"
      using expanded_recorded [OF later(1) mem [OF q]] by blast
    ultimately show ?thesis
      by (auto simp: outcome_entry_def expandWorkload_def Let_def)
  qed
  then have "applyPlans r node qs w' = (None, w')" by (intro applyPlans_settled ballI)
  moreover have "map pl_AssignedResources qs = map pl_AssignedResources ps"
    using arg_cong [OF qs(2), of "map pl_AssignedResources"] by (simp add: comp_def)
  ultimately show ?thesis using qs(1) by blast
qed

text \<open>The sample workload fits a node of four GPUs.\<close>

lemma sample_admitted:
  assumes "BuildPlansAt NewDefaultScheduler (Some four_gpu_node) sample_as now = Inr ps"
  shows "list_all (\<lambda>p. pl_TargetPhase p \<noteq> AllocationPhaseFailed) ps"
proof -
  let ?a = "expandWorkload sample_ledger sample_workload" and ?node = "Some four_gpu_node"
  let ?xs = "flagged now (groupAllocationsByPriority (orderAllocationsByPriorityAndWindow sample_as now))"
  have "\<exists>g. ?xs = [(?a, g)]"
    unfolding sample_as_simps(1) by (simp add: order_sort_key groupAllocationsByPriority_def flagged_def)
  then obtain g where xs: "?xs = [(?a, g)]" by blast
  obtain state where state: "observe NewDefaultScheduler ?node (orderAllocationsByPriorityAndWindow sample_as now) = Inr state"
      "manager_state ?node (orderAllocationsByPriorityAndWindow sample_as now) state"
    using observe_default by blast
  have ps: "ps = fst (planAll NewDefaultScheduler ?node state now (newLedger (capacityFromState state)) [(?a, g)])"
    using assms by (simp only: BuildPlansAt_planAll state(1) sum.case xs sum.inject)
  have "map outcome_of ps = greedy ?node now (local_capacity ?node) [(?a, g)]"
    unfolding ps using sample_as_simps(5) capacity_default [OF state(2)]
    by (intro planAll_greedy [OF state(2) four_gpu_nonneg]) (simp_all only: sample_as_simps(1) list.map fst_conv newLedger_def, simp_all)
  moreover have budgets: "requiredBudget ?a = gpuVec 1" "preferredBudget ?a = gpuVec 1" "maxBudget ?a = gpuVec 2"
    by (simp_all add: requiredBudget_def preferredBudget_def maxBudget_def expandWorkload_def Let_def
        sample_workload_def allocationWorkloadSpec_def example_profile_def)
  moreover have "\<exists>tier grant. decide ?node now (local_capacity ?node) ?a g = Assigned tier grant"
    by (simp add: decide_def budgets covers_def four_gpu_capacity val_gpus gpus_zero_iff needs_tokens_def all_dim Let_def)
  ultimately have "map outcome_of ps = [outcome_of (hd ps)] \<and> admitted (hd ps)"
    by (auto simp: outcome_of_def Let_def split: if_splits)
  then show ?thesis
    by (cases ps) (auto simp: admitted_def phase_defs)
qed

theorem second_pass_writes_nothing_witness:
  "\<exists>ps w' qs. BuildPlansAt NewDefaultScheduler (Some four_gpu_node) sample_as midnight = Inr ps \<and>
     applyPlans sample_reconciler four_gpu_node ps sample_world = (None, w') \<and>
     BuildPlansAt NewDefaultScheduler (Some four_gpu_node)
       (expandNodeAllocationLedgers (reread stored w' [sample_ledger])) midnight = Inr qs \<and>
     applyPlans sample_reconciler four_gpu_node qs w' = (None, w')"
proof -
  obtain state where "observe NewDefaultScheduler (Some four_gpu_node)
      (orderAllocationsByPriorityAndWindow sample_as midnight) = Inr state"
    using observe_default by blast
  then obtain ps where ps: "BuildPlansAt NewDefaultScheduler (Some four_gpu_node) sample_as midnight = Inr ps"
    by (simp only: BuildPlansAt_planAll sum.case)
  obtain w' where run: "applyPlans sample_reconciler four_gpu_node ps sample_world = (None, w')"
    using sample_applied [OF ps] by blast
  have "list_all (\<lambda>p. own_first (pl_Allocation p) \<or> settled p) ps"
    by (rule sample_plans [OF ps]) (use sample_as_simps(1,4) in simp)
  from second_pass_writes_nothing [OF sample_backend_accepts sample_store sample_quiet sample_as_simps(3) refl
      sample_as_simps(5) ps sample_admitted [OF ps] this run] ps run
  show ?thesis by blast
qed

end
