(* ===== verification/Watches.thy ===== *)
theory Watches
  imports Controller
begin

text \<open>
  What wakes the agent: \<open>SetupWithManager\<close> of \<open>agent/controller.go\<close> registers three watches with
  controller-runtime, each with a predicate on events and a handler that turns an event into
  reconcile requests.  The predicates and handlers that controller-runtime provides are parameters;
  \<open>runtime_lib_ok\<close> states their documented behaviour.
\<close>

section \<open>Events\<close>

text \<open>
  An object of an event, as the predicates read it: its metadata, its generation (which the API
  server raises with every change of the specification and with no change of the status) and, for
  the type assertion of \<open>nodeProfilePredicate\<close>, the node profile it is.  An object may be nil.
\<close>

record ApiObject =
  ob_Meta :: ObjectMeta
  ob_Generation :: int
  ob_NodeProfile :: "AINodeResourceProfile option"

datatype Event =
    CreateEvent "ApiObject option"
  | UpdateEvent "ApiObject option" "ApiObject option"
  | DeleteEvent "ApiObject option"
  | GenericEvent "ApiObject option"

type_synonym predicate = "Event \<Rightarrow> bool"
type_synonym request = "string \<times> string"

datatype WatchedKind = KindAllocation | KindNodeProfile | KindConfigMap

datatype WatchHandler = EnqueueObject | EnqueueMapped "ApiObject option \<Rightarrow> request list"

record Watch =
  wt_Kind :: WatchedKind
  wt_Handler :: WatchHandler
  wt_Predicate :: predicate

record RuntimeLib =
  rl_NewPredicateFuncs :: "(ApiObject option \<Rightarrow> bool) \<Rightarrow> predicate"
  rl_And :: "predicate \<Rightarrow> predicate \<Rightarrow> predicate"
  rl_GenerationChanged :: predicate
  rl_Enqueue :: "WatchHandler \<Rightarrow> Event \<Rightarrow> request list"

section \<open>The registration (controller.go)\<close>

definition nodePredicate :: "'w Reconciler \<Rightarrow> ApiObject option \<Rightarrow> bool" where
  "nodePredicate r object =
     (case object of
        None \<Rightarrow> False
      | Some ob \<Rightarrow> map_get (om_Labels (ob_Meta ob)) AllocationLabelNodeName = cf_NodeName (rc_config r))"

definition nodeProfilePredicate :: "'w Reconciler \<Rightarrow> ApiObject option \<Rightarrow> bool" where
  "nodeProfilePredicate r object =
     (case Option.bind object ob_NodeProfile of
        None \<Rightarrow> False
      | Some profile \<Rightarrow>
          ns_NodeName (n_Spec profile) = cf_NodeName (rc_config r) \<or> n_Name profile = cf_NodeName (rc_config r))"

definition fakeConfigMapPredicate :: "'w Reconciler \<Rightarrow> ApiObject option \<Rightarrow> bool" where
  "fakeConfigMapPredicate r object =
     (case object of
        None \<Rightarrow> False
      | Some ob \<Rightarrow>
          if cf_FakeResourceConfigMap (rc_config r) = [] then False
          else om_Name (ob_Meta ob) = cf_FakeResourceConfigMap (rc_config r) \<and>
            (cf_FakeResourceConfigMapNS (rc_config r) = [] \<or>
             om_Namespace (ob_Meta ob) = cf_FakeResourceConfigMapNS (rc_config r)))"

definition nodeRequest :: "'w Reconciler \<Rightarrow> ApiObject option \<Rightarrow> request list" where
  "nodeRequest r object = [(cf_NodeProfileNamespace (rc_config r), cf_NodeName (rc_config r))]"

definition agentWatches :: "RuntimeLib \<Rightarrow> 'w Reconciler \<Rightarrow> Watch list" where
  "agentWatches lib r =
     (let node = rl_NewPredicateFuncs lib (nodePredicate r);
          nodeProfile = rl_NewPredicateFuncs lib (nodeProfilePredicate r);
          fakeConfigMap = rl_NewPredicateFuncs lib (fakeConfigMapPredicate r);
          allocationChange = rl_And lib node (rl_GenerationChanged lib);
          nodeProfileChange = rl_And lib nodeProfile (rl_GenerationChanged lib)
      in [\<lparr>wt_Kind = KindAllocation, wt_Handler = EnqueueObject, wt_Predicate = allocationChange\<rparr>,
          \<lparr>wt_Kind = KindNodeProfile, wt_Handler = EnqueueMapped (nodeRequest r),
           wt_Predicate = nodeProfileChange\<rparr>,
          \<lparr>wt_Kind = KindConfigMap, wt_Handler = EnqueueMapped (nodeRequest r),
           wt_Predicate = fakeConfigMap\<rparr>])"

definition SetupWithManager ::
    "RuntimeLib \<Rightarrow> (Watch list \<Rightarrow> 'w Reconciler \<Rightarrow> 'w \<Rightarrow> ApiError option \<times> 'w) \<Rightarrow> 'w Reconciler \<Rightarrow> 'w \<Rightarrow>
     ApiError option \<times> 'w" where
  "SetupWithManager lib register r w = register (agentWatches lib r) r w"

section \<open>What wakes the agent\<close>

text \<open>The documented behaviour of the predicates and handlers of controller-runtime.\<close>

fun event_objects :: "Event \<Rightarrow> ApiObject option list" where
  "event_objects (CreateEvent ob) = [ob]"
| "event_objects (UpdateEvent old new) = [old, new]"
| "event_objects (DeleteEvent ob) = [ob]"
| "event_objects (GenericEvent ob) = [ob]"

text \<open>The object an event is about: of an update the new one, the old one only when there is no new one.\<close>

fun event_object :: "Event \<Rightarrow> ApiObject option" where
  "event_object (UpdateEvent old None) = old"
| "event_object ev = last (event_objects ev)"

definition object_request :: "ApiObject option \<Rightarrow> request list" where
  "object_request ob = (case ob of None \<Rightarrow> [] | Some x \<Rightarrow> [(om_Namespace (ob_Meta x), om_Name (ob_Meta x))])"

definition runtime_lib_ok :: "RuntimeLib \<Rightarrow> bool" where
  "runtime_lib_ok lib \<longleftrightarrow>
     (\<forall>f ev. rl_NewPredicateFuncs lib f ev = f (last (event_objects ev))) \<and>
     (\<forall>p q ev. rl_And lib p q ev = (p ev \<and> q ev)) \<and>
     (\<forall>old new. rl_GenerationChanged lib (UpdateEvent (Some old) (Some new)) = (ob_Generation new \<noteq> ob_Generation old)) \<and>
     (\<forall>ob. rl_GenerationChanged lib (CreateEvent ob) \<and> rl_GenerationChanged lib (DeleteEvent ob) \<and>
        rl_GenerationChanged lib (GenericEvent ob)) \<and>
     (\<forall>ev. set (rl_Enqueue lib EnqueueObject ev) = set (object_request (event_object ev))) \<and>
     (\<forall>f ev. set (rl_Enqueue lib (EnqueueMapped f) ev) = (\<Union>ob\<in>set (event_objects ev). set (f ob)))"

text \<open>The requests that an event of a kind of object leads to, given the registered watches.\<close>

definition requests_for :: "RuntimeLib \<Rightarrow> Watch list \<Rightarrow> WatchedKind \<Rightarrow> Event \<Rightarrow> request list" where
  "requests_for lib watches kind ev =
     concat (map (\<lambda>wt. rl_Enqueue lib (wt_Handler wt) ev)
       (filter (\<lambda>wt. wt_Kind wt = kind \<and> wt_Predicate wt ev) watches))"

lemma runtime_lib_laws:
  assumes "runtime_lib_ok lib"
  shows "rl_NewPredicateFuncs lib f ev = f (last (event_objects ev))"
    and "rl_And lib p q ev = (p ev \<and> q ev)"
    and "rl_GenerationChanged lib (UpdateEvent (Some old) (Some new)) = (ob_Generation new \<noteq> ob_Generation old)"
    and "rl_GenerationChanged lib (CreateEvent ob)" "rl_GenerationChanged lib (DeleteEvent ob)"
    and "set (rl_Enqueue lib EnqueueObject ev) = set (object_request (event_object ev))"
    and "set (rl_Enqueue lib (EnqueueMapped g) ev) = (\<Union>ob\<in>set (event_objects ev). set (g ob))"
  using assms by (simp_all add: runtime_lib_ok_def)

lemma requests_simps:
  assumes "runtime_lib_ok lib"
  shows "set (requests_for lib (agentWatches lib r) KindAllocation ev) =
      (if nodePredicate r (last (event_objects ev)) \<and> rl_GenerationChanged lib ev
       then set (object_request (event_object ev)) else {})"
    and "set (requests_for lib (agentWatches lib r) KindNodeProfile ev) =
      (if nodeProfilePredicate r (last (event_objects ev)) \<and> rl_GenerationChanged lib ev
       then {(cf_NodeProfileNamespace (rc_config r), cf_NodeName (rc_config r))} else {})"
    and "set (requests_for lib (agentWatches lib r) KindConfigMap ev) =
      (if fakeConfigMapPredicate r (last (event_objects ev))
       then {(cf_NodeProfileNamespace (rc_config r), cf_NodeName (rc_config r))} else {})"
proof -
  have "set (event_objects ev) \<noteq> {}" by (cases ev) simp_all
  then show
    "set (requests_for lib (agentWatches lib r) KindAllocation ev) =
      (if nodePredicate r (last (event_objects ev)) \<and> rl_GenerationChanged lib ev
       then set (object_request (event_object ev)) else {})"
    "set (requests_for lib (agentWatches lib r) KindNodeProfile ev) =
      (if nodeProfilePredicate r (last (event_objects ev)) \<and> rl_GenerationChanged lib ev
       then {(cf_NodeProfileNamespace (rc_config r), cf_NodeName (rc_config r))} else {})"
    "set (requests_for lib (agentWatches lib r) KindConfigMap ev) =
      (if fakeConfigMapPredicate r (last (event_objects ev))
       then {(cf_NodeProfileNamespace (rc_config r), cf_NodeName (rc_config r))} else {})"
    by (auto simp: requests_for_def agentWatches_def nodeRequest_def Let_def runtime_lib_laws [OF assms])
qed

text \<open>
  C26. The agent wakes for changes of what it is asked to do, not for its own reports.  An update of an
  allocation leads to a request exactly when the allocation carries the label of the agent's node
  and its generation changed, and then for the allocation's own name; an update of a node profile
  leads to the one request of the node exactly when the profile is the node's and its generation
  changed.  A write of a status, which keeps the generation, wakes nothing, so recording an outcome
  and publishing the node's report cannot start another reconciliation.
\<close>
theorem agent_wakes_on_spec_changes:
  assumes "runtime_lib_ok lib"
  shows "set (requests_for lib (agentWatches lib r) KindAllocation (UpdateEvent (Some old) (Some new))) =
      (if map_get (om_Labels (ob_Meta new)) AllocationLabelNodeName = cf_NodeName (rc_config r) \<and>
          ob_Generation new \<noteq> ob_Generation old
       then {(om_Namespace (ob_Meta new), om_Name (ob_Meta new))} else {}) \<and>
    set (requests_for lib (agentWatches lib r) KindNodeProfile (UpdateEvent (Some old) (Some new))) =
      (if (\<exists>profile. ob_NodeProfile new = Some profile \<and>
             cf_NodeName (rc_config r) \<in> {ns_NodeName (n_Spec profile), n_Name profile}) \<and>
          ob_Generation new \<noteq> ob_Generation old
       then {(cf_NodeProfileNamespace (rc_config r), cf_NodeName (rc_config r))} else {})"
  by (simp add: requests_simps [OF assms] runtime_lib_laws(3) [OF assms] nodePredicate_def nodeProfilePredicate_def
      object_request_def split: option.splits) auto

text \<open>The library as documented.\<close>

definition documented_lib :: RuntimeLib where
  "documented_lib =
     \<lparr>rl_NewPredicateFuncs = (\<lambda>f ev. f (last (event_objects ev))),
      rl_And = (\<lambda>p q ev. p ev \<and> q ev),
      rl_GenerationChanged = (\<lambda>ev. case ev of
          UpdateEvent (Some old) (Some new) \<Rightarrow> ob_Generation new \<noteq> ob_Generation old
        | UpdateEvent _ _ \<Rightarrow> False
        | _ \<Rightarrow> True),
      rl_Enqueue = (\<lambda>h ev. case h of
          EnqueueObject \<Rightarrow> object_request (event_object ev)
        | EnqueueMapped f \<Rightarrow> concat (map f (event_objects ev)))\<rparr>"

lemma documented_lib_ok: "runtime_lib_ok documented_lib"
  by (simp add: runtime_lib_ok_def documented_lib_def)

theorem agent_wakes_on_spec_changes_witness:
  "set (requests_for documented_lib (agentWatches documented_lib sample_reconciler) KindAllocation
     (UpdateEvent
        (Some \<lparr>ob_Meta = a_Meta sample_ledger, ob_Generation = 1, ob_NodeProfile = None\<rparr>)
        (Some \<lparr>ob_Meta = (a_Meta sample_ledger) \<lparr>om_Labels := [AllocationLabelNodeName \<mapsto> ''n1'']\<rparr>,
               ob_Generation = 2, ob_NodeProfile = None\<rparr>))) = {(''astra-system'', ''n1-allocation'')}"
  by (simp add: agent_wakes_on_spec_changes [OF documented_lib_ok, THEN conjunct1] sample_reconciler_simps map_get_def)
    (simp add: sample_ledger_def)

end
