(* ===== verification/Flags.thy ===== *)
theory Flags
  imports Prelude
begin

text \<open>
  Go's package \<open>flag\<close>, as far as the commands use it: string and boolean flags with defaults, the
  argument loop of \<open>FlagSet.Parse\<close> and its exit codes (the command line's flag set exits on an
  error: 2, or 0 for a request for help).  Flags that other packages register on the same flag
  set have a test for the values they accept.
\<close>

section \<open>The flag set\<close>

datatype FlagKind = StringFlag | BoolFlag | OtherFlag bool "string \<Rightarrow> bool"

type_synonym formal = "string \<rightharpoonup> FlagKind"
type_synonym actual = "string \<rightharpoonup> string"

definition ParseBool :: "string \<Rightarrow> bool option" where
  "ParseBool s =
     (if s \<in> {''1'', ''t'', ''T'', ''true'', ''TRUE'', ''True''} then Some True
      else if s \<in> {''0'', ''f'', ''F'', ''false'', ''FALSE'', ''False''} then Some False
      else None)"

text \<open>\<open>IsBoolFlag\<close> and \<open>Set\<close> of a flag's value.\<close>

fun isBoolFlag :: "FlagKind \<Rightarrow> bool" where
  "isBoolFlag StringFlag = False"
| "isBoolFlag BoolFlag = True"
| "isBoolFlag (OtherFlag b accepts) = b"

fun accepts :: "FlagKind \<Rightarrow> string \<Rightarrow> bool" where
  "accepts StringFlag v = True"
| "accepts BoolFlag v = (ParseBool v \<noteq> None)"
| "accepts (OtherFlag b ok) v = ok v"

datatype flagStep = Done "string list" | Seen "string list" actual | Help | Bad

text \<open>
  The name and value of an argument after its hyphens: an equals sign anywhere but in front
  separates them.
\<close>

definition splitFlag :: "string \<Rightarrow> string \<times> string option" where
  "splitFlag s =
     (case s of
        [] \<Rightarrow> ([], None)
      | c # rest \<Rightarrow>
          (c # takeWhile (\<lambda>x. x \<noteq> CHR ''='') rest,
           (case dropWhile (\<lambda>x. x \<noteq> CHR ''='') rest of [] \<Rightarrow> None | _ # value \<Rightarrow> Some value)))"

definition setFlag :: "FlagKind \<Rightarrow> string \<Rightarrow> string option \<Rightarrow> string list \<Rightarrow> actual \<Rightarrow> flagStep" where
  "setFlag kind name value args vals =
     (if isBoolFlag kind then
        (let v = (case value of Some v \<Rightarrow> v | None \<Rightarrow> ''true'')
         in if accepts kind v then Seen args (vals(name \<mapsto> v)) else Bad)
      else
        (case (value, args) of
           (Some v, _) \<Rightarrow> if accepts kind v then Seen args (vals(name \<mapsto> v)) else Bad
         | (None, v # args') \<Rightarrow> if accepts kind v then Seen args' (vals(name \<mapsto> v)) else Bad
         | (None, []) \<Rightarrow> Bad))"

definition parseOne :: "formal \<Rightarrow> string list \<Rightarrow> actual \<Rightarrow> flagStep" where
  "parseOne formal args vals =
     (case args of
        [] \<Rightarrow> Done []
      | s # args' \<Rightarrow>
          if length s < 2 \<or> s ! 0 \<noteq> CHR ''-'' then Done args
          else if s = ''--'' then Done args'
          else
            (let rest = (if s ! 1 = CHR ''-'' then drop 2 s else drop 1 s) in
             if rest = [] \<or> hd rest = CHR ''-'' \<or> hd rest = CHR ''='' then Bad
             else
               (let (name, value) = splitFlag rest in
                case formal name of
                  None \<Rightarrow> if name = ''help'' \<or> name = ''h'' then Help else Bad
                | Some kind \<Rightarrow> setFlag kind name value args' vals)))"

lemma parseOne_shrinks: "parseOne formal args vals = Seen args' vals' \<Longrightarrow> length args' < length args"
  by (auto simp: parseOne_def setFlag_def Let_def split: list.splits if_splits prod.splits option.splits)

datatype parsed = Exits nat | Parsed actual "string list"

text \<open>The loop of \<open>Parse\<close>: every round takes at least one argument.\<close>

function Parse :: "formal \<Rightarrow> string list \<Rightarrow> actual \<Rightarrow> parsed" where
  "Parse formal args vals =
     (case parseOne formal args vals of
        Seen args' vals' \<Rightarrow> Parse formal args' vals'
      | Done args' \<Rightarrow> Parsed vals args'
      | Help \<Rightarrow> Exits 0
      | Bad \<Rightarrow> Exits 2)"
  by pat_completeness auto
termination
  by (relation "measure (\<lambda>(formal, args, vals). length args)") (auto dest: parseOne_shrinks)

declare Parse.simps [simp del]

definition stringValue :: "actual \<Rightarrow> string \<Rightarrow> string \<Rightarrow> string" where
  "stringValue vals name preset = (case vals name of Some v \<Rightarrow> v | None \<Rightarrow> preset)"

definition boolValue :: "actual \<Rightarrow> string \<Rightarrow> bool \<Rightarrow> bool" where
  "boolValue vals name preset =
     (case Option.bind (vals name) ParseBool of Some b \<Rightarrow> b | None \<Rightarrow> preset)"

section \<open>Written flags are read back\<close>

definition flag_name :: "string \<Rightarrow> bool" where
  "flag_name n \<longleftrightarrow> n \<noteq> [] \<and> hd n \<noteq> CHR ''-'' \<and> CHR ''='' \<notin> set n"

definition write_flag :: "string \<times> string \<Rightarrow> string" where
  "write_flag = (\<lambda>(n, v). ''--'' @ n @ ''='' @ v)"

lemma splitFlag_written: "flag_name n \<Longrightarrow> splitFlag (n @ ''='' @ v) = (n, Some v)"
  by (cases n) (auto simp: flag_name_def splitFlag_def takeWhile_append dropWhile_append)

lemma parseOne_written:
  assumes "flag_name n" and "formal n = Some kind" and "accepts kind v"
  shows "parseOne formal (write_flag (n, v) # args) vals = Seen args (vals(n \<mapsto> v))"
proof -
  have n: "n \<noteq> []" "hd n \<noteq> CHR ''-''" "hd n \<noteq> CHR ''=''"
    using assms(1) by (cases n; auto simp: flag_name_def)+
  then show ?thesis
    using assms splitFlag_written [OF assms(1), of v]
    by (simp add: parseOne_def write_flag_def setFlag_def Let_def)
qed

lemma Parse_written:
  assumes "\<forall>(n, v)\<in>set xs. flag_name n \<and> (\<exists>kind. formal n = Some kind \<and> accepts kind v)"
  shows "Parse formal (map write_flag xs) vals = Parsed (vals ++ map_of (rev xs)) []"
  using assms
proof (induction xs arbitrary: vals)
  case Nil
  then show ?case by (simp add: Parse.simps parseOne_def)
next
  case (Cons x xs)
  obtain n v where x: "x = (n, v)" by (cases x)
  have "parseOne formal (map write_flag (x # xs)) vals = Seen (map write_flag xs) (vals(n \<mapsto> v))"
    using Cons.prems parseOne_written [of n formal _ v "map write_flag xs" vals] by (auto simp: x)
  then have "Parse formal (map write_flag (x # xs)) vals = Parse formal (map write_flag xs) (vals(n \<mapsto> v))"
    by (subst Parse.simps) simp
  also have "\<dots> = Parsed (vals(n \<mapsto> v) ++ map_of (rev xs)) []"
    using Cons by simp
  finally show ?case
    by (simp add: x map_add_def fun_eq_iff split: option.splits)
qed

end
