(* ===== verification/Commands.thy ===== *)
theory Commands
  imports Watches Flags
begin

text \<open>
  The three commands: \<open>src/cmd/agent/main.go\<close>, \<open>src/cmd/operator/main.go\<close> and
  \<open>src/cmd/scheduler/main.go\<close> with \<open>New\<close> of \<open>scheduler/plugin/plugin.go\<close>.  A command is a function
  from its arguments to an exit code; the managers of controller-runtime and the scheduler command
  of Kubernetes are parameters.  Loggers are left out, and so is the registration of the types
  in \<open>init\<close>.
\<close>

text \<open>The calls of a command after its setup: the first error ends it with exit code 1.\<close>

fun runSteps :: "('w \<Rightarrow> ApiError option \<times> 'w) list \<Rightarrow> 'w \<Rightarrow> nat \<times> 'w" where
  "runSteps [] w = (0, w)"
| "runSteps (step # steps) w =
     (case step w of (Some err, w1) \<Rightarrow> (1, w1) | (None, w1) \<Rightarrow> runSteps steps w1)"

section \<open>The agent (cmd/agent/main.go)\<close>

definition agentFlags :: formal where
  "agentFlags =
     [''node-name'' \<mapsto> StringFlag, ''node-profile-namespace'' \<mapsto> StringFlag, ''backend'' \<mapsto> StringFlag,
      ''fake-resource-configmap'' \<mapsto> StringFlag, ''fake-resource-configmap-namespace'' \<mapsto> StringFlag,
      ''metrics-bind-address'' \<mapsto> StringFlag, ''health-probe-bind-address'' \<mapsto> StringFlag]"

record AgentSettings =
  ag_nodeName :: string
  ag_nodeProfileNamespace :: string
  ag_backendType :: string
  ag_fakeResourceConfigMap :: string
  ag_fakeResourceConfigMapNamespace :: string
  ag_metricsAddr :: string
  ag_probeAddr :: string

definition agentSettings :: "(string \<Rightarrow> string) \<Rightarrow> actual \<Rightarrow> AgentSettings" where
  "agentSettings getenv vals =
     \<lparr>ag_nodeName = stringValue vals ''node-name'' (getenv ''NODE_NAME''),
      ag_nodeProfileNamespace = stringValue vals ''node-profile-namespace'' ''astra-system'',
      ag_backendType = stringValue vals ''backend'' ''fake'',
      ag_fakeResourceConfigMap =
        stringValue vals ''fake-resource-configmap'' (getenv ''FAKE_RESOURCE_CONFIGMAP''),
      ag_fakeResourceConfigMapNamespace =
        stringValue vals ''fake-resource-configmap-namespace'' (getenv ''FAKE_RESOURCE_CONFIGMAP_NAMESPACE''),
      ag_metricsAddr = stringValue vals ''metrics-bind-address'' '':8080'',
      ag_probeAddr = stringValue vals ''health-probe-bind-address'' '':8081''\<rparr>"

record AgentManagerOptions =
  am_MetricsBindAddress :: string
  am_HealthProbeBindAddress :: string

record 'w ManagerClient =
  mc_Client :: "'w AgentClient"
  mc_GetConfigMap :: "'w \<Rightarrow> string \<Rightarrow> string \<Rightarrow> ApiError + (string \<rightharpoonup> string)"

text \<open>\<open>ml_HaveConfig\<close> is the outcome of \<open>GetConfigOrDie\<close>, which exits with 1 by itself.\<close>

record 'w ManagerLib =
  ml_HaveConfig :: "'w \<Rightarrow> bool"
  ml_NewManager :: "AgentManagerOptions \<Rightarrow> 'w \<Rightarrow> (ApiError + 'w ManagerClient) \<times> 'w"
  ml_Complete :: "Watch list \<Rightarrow> 'w Reconciler \<Rightarrow> 'w \<Rightarrow> ApiError option \<times> 'w"
  ml_AddHealthzCheck :: "string \<Rightarrow> 'w \<Rightarrow> ApiError option \<times> 'w"
  ml_AddReadyzCheck :: "string \<Rightarrow> 'w \<Rightarrow> ApiError option \<times> 'w"
  ml_Start :: "'w \<Rightarrow> ApiError option \<times> 'w"

definition agent_main ::
    "'w Host \<Rightarrow> (string \<Rightarrow> ApiError + FakeNodeResourceConfig) \<Rightarrow> RuntimeLib \<Rightarrow> formal \<Rightarrow> 'w ManagerLib \<Rightarrow>
     string list \<Rightarrow> 'w \<Rightarrow> nat \<times> 'w" where
  "agent_main os unmarshal lib others ml args w =
     (case Parse (others ++ agentFlags) args Map.empty of
        Exits code \<Rightarrow> (code, w)
      | Parsed vals rest \<Rightarrow>
          (let s = agentSettings (ho_Getenv os) vals in
           if ag_nodeName s = [] then (1, w)
           else
             (let configMapNamespace =
                    (if ag_fakeResourceConfigMapNamespace s = [] then ag_nodeProfileNamespace s
                     else ag_fakeResourceConfigMapNamespace s)
              in if \<not> ml_HaveConfig ml w then (1, w)
                 else
                   (case ml_NewManager ml
                           \<lparr>am_MetricsBindAddress = ag_metricsAddr s, am_HealthProbeBindAddress = ag_probeAddr s\<rparr> w of
                      (Inl err, w1) \<Rightarrow> (1, w1)
                    | (Inr mgr, w1) \<Rightarrow>
                        (case NewWithOptions os unmarshal (ag_backendType s)
                                \<lparr>op_Client = Some (mc_GetConfigMap mgr), op_NodeName = ag_nodeName s,
                                 op_ConfigMapNamespace = configMapNamespace,
                                 op_ConfigMapName = ag_fakeResourceConfigMap s\<rparr> of
                           Inl err \<Rightarrow> (1, w1)
                         | Inr nodeBackend \<Rightarrow>
                             (let reconciler =
                                    NewReconciler
                                      \<lparr>cf_NodeName = ag_nodeName s,
                                       cf_NodeProfileNamespace = ag_nodeProfileNamespace s,
                                       cf_FakeResourceConfigMap = ag_fakeResourceConfigMap s,
                                       cf_FakeResourceConfigMapNS = configMapNamespace\<rparr>
                                      (mc_Client mgr) nodeBackend
                              in runSteps
                                   [SetupWithManager lib (ml_Complete ml) reconciler,
                                    ml_AddHealthzCheck ml ''healthz'', ml_AddReadyzCheck ml ''readyz'',
                                    ml_Start ml] w1))))))"

section \<open>The operator (cmd/operator/main.go)\<close>

definition operatorFlags :: formal where
  "operatorFlags =
     [''metrics-bind-address'' \<mapsto> StringFlag, ''health-probe-bind-address'' \<mapsto> StringFlag,
      ''leader-elect'' \<mapsto> BoolFlag, ''metrics-secure'' \<mapsto> BoolFlag,
      ''webhook-cert-path'' \<mapsto> StringFlag, ''webhook-cert-name'' \<mapsto> StringFlag,
      ''webhook-cert-key'' \<mapsto> StringFlag, ''metrics-cert-path'' \<mapsto> StringFlag,
      ''metrics-cert-name'' \<mapsto> StringFlag, ''metrics-cert-key'' \<mapsto> StringFlag,
      ''enable-http2'' \<mapsto> BoolFlag]"

record TLSConfig =
  tls_NextProtos :: "string list"

type_synonym tlsOption = "TLSConfig \<Rightarrow> TLSConfig"

record WebhookOptions =
  wh_TLSOpts :: "tlsOption list"
  wh_CertDir :: string
  wh_CertName :: string
  wh_KeyName :: string

datatype FilterProvider = WithAuthenticationAndAuthorization

record MetricsOptions =
  me_BindAddress :: string
  me_SecureServing :: bool
  me_TLSOpts :: "tlsOption list"
  me_FilterProvider :: "FilterProvider option"
  me_CertDir :: string
  me_CertName :: string
  me_KeyName :: string

record OperatorManagerOptions =
  oo_Metrics :: MetricsOptions
  oo_WebhookServer :: WebhookOptions
  oo_HealthProbeBindAddress :: string
  oo_LeaderElection :: bool
  oo_LeaderElectionID :: string

definition disableHTTP2 :: tlsOption where
  "disableHTTP2 c = c \<lparr>tls_NextProtos := [''http/1.1'']\<rparr>"

definition operatorTLSOpts :: "actual \<Rightarrow> tlsOption list" where
  "operatorTLSOpts vals = (if \<not> boolValue vals ''enable-http2'' False then [disableHTTP2] else [])"

definition webhookServerOptions :: "actual \<Rightarrow> WebhookOptions" where
  "webhookServerOptions vals =
     (let options = \<lparr>wh_TLSOpts = operatorTLSOpts vals, wh_CertDir = [], wh_CertName = [], wh_KeyName = []\<rparr> in
      if length (stringValue vals ''webhook-cert-path'' []) > 0
      then options \<lparr>wh_CertDir := stringValue vals ''webhook-cert-path'' [],
                    wh_CertName := stringValue vals ''webhook-cert-name'' ''tls.crt'',
                    wh_KeyName := stringValue vals ''webhook-cert-key'' ''tls.key''\<rparr>
      else options)"

definition metricsServerOptions :: "actual \<Rightarrow> MetricsOptions" where
  "metricsServerOptions vals =
     (let secureMetrics = boolValue vals ''metrics-secure'' True;
          options =
            \<lparr>me_BindAddress = stringValue vals ''metrics-bind-address'' ''0'', me_SecureServing = secureMetrics,
             me_TLSOpts = operatorTLSOpts vals, me_FilterProvider = None,
             me_CertDir = [], me_CertName = [], me_KeyName = []\<rparr>;
          options1 =
            (if secureMetrics then options \<lparr>me_FilterProvider := Some WithAuthenticationAndAuthorization\<rparr> else options)
      in if length (stringValue vals ''metrics-cert-path'' []) > 0
         then options1 \<lparr>me_CertDir := stringValue vals ''metrics-cert-path'' [],
                        me_CertName := stringValue vals ''metrics-cert-name'' ''tls.crt'',
                        me_KeyName := stringValue vals ''metrics-cert-key'' ''tls.key''\<rparr>
         else options1)"

definition operatorManagerOptions :: "actual \<Rightarrow> OperatorManagerOptions" where
  "operatorManagerOptions vals =
     \<lparr>oo_Metrics = metricsServerOptions vals, oo_WebhookServer = webhookServerOptions vals,
      oo_HealthProbeBindAddress = stringValue vals ''health-probe-bind-address'' '':8081'',
      oo_LeaderElection = boolValue vals ''leader-elect'' False,
      oo_LeaderElectionID = ''a6ac0981.aiinfra.io''\<rparr>"

record 'w OperatorLib =
  ol_HaveConfig :: "'w \<Rightarrow> bool"
  ol_NewManager :: "OperatorManagerOptions \<Rightarrow> 'w \<Rightarrow> ApiError option \<times> 'w"
  ol_AddHealthzCheck :: "string \<Rightarrow> 'w \<Rightarrow> ApiError option \<times> 'w"
  ol_AddReadyzCheck :: "string \<Rightarrow> 'w \<Rightarrow> ApiError option \<times> 'w"
  ol_Start :: "'w \<Rightarrow> ApiError option \<times> 'w"

definition operator_main :: "formal \<Rightarrow> 'w OperatorLib \<Rightarrow> string list \<Rightarrow> 'w \<Rightarrow> nat \<times> 'w" where
  "operator_main others ol args w =
     (case Parse (others ++ operatorFlags) args Map.empty of
        Exits code \<Rightarrow> (code, w)
      | Parsed vals rest \<Rightarrow>
          if \<not> ol_HaveConfig ol w then (1, w)
          else
            runSteps
              [ol_NewManager ol (operatorManagerOptions vals), ol_AddHealthzCheck ol ''healthz'',
               ol_AddReadyzCheck ol ''readyz'', ol_Start ol] w)"

section \<open>The scheduler (cmd/scheduler/main.go, plugin.go)\<close>

definition PluginName :: string where "PluginName = ''AstraScheduler''"
definition NodeResourceNamespaceEnv :: string where
  "NodeResourceNamespaceEnv = ''ASTRA_NODE_RESOURCE_NAMESPACE''"

text \<open>
  \<open>New\<close>: registering the types with a fresh scheme and building the API client may fail.  The outcome of
  the first and, for the content type that the configuration is set to, of the second are
  arguments; the policy that the plugin holds has no state.
\<close>

definition plugin_New ::
    "(string \<Rightarrow> string) \<Rightarrow> ApiError option \<Rightarrow> (string \<Rightarrow> ApiError + ApiClient) \<Rightarrow> ApiError + AstraScheduler" where
  "plugin_New getenv addToScheme newClient =
     (case addToScheme of
        Some err \<Rightarrow> Inl err
      | None \<Rightarrow>
          (case newClient ''application/json'' of
             Inl err \<Rightarrow> Inl err
           | Inr client \<Rightarrow>
               Inr \<lparr>pg_client = client,
                    pg_nodeResourceNamespace = nodeResourceNamespace (getenv NodeResourceNamespaceEnv)\<rparr>))"

type_synonym pluginFactory =
  "(string \<Rightarrow> string) \<Rightarrow> ApiError option \<Rightarrow> (string \<Rightarrow> ApiError + ApiClient) \<Rightarrow> ApiError + AstraScheduler"

definition scheduler_main :: "((string \<times> pluginFactory) list \<Rightarrow> 'w \<Rightarrow> nat \<times> 'w) \<Rightarrow> 'w \<Rightarrow> nat \<times> 'w" where
  "scheduler_main run w = run [(PluginName, plugin_New)] w"

section \<open>What the commands guarantee\<close>

lemma runSteps_ok:
  "runSteps [] w = (0, w') \<longleftrightarrow> w' = w"
  "runSteps (step # steps) w = (0, w') \<longleftrightarrow> (\<exists>w1. step w = (None, w1) \<and> runSteps steps w1 = (0, w'))"
  by (auto split: prod.splits option.splits)

text \<open>
  Written flags are read back: when all settings of the agent are given as flags on the command
  line, the argument loop ends with them and nothing else, whatever the environment says and
  whatever other flags are registered.
\<close>
lemma agent_flags_round_trip:
  "\<exists>vals. Parse (others ++ agentFlags)
       (map write_flag
          [(''node-name'', ag_nodeName s), (''node-profile-namespace'', ag_nodeProfileNamespace s),
           (''backend'', ag_backendType s), (''fake-resource-configmap'', ag_fakeResourceConfigMap s),
           (''fake-resource-configmap-namespace'', ag_fakeResourceConfigMapNamespace s),
           (''metrics-bind-address'', ag_metricsAddr s), (''health-probe-bind-address'', ag_probeAddr s)])
       Map.empty = Parsed vals [] \<and> agentSettings getenv vals = s"
  by (subst Parse_written) (simp_all add: agentFlags_def flag_name_def agentSettings_def stringValue_def)

text \<open>
  C35. The agent serves the node it was told to, or fails.  When the command ends with exit code 0 and
  was not a call for help, the node name, from the flag or else from the environment, is not empty;
  the manager was created, and the reconciler that was registered with the agent's watches is for
  that node and has the configured namespaces: the node profile namespace of the flag (by default
  \<open>astra-system\<close>), the ConfigMap name of the flag or the environment, and as its namespace that of
  the flag or the environment, or else the node profile namespace.  The reconciler plans with the
  default local scheduler, and its backend is the configured one, created for the same node and
  ConfigMap with the manager's client, and keeps the backend contract; every later step succeeded.
  A missing node name, an unknown backend and every failing step end the command with another code.
\<close>
theorem agent_command_serves_node:
  assumes "agent_main os unmarshal lib others ml args w = (0, w')"
  shows "Parse (others ++ agentFlags) args Map.empty = Exits 0 \<or>
    (\<exists>vals rest mgr r w1 w2 w3 w4. Parse (others ++ agentFlags) args Map.empty = Parsed vals rest \<and>
       ml_NewManager ml \<lparr>am_MetricsBindAddress = stringValue vals ''metrics-bind-address'' '':8080'',
          am_HealthProbeBindAddress = stringValue vals ''health-probe-bind-address'' '':8081''\<rparr> w = (Inr mgr, w1) \<and>
       ml_Complete ml (agentWatches lib r) r w1 = (None, w2) \<and> ml_AddHealthzCheck ml ''healthz'' w2 = (None, w3) \<and>
       ml_AddReadyzCheck ml ''readyz'' w3 = (None, w4) \<and> ml_Start ml w4 = (None, w') \<and>
       cf_NodeName (rc_config r) = stringValue vals ''node-name'' (ho_Getenv os ''NODE_NAME'') \<and>
       cf_NodeName (rc_config r) \<noteq> [] \<and>
       cf_NodeProfileNamespace (rc_config r) = stringValue vals ''node-profile-namespace'' ''astra-system'' \<and>
       cf_FakeResourceConfigMap (rc_config r) =
         stringValue vals ''fake-resource-configmap'' (ho_Getenv os ''FAKE_RESOURCE_CONFIGMAP'') \<and>
       cf_FakeResourceConfigMapNS (rc_config r) =
         (let ns = stringValue vals ''fake-resource-configmap-namespace'' (ho_Getenv os ''FAKE_RESOURCE_CONFIGMAP_NAMESPACE'')
          in if ns = [] then cf_NodeProfileNamespace (rc_config r) else ns) \<and>
       rc_client r = mc_Client mgr \<and> rc_local r = NewDefaultScheduler \<and>
       NewWithOptions os unmarshal (stringValue vals ''backend'' ''fake'')
         \<lparr>op_Client = Some (mc_GetConfigMap mgr), op_NodeName = cf_NodeName (rc_config r),
          op_ConfigMapNamespace = cf_FakeResourceConfigMapNS (rc_config r),
          op_ConfigMapName = cf_FakeResourceConfigMap (rc_config r)\<rparr> = Inr (rc_backend r) \<and>
       agent_backend (rc_backend r))"
proof (cases "Parse (others ++ agentFlags) args Map.empty")
  case (Exits code)
  with assms show ?thesis by (simp add: agent_main_def)
next
  case (Parsed vals rest)
  let ?s = "agentSettings (ho_Getenv os) vals"
  let ?ns = "if ag_fakeResourceConfigMapNamespace ?s = [] then ag_nodeProfileNamespace ?s
    else ag_fakeResourceConfigMapNamespace ?s"
  have name: "ag_nodeName ?s \<noteq> []" and config: "ml_HaveConfig ml w"
    using assms Parsed by (auto simp: agent_main_def Let_def split: if_splits)
  obtain mgr w1 where mgr: "ml_NewManager ml
      \<lparr>am_MetricsBindAddress = ag_metricsAddr ?s, am_HealthProbeBindAddress = ag_probeAddr ?s\<rparr> w = (Inr mgr, w1)"
    using assms Parsed name config by (auto simp: agent_main_def Let_def split: prod.splits sum.splits)
  let ?options = "\<lparr>op_Client = Some (mc_GetConfigMap mgr), op_NodeName = ag_nodeName ?s,
    op_ConfigMapNamespace = ?ns, op_ConfigMapName = ag_fakeResourceConfigMap ?s\<rparr>"
  let ?reconciler = "\<lambda>b. NewReconciler
      \<lparr>cf_NodeName = ag_nodeName ?s, cf_NodeProfileNamespace = ag_nodeProfileNamespace ?s,
       cf_FakeResourceConfigMap = ag_fakeResourceConfigMap ?s, cf_FakeResourceConfigMapNS = ?ns\<rparr> (mc_Client mgr) b"
  obtain b where b: "NewWithOptions os unmarshal (ag_backendType ?s) ?options = Inr b"
    and run: "runSteps [SetupWithManager lib (ml_Complete ml) (?reconciler b),
       ml_AddHealthzCheck ml ''healthz'', ml_AddReadyzCheck ml ''readyz'', ml_Start ml] w1 = (0, w')"
    using assms Parsed name config mgr by (auto simp: agent_main_def Let_def split: sum.splits)
  define r where "r = ?reconciler b"
  obtain w2 w3 w4 where steps: "ml_Complete ml (agentWatches lib r) r w1 = (None, w2)"
      "ml_AddHealthzCheck ml ''healthz'' w2 = (None, w3)" "ml_AddReadyzCheck ml ''readyz'' w3 = (None, w4)"
      "ml_Start ml w4 = (None, w')"
    using run unfolding r_def [symmetric] by (auto simp: SetupWithManager_def runSteps_ok simp del: runSteps.simps)
  have fields: "cf_NodeName (rc_config r) = ag_nodeName ?s" "cf_NodeProfileNamespace (rc_config r) = ag_nodeProfileNamespace ?s"
    "cf_FakeResourceConfigMap (rc_config r) = ag_fakeResourceConfigMap ?s" "cf_FakeResourceConfigMapNS (rc_config r) = ?ns"
    "rc_client r = mc_Client mgr" "rc_local r = NewDefaultScheduler" "rc_backend r = b"
    by (simp_all add: r_def NewReconciler_def)
  show ?thesis
    using Parsed mgr steps b name NewWithOptions_contract [OF b]
    by (intro disjI2 exI [of _ vals] exI [of _ rest] exI [of _ mgr] exI [of _ r] exI [of _ w1] exI [of _ w2]
        exI [of _ w3] exI [of _ w4]) (simp add: fields agentSettings_def Let_def)
qed

text \<open>A manager whose steps all succeed, on a host with a fake backend.\<close>

definition quiet_manager :: "map_world ManagerLib" where
  "quiet_manager =
     \<lparr>ml_HaveConfig = (\<lambda>w. True),
      ml_NewManager = (\<lambda>options w. (Inr \<lparr>mc_Client = map_agent_client, mc_GetConfigMap = (\<lambda>w ns n. Inr Map.empty)\<rparr>, w)),
      ml_Complete = (\<lambda>watches r w. (None, w)), ml_AddHealthzCheck = (\<lambda>n w. (None, w)),
      ml_AddReadyzCheck = (\<lambda>n w. (None, w)), ml_Start = (\<lambda>w. (None, w))\<rparr>"

lemma quiet_args: "Parse agentFlags [''--node-name=n1''] Map.empty = Parsed [''node-name'' \<mapsto> ''n1''] []"
  using Parse_written [of "[(''node-name'', ''n1'')]" agentFlags Map.empty]
  by (simp add: write_flag_def agentFlags_def flag_name_def)

theorem agent_command_serves_node_witness:
  "\<exists>r :: map_world Reconciler. agent_main bare_host empty_config documented_lib Map.empty quiet_manager [''--node-name=n1''] sample_world =
     (0, sample_world) \<and> cf_NodeName (rc_config r) = ''n1'' \<and> agent_backend (rc_backend r)"
proof -
  have run: "agent_main bare_host empty_config documented_lib Map.empty quiet_manager [''--node-name=n1''] sample_world =
      (0, sample_world)"
    by (simp add: agent_main_def quiet_args agentSettings_def stringValue_def quiet_manager_def NewWithOptions_def
        SetupWithManager_def Let_def)
  obtain vals rest and r :: "map_world Reconciler" where
      "Parse (Map.empty ++ agentFlags) [''--node-name=n1''] Map.empty = Parsed vals rest"
      "cf_NodeName (rc_config r) = stringValue vals ''node-name'' (ho_Getenv (bare_host :: map_world Host) ''NODE_NAME'')"
      "agent_backend (rc_backend r)"
    using agent_command_serves_node [OF run] quiet_args by auto
  with run quiet_args show ?thesis
    by (intro exI [of _ r]) (auto simp: stringValue_def)
qed

text \<open>
  C36. The operator's servers are hardened unless told otherwise.  When the command ends with exit code 0
  and was not a call for help, the manager was created with options in which the metrics endpoint
  demands authentication and authorisation exactly when it is served over TLS, which it is unless
  \<open>--metrics-secure\<close> says no; and unless \<open>--enable-http2\<close> was given with a true value, both servers
  offer HTTP/1.1 only, whatever their TLS configuration was before.
\<close>
theorem operator_servers_hardened:
  assumes "operator_main others ol args w = (0, w')"
  shows "Parse (others ++ operatorFlags) args Map.empty = Exits 0 \<or>
    (\<exists>vals rest options w1. Parse (others ++ operatorFlags) args Map.empty = Parsed vals rest \<and>
       ol_NewManager ol options w = (None, w1) \<and>
       me_SecureServing (oo_Metrics options) = boolValue vals ''metrics-secure'' True \<and>
       (me_FilterProvider (oo_Metrics options) = Some WithAuthenticationAndAuthorization) =
         me_SecureServing (oo_Metrics options) \<and>
       (boolValue vals ''enable-http2'' False \<or>
        (\<forall>c. tls_NextProtos (fold id (me_TLSOpts (oo_Metrics options)) c) = [''http/1.1''] \<and>
             tls_NextProtos (fold id (wh_TLSOpts (oo_WebhookServer options)) c) = [''http/1.1''])))"
proof (cases "Parse (others ++ operatorFlags) args Map.empty")
  case (Exits code)
  with assms show ?thesis by (simp add: operator_main_def)
next
  case (Parsed vals rest)
  let ?o = "operatorManagerOptions vals"
  obtain w1 where w1: "ol_NewManager ol ?o w = (None, w1)"
    using assms Parsed by (auto simp: operator_main_def runSteps_ok simp del: runSteps.simps split: if_splits)
  have "me_SecureServing (oo_Metrics ?o) = boolValue vals ''metrics-secure'' True"
    "(me_FilterProvider (oo_Metrics ?o) = Some WithAuthenticationAndAuthorization) = me_SecureServing (oo_Metrics ?o)"
    "me_TLSOpts (oo_Metrics ?o) = operatorTLSOpts vals" "wh_TLSOpts (oo_WebhookServer ?o) = operatorTLSOpts vals"
    by (simp_all add: operatorManagerOptions_def metricsServerOptions_def webhookServerOptions_def Let_def)
  moreover have "boolValue vals ''enable-http2'' False \<or>
      (\<forall>c. tls_NextProtos (fold id (operatorTLSOpts vals) c) = [''http/1.1''])"
    by (simp add: operatorTLSOpts_def disableHTTP2_def)
  ultimately show ?thesis using Parsed w1 by auto
qed

definition recording_operator :: "OperatorManagerOptions list OperatorLib" where
  "recording_operator =
     \<lparr>ol_HaveConfig = (\<lambda>w. True), ol_NewManager = (\<lambda>options w. (None, w @ [options])),
      ol_AddHealthzCheck = (\<lambda>n w. (None, w)), ol_AddReadyzCheck = (\<lambda>n w. (None, w)), ol_Start = (\<lambda>w. (None, w))\<rparr>"

theorem operator_servers_hardened_witness:
  "operator_main Map.empty recording_operator [] [] = (0, [operatorManagerOptions Map.empty]) \<and>
   (\<exists>options w1. ol_NewManager recording_operator options [] = (None, w1) \<and>
     me_FilterProvider (oo_Metrics options) = Some WithAuthenticationAndAuthorization \<and>
     (\<forall>c. tls_NextProtos (fold id (wh_TLSOpts (oo_WebhookServer options)) c) = [''http/1.1'']))"
proof -
  have parse: "Parse (Map.empty ++ operatorFlags) [] Map.empty = Parsed Map.empty []"
    by (simp add: Parse.simps parseOne_def)
  then have run: "operator_main Map.empty recording_operator [] [] = (0, [operatorManagerOptions Map.empty])"
    by (simp add: operator_main_def recording_operator_def)
  from operator_servers_hardened [OF run] parse run show ?thesis
    by (auto simp: boolValue_def)
qed

end
