(* ===== verification/GoStore.thy ===== *)
theory GoStore
  imports ApiTypes "HOL-Library.Monad_Syntax"
begin

text \<open>
  An explicit store for the code whose point is the identity of memory: the deep copies of
  \<open>src/api/v1alpha1\<close>.

  \<^item> A store is the list of the cells allocated so far; an address is a position in it and a new
    cell goes to its end.  A cell is an array of values of one type; a variable that a pointer
    points to is an array of length one, so that a pointer into a slice is a pointer, too.
  \<^item> A pointer is a cell and an index, a slice a cell, an offset and a length; nil is \<open>None\<close>.  (A
    pointer to a field of a struct has no counterpart: no field of the API types is one.)
  \<^item> A memory is a partial function from addresses to cells.  Code reads the memory \<open>cells s\<close> of
    the store; \<open>cells_from b s\<close> is the part of it that was allocated when there were \<open>b\<close> cells
    already, which is what a copy may rest on.
  \<^item> A function that dereferences returns an \<open>option\<close>; \<open>None\<close> is an invalid pointer, which Go's
    type system excludes.

  The locale \<open>deep_copier\<close> says what a deep copy promises: it adds cells and changes none, and what
  the copy means can be read from the added cells alone.  The lemmas of the collection \<open>copiers\<close>
  give it for pointers and slices from the type they point to.
\<close>

named_theorems copiers "types with a deep copy"
named_theorems kinds "the cells of a type can be read back"
named_theorems stables "readers that are stable"
named_theorems steps "sequences of copies that begin with a copy"
named_theorems appends "readers see the same after an allocation"

section \<open>Stores, pointers and slices\<close>

type_synonym 'c store = "'c list"
type_synonym 'c memory = "nat \<rightharpoonup> 'c"
type_synonym pointer = "(nat \<times> nat) option"
type_synonym slice = "(nat \<times> nat \<times> nat) option"

definition cells_from :: "nat \<Rightarrow> 'c store \<Rightarrow> 'c memory" where
  "cells_from b s = (\<lambda>a. if b \<le> a \<and> a < length s then Some (s ! a) else None)"

abbreviation cells :: "'c store \<Rightarrow> 'c memory" where
  "cells s \<equiv> cells_from 0 s"

text \<open>How arrays of a type are put into cells and found in them.\<close>

record ('a, 'c) kind =
  kd_wrap :: "'a list \<Rightarrow> 'c"
  kd_unwrap :: "'c \<Rightarrow> 'a list option"

definition kind_ok :: "('a, 'c) kind \<Rightarrow> bool" where
  "kind_ok k \<longleftrightarrow> (\<forall>c xs. kd_unwrap k c = Some xs \<longleftrightarrow> c = kd_wrap k xs)"

lemma unwrap_wrap: "kind_ok k \<Longrightarrow> kd_unwrap k (kd_wrap k xs) = Some xs"
  by (simp add: kind_ok_def)

lemma unwrapD: "kind_ok k \<Longrightarrow> kd_unwrap k c = Some xs \<Longrightarrow> c = kd_wrap k xs"
  by (simp add: kind_ok_def)

text \<open>A type that has a constructor of cells of its own.\<close>

definition array_kind :: "('a list \<Rightarrow> 'c) \<Rightarrow> ('c \<Rightarrow> bool) \<Rightarrow> ('c \<Rightarrow> 'a list) \<Rightarrow> ('a, 'c) kind" where
  "array_kind wrap is un = \<lparr>kd_wrap = wrap, kd_unwrap = (\<lambda>c. if is c then Some (un c) else None)\<rparr>"

lemma array_kind_ok:
  "(\<And>xs. is (wrap xs) \<and> un (wrap xs) = xs) \<Longrightarrow> (\<And>c. is c \<Longrightarrow> wrap (un c) = c) \<Longrightarrow> kind_ok (array_kind wrap is un)"
  by (auto simp: kind_ok_def array_kind_def)

definition deref :: "('a, 'c) kind \<Rightarrow> 'c memory \<Rightarrow> nat \<times> nat \<Rightarrow> 'a option" where
  "deref k m = (\<lambda>(a, i). do {
     c \<leftarrow> m a;
     xs \<leftarrow> kd_unwrap k c;
     if i < length xs then Some (xs ! i) else None})"

definition elements :: "('a, 'c) kind \<Rightarrow> 'c memory \<Rightarrow> nat \<times> nat \<times> nat \<Rightarrow> 'a list option" where
  "elements k m = (\<lambda>(a, i, n). do {
     c \<leftarrow> m a;
     xs \<leftarrow> kd_unwrap k c;
     if i + n \<le> length xs then Some (take n (drop i xs)) else None})"

section \<open>Copying\<close>

text \<open>An assignment of a value without pointers, and element by element the function \<open>copy\<close>.\<close>

definition assign :: "'a \<Rightarrow> 'c store \<Rightarrow> ('a \<times> 'c store) option" where
  "assign x s = Some (x, s)"

text \<open>
  The blocks that the generated code repeats, with the copy of the value pointed to as an
  argument: \<open>*out = new(T)\<close> with a copy into it, and \<open>*out = make([]T, len(*in))\<close> with a loop
  that copies every element.  The new cell is entered when it is filled; which address an
  allocation returns is not observable in Go.
\<close>

fun copyPointer ::
    "('a, 'c) kind \<Rightarrow> ('a \<Rightarrow> 'c store \<Rightarrow> ('a \<times> 'c store) option) \<Rightarrow> pointer \<Rightarrow> 'c store \<Rightarrow> (pointer \<times> 'c store) option" where
  "copyPointer k copy None s = Some (None, s)"
| "copyPointer k copy (Some p) s = do {
     x \<leftarrow> deref k (cells s) p;
     (y, s) \<leftarrow> copy x s;
     Some (Some (length s, 0), s @ [kd_wrap k [y]])}"

fun copyElements ::
    "('a \<Rightarrow> 'c store \<Rightarrow> ('a \<times> 'c store) option) \<Rightarrow> 'a list \<Rightarrow> 'c store \<Rightarrow> ('a list \<times> 'c store) option" where
  "copyElements copy [] s = Some ([], s)"
| "copyElements copy (x # xs) s = do {
     (y, s) \<leftarrow> copy x s;
     (ys, s) \<leftarrow> copyElements copy xs s;
     Some (y # ys, s)}"

fun copySlice ::
    "('a, 'c) kind \<Rightarrow> ('a \<Rightarrow> 'c store \<Rightarrow> ('a \<times> 'c store) option) \<Rightarrow> slice \<Rightarrow> 'c store \<Rightarrow> (slice \<times> 'c store) option" where
  "copySlice k copy None s = Some (None, s)"
| "copySlice k copy (Some p) s = do {
     xs \<leftarrow> elements k (cells s) p;
     (ys, s) \<leftarrow> copyElements copy xs s;
     Some (Some (length s, 0, length ys), s @ [kd_wrap k ys])}"

section \<open>The value of a pointer structure\<close>

definition readPlain :: "'c memory \<Rightarrow> 'a \<Rightarrow> 'a option" where
  "readPlain m x = Some x"

fun readPointer :: "('a, 'c) kind \<Rightarrow> ('c memory \<Rightarrow> 'a \<Rightarrow> 'v option) \<Rightarrow> 'c memory \<Rightarrow> pointer \<Rightarrow> 'v option option" where
  "readPointer k read m None = Some None"
| "readPointer k read m (Some p) = do {x \<leftarrow> deref k m p; v \<leftarrow> read m x; Some (Some v)}"

fun readElements :: "('c memory \<Rightarrow> 'a \<Rightarrow> 'v option) \<Rightarrow> 'c memory \<Rightarrow> 'a list \<Rightarrow> 'v list option" where
  "readElements read m [] = Some []"
| "readElements read m (x # xs) = do {v \<leftarrow> read m x; vs \<leftarrow> readElements read m xs; Some (v # vs)}"

text \<open>A nil slice and an empty one have the same value.\<close>

fun readSlice :: "('a, 'c) kind \<Rightarrow> ('c memory \<Rightarrow> 'a \<Rightarrow> 'v option) \<Rightarrow> 'c memory \<Rightarrow> slice \<Rightarrow> 'v list option" where
  "readSlice k read m None = Some []"
| "readSlice k read m (Some p) = do {xs \<leftarrow> elements k m p; readElements read m xs}"

section \<open>Memories\<close>

lemma cells_from_append: "cells_from b s \<subseteq>\<^sub>m cells_from b (s @ new)"
  by (auto simp: map_le_def cells_from_def nth_append)

lemma cells_from_less: "b \<le> b' \<Longrightarrow> cells_from b' s \<subseteq>\<^sub>m cells_from b s"
  by (auto simp: map_le_def cells_from_def)

lemma cells_from_last [simp]: "b \<le> length s \<Longrightarrow> cells_from b (s @ [c]) (length s) = Some c"
  by (simp add: cells_from_def)

lemma map_le_lookup: "m \<subseteq>\<^sub>m m' \<Longrightarrow> m a = Some c \<Longrightarrow> m' a = Some c"
  by (force simp: map_le_def dom_def)

lemma deref_more: "m \<subseteq>\<^sub>m m' \<Longrightarrow> deref k m p = Some x \<Longrightarrow> deref k m' p = Some x"
  by (auto simp: deref_def bind_eq_Some_conv split: prod.splits if_splits dest!: map_le_lookup)

lemma elements_more: "m \<subseteq>\<^sub>m m' \<Longrightarrow> elements k m p = Some xs \<Longrightarrow> elements k m' p = Some xs"
  by (auto simp: elements_def bind_eq_Some_conv split: prod.splits if_splits dest!: map_le_lookup)

lemma deref_new [simp]: "kind_ok k \<Longrightarrow> b \<le> length s \<Longrightarrow> deref k (cells_from b (s @ [kd_wrap k [y]])) (length s, 0) = Some y"
  by (simp add: deref_def unwrap_wrap)

lemma elements_new [simp]:
  "kind_ok k \<Longrightarrow> b \<le> length s \<Longrightarrow> elements k (cells_from b (s @ [kd_wrap k ys])) (length s, 0, length ys) = Some ys"
  by (simp add: elements_def unwrap_wrap)

section \<open>Writing through a pointer\<close>

definition put :: "('a, 'c) kind \<Rightarrow> nat \<times> nat \<Rightarrow> 'a \<Rightarrow> 'c store \<Rightarrow> 'c store option" where
  "put k = (\<lambda>(a, i) x s. do {
     c \<leftarrow> cells s a;
     xs \<leftarrow> kd_unwrap k c;
     if i < length xs then Some (s[a := kd_wrap k (xs[i := x])]) else None})"

lemma put_iff:
  assumes "kind_ok k"
  shows "put k (a, i) x s = Some t \<longleftrightarrow>
    (\<exists>xs. a < length s \<and> s ! a = kd_wrap k xs \<and> i < length xs \<and> t = s[a := kd_wrap k (xs[i := x])])"
  using assms
  by (auto simp: put_def bind_eq_Some_conv cells_from_def unwrap_wrap dest: unwrapD split: if_splits)

lemma deref_iff:
  assumes "kind_ok k"
  shows "deref k m (a, i) = Some x \<longleftrightarrow> (\<exists>xs. m a = Some (kd_wrap k xs) \<and> i < length xs \<and> x = xs ! i)"
  using assms by (auto simp: deref_def bind_eq_Some_conv unwrap_wrap dest: unwrapD split: if_splits)

section \<open>Readers\<close>

text \<open>What a reader finds in a memory it finds in every larger one.\<close>

definition stable :: "('c memory \<Rightarrow> 'h \<Rightarrow> 'v option) \<Rightarrow> bool" where
  "stable read \<longleftrightarrow> (\<forall>m m' x v. m \<subseteq>\<^sub>m m' \<longrightarrow> read m x = Some v \<longrightarrow> read m' x = Some v)"

lemma stableD: "stable read \<Longrightarrow> m \<subseteq>\<^sub>m m' \<Longrightarrow> read m x = Some v \<Longrightarrow> read m' x = Some v"
  by (auto simp: stable_def)

lemma stable_plain [stables]: "stable readPlain"
  by (simp add: stable_def readPlain_def)

lemma stable_pointer [stables]: "stable read \<Longrightarrow> stable (readPointer k read)"
  unfolding stable_def
proof (intro allI impI)
  fix m m' p v
  assume read: "\<forall>m m' x v. m \<subseteq>\<^sub>m m' \<longrightarrow> read m x = Some v \<longrightarrow> read m' x = Some v" and "m \<subseteq>\<^sub>m m'"
    and "readPointer k read m p = Some v"
  then show "readPointer k read m' p = Some v"
    by (cases p) (auto simp: bind_eq_Some_conv dest: deref_more)
qed

lemma stable_elements: "stable read \<Longrightarrow> stable (readElements read)"
  unfolding stable_def
proof (intro allI impI)
  fix m m' xs vs
  assume read: "\<forall>m m' x v. m \<subseteq>\<^sub>m m' \<longrightarrow> read m x = Some v \<longrightarrow> read m' x = Some v" and "m \<subseteq>\<^sub>m m'"
    and "readElements read m xs = Some vs"
  then show "readElements read m' xs = Some vs"
    by (induction xs arbitrary: vs) (auto simp: bind_eq_Some_conv)
qed

lemma stable_slice [stables]: "stable read \<Longrightarrow> stable (readSlice k read)"
  unfolding stable_def
proof (intro allI impI)
  fix m m' p v
  assume "\<forall>m m' x v. m \<subseteq>\<^sub>m m' \<longrightarrow> read m x = Some v \<longrightarrow> read m' x = Some v"
  then have "stable (readElements read)" by (intro stable_elements) (simp add: stable_def)
  moreover assume "m \<subseteq>\<^sub>m m'" "readSlice k read m p = Some v"
  ultimately show "readSlice k read m' p = Some v"
    by (cases p) (auto simp: bind_eq_Some_conv dest: elements_more stableD)
qed

lemma stable_append:
  "stable read \<Longrightarrow> read (cells s) x \<noteq> None \<Longrightarrow> read (cells (s @ new)) x = read (cells s) x"
  using stableD [OF _ cells_from_append] by fastforce

text \<open>A reader of a struct reads its fields one after the other.\<close>

lemma stable_field: "stable read \<Longrightarrow> stable (\<lambda>m x. read m (field x))"
  by (simp add: stable_def)

lemma stable_bind:
  "stable first \<Longrightarrow> (\<And>v. stable (next v)) \<Longrightarrow> stable (\<lambda>m x. first m x \<bind> (\<lambda>v. next v m x))"
  unfolding stable_def by (fastforce simp: bind_eq_Some_conv)

lemma stable_return: "stable (\<lambda>m x. Some (f x))"
  by (simp add: stable_def)

lemma stable_pointer_field: "stable read \<Longrightarrow> stable (\<lambda>m x. readPointer k read m (field x))"
  by (rule stable_field [OF stable_pointer])

lemma stable_slice_field: "stable read \<Longrightarrow> stable (\<lambda>m x. readSlice k read m (field x))"
  by (rule stable_field [OF stable_slice])

lemma stable_case_prod: "(\<And>a b. stable (f a b)) \<Longrightarrow> stable (\<lambda>m x. case p of (a, b) \<Rightarrow> f a b m x)"
  by (cases p) simp

lemmas stable_struct = stable_bind stable_return stable_case_prod stable_pointer_field stable_slice_field
lemmas [appends] = stable_append [OF stable_pointer] stable_append [OF stable_slice]

section \<open>What a deep copy promises\<close>

text \<open>
  What a client of a deep copy relies on: the copy adds cells and changes none; whatever the cells that
  were there become, the copy keeps the value, and whatever the added cells become, the original does.
\<close>

definition copied_apart ::
    "('c memory \<Rightarrow> 'h \<Rightarrow> 'v option) \<Rightarrow> 'c store \<Rightarrow> 'h \<Rightarrow> 'v \<Rightarrow> ('h \<times> 'c store) option \<Rightarrow> bool" where
  "copied_apart read s x v r \<longleftrightarrow>
     (\<exists>y new. r = Some (y, s @ new) \<and>
       (\<forall>m. (\<forall>a. length s \<le> a \<longrightarrow> m a = cells (s @ new) a) \<longrightarrow> read m y = Some v) \<and>
       (\<forall>m. (\<forall>a. a < length s \<longrightarrow> m a = cells s a) \<longrightarrow> read m x = Some v))"

locale deep_copier =
  fixes read :: "'c memory \<Rightarrow> 'h \<Rightarrow> 'v option"
    and copy :: "'h \<Rightarrow> 'c store \<Rightarrow> ('h \<times> 'c store) option"
  assumes read_more: "\<And>m m' x v. m \<subseteq>\<^sub>m m' \<Longrightarrow> read m x = Some v \<Longrightarrow> read m' x = Some v"
    and copy_fresh: "\<And>s x v. read (cells s) x = Some v \<Longrightarrow>
      \<exists>y new. copy x s = Some (y, s @ new) \<and> read (cells_from (length s) (s @ new)) y = Some v"
begin

lemma read_later: "read (cells_from b s) x = Some v \<Longrightarrow> read (cells_from b (s @ new)) x = Some v"
  using read_more [OF cells_from_append] .

lemma copy_after:
  assumes "read (cells s) x = Some v" and "b \<le> length s"
  shows "\<exists>y new. copy x s = Some (y, s @ new) \<and> read (cells_from b (s @ new)) y = Some v"
  using copy_fresh [OF assms(1)] read_more [OF cells_from_less [OF assms(2)]] by blast

text \<open>The copy and the original are independent.\<close>

lemma independent:
  assumes "read (cells s) x = Some v"
  shows "copied_apart read s x v (copy x s)"
proof -
  obtain y new where y: "copy x s = Some (y, s @ new)" "read (cells_from (length s) (s @ new)) y = Some v"
    using copy_fresh [OF assms] by blast
  have "cells_from (length s) (s @ new) \<subseteq>\<^sub>m m" if "\<forall>a. length s \<le> a \<longrightarrow> m a = cells (s @ new) a" for m
    using that by (auto simp: map_le_def cells_from_def)
  moreover have "cells s \<subseteq>\<^sub>m m" if "\<forall>a. a < length s \<longrightarrow> m a = cells s a" for m
    using that by (auto simp: map_le_def cells_from_def split: if_splits)
  ultimately show ?thesis using y read_more assms unfolding copied_apart_def by blast
qed

end

text \<open>A reader that goes on with what another one read.\<close>

lemma deep_copier_map:
  assumes "deep_copier read copy"
  shows "deep_copier (\<lambda>m x. read m x \<bind> (\<lambda>v. Some (f v))) copy"
proof
  fix m m' x v
  assume "m \<subseteq>\<^sub>m m'" and "read m x \<bind> (\<lambda>v. Some (f v)) = Some v"
  then show "read m' x \<bind> (\<lambda>v. Some (f v)) = Some v"
    using deep_copier.read_more [OF assms] by (auto simp: bind_eq_Some_conv)
next
  fix s x v
  assume "read (cells s) x \<bind> (\<lambda>v. Some (f v)) = Some v"
  then show "\<exists>y new. copy x s = Some (y, s @ new) \<and> read (cells_from (length s) (s @ new)) y \<bind> (\<lambda>v. Some (f v)) = Some v"
    using deep_copier.copy_fresh [OF assms] by (fastforce simp: bind_eq_Some_conv)
qed

section \<open>Composing deep copies\<close>

text \<open>
  What a sequence of copies that starts in a store \<open>u\<close> gives: it succeeds, it only adds cells to
  \<open>u\<close>, and its result satisfies \<open>P\<close> of the memory from \<open>b\<close> on, then and after further allocations.
\<close>

definition gives :: "nat \<Rightarrow> 'c store \<Rightarrow> ('a \<times> 'c store) option \<Rightarrow> ('a \<Rightarrow> 'c memory \<Rightarrow> bool) \<Rightarrow> bool" where
  "gives b u r P \<longleftrightarrow> (\<exists>y new. r = Some (y, u @ new) \<and> (\<forall>rest. P y (cells_from b (u @ new @ rest))))"

lemma gives_return: "(\<And>rest. P y (cells_from b (u @ rest))) \<Longrightarrow> gives b u (Some (y, u)) P"
  unfolding gives_def by (rule exI [of _ y], rule exI [of _ "[]"]) simp

lemma gives_copy:
  assumes "deep_copier read copy" and "b \<le> length u" and "read (cells u) x \<noteq> None"
    and "\<And>y new. (\<And>rest. read (cells_from b (u @ new @ rest)) y = read (cells u) x) \<Longrightarrow> gives b (u @ new) (k (y, u @ new)) P"
  shows "gives b u (copy x u \<bind> k) P"
proof -
  obtain v where v: "read (cells u) x = Some v" using assms(3) by blast
  obtain y new where y: "copy x u = Some (y, u @ new)" "read (cells_from b (u @ new)) y = Some v"
    using deep_copier.copy_after [OF assms(1) v assms(2)] by blast
  have "read (cells_from b (u @ new @ rest)) y = read (cells u) x" for rest
    using deep_copier.read_later [OF assms(1) y(2), of rest] v by simp
  then have "gives b (u @ new) (k (y, u @ new)) P" by (rule assms(4))
  then show ?thesis unfolding gives_def y(1) by fastforce
qed

lemma deep_copierI:
  assumes "stable read"
    and "\<And>s b x v. b \<le> length s \<Longrightarrow> read (cells s) x = Some v \<Longrightarrow> gives b s (copy x s) (\<lambda>y m. read m y = Some v)"
  shows "deep_copier read copy"
proof
  fix s x v assume "read (cells s) x = Some v"
  then have "gives (length s) s (copy x s) (\<lambda>y m. read m y = Some v)"
    by (intro assms(2)) auto
  then obtain y new where "copy x s = Some (y, s @ new)" "\<And>rest. read (cells_from (length s) (s @ new @ rest)) y = Some v"
    by (auto simp: gives_def)
  from this(1) this(2) [of "[]"] show "\<exists>y new. copy x s = Some (y, s @ new) \<and> read (cells_from (length s) (s @ new)) y = Some v"
    by simp
qed (rule stableD [OF assms(1)])

lemma deep_copier_stable: "deep_copier read copy \<Longrightarrow> stable read"
  by (simp add: stable_def deep_copier.read_more)

lemma plain_copier [copiers]: "deep_copier readPlain assign"
  by (rule deep_copierI, rule stable_plain) (simp add: readPlain_def assign_def gives_return)

lemma elements_copier:
  assumes "deep_copier read copy"
  shows "deep_copier (readElements read) (copyElements copy)"
proof (rule deep_copierI)
  show "stable (readElements read)" by (rule stable_elements [OF deep_copier_stable [OF assms]])
next
  show "gives b s (copyElements copy xs s) (\<lambda>ys m. readElements read m ys = Some vs)"
    if "b \<le> length s" "readElements read (cells s) xs = Some vs" for s b xs vs
    using that
  proof (induction xs arbitrary: s vs)
    case Nil
    then show ?case by (auto intro: gives_return)
  next
    case (Cons x xs)
    obtain v ws where v: "read (cells s) x = Some v" and vs: "vs = v # ws" and ws: "readElements read (cells s) xs = Some ws"
      using Cons.prems(2) by (auto simp: bind_eq_Some_conv)
    have later: "readElements read (cells (s @ rest)) xs = Some ws" for rest
      using stableD [OF stable_elements [OF deep_copier_stable [OF assms]] cells_from_append ws] .
    show ?case
      unfolding copyElements.simps
    proof (rule gives_copy [OF assms Cons.prems(1)], simp add: v, unfold v, clarsimp)
      fix y new assume y: "\<And>rest. read (cells_from b (s @ new @ rest)) y = Some v"
      have "gives b (s @ new) (copyElements copy xs (s @ new)) (\<lambda>ys m. readElements read m ys = Some ws)"
        using Cons.prems(1) later by (intro Cons.IH) simp_all
      then obtain ys new' where ys: "copyElements copy xs (s @ new) = Some (ys, (s @ new) @ new')"
        "\<And>rest. readElements read (cells_from b ((s @ new) @ new' @ rest)) ys = Some ws"
        by (auto simp: gives_def)
      then show "gives b (s @ new) (copyElements copy xs (s @ new) \<bind> (\<lambda>(ys, s). Some (y # ys, s)))
          (\<lambda>ys m. readElements read m ys = Some vs)"
        using y [of "new' @ _"] by (simp add: gives_def vs)
    qed
  qed
qed

lemma gives_alloc: "(\<And>rest. P y (cells_from b (u @ c # rest))) \<Longrightarrow> gives b u (Some (y, u @ [c])) P"
  unfolding gives_def by (rule exI [of _ y], rule exI [of _ "[c]"]) simp

lemma deref_alloc:
  assumes "kind_ok k" and "b \<le> length u"
  shows "deref k (cells_from b (u @ kd_wrap k [y] # rest)) (length u, 0) = Some y"
  using deref_more [OF cells_from_append deref_new [OF assms, of y], of rest] by simp

lemma elements_alloc:
  assumes "kind_ok k" and "b \<le> length u"
  shows "elements k (cells_from b (u @ kd_wrap k ys # rest)) (length u, 0, length ys) = Some ys"
  using elements_more [OF cells_from_append elements_new [OF assms, of ys], of rest] by simp

lemma pointer_copier [copiers]:
  assumes "kind_ok k" and "deep_copier read copy"
  shows "deep_copier (readPointer k read) (copyPointer k copy)"
proof (rule deep_copierI)
  show "stable (readPointer k read)" by (rule stable_pointer [OF deep_copier_stable [OF assms(2)]])
next
  fix s b p v
  assume b: "b \<le> length s" and p: "readPointer k read (cells s) p = Some v"
  show "gives b s (copyPointer k copy p s) (\<lambda>y m. readPointer k read m y = Some v)"
  proof (cases p)
    case None
    with p show ?thesis by (auto intro: gives_return)
  next
    case (Some q)
    with p obtain x u where x: "deref k (cells s) q = Some x" "read (cells s) x = Some u" and v: "v = Some u"
      by (auto simp: bind_eq_Some_conv)
    have "gives b s (copy x s \<bind> (\<lambda>(y, s). Some (Some (length s, 0), s @ [kd_wrap k [y]])))
        (\<lambda>y m. readPointer k read m y = Some v)"
    proof (rule gives_copy [OF assms(2) b], simp add: x(2), unfold prod.case x(2), rule gives_alloc)
      fix y new rest
      assume "\<And>rest. read (cells_from b (s @ new @ rest)) y = Some u"
      then have "read (cells_from b ((s @ new) @ kd_wrap k [y] # rest)) y = Some u" by simp
      then show "readPointer k read (cells_from b ((s @ new) @ kd_wrap k [y] # rest)) (Some (length (s @ new), 0)) = Some v"
        using deref_alloc [OF assms(1), of b "s @ new" y rest] b by (simp add: v)
    qed
    then show ?thesis by (simp add: Some x(1))
  qed
qed

lemma slice_copier [copiers]:
  assumes "kind_ok k" and "deep_copier read copy"
  shows "deep_copier (readSlice k read) (copySlice k copy)"
proof (rule deep_copierI)
  show "stable (readSlice k read)" by (rule stable_slice [OF deep_copier_stable [OF assms(2)]])
next
  fix s b p vs
  assume b: "b \<le> length s" and p: "readSlice k read (cells s) p = Some vs"
  show "gives b s (copySlice k copy p s) (\<lambda>y m. readSlice k read m y = Some vs)"
  proof (cases p)
    case None
    with p show ?thesis by (auto intro: gives_return)
  next
    case (Some q)
    with p obtain xs where xs: "elements k (cells s) q = Some xs" "readElements read (cells s) xs = Some vs"
      by (auto simp: bind_eq_Some_conv)
    have "gives b s (copyElements copy xs s \<bind> (\<lambda>(ys, s). Some (Some (length s, 0, length ys), s @ [kd_wrap k ys])))
        (\<lambda>y m. readSlice k read m y = Some vs)"
    proof (rule gives_copy [OF elements_copier [OF assms(2)] b], simp add: xs(2), unfold prod.case xs(2), rule gives_alloc)
      fix ys new rest
      assume "\<And>rest. readElements read (cells_from b (s @ new @ rest)) ys = Some vs"
      then have "readElements read (cells_from b ((s @ new) @ kd_wrap k ys # rest)) ys = Some vs" by simp
      then show "readSlice k read (cells_from b ((s @ new) @ kd_wrap k ys # rest)) (Some (length (s @ new), 0, length ys)) = Some vs"
        using elements_alloc [OF assms(1), of b "s @ new" ys rest] b by simp
    qed
    then show ?thesis by (simp add: Some xs(1))
  qed
qed

lemmas [steps] = gives_copy [OF pointer_copier] gives_copy [OF slice_copier]

text \<open>A copy of a slice that is not nil is not nil, and a copy of nil is nil.\<close>

lemma copySlice_nil: "copySlice k copy p s = Some (q, s') \<Longrightarrow> q = None \<longleftrightarrow> p = None"
  by (cases p) (auto simp: bind_eq_Some_conv)

end
