(* ===== verification/MemTypes.thy ===== *)
theory MemTypes
  imports GoStore
begin

text \<open>
  The structs of \<open>src/api/v1alpha1\<close> as they lie in memory: a pointer field is a pointer, a slice field
  a slice into the store of \<open>GoStore\<close>.  A struct without pointers and slices is its record of
  \<open>ApiTypes\<close>; every other one has a record of its own here, with all fields of the source
  (\<open>TypeMeta\<close> and \<open>Conditions\<close> included).  For each of them \<open>read_T\<close> gives the value of \<open>ApiTypes\<close> that
  a memory holds; conditions and type metadata, which those values leave out, come beside it.
\<close>

section \<open>Metadata\<close>

text \<open>
  The structs of \<open>metav1\<close> that the API types embed, with the fields of \<open>ApiTypes\<close>: a map is a
  pointer to the table that Go's runtime keeps for it.
\<close>

record TypeMeta =
  tm_Kind :: string
  tm_APIVersion :: string

record ListMeta_mem =
  m_lm_ResourceVersion :: string
  m_lm_Continue :: string
  m_lm_RemainingItemCount :: pointer

record ListMeta =
  lm_ResourceVersion :: string
  lm_Continue :: string
  lm_RemainingItemCount :: "int64 option"

record Condition =
  cd_Type :: string
  cd_Status :: string
  cd_ObservedGeneration :: int64
  cd_LastTransitionTime :: Time
  cd_Reason :: string
  cd_Message :: string

record ObjectMeta_mem =
  m_om_Name :: string
  m_om_Namespace :: string
  m_om_UID :: string
  m_om_CreationTimestamp :: Time
  m_om_DeletionTimestamp :: pointer
  m_om_Labels :: pointer
  m_om_Annotations :: pointer

type_synonym table = "string \<rightharpoonup> string"

section \<open>Structs with pointers and slices\<close>

record WorkloadResourceRequest_mem =
  m_wr_Required :: pointer
  m_wr_Preferred :: pointer
  m_wr_Max :: pointer

record AIWorkloadProfileSpec_mem =
  m_ps_WorkloadRef :: KubernetesObjectRef
  m_ps_WorkloadType :: string
  m_ps_Priority :: string
  m_ps_DemandShape :: string
  m_ps_TimeWindows :: slice
  m_ps_SLO :: pointer
  m_ps_Resources :: pointer
  m_ps_Policy :: pointer

record AIWorkloadProfileStatus_mem =
  m_pst_Phase :: string
  m_pst_CurrentWindow :: string
  m_pst_SLORisk :: string
  m_pst_Conditions :: slice

record AIWorkloadProfile_mem =
  m_p_TypeMeta :: TypeMeta
  m_p_Meta :: ObjectMeta_mem
  m_p_Spec :: AIWorkloadProfileSpec_mem
  m_p_Status :: AIWorkloadProfileStatus_mem

record AIWorkloadProfileList_mem =
  m_ppl_TypeMeta :: TypeMeta
  m_ppl_ListMeta :: ListMeta_mem
  m_ppl_Items :: slice

record RuntimeCapacity_mem =
  m_rc_KVCacheGiB :: int32
  m_rc_MaxConcurrentRequests :: int32
  m_rc_MaxBatchTokens :: int32
  m_rc_TokenThroughput :: pointer

record RuntimeSpec_mem =
  m_rt_Type :: string
  m_rt_Supports :: pointer
  m_rt_Capacity :: pointer

record AINodeResourceProfileSpec_mem =
  m_ns_NodeName :: string
  m_ns_BackendType :: string
  m_ns_GPUs :: slice
  m_ns_Runtime :: pointer
  m_ns_Capabilities :: pointer

record MIGSliceStatus_mem =
  m_mig_ID :: string
  m_mig_UUID :: string
  m_mig_Profile :: string
  m_mig_MemoryGiB :: int32
  m_mig_ComputeSlices :: int32
  m_mig_Allocatable :: bool
  m_mig_Allocated :: bool
  m_mig_AllocatedTo :: pointer

record GPUDeviceStatus_mem =
  m_gs_ID :: string
  m_gs_UUID :: string
  m_gs_Allocated :: bool
  m_gs_MIGEnabled :: bool
  m_gs_AllocatedTo :: pointer
  m_gs_MIGSlices :: slice

record HourlyResourceForecast_mem =
  m_hf_GeneratedAt :: pointer
  m_hf_Timezone :: string
  m_hf_ResourceBuckets :: slice

record RuntimeStatus_mem =
  m_rst_Pressure :: pointer

record NodeAllocationStatus_mem =
  m_na_Name :: string
  m_na_Namespace :: string
  m_na_WorkloadName :: string
  m_na_WorkloadType :: string
  m_na_Priority :: string
  m_na_DemandShape :: string
  m_na_TimeWindows :: slice
  m_na_ResourceRequest :: pointer
  m_na_AssignedGPU :: pointer
  m_na_Resources :: pointer
  m_na_Current :: pointer
  m_na_HourlyForecast :: pointer
  m_na_Actions :: pointer
  m_na_Phase :: string

record AINodeResourceProfileStatus_mem =
  m_nst_Phase :: string
  m_nst_ObservedAt :: pointer
  m_nst_GPUs :: slice
  m_nst_Allocatable :: pointer
  m_nst_Allocated :: pointer
  m_nst_Available :: pointer
  m_nst_HourlyForecast :: pointer
  m_nst_Runtime :: pointer
  m_nst_Allocations :: slice
  m_nst_Conditions :: slice

record AINodeResourceProfile_mem =
  m_n_TypeMeta :: TypeMeta
  m_n_Meta :: ObjectMeta_mem
  m_n_Spec :: AINodeResourceProfileSpec_mem
  m_n_Status :: AINodeResourceProfileStatus_mem

record AINodeResourceProfileList_mem =
  m_nnl_TypeMeta :: TypeMeta
  m_nnl_ListMeta :: ListMeta_mem
  m_nnl_Items :: slice

record AllocationWorkloadSpec_mem =
  m_aw_Name :: string
  m_aw_WorkloadRef :: KubernetesObjectRef
  m_aw_SourcePodName :: string
  m_aw_SourcePodUID :: string
  m_aw_WorkloadType :: string
  m_aw_Priority :: string
  m_aw_DemandShape :: string
  m_aw_TimeWindows :: slice
  m_aw_ResourceRequest :: pointer
  m_aw_AssignedGPU :: pointer
  m_aw_Resources :: pointer
  m_aw_Desired :: pointer
  m_aw_AllocationType :: string
  m_aw_Actions :: pointer
  m_aw_Reason :: string

record AIResourceAllocationSpec_mem =
  m_as_NodeName :: string
  m_as_Workloads :: slice
  m_as_Reason :: string
  m_as_WorkloadRef :: KubernetesObjectRef
  m_as_WorkloadType :: string
  m_as_Priority :: string
  m_as_DemandShape :: string
  m_as_TimeWindows :: slice
  m_as_ResourceRequest :: pointer
  m_as_AssignedGPU :: pointer
  m_as_Resources :: pointer
  m_as_AllocationType :: string
  m_as_Actions :: pointer

record NodeAllocationLedger_mem =
  m_nl_Total :: pointer
  m_nl_Allocated :: pointer
  m_nl_Available :: pointer

record AllocationWorkloadStatus_mem =
  m_ws_Name :: string
  m_ws_WorkloadRef :: pointer
  m_ws_SourcePodName :: string
  m_ws_Phase :: string
  m_ws_Priority :: string
  m_ws_DemandShape :: string
  m_ws_ActiveWindow :: bool
  m_ws_Desired :: pointer
  m_ws_Applied :: pointer
  m_ws_HourlyForecast :: pointer
  m_ws_AssignedGPU :: pointer
  m_ws_Action :: string
  m_ws_Message :: string

record AIResourceAllocationStatus_mem =
  m_ast_Phase :: string
  m_ast_ObservedAt :: pointer
  m_ast_AppliedAt :: pointer
  m_ast_NodeLedger :: pointer
  m_ast_Workloads :: slice
  m_ast_ObservedResources :: pointer
  m_ast_Current :: pointer
  m_ast_HourlyForecast :: pointer
  m_ast_Message :: string
  m_ast_Conditions :: slice

record AIResourceAllocation_mem =
  m_a_TypeMeta :: TypeMeta
  m_a_Meta :: ObjectMeta_mem
  m_a_Spec :: AIResourceAllocationSpec_mem
  m_a_Status :: AIResourceAllocationStatus_mem

record AIResourceAllocationList_mem =
  m_aal_TypeMeta :: TypeMeta
  m_aal_ListMeta :: ListMeta_mem
  m_aal_Items :: slice

section \<open>Cells\<close>

text \<open>A cell is an array of one of the types that the generated code allocates.\<close>

datatype cell =
     is_KubernetesObjectRef: Cell_KubernetesObjectRef (un_KubernetesObjectRef: "KubernetesObjectRef list")
  | is_TimeWindow: Cell_TimeWindow (un_TimeWindow: "TimeWindow list")
  | is_WorkloadSLO: Cell_WorkloadSLO (un_WorkloadSLO: "WorkloadSLO list")
  | is_ResourceSummary: Cell_ResourceSummary (un_ResourceSummary: "ResourceSummary list")
  | is_WorkloadResourceRequest: Cell_WorkloadResourceRequest (un_WorkloadResourceRequest: "WorkloadResourceRequest_mem list")
  | is_WorkloadPolicy: Cell_WorkloadPolicy (un_WorkloadPolicy: "WorkloadPolicy list")
  | is_AIWorkloadProfileSpec: Cell_AIWorkloadProfileSpec (un_AIWorkloadProfileSpec: "AIWorkloadProfileSpec_mem list")
  | is_AIWorkloadProfileStatus: Cell_AIWorkloadProfileStatus (un_AIWorkloadProfileStatus: "AIWorkloadProfileStatus_mem list")
  | is_AIWorkloadProfile: Cell_AIWorkloadProfile (un_AIWorkloadProfile: "AIWorkloadProfile_mem list")
  | is_AIWorkloadProfileList: Cell_AIWorkloadProfileList (un_AIWorkloadProfileList: "AIWorkloadProfileList_mem list")
  | is_GPUDeviceSpec: Cell_GPUDeviceSpec (un_GPUDeviceSpec: "GPUDeviceSpec list")
  | is_RuntimeSupports: Cell_RuntimeSupports (un_RuntimeSupports: "RuntimeSupports list")
  | is_TokenThroughput: Cell_TokenThroughput (un_TokenThroughput: "TokenThroughput list")
  | is_RuntimeCapacity: Cell_RuntimeCapacity (un_RuntimeCapacity: "RuntimeCapacity_mem list")
  | is_RuntimeSpec: Cell_RuntimeSpec (un_RuntimeSpec: "RuntimeSpec_mem list")
  | is_NodeCapabilities: Cell_NodeCapabilities (un_NodeCapabilities: "NodeCapabilities list")
  | is_AINodeResourceProfileSpec: Cell_AINodeResourceProfileSpec (un_AINodeResourceProfileSpec: "AINodeResourceProfileSpec_mem list")
  | is_AllocationRef: Cell_AllocationRef (un_AllocationRef: "AllocationRef list")
  | is_MIGSliceStatus: Cell_MIGSliceStatus (un_MIGSliceStatus: "MIGSliceStatus_mem list")
  | is_GPUDeviceStatus: Cell_GPUDeviceStatus (un_GPUDeviceStatus: "GPUDeviceStatus_mem list")
  | is_HourlyResourceForecast: Cell_HourlyResourceForecast (un_HourlyResourceForecast: "HourlyResourceForecast_mem list")
  | is_RuntimePressure: Cell_RuntimePressure (un_RuntimePressure: "RuntimePressure list")
  | is_RuntimeStatus: Cell_RuntimeStatus (un_RuntimeStatus: "RuntimeStatus_mem list")
  | is_AssignedGPU: Cell_AssignedGPU (un_AssignedGPU: "AssignedGPU list")
  | is_AllocationActions: Cell_AllocationActions (un_AllocationActions: "AllocationActions list")
  | is_NodeAllocationStatus: Cell_NodeAllocationStatus (un_NodeAllocationStatus: "NodeAllocationStatus_mem list")
  | is_AINodeResourceProfileStatus: Cell_AINodeResourceProfileStatus (un_AINodeResourceProfileStatus: "AINodeResourceProfileStatus_mem list")
  | is_AINodeResourceProfile: Cell_AINodeResourceProfile (un_AINodeResourceProfile: "AINodeResourceProfile_mem list")
  | is_AINodeResourceProfileList: Cell_AINodeResourceProfileList (un_AINodeResourceProfileList: "AINodeResourceProfileList_mem list")
  | is_AllocationWorkloadSpec: Cell_AllocationWorkloadSpec (un_AllocationWorkloadSpec: "AllocationWorkloadSpec_mem list")
  | is_AIResourceAllocationSpec: Cell_AIResourceAllocationSpec (un_AIResourceAllocationSpec: "AIResourceAllocationSpec_mem list")
  | is_NodeAllocationLedger: Cell_NodeAllocationLedger (un_NodeAllocationLedger: "NodeAllocationLedger_mem list")
  | is_AllocationWorkloadStatus: Cell_AllocationWorkloadStatus (un_AllocationWorkloadStatus: "AllocationWorkloadStatus_mem list")
  | is_AIResourceAllocationStatus: Cell_AIResourceAllocationStatus (un_AIResourceAllocationStatus: "AIResourceAllocationStatus_mem list")
  | is_AIResourceAllocation: Cell_AIResourceAllocation (un_AIResourceAllocation: "AIResourceAllocation_mem list")
  | is_AIResourceAllocationList: Cell_AIResourceAllocationList (un_AIResourceAllocationList: "AIResourceAllocationList_mem list")
  | is_Time: Cell_Time (un_Time: "Time list")
  | is_Condition: Cell_Condition (un_Condition: "Condition list")
  | is_Table: Cell_Table (un_Table: "table list")
  | is_Int64: Cell_Int64 (un_Int64: "int64 list")

definition kind_KubernetesObjectRef :: "(KubernetesObjectRef, cell) kind" where
  "kind_KubernetesObjectRef = array_kind Cell_KubernetesObjectRef is_KubernetesObjectRef un_KubernetesObjectRef"

definition kind_TimeWindow :: "(TimeWindow, cell) kind" where
  "kind_TimeWindow = array_kind Cell_TimeWindow is_TimeWindow un_TimeWindow"

definition kind_WorkloadSLO :: "(WorkloadSLO, cell) kind" where
  "kind_WorkloadSLO = array_kind Cell_WorkloadSLO is_WorkloadSLO un_WorkloadSLO"

definition kind_ResourceSummary :: "(ResourceSummary, cell) kind" where
  "kind_ResourceSummary = array_kind Cell_ResourceSummary is_ResourceSummary un_ResourceSummary"

definition kind_WorkloadResourceRequest :: "(WorkloadResourceRequest_mem, cell) kind" where
  "kind_WorkloadResourceRequest = array_kind Cell_WorkloadResourceRequest is_WorkloadResourceRequest un_WorkloadResourceRequest"

definition kind_WorkloadPolicy :: "(WorkloadPolicy, cell) kind" where
  "kind_WorkloadPolicy = array_kind Cell_WorkloadPolicy is_WorkloadPolicy un_WorkloadPolicy"

definition kind_AIWorkloadProfileSpec :: "(AIWorkloadProfileSpec_mem, cell) kind" where
  "kind_AIWorkloadProfileSpec = array_kind Cell_AIWorkloadProfileSpec is_AIWorkloadProfileSpec un_AIWorkloadProfileSpec"

definition kind_AIWorkloadProfileStatus :: "(AIWorkloadProfileStatus_mem, cell) kind" where
  "kind_AIWorkloadProfileStatus = array_kind Cell_AIWorkloadProfileStatus is_AIWorkloadProfileStatus un_AIWorkloadProfileStatus"

definition kind_AIWorkloadProfile :: "(AIWorkloadProfile_mem, cell) kind" where
  "kind_AIWorkloadProfile = array_kind Cell_AIWorkloadProfile is_AIWorkloadProfile un_AIWorkloadProfile"

definition kind_AIWorkloadProfileList :: "(AIWorkloadProfileList_mem, cell) kind" where
  "kind_AIWorkloadProfileList = array_kind Cell_AIWorkloadProfileList is_AIWorkloadProfileList un_AIWorkloadProfileList"

definition kind_GPUDeviceSpec :: "(GPUDeviceSpec, cell) kind" where
  "kind_GPUDeviceSpec = array_kind Cell_GPUDeviceSpec is_GPUDeviceSpec un_GPUDeviceSpec"

definition kind_RuntimeSupports :: "(RuntimeSupports, cell) kind" where
  "kind_RuntimeSupports = array_kind Cell_RuntimeSupports is_RuntimeSupports un_RuntimeSupports"

definition kind_TokenThroughput :: "(TokenThroughput, cell) kind" where
  "kind_TokenThroughput = array_kind Cell_TokenThroughput is_TokenThroughput un_TokenThroughput"

definition kind_RuntimeCapacity :: "(RuntimeCapacity_mem, cell) kind" where
  "kind_RuntimeCapacity = array_kind Cell_RuntimeCapacity is_RuntimeCapacity un_RuntimeCapacity"

definition kind_RuntimeSpec :: "(RuntimeSpec_mem, cell) kind" where
  "kind_RuntimeSpec = array_kind Cell_RuntimeSpec is_RuntimeSpec un_RuntimeSpec"

definition kind_NodeCapabilities :: "(NodeCapabilities, cell) kind" where
  "kind_NodeCapabilities = array_kind Cell_NodeCapabilities is_NodeCapabilities un_NodeCapabilities"

definition kind_AINodeResourceProfileSpec :: "(AINodeResourceProfileSpec_mem, cell) kind" where
  "kind_AINodeResourceProfileSpec = array_kind Cell_AINodeResourceProfileSpec is_AINodeResourceProfileSpec un_AINodeResourceProfileSpec"

definition kind_AllocationRef :: "(AllocationRef, cell) kind" where
  "kind_AllocationRef = array_kind Cell_AllocationRef is_AllocationRef un_AllocationRef"

definition kind_MIGSliceStatus :: "(MIGSliceStatus_mem, cell) kind" where
  "kind_MIGSliceStatus = array_kind Cell_MIGSliceStatus is_MIGSliceStatus un_MIGSliceStatus"

definition kind_GPUDeviceStatus :: "(GPUDeviceStatus_mem, cell) kind" where
  "kind_GPUDeviceStatus = array_kind Cell_GPUDeviceStatus is_GPUDeviceStatus un_GPUDeviceStatus"

definition kind_HourlyResourceForecast :: "(HourlyResourceForecast_mem, cell) kind" where
  "kind_HourlyResourceForecast = array_kind Cell_HourlyResourceForecast is_HourlyResourceForecast un_HourlyResourceForecast"

definition kind_RuntimePressure :: "(RuntimePressure, cell) kind" where
  "kind_RuntimePressure = array_kind Cell_RuntimePressure is_RuntimePressure un_RuntimePressure"

definition kind_RuntimeStatus :: "(RuntimeStatus_mem, cell) kind" where
  "kind_RuntimeStatus = array_kind Cell_RuntimeStatus is_RuntimeStatus un_RuntimeStatus"

definition kind_AssignedGPU :: "(AssignedGPU, cell) kind" where
  "kind_AssignedGPU = array_kind Cell_AssignedGPU is_AssignedGPU un_AssignedGPU"

definition kind_AllocationActions :: "(AllocationActions, cell) kind" where
  "kind_AllocationActions = array_kind Cell_AllocationActions is_AllocationActions un_AllocationActions"

definition kind_NodeAllocationStatus :: "(NodeAllocationStatus_mem, cell) kind" where
  "kind_NodeAllocationStatus = array_kind Cell_NodeAllocationStatus is_NodeAllocationStatus un_NodeAllocationStatus"

definition kind_AINodeResourceProfileStatus :: "(AINodeResourceProfileStatus_mem, cell) kind" where
  "kind_AINodeResourceProfileStatus = array_kind Cell_AINodeResourceProfileStatus is_AINodeResourceProfileStatus un_AINodeResourceProfileStatus"

definition kind_AINodeResourceProfile :: "(AINodeResourceProfile_mem, cell) kind" where
  "kind_AINodeResourceProfile = array_kind Cell_AINodeResourceProfile is_AINodeResourceProfile un_AINodeResourceProfile"

definition kind_AINodeResourceProfileList :: "(AINodeResourceProfileList_mem, cell) kind" where
  "kind_AINodeResourceProfileList = array_kind Cell_AINodeResourceProfileList is_AINodeResourceProfileList un_AINodeResourceProfileList"

definition kind_AllocationWorkloadSpec :: "(AllocationWorkloadSpec_mem, cell) kind" where
  "kind_AllocationWorkloadSpec = array_kind Cell_AllocationWorkloadSpec is_AllocationWorkloadSpec un_AllocationWorkloadSpec"

definition kind_AIResourceAllocationSpec :: "(AIResourceAllocationSpec_mem, cell) kind" where
  "kind_AIResourceAllocationSpec = array_kind Cell_AIResourceAllocationSpec is_AIResourceAllocationSpec un_AIResourceAllocationSpec"

definition kind_NodeAllocationLedger :: "(NodeAllocationLedger_mem, cell) kind" where
  "kind_NodeAllocationLedger = array_kind Cell_NodeAllocationLedger is_NodeAllocationLedger un_NodeAllocationLedger"

definition kind_AllocationWorkloadStatus :: "(AllocationWorkloadStatus_mem, cell) kind" where
  "kind_AllocationWorkloadStatus = array_kind Cell_AllocationWorkloadStatus is_AllocationWorkloadStatus un_AllocationWorkloadStatus"

definition kind_AIResourceAllocationStatus :: "(AIResourceAllocationStatus_mem, cell) kind" where
  "kind_AIResourceAllocationStatus = array_kind Cell_AIResourceAllocationStatus is_AIResourceAllocationStatus un_AIResourceAllocationStatus"

definition kind_AIResourceAllocation :: "(AIResourceAllocation_mem, cell) kind" where
  "kind_AIResourceAllocation = array_kind Cell_AIResourceAllocation is_AIResourceAllocation un_AIResourceAllocation"

definition kind_AIResourceAllocationList :: "(AIResourceAllocationList_mem, cell) kind" where
  "kind_AIResourceAllocationList = array_kind Cell_AIResourceAllocationList is_AIResourceAllocationList un_AIResourceAllocationList"

definition kind_Time :: "(Time, cell) kind" where
  "kind_Time = array_kind Cell_Time is_Time un_Time"

definition kind_Condition :: "(Condition, cell) kind" where
  "kind_Condition = array_kind Cell_Condition is_Condition un_Condition"

definition kind_Table :: "(table, cell) kind" where
  "kind_Table = array_kind Cell_Table is_Table un_Table"

definition kind_Int64 :: "(int64, cell) kind" where
  "kind_Int64 = array_kind Cell_Int64 is_Int64 un_Int64"

lemma kinds_ok [kinds]:
  "kind_ok kind_KubernetesObjectRef"
  "kind_ok kind_TimeWindow"
  "kind_ok kind_WorkloadSLO"
  "kind_ok kind_ResourceSummary"
  "kind_ok kind_WorkloadResourceRequest"
  "kind_ok kind_WorkloadPolicy"
  "kind_ok kind_AIWorkloadProfileSpec"
  "kind_ok kind_AIWorkloadProfileStatus"
  "kind_ok kind_AIWorkloadProfile"
  "kind_ok kind_AIWorkloadProfileList"
  "kind_ok kind_GPUDeviceSpec"
  "kind_ok kind_RuntimeSupports"
  "kind_ok kind_TokenThroughput"
  "kind_ok kind_RuntimeCapacity"
  "kind_ok kind_RuntimeSpec"
  "kind_ok kind_NodeCapabilities"
  "kind_ok kind_AINodeResourceProfileSpec"
  "kind_ok kind_AllocationRef"
  "kind_ok kind_MIGSliceStatus"
  "kind_ok kind_GPUDeviceStatus"
  "kind_ok kind_HourlyResourceForecast"
  "kind_ok kind_RuntimePressure"
  "kind_ok kind_RuntimeStatus"
  "kind_ok kind_AssignedGPU"
  "kind_ok kind_AllocationActions"
  "kind_ok kind_NodeAllocationStatus"
  "kind_ok kind_AINodeResourceProfileStatus"
  "kind_ok kind_AINodeResourceProfile"
  "kind_ok kind_AINodeResourceProfileList"
  "kind_ok kind_AllocationWorkloadSpec"
  "kind_ok kind_AIResourceAllocationSpec"
  "kind_ok kind_NodeAllocationLedger"
  "kind_ok kind_AllocationWorkloadStatus"
  "kind_ok kind_AIResourceAllocationStatus"
  "kind_ok kind_AIResourceAllocation"
  "kind_ok kind_AIResourceAllocationList"
  "kind_ok kind_Time"
  "kind_ok kind_Condition"
  "kind_ok kind_Table"
  "kind_ok kind_Int64"
  unfolding kind_KubernetesObjectRef_def
    kind_TimeWindow_def
    kind_WorkloadSLO_def
    kind_ResourceSummary_def
    kind_WorkloadResourceRequest_def
    kind_WorkloadPolicy_def
    kind_AIWorkloadProfileSpec_def
    kind_AIWorkloadProfileStatus_def
    kind_AIWorkloadProfile_def
    kind_AIWorkloadProfileList_def
    kind_GPUDeviceSpec_def
    kind_RuntimeSupports_def
    kind_TokenThroughput_def
    kind_RuntimeCapacity_def
    kind_RuntimeSpec_def
    kind_NodeCapabilities_def
    kind_AINodeResourceProfileSpec_def
    kind_AllocationRef_def
    kind_MIGSliceStatus_def
    kind_GPUDeviceStatus_def
    kind_HourlyResourceForecast_def
    kind_RuntimePressure_def
    kind_RuntimeStatus_def
    kind_AssignedGPU_def
    kind_AllocationActions_def
    kind_NodeAllocationStatus_def
    kind_AINodeResourceProfileStatus_def
    kind_AINodeResourceProfile_def
    kind_AINodeResourceProfileList_def
    kind_AllocationWorkloadSpec_def
    kind_AIResourceAllocationSpec_def
    kind_NodeAllocationLedger_def
    kind_AllocationWorkloadStatus_def
    kind_AIResourceAllocationStatus_def
    kind_AIResourceAllocation_def
    kind_AIResourceAllocationList_def
    kind_Time_def
    kind_Condition_def
    kind_Table_def
    kind_Int64_def
  by (rule array_kind_ok, simp, simp)+

section \<open>Values\<close>

text \<open>Reading a nil map is reading an empty one.\<close>

definition readTable :: "cell memory \<Rightarrow> pointer \<Rightarrow> table option" where
  "readTable m p = do {
     t \<leftarrow> readPointer kind_Table readPlain m p;
     Some (case t of None \<Rightarrow> Map.empty | Some t \<Rightarrow> t)}"

definition readTime :: "cell memory \<Rightarrow> pointer \<Rightarrow> Time option option" where
  "readTime = readPointer kind_Time readPlain"

definition read_ObjectMeta :: "cell memory \<Rightarrow> ObjectMeta_mem \<Rightarrow> ObjectMeta option" where
  "read_ObjectMeta m x = do {
     deletionTimestamp \<leftarrow> readTime m (m_om_DeletionTimestamp x);
     labels \<leftarrow> readTable m (m_om_Labels x);
     annotations \<leftarrow> readTable m (m_om_Annotations x);
     Some \<lparr>om_Name = m_om_Name x, om_Namespace = m_om_Namespace x, om_UID = m_om_UID x,
           om_CreationTimestamp = m_om_CreationTimestamp x, om_DeletionTimestamp = deletionTimestamp,
           om_Labels = labels, om_Annotations = annotations\<rparr>}"

definition read_ListMeta :: "cell memory \<Rightarrow> ListMeta_mem \<Rightarrow> ListMeta option" where
  "read_ListMeta m x = do {
     count \<leftarrow> readPointer kind_Int64 readPlain m (m_lm_RemainingItemCount x);
     Some \<lparr>lm_ResourceVersion = m_lm_ResourceVersion x, lm_Continue = m_lm_Continue x,
           lm_RemainingItemCount = count\<rparr>}"

definition read_WorkloadResourceRequest :: "cell memory \<Rightarrow> WorkloadResourceRequest_mem \<Rightarrow> WorkloadResourceRequest option" where
  "read_WorkloadResourceRequest m x = do {
     required \<leftarrow> readPointer kind_ResourceSummary readPlain m (m_wr_Required x);
     preferred \<leftarrow> readPointer kind_ResourceSummary readPlain m (m_wr_Preferred x);
     max \<leftarrow> readPointer kind_ResourceSummary readPlain m (m_wr_Max x);
     Some \<lparr>wr_Required = required, wr_Preferred = preferred, wr_Max = max\<rparr>}"

definition read_AIWorkloadProfileSpec :: "cell memory \<Rightarrow> AIWorkloadProfileSpec_mem \<Rightarrow> AIWorkloadProfileSpec option" where
  "read_AIWorkloadProfileSpec m x = do {
     timeWindows \<leftarrow> readSlice kind_TimeWindow readPlain m (m_ps_TimeWindows x);
     slo \<leftarrow> readPointer kind_WorkloadSLO readPlain m (m_ps_SLO x);
     resources \<leftarrow> readPointer kind_WorkloadResourceRequest read_WorkloadResourceRequest m (m_ps_Resources x);
     policy \<leftarrow> readPointer kind_WorkloadPolicy readPlain m (m_ps_Policy x);
     Some \<lparr>ps_WorkloadRef = m_ps_WorkloadRef x, ps_WorkloadType = m_ps_WorkloadType x,
           ps_Priority = m_ps_Priority x, ps_DemandShape = m_ps_DemandShape x,
           ps_TimeWindows = timeWindows, ps_SLO = slo, ps_Resources = resources,
           ps_Policy = policy\<rparr>}"

definition read_AIWorkloadProfileStatus :: "cell memory \<Rightarrow> AIWorkloadProfileStatus_mem \<Rightarrow> (AIWorkloadProfileStatus \<times> Condition list) option" where
  "read_AIWorkloadProfileStatus m x = do {
     conditions \<leftarrow> readSlice kind_Condition readPlain m (m_pst_Conditions x);
     Some (\<lparr>pst_Phase = m_pst_Phase x, pst_CurrentWindow = m_pst_CurrentWindow x,
           pst_SLORisk = m_pst_SLORisk x\<rparr>, conditions)}"

definition read_AIWorkloadProfile :: "cell memory \<Rightarrow> AIWorkloadProfile_mem \<Rightarrow> (TypeMeta \<times> AIWorkloadProfile \<times> Condition list) option" where
  "read_AIWorkloadProfile m x = do {
     objectMeta \<leftarrow> read_ObjectMeta m (m_p_Meta x);
     spec \<leftarrow> read_AIWorkloadProfileSpec m (m_p_Spec x);
     (status, conditions) \<leftarrow> read_AIWorkloadProfileStatus m (m_p_Status x);
     Some (m_p_TypeMeta x, \<lparr>p_Meta = objectMeta, p_Spec = spec, p_Status = status\<rparr>, conditions)}"

definition read_AIWorkloadProfileList :: "cell memory \<Rightarrow> AIWorkloadProfileList_mem \<Rightarrow> (TypeMeta \<times> ListMeta \<times> (TypeMeta \<times> AIWorkloadProfile \<times> Condition list) list) option" where
  "read_AIWorkloadProfileList m x = do {
     listMeta \<leftarrow> read_ListMeta m (m_ppl_ListMeta x);
     items \<leftarrow> readSlice kind_AIWorkloadProfile read_AIWorkloadProfile m (m_ppl_Items x);
     Some (m_ppl_TypeMeta x, listMeta, items)}"

definition read_RuntimeCapacity :: "cell memory \<Rightarrow> RuntimeCapacity_mem \<Rightarrow> RuntimeCapacity option" where
  "read_RuntimeCapacity m x = do {
     tokenThroughput \<leftarrow> readPointer kind_TokenThroughput readPlain m (m_rc_TokenThroughput x);
     Some \<lparr>rc_KVCacheGiB = m_rc_KVCacheGiB x,
           rc_MaxConcurrentRequests = m_rc_MaxConcurrentRequests x,
           rc_MaxBatchTokens = m_rc_MaxBatchTokens x, rc_TokenThroughput = tokenThroughput\<rparr>}"

definition read_RuntimeSpec :: "cell memory \<Rightarrow> RuntimeSpec_mem \<Rightarrow> RuntimeSpec option" where
  "read_RuntimeSpec m x = do {
     supports \<leftarrow> readPointer kind_RuntimeSupports readPlain m (m_rt_Supports x);
     capacity \<leftarrow> readPointer kind_RuntimeCapacity read_RuntimeCapacity m (m_rt_Capacity x);
     Some \<lparr>rt_Type = m_rt_Type x, rt_Supports = supports, rt_Capacity = capacity\<rparr>}"

definition read_AINodeResourceProfileSpec :: "cell memory \<Rightarrow> AINodeResourceProfileSpec_mem \<Rightarrow> AINodeResourceProfileSpec option" where
  "read_AINodeResourceProfileSpec m x = do {
     gpus \<leftarrow> readSlice kind_GPUDeviceSpec readPlain m (m_ns_GPUs x);
     runtime \<leftarrow> readPointer kind_RuntimeSpec read_RuntimeSpec m (m_ns_Runtime x);
     capabilities \<leftarrow> readPointer kind_NodeCapabilities readPlain m (m_ns_Capabilities x);
     Some \<lparr>ns_NodeName = m_ns_NodeName x, ns_BackendType = m_ns_BackendType x, ns_GPUs = gpus,
           ns_Runtime = runtime, ns_Capabilities = capabilities\<rparr>}"

definition read_MIGSliceStatus :: "cell memory \<Rightarrow> MIGSliceStatus_mem \<Rightarrow> MIGSliceStatus option" where
  "read_MIGSliceStatus m x = do {
     allocatedTo \<leftarrow> readPointer kind_AllocationRef readPlain m (m_mig_AllocatedTo x);
     Some \<lparr>mig_ID = m_mig_ID x, mig_UUID = m_mig_UUID x, mig_Profile = m_mig_Profile x,
           mig_MemoryGiB = m_mig_MemoryGiB x, mig_ComputeSlices = m_mig_ComputeSlices x,
           mig_Allocatable = m_mig_Allocatable x, mig_Allocated = m_mig_Allocated x,
           mig_AllocatedTo = allocatedTo\<rparr>}"

definition read_GPUDeviceStatus :: "cell memory \<Rightarrow> GPUDeviceStatus_mem \<Rightarrow> GPUDeviceStatus option" where
  "read_GPUDeviceStatus m x = do {
     allocatedTo \<leftarrow> readPointer kind_AllocationRef readPlain m (m_gs_AllocatedTo x);
     migSlices \<leftarrow> readSlice kind_MIGSliceStatus read_MIGSliceStatus m (m_gs_MIGSlices x);
     Some \<lparr>gs_ID = m_gs_ID x, gs_UUID = m_gs_UUID x, gs_Allocated = m_gs_Allocated x,
           gs_MIGEnabled = m_gs_MIGEnabled x, gs_AllocatedTo = allocatedTo,
           gs_MIGSlices = migSlices\<rparr>}"

definition read_HourlyResourceForecast :: "cell memory \<Rightarrow> HourlyResourceForecast_mem \<Rightarrow> HourlyResourceForecast option" where
  "read_HourlyResourceForecast m x = do {
     generatedAt \<leftarrow> readTime m (m_hf_GeneratedAt x);
     resourceBuckets \<leftarrow> readSlice kind_ResourceSummary readPlain m (m_hf_ResourceBuckets x);
     Some \<lparr>hf_GeneratedAt = generatedAt, hf_Timezone = m_hf_Timezone x,
           hf_ResourceBuckets = resourceBuckets\<rparr>}"

definition read_RuntimeStatus :: "cell memory \<Rightarrow> RuntimeStatus_mem \<Rightarrow> RuntimeStatus option" where
  "read_RuntimeStatus m x = do {
     pressure \<leftarrow> readPointer kind_RuntimePressure readPlain m (m_rst_Pressure x);
     Some \<lparr>rst_Pressure = pressure\<rparr>}"

definition read_NodeAllocationStatus :: "cell memory \<Rightarrow> NodeAllocationStatus_mem \<Rightarrow> NodeAllocationStatus option" where
  "read_NodeAllocationStatus m x = do {
     timeWindows \<leftarrow> readSlice kind_TimeWindow readPlain m (m_na_TimeWindows x);
     resourceRequest \<leftarrow> readPointer kind_WorkloadResourceRequest read_WorkloadResourceRequest m (m_na_ResourceRequest x);
     assignedGPU \<leftarrow> readPointer kind_AssignedGPU readPlain m (m_na_AssignedGPU x);
     resources \<leftarrow> readPointer kind_ResourceSummary readPlain m (m_na_Resources x);
     current \<leftarrow> readPointer kind_ResourceSummary readPlain m (m_na_Current x);
     hourlyForecast \<leftarrow> readPointer kind_HourlyResourceForecast read_HourlyResourceForecast m (m_na_HourlyForecast x);
     actions \<leftarrow> readPointer kind_AllocationActions readPlain m (m_na_Actions x);
     Some \<lparr>na_Name = m_na_Name x, na_Namespace = m_na_Namespace x,
           na_WorkloadName = m_na_WorkloadName x, na_WorkloadType = m_na_WorkloadType x,
           na_Priority = m_na_Priority x, na_DemandShape = m_na_DemandShape x,
           na_TimeWindows = timeWindows, na_ResourceRequest = resourceRequest,
           na_AssignedGPU = assignedGPU, na_Resources = resources, na_Current = current,
           na_HourlyForecast = hourlyForecast, na_Actions = actions, na_Phase = m_na_Phase x\<rparr>}"

definition read_AINodeResourceProfileStatus :: "cell memory \<Rightarrow> AINodeResourceProfileStatus_mem \<Rightarrow> (AINodeResourceProfileStatus \<times> Condition list) option" where
  "read_AINodeResourceProfileStatus m x = do {
     observedAt \<leftarrow> readTime m (m_nst_ObservedAt x);
     gpus \<leftarrow> readSlice kind_GPUDeviceStatus read_GPUDeviceStatus m (m_nst_GPUs x);
     allocatable \<leftarrow> readPointer kind_ResourceSummary readPlain m (m_nst_Allocatable x);
     allocated \<leftarrow> readPointer kind_ResourceSummary readPlain m (m_nst_Allocated x);
     available \<leftarrow> readPointer kind_ResourceSummary readPlain m (m_nst_Available x);
     hourlyForecast \<leftarrow> readPointer kind_HourlyResourceForecast read_HourlyResourceForecast m (m_nst_HourlyForecast x);
     runtime \<leftarrow> readPointer kind_RuntimeStatus read_RuntimeStatus m (m_nst_Runtime x);
     allocations \<leftarrow> readSlice kind_NodeAllocationStatus read_NodeAllocationStatus m (m_nst_Allocations x);
     conditions \<leftarrow> readSlice kind_Condition readPlain m (m_nst_Conditions x);
     Some (\<lparr>nst_Phase = m_nst_Phase x, nst_ObservedAt = observedAt, nst_GPUs = gpus,
           nst_Allocatable = allocatable, nst_Allocated = allocated,
           nst_Available = available, nst_HourlyForecast = hourlyForecast,
           nst_Runtime = runtime, nst_Allocations = allocations\<rparr>, conditions)}"

definition read_AINodeResourceProfile :: "cell memory \<Rightarrow> AINodeResourceProfile_mem \<Rightarrow> (TypeMeta \<times> AINodeResourceProfile \<times> Condition list) option" where
  "read_AINodeResourceProfile m x = do {
     objectMeta \<leftarrow> read_ObjectMeta m (m_n_Meta x);
     spec \<leftarrow> read_AINodeResourceProfileSpec m (m_n_Spec x);
     (status, conditions) \<leftarrow> read_AINodeResourceProfileStatus m (m_n_Status x);
     Some (m_n_TypeMeta x, \<lparr>n_Meta = objectMeta, n_Spec = spec, n_Status = status\<rparr>, conditions)}"

definition read_AINodeResourceProfileList :: "cell memory \<Rightarrow> AINodeResourceProfileList_mem \<Rightarrow> (TypeMeta \<times> ListMeta \<times> (TypeMeta \<times> AINodeResourceProfile \<times> Condition list) list) option" where
  "read_AINodeResourceProfileList m x = do {
     listMeta \<leftarrow> read_ListMeta m (m_nnl_ListMeta x);
     items \<leftarrow> readSlice kind_AINodeResourceProfile read_AINodeResourceProfile m (m_nnl_Items x);
     Some (m_nnl_TypeMeta x, listMeta, items)}"

definition read_AllocationWorkloadSpec :: "cell memory \<Rightarrow> AllocationWorkloadSpec_mem \<Rightarrow> AllocationWorkloadSpec option" where
  "read_AllocationWorkloadSpec m x = do {
     timeWindows \<leftarrow> readSlice kind_TimeWindow readPlain m (m_aw_TimeWindows x);
     resourceRequest \<leftarrow> readPointer kind_WorkloadResourceRequest read_WorkloadResourceRequest m (m_aw_ResourceRequest x);
     assignedGPU \<leftarrow> readPointer kind_AssignedGPU readPlain m (m_aw_AssignedGPU x);
     resources \<leftarrow> readPointer kind_ResourceSummary readPlain m (m_aw_Resources x);
     desired \<leftarrow> readPointer kind_ResourceSummary readPlain m (m_aw_Desired x);
     actions \<leftarrow> readPointer kind_AllocationActions readPlain m (m_aw_Actions x);
     Some \<lparr>aw_Name = m_aw_Name x, aw_WorkloadRef = m_aw_WorkloadRef x,
           aw_SourcePodName = m_aw_SourcePodName x, aw_SourcePodUID = m_aw_SourcePodUID x,
           aw_WorkloadType = m_aw_WorkloadType x, aw_Priority = m_aw_Priority x,
           aw_DemandShape = m_aw_DemandShape x, aw_TimeWindows = timeWindows,
           aw_ResourceRequest = resourceRequest, aw_AssignedGPU = assignedGPU,
           aw_Resources = resources, aw_Desired = desired,
           aw_AllocationType = m_aw_AllocationType x, aw_Actions = actions,
           aw_Reason = m_aw_Reason x\<rparr>}"

definition read_AIResourceAllocationSpec :: "cell memory \<Rightarrow> AIResourceAllocationSpec_mem \<Rightarrow> AIResourceAllocationSpec option" where
  "read_AIResourceAllocationSpec m x = do {
     workloads \<leftarrow> readSlice kind_AllocationWorkloadSpec read_AllocationWorkloadSpec m (m_as_Workloads x);
     timeWindows \<leftarrow> readSlice kind_TimeWindow readPlain m (m_as_TimeWindows x);
     resourceRequest \<leftarrow> readPointer kind_WorkloadResourceRequest read_WorkloadResourceRequest m (m_as_ResourceRequest x);
     assignedGPU \<leftarrow> readPointer kind_AssignedGPU readPlain m (m_as_AssignedGPU x);
     resources \<leftarrow> readPointer kind_ResourceSummary readPlain m (m_as_Resources x);
     actions \<leftarrow> readPointer kind_AllocationActions readPlain m (m_as_Actions x);
     Some \<lparr>as_NodeName = m_as_NodeName x, as_Workloads = workloads, as_Reason = m_as_Reason x,
           as_WorkloadRef = m_as_WorkloadRef x, as_WorkloadType = m_as_WorkloadType x,
           as_Priority = m_as_Priority x, as_DemandShape = m_as_DemandShape x,
           as_TimeWindows = timeWindows, as_ResourceRequest = resourceRequest,
           as_AssignedGPU = assignedGPU, as_Resources = resources,
           as_AllocationType = m_as_AllocationType x, as_Actions = actions\<rparr>}"

definition read_NodeAllocationLedger :: "cell memory \<Rightarrow> NodeAllocationLedger_mem \<Rightarrow> NodeAllocationLedger option" where
  "read_NodeAllocationLedger m x = do {
     total \<leftarrow> readPointer kind_ResourceSummary readPlain m (m_nl_Total x);
     allocated \<leftarrow> readPointer kind_ResourceSummary readPlain m (m_nl_Allocated x);
     available \<leftarrow> readPointer kind_ResourceSummary readPlain m (m_nl_Available x);
     Some \<lparr>nl_Total = total, nl_Allocated = allocated, nl_Available = available\<rparr>}"

definition read_AllocationWorkloadStatus :: "cell memory \<Rightarrow> AllocationWorkloadStatus_mem \<Rightarrow> AllocationWorkloadStatus option" where
  "read_AllocationWorkloadStatus m x = do {
     workloadRef \<leftarrow> readPointer kind_KubernetesObjectRef readPlain m (m_ws_WorkloadRef x);
     desired \<leftarrow> readPointer kind_ResourceSummary readPlain m (m_ws_Desired x);
     applied \<leftarrow> readPointer kind_ResourceSummary readPlain m (m_ws_Applied x);
     hourlyForecast \<leftarrow> readPointer kind_HourlyResourceForecast read_HourlyResourceForecast m (m_ws_HourlyForecast x);
     assignedGPU \<leftarrow> readPointer kind_AssignedGPU readPlain m (m_ws_AssignedGPU x);
     Some \<lparr>ws_Name = m_ws_Name x, ws_WorkloadRef = workloadRef,
           ws_SourcePodName = m_ws_SourcePodName x, ws_Phase = m_ws_Phase x,
           ws_Priority = m_ws_Priority x, ws_DemandShape = m_ws_DemandShape x,
           ws_ActiveWindow = m_ws_ActiveWindow x, ws_Desired = desired, ws_Applied = applied,
           ws_HourlyForecast = hourlyForecast, ws_AssignedGPU = assignedGPU,
           ws_Action = m_ws_Action x, ws_Message = m_ws_Message x\<rparr>}"

definition read_AIResourceAllocationStatus :: "cell memory \<Rightarrow> AIResourceAllocationStatus_mem \<Rightarrow> (AIResourceAllocationStatus \<times> Condition list) option" where
  "read_AIResourceAllocationStatus m x = do {
     observedAt \<leftarrow> readTime m (m_ast_ObservedAt x);
     appliedAt \<leftarrow> readTime m (m_ast_AppliedAt x);
     nodeLedger \<leftarrow> readPointer kind_NodeAllocationLedger read_NodeAllocationLedger m (m_ast_NodeLedger x);
     workloads \<leftarrow> readSlice kind_AllocationWorkloadStatus read_AllocationWorkloadStatus m (m_ast_Workloads x);
     observedResources \<leftarrow> readPointer kind_ResourceSummary readPlain m (m_ast_ObservedResources x);
     current \<leftarrow> readPointer kind_ResourceSummary readPlain m (m_ast_Current x);
     hourlyForecast \<leftarrow> readPointer kind_HourlyResourceForecast read_HourlyResourceForecast m (m_ast_HourlyForecast x);
     conditions \<leftarrow> readSlice kind_Condition readPlain m (m_ast_Conditions x);
     Some (\<lparr>ast_Phase = m_ast_Phase x, ast_ObservedAt = observedAt, ast_AppliedAt = appliedAt,
           ast_NodeLedger = nodeLedger, ast_Workloads = workloads,
           ast_ObservedResources = observedResources, ast_Current = current,
           ast_HourlyForecast = hourlyForecast, ast_Message = m_ast_Message x\<rparr>, conditions)}"

definition read_AIResourceAllocation :: "cell memory \<Rightarrow> AIResourceAllocation_mem \<Rightarrow> (TypeMeta \<times> AIResourceAllocation \<times> Condition list) option" where
  "read_AIResourceAllocation m x = do {
     objectMeta \<leftarrow> read_ObjectMeta m (m_a_Meta x);
     spec \<leftarrow> read_AIResourceAllocationSpec m (m_a_Spec x);
     (status, conditions) \<leftarrow> read_AIResourceAllocationStatus m (m_a_Status x);
     Some (m_a_TypeMeta x, \<lparr>a_Meta = objectMeta, a_Spec = spec, a_Status = status\<rparr>, conditions)}"

definition read_AIResourceAllocationList :: "cell memory \<Rightarrow> AIResourceAllocationList_mem \<Rightarrow> (TypeMeta \<times> ListMeta \<times> (TypeMeta \<times> AIResourceAllocation \<times> Condition list) list) option" where
  "read_AIResourceAllocationList m x = do {
     listMeta \<leftarrow> read_ListMeta m (m_aal_ListMeta x);
     items \<leftarrow> readSlice kind_AIResourceAllocation read_AIResourceAllocation m (m_aal_Items x);
     Some (m_aal_TypeMeta x, listMeta, items)}"

end
