(* ===== verification/DeepCopy.thy ===== *)
theory DeepCopy
  imports MemTypes
begin

text \<open>
  The generated deep copies: \<open>src/api/v1alpha1/zz_generated.deepcopy.go\<close>, one definition per function.
  \<open>DeepCopyInto_T\<close> takes the struct that \<open>in\<close> points to and returns the one that \<open>out\<close> points to
  afterwards (\<open>*out = *in\<close> first, then one block per pointer or slice field, in the order of the
  source); \<open>DeepCopy_T\<close> takes and returns a pointer.  The deep copies of \<open>metav1\<close> are a parameter.

  The rest of the development treats objects as values, so that a deep copy is the identity.  The
  theorems here are why it may: a copy has the value of the original, and no write to the cells of
  one of them is seen through the other.
\<close>

section \<open>The deep copies of metav1\<close>

record DeepCopyLib =
  dl_ObjectMeta :: "ObjectMeta_mem \<Rightarrow> cell store \<Rightarrow> (ObjectMeta_mem \<times> cell store) option"
  dl_ListMeta :: "ListMeta_mem \<Rightarrow> cell store \<Rightarrow> (ListMeta_mem \<times> cell store) option"
  dl_Condition :: "Condition \<Rightarrow> cell store \<Rightarrow> (Condition \<times> cell store) option"
  dl_Time :: "pointer \<Rightarrow> cell store \<Rightarrow> (pointer \<times> cell store) option"

text \<open>The block for a field of type \<open>*metav1.Time\<close>.\<close>

definition copyTime :: "DeepCopyLib \<Rightarrow> pointer \<Rightarrow> cell store \<Rightarrow> (pointer \<times> cell store) option" where
  "copyTime lib p s = (if p \<noteq> None then dl_Time lib p s else Some (p, s))"

section \<open>DeepCopyInto\<close>

definition DeepCopyInto_KubernetesObjectRef ::
    "KubernetesObjectRef \<Rightarrow> cell store \<Rightarrow> (KubernetesObjectRef \<times> cell store) option" where
  "DeepCopyInto_KubernetesObjectRef src s = assign src s"

definition DeepCopyInto_TimeWindow ::
    "TimeWindow \<Rightarrow> cell store \<Rightarrow> (TimeWindow \<times> cell store) option" where
  "DeepCopyInto_TimeWindow src s = assign src s"

definition DeepCopyInto_WorkloadSLO ::
    "WorkloadSLO \<Rightarrow> cell store \<Rightarrow> (WorkloadSLO \<times> cell store) option" where
  "DeepCopyInto_WorkloadSLO src s = assign src s"

definition DeepCopyInto_ResourceSummary ::
    "ResourceSummary \<Rightarrow> cell store \<Rightarrow> (ResourceSummary \<times> cell store) option" where
  "DeepCopyInto_ResourceSummary src s = assign src s"

definition DeepCopyInto_WorkloadResourceRequest ::
    "WorkloadResourceRequest_mem \<Rightarrow> cell store \<Rightarrow> (WorkloadResourceRequest_mem \<times> cell store) option" where
  "DeepCopyInto_WorkloadResourceRequest src s = do {
     (required, s) \<leftarrow> copyPointer kind_ResourceSummary assign (m_wr_Required src) s;
     (preferred, s) \<leftarrow> copyPointer kind_ResourceSummary assign (m_wr_Preferred src) s;
     (max, s) \<leftarrow> copyPointer kind_ResourceSummary assign (m_wr_Max src) s;
     Some (src \<lparr>m_wr_Required := required, m_wr_Preferred := preferred, m_wr_Max := max\<rparr>, s)}"

definition DeepCopyInto_WorkloadPolicy ::
    "WorkloadPolicy \<Rightarrow> cell store \<Rightarrow> (WorkloadPolicy \<times> cell store) option" where
  "DeepCopyInto_WorkloadPolicy src s = assign src s"

definition DeepCopyInto_AIWorkloadProfileSpec ::
    "AIWorkloadProfileSpec_mem \<Rightarrow> cell store \<Rightarrow> (AIWorkloadProfileSpec_mem \<times> cell store) option" where
  "DeepCopyInto_AIWorkloadProfileSpec src s = do {
     (timeWindows, s) \<leftarrow> copySlice kind_TimeWindow assign (m_ps_TimeWindows src) s;
     (slo, s) \<leftarrow> copyPointer kind_WorkloadSLO assign (m_ps_SLO src) s;
     (resources, s) \<leftarrow> copyPointer kind_WorkloadResourceRequest DeepCopyInto_WorkloadResourceRequest (m_ps_Resources src) s;
     (policy, s) \<leftarrow> copyPointer kind_WorkloadPolicy assign (m_ps_Policy src) s;
     Some (src \<lparr>m_ps_TimeWindows := timeWindows, m_ps_SLO := slo, m_ps_Resources := resources,
                m_ps_Policy := policy\<rparr>, s)}"

definition DeepCopyInto_AIWorkloadProfileStatus ::
    "DeepCopyLib \<Rightarrow> AIWorkloadProfileStatus_mem \<Rightarrow> cell store \<Rightarrow> (AIWorkloadProfileStatus_mem \<times> cell store) option" where
  "DeepCopyInto_AIWorkloadProfileStatus lib src s = do {
     (conditions, s) \<leftarrow> copySlice kind_Condition (dl_Condition lib) (m_pst_Conditions src) s;
     Some (src \<lparr>m_pst_Conditions := conditions\<rparr>, s)}"

definition DeepCopyInto_AIWorkloadProfile ::
    "DeepCopyLib \<Rightarrow> AIWorkloadProfile_mem \<Rightarrow> cell store \<Rightarrow> (AIWorkloadProfile_mem \<times> cell store) option" where
  "DeepCopyInto_AIWorkloadProfile lib src s = do {
     (objectMeta, s) \<leftarrow> dl_ObjectMeta lib (m_p_Meta src) s;
     (spec, s) \<leftarrow> DeepCopyInto_AIWorkloadProfileSpec (m_p_Spec src) s;
     (status, s) \<leftarrow> DeepCopyInto_AIWorkloadProfileStatus lib (m_p_Status src) s;
     Some (src \<lparr>m_p_Meta := objectMeta, m_p_Spec := spec, m_p_Status := status\<rparr>, s)}"

definition DeepCopyInto_AIWorkloadProfileList ::
    "DeepCopyLib \<Rightarrow> AIWorkloadProfileList_mem \<Rightarrow> cell store \<Rightarrow> (AIWorkloadProfileList_mem \<times> cell store) option" where
  "DeepCopyInto_AIWorkloadProfileList lib src s = do {
     (listMeta, s) \<leftarrow> dl_ListMeta lib (m_ppl_ListMeta src) s;
     (items, s) \<leftarrow> copySlice kind_AIWorkloadProfile (DeepCopyInto_AIWorkloadProfile lib) (m_ppl_Items src) s;
     Some (src \<lparr>m_ppl_ListMeta := listMeta, m_ppl_Items := items\<rparr>, s)}"

definition DeepCopyInto_GPUDeviceSpec ::
    "GPUDeviceSpec \<Rightarrow> cell store \<Rightarrow> (GPUDeviceSpec \<times> cell store) option" where
  "DeepCopyInto_GPUDeviceSpec src s = assign src s"

definition DeepCopyInto_RuntimeSupports ::
    "RuntimeSupports \<Rightarrow> cell store \<Rightarrow> (RuntimeSupports \<times> cell store) option" where
  "DeepCopyInto_RuntimeSupports src s = assign src s"

definition DeepCopyInto_TokenThroughput ::
    "TokenThroughput \<Rightarrow> cell store \<Rightarrow> (TokenThroughput \<times> cell store) option" where
  "DeepCopyInto_TokenThroughput src s = assign src s"

definition DeepCopyInto_RuntimeCapacity ::
    "RuntimeCapacity_mem \<Rightarrow> cell store \<Rightarrow> (RuntimeCapacity_mem \<times> cell store) option" where
  "DeepCopyInto_RuntimeCapacity src s = do {
     (tokenThroughput, s) \<leftarrow> copyPointer kind_TokenThroughput assign (m_rc_TokenThroughput src) s;
     Some (src \<lparr>m_rc_TokenThroughput := tokenThroughput\<rparr>, s)}"

definition DeepCopyInto_RuntimeSpec ::
    "RuntimeSpec_mem \<Rightarrow> cell store \<Rightarrow> (RuntimeSpec_mem \<times> cell store) option" where
  "DeepCopyInto_RuntimeSpec src s = do {
     (supports, s) \<leftarrow> copyPointer kind_RuntimeSupports assign (m_rt_Supports src) s;
     (capacity, s) \<leftarrow> copyPointer kind_RuntimeCapacity DeepCopyInto_RuntimeCapacity (m_rt_Capacity src) s;
     Some (src \<lparr>m_rt_Supports := supports, m_rt_Capacity := capacity\<rparr>, s)}"

definition DeepCopyInto_NodeCapabilities ::
    "NodeCapabilities \<Rightarrow> cell store \<Rightarrow> (NodeCapabilities \<times> cell store) option" where
  "DeepCopyInto_NodeCapabilities src s = assign src s"

definition DeepCopyInto_AINodeResourceProfileSpec ::
    "AINodeResourceProfileSpec_mem \<Rightarrow> cell store \<Rightarrow> (AINodeResourceProfileSpec_mem \<times> cell store) option" where
  "DeepCopyInto_AINodeResourceProfileSpec src s = do {
     (gpus, s) \<leftarrow> copySlice kind_GPUDeviceSpec assign (m_ns_GPUs src) s;
     (runtime, s) \<leftarrow> copyPointer kind_RuntimeSpec DeepCopyInto_RuntimeSpec (m_ns_Runtime src) s;
     (capabilities, s) \<leftarrow> copyPointer kind_NodeCapabilities assign (m_ns_Capabilities src) s;
     Some (src \<lparr>m_ns_GPUs := gpus, m_ns_Runtime := runtime, m_ns_Capabilities := capabilities\<rparr>, s)}"

definition DeepCopyInto_AllocationRef ::
    "AllocationRef \<Rightarrow> cell store \<Rightarrow> (AllocationRef \<times> cell store) option" where
  "DeepCopyInto_AllocationRef src s = assign src s"

definition DeepCopyInto_MIGSliceStatus ::
    "MIGSliceStatus_mem \<Rightarrow> cell store \<Rightarrow> (MIGSliceStatus_mem \<times> cell store) option" where
  "DeepCopyInto_MIGSliceStatus src s = do {
     (allocatedTo, s) \<leftarrow> copyPointer kind_AllocationRef assign (m_mig_AllocatedTo src) s;
     Some (src \<lparr>m_mig_AllocatedTo := allocatedTo\<rparr>, s)}"

definition DeepCopyInto_GPUDeviceStatus ::
    "GPUDeviceStatus_mem \<Rightarrow> cell store \<Rightarrow> (GPUDeviceStatus_mem \<times> cell store) option" where
  "DeepCopyInto_GPUDeviceStatus src s = do {
     (allocatedTo, s) \<leftarrow> copyPointer kind_AllocationRef assign (m_gs_AllocatedTo src) s;
     (migSlices, s) \<leftarrow> copySlice kind_MIGSliceStatus DeepCopyInto_MIGSliceStatus (m_gs_MIGSlices src) s;
     Some (src \<lparr>m_gs_AllocatedTo := allocatedTo, m_gs_MIGSlices := migSlices\<rparr>, s)}"

definition DeepCopyInto_HourlyResourceForecast ::
    "DeepCopyLib \<Rightarrow> HourlyResourceForecast_mem \<Rightarrow> cell store \<Rightarrow> (HourlyResourceForecast_mem \<times> cell store) option" where
  "DeepCopyInto_HourlyResourceForecast lib src s = do {
     (generatedAt, s) \<leftarrow> copyTime lib (m_hf_GeneratedAt src) s;
     (resourceBuckets, s) \<leftarrow> copySlice kind_ResourceSummary assign (m_hf_ResourceBuckets src) s;
     Some (src \<lparr>m_hf_GeneratedAt := generatedAt, m_hf_ResourceBuckets := resourceBuckets\<rparr>, s)}"

definition DeepCopyInto_RuntimePressure ::
    "RuntimePressure \<Rightarrow> cell store \<Rightarrow> (RuntimePressure \<times> cell store) option" where
  "DeepCopyInto_RuntimePressure src s = assign src s"

definition DeepCopyInto_RuntimeStatus ::
    "RuntimeStatus_mem \<Rightarrow> cell store \<Rightarrow> (RuntimeStatus_mem \<times> cell store) option" where
  "DeepCopyInto_RuntimeStatus src s = do {
     (pressure, s) \<leftarrow> copyPointer kind_RuntimePressure assign (m_rst_Pressure src) s;
     Some (src \<lparr>m_rst_Pressure := pressure\<rparr>, s)}"

definition DeepCopyInto_AssignedGPU ::
    "AssignedGPU \<Rightarrow> cell store \<Rightarrow> (AssignedGPU \<times> cell store) option" where
  "DeepCopyInto_AssignedGPU src s = assign src s"

definition DeepCopyInto_AllocationActions ::
    "AllocationActions \<Rightarrow> cell store \<Rightarrow> (AllocationActions \<times> cell store) option" where
  "DeepCopyInto_AllocationActions src s = assign src s"

definition DeepCopyInto_NodeAllocationStatus ::
    "DeepCopyLib \<Rightarrow> NodeAllocationStatus_mem \<Rightarrow> cell store \<Rightarrow> (NodeAllocationStatus_mem \<times> cell store) option" where
  "DeepCopyInto_NodeAllocationStatus lib src s = do {
     (timeWindows, s) \<leftarrow> copySlice kind_TimeWindow assign (m_na_TimeWindows src) s;
     (resourceRequest, s) \<leftarrow> copyPointer kind_WorkloadResourceRequest DeepCopyInto_WorkloadResourceRequest (m_na_ResourceRequest src) s;
     (assignedGPU, s) \<leftarrow> copyPointer kind_AssignedGPU assign (m_na_AssignedGPU src) s;
     (resources, s) \<leftarrow> copyPointer kind_ResourceSummary assign (m_na_Resources src) s;
     (current, s) \<leftarrow> copyPointer kind_ResourceSummary assign (m_na_Current src) s;
     (hourlyForecast, s) \<leftarrow> copyPointer kind_HourlyResourceForecast (DeepCopyInto_HourlyResourceForecast lib) (m_na_HourlyForecast src) s;
     (actions, s) \<leftarrow> copyPointer kind_AllocationActions assign (m_na_Actions src) s;
     Some (src \<lparr>m_na_TimeWindows := timeWindows, m_na_ResourceRequest := resourceRequest,
                m_na_AssignedGPU := assignedGPU, m_na_Resources := resources,
                m_na_Current := current, m_na_HourlyForecast := hourlyForecast,
                m_na_Actions := actions\<rparr>, s)}"

definition DeepCopyInto_AINodeResourceProfileStatus ::
    "DeepCopyLib \<Rightarrow> AINodeResourceProfileStatus_mem \<Rightarrow> cell store \<Rightarrow> (AINodeResourceProfileStatus_mem \<times> cell store) option" where
  "DeepCopyInto_AINodeResourceProfileStatus lib src s = do {
     (observedAt, s) \<leftarrow> copyTime lib (m_nst_ObservedAt src) s;
     (gpus, s) \<leftarrow> copySlice kind_GPUDeviceStatus DeepCopyInto_GPUDeviceStatus (m_nst_GPUs src) s;
     (allocatable, s) \<leftarrow> copyPointer kind_ResourceSummary assign (m_nst_Allocatable src) s;
     (allocated, s) \<leftarrow> copyPointer kind_ResourceSummary assign (m_nst_Allocated src) s;
     (available, s) \<leftarrow> copyPointer kind_ResourceSummary assign (m_nst_Available src) s;
     (hourlyForecast, s) \<leftarrow> copyPointer kind_HourlyResourceForecast (DeepCopyInto_HourlyResourceForecast lib) (m_nst_HourlyForecast src) s;
     (runtime, s) \<leftarrow> copyPointer kind_RuntimeStatus DeepCopyInto_RuntimeStatus (m_nst_Runtime src) s;
     (allocations, s) \<leftarrow> copySlice kind_NodeAllocationStatus (DeepCopyInto_NodeAllocationStatus lib) (m_nst_Allocations src) s;
     (conditions, s) \<leftarrow> copySlice kind_Condition (dl_Condition lib) (m_nst_Conditions src) s;
     Some (src \<lparr>m_nst_ObservedAt := observedAt, m_nst_GPUs := gpus,
                m_nst_Allocatable := allocatable, m_nst_Allocated := allocated,
                m_nst_Available := available, m_nst_HourlyForecast := hourlyForecast,
                m_nst_Runtime := runtime, m_nst_Allocations := allocations,
                m_nst_Conditions := conditions\<rparr>, s)}"

definition DeepCopyInto_AINodeResourceProfile ::
    "DeepCopyLib \<Rightarrow> AINodeResourceProfile_mem \<Rightarrow> cell store \<Rightarrow> (AINodeResourceProfile_mem \<times> cell store) option" where
  "DeepCopyInto_AINodeResourceProfile lib src s = do {
     (objectMeta, s) \<leftarrow> dl_ObjectMeta lib (m_n_Meta src) s;
     (spec, s) \<leftarrow> DeepCopyInto_AINodeResourceProfileSpec (m_n_Spec src) s;
     (status, s) \<leftarrow> DeepCopyInto_AINodeResourceProfileStatus lib (m_n_Status src) s;
     Some (src \<lparr>m_n_Meta := objectMeta, m_n_Spec := spec, m_n_Status := status\<rparr>, s)}"

definition DeepCopyInto_AINodeResourceProfileList ::
    "DeepCopyLib \<Rightarrow> AINodeResourceProfileList_mem \<Rightarrow> cell store \<Rightarrow> (AINodeResourceProfileList_mem \<times> cell store) option" where
  "DeepCopyInto_AINodeResourceProfileList lib src s = do {
     (listMeta, s) \<leftarrow> dl_ListMeta lib (m_nnl_ListMeta src) s;
     (items, s) \<leftarrow> copySlice kind_AINodeResourceProfile (DeepCopyInto_AINodeResourceProfile lib) (m_nnl_Items src) s;
     Some (src \<lparr>m_nnl_ListMeta := listMeta, m_nnl_Items := items\<rparr>, s)}"

definition DeepCopyInto_AllocationWorkloadSpec ::
    "AllocationWorkloadSpec_mem \<Rightarrow> cell store \<Rightarrow> (AllocationWorkloadSpec_mem \<times> cell store) option" where
  "DeepCopyInto_AllocationWorkloadSpec src s = do {
     (timeWindows, s) \<leftarrow> copySlice kind_TimeWindow assign (m_aw_TimeWindows src) s;
     (resourceRequest, s) \<leftarrow> copyPointer kind_WorkloadResourceRequest DeepCopyInto_WorkloadResourceRequest (m_aw_ResourceRequest src) s;
     (assignedGPU, s) \<leftarrow> copyPointer kind_AssignedGPU assign (m_aw_AssignedGPU src) s;
     (resources, s) \<leftarrow> copyPointer kind_ResourceSummary assign (m_aw_Resources src) s;
     (desired, s) \<leftarrow> copyPointer kind_ResourceSummary assign (m_aw_Desired src) s;
     (actions, s) \<leftarrow> copyPointer kind_AllocationActions assign (m_aw_Actions src) s;
     Some (src \<lparr>m_aw_TimeWindows := timeWindows, m_aw_ResourceRequest := resourceRequest,
                m_aw_AssignedGPU := assignedGPU, m_aw_Resources := resources,
                m_aw_Desired := desired, m_aw_Actions := actions\<rparr>, s)}"

definition DeepCopyInto_AIResourceAllocationSpec ::
    "AIResourceAllocationSpec_mem \<Rightarrow> cell store \<Rightarrow> (AIResourceAllocationSpec_mem \<times> cell store) option" where
  "DeepCopyInto_AIResourceAllocationSpec src s = do {
     (workloads, s) \<leftarrow> copySlice kind_AllocationWorkloadSpec DeepCopyInto_AllocationWorkloadSpec (m_as_Workloads src) s;
     (timeWindows, s) \<leftarrow> copySlice kind_TimeWindow assign (m_as_TimeWindows src) s;
     (resourceRequest, s) \<leftarrow> copyPointer kind_WorkloadResourceRequest DeepCopyInto_WorkloadResourceRequest (m_as_ResourceRequest src) s;
     (assignedGPU, s) \<leftarrow> copyPointer kind_AssignedGPU assign (m_as_AssignedGPU src) s;
     (resources, s) \<leftarrow> copyPointer kind_ResourceSummary assign (m_as_Resources src) s;
     (actions, s) \<leftarrow> copyPointer kind_AllocationActions assign (m_as_Actions src) s;
     Some (src \<lparr>m_as_Workloads := workloads, m_as_TimeWindows := timeWindows,
                m_as_ResourceRequest := resourceRequest, m_as_AssignedGPU := assignedGPU,
                m_as_Resources := resources, m_as_Actions := actions\<rparr>, s)}"

definition DeepCopyInto_NodeAllocationLedger ::
    "NodeAllocationLedger_mem \<Rightarrow> cell store \<Rightarrow> (NodeAllocationLedger_mem \<times> cell store) option" where
  "DeepCopyInto_NodeAllocationLedger src s = do {
     (total, s) \<leftarrow> copyPointer kind_ResourceSummary assign (m_nl_Total src) s;
     (allocated, s) \<leftarrow> copyPointer kind_ResourceSummary assign (m_nl_Allocated src) s;
     (available, s) \<leftarrow> copyPointer kind_ResourceSummary assign (m_nl_Available src) s;
     Some (src \<lparr>m_nl_Total := total, m_nl_Allocated := allocated, m_nl_Available := available\<rparr>, s)}"

definition DeepCopyInto_AllocationWorkloadStatus ::
    "DeepCopyLib \<Rightarrow> AllocationWorkloadStatus_mem \<Rightarrow> cell store \<Rightarrow> (AllocationWorkloadStatus_mem \<times> cell store) option" where
  "DeepCopyInto_AllocationWorkloadStatus lib src s = do {
     (workloadRef, s) \<leftarrow> copyPointer kind_KubernetesObjectRef assign (m_ws_WorkloadRef src) s;
     (desired, s) \<leftarrow> copyPointer kind_ResourceSummary assign (m_ws_Desired src) s;
     (applied, s) \<leftarrow> copyPointer kind_ResourceSummary assign (m_ws_Applied src) s;
     (hourlyForecast, s) \<leftarrow> copyPointer kind_HourlyResourceForecast (DeepCopyInto_HourlyResourceForecast lib) (m_ws_HourlyForecast src) s;
     (assignedGPU, s) \<leftarrow> copyPointer kind_AssignedGPU assign (m_ws_AssignedGPU src) s;
     Some (src \<lparr>m_ws_WorkloadRef := workloadRef, m_ws_Desired := desired, m_ws_Applied := applied,
                m_ws_HourlyForecast := hourlyForecast, m_ws_AssignedGPU := assignedGPU\<rparr>, s)}"

definition DeepCopyInto_AIResourceAllocationStatus ::
    "DeepCopyLib \<Rightarrow> AIResourceAllocationStatus_mem \<Rightarrow> cell store \<Rightarrow> (AIResourceAllocationStatus_mem \<times> cell store) option" where
  "DeepCopyInto_AIResourceAllocationStatus lib src s = do {
     (observedAt, s) \<leftarrow> copyTime lib (m_ast_ObservedAt src) s;
     (appliedAt, s) \<leftarrow> copyTime lib (m_ast_AppliedAt src) s;
     (nodeLedger, s) \<leftarrow> copyPointer kind_NodeAllocationLedger DeepCopyInto_NodeAllocationLedger (m_ast_NodeLedger src) s;
     (workloads, s) \<leftarrow> copySlice kind_AllocationWorkloadStatus (DeepCopyInto_AllocationWorkloadStatus lib) (m_ast_Workloads src) s;
     (observedResources, s) \<leftarrow> copyPointer kind_ResourceSummary assign (m_ast_ObservedResources src) s;
     (current, s) \<leftarrow> copyPointer kind_ResourceSummary assign (m_ast_Current src) s;
     (hourlyForecast, s) \<leftarrow> copyPointer kind_HourlyResourceForecast (DeepCopyInto_HourlyResourceForecast lib) (m_ast_HourlyForecast src) s;
     (conditions, s) \<leftarrow> copySlice kind_Condition (dl_Condition lib) (m_ast_Conditions src) s;
     Some (src \<lparr>m_ast_ObservedAt := observedAt, m_ast_AppliedAt := appliedAt,
                m_ast_NodeLedger := nodeLedger, m_ast_Workloads := workloads,
                m_ast_ObservedResources := observedResources, m_ast_Current := current,
                m_ast_HourlyForecast := hourlyForecast, m_ast_Conditions := conditions\<rparr>, s)}"

definition DeepCopyInto_AIResourceAllocation ::
    "DeepCopyLib \<Rightarrow> AIResourceAllocation_mem \<Rightarrow> cell store \<Rightarrow> (AIResourceAllocation_mem \<times> cell store) option" where
  "DeepCopyInto_AIResourceAllocation lib src s = do {
     (objectMeta, s) \<leftarrow> dl_ObjectMeta lib (m_a_Meta src) s;
     (spec, s) \<leftarrow> DeepCopyInto_AIResourceAllocationSpec (m_a_Spec src) s;
     (status, s) \<leftarrow> DeepCopyInto_AIResourceAllocationStatus lib (m_a_Status src) s;
     Some (src \<lparr>m_a_Meta := objectMeta, m_a_Spec := spec, m_a_Status := status\<rparr>, s)}"

definition DeepCopyInto_AIResourceAllocationList ::
    "DeepCopyLib \<Rightarrow> AIResourceAllocationList_mem \<Rightarrow> cell store \<Rightarrow> (AIResourceAllocationList_mem \<times> cell store) option" where
  "DeepCopyInto_AIResourceAllocationList lib src s = do {
     (listMeta, s) \<leftarrow> dl_ListMeta lib (m_aal_ListMeta src) s;
     (items, s) \<leftarrow> copySlice kind_AIResourceAllocation (DeepCopyInto_AIResourceAllocation lib) (m_aal_Items src) s;
     Some (src \<lparr>m_aal_ListMeta := listMeta, m_aal_Items := items\<rparr>, s)}"

section \<open>DeepCopy\<close>

text \<open>nil for nil, otherwise a new struct and a copy into it.\<close>

definition DeepCopy_KubernetesObjectRef :: "pointer \<Rightarrow> cell store \<Rightarrow> (pointer \<times> cell store) option" where
  "DeepCopy_KubernetesObjectRef p s = copyPointer kind_KubernetesObjectRef DeepCopyInto_KubernetesObjectRef p s"

definition DeepCopy_TimeWindow :: "pointer \<Rightarrow> cell store \<Rightarrow> (pointer \<times> cell store) option" where
  "DeepCopy_TimeWindow p s = copyPointer kind_TimeWindow DeepCopyInto_TimeWindow p s"

definition DeepCopy_WorkloadSLO :: "pointer \<Rightarrow> cell store \<Rightarrow> (pointer \<times> cell store) option" where
  "DeepCopy_WorkloadSLO p s = copyPointer kind_WorkloadSLO DeepCopyInto_WorkloadSLO p s"

definition DeepCopy_ResourceSummary :: "pointer \<Rightarrow> cell store \<Rightarrow> (pointer \<times> cell store) option" where
  "DeepCopy_ResourceSummary p s = copyPointer kind_ResourceSummary DeepCopyInto_ResourceSummary p s"

definition DeepCopy_WorkloadResourceRequest :: "pointer \<Rightarrow> cell store \<Rightarrow> (pointer \<times> cell store) option" where
  "DeepCopy_WorkloadResourceRequest p s = copyPointer kind_WorkloadResourceRequest DeepCopyInto_WorkloadResourceRequest p s"

definition DeepCopy_WorkloadPolicy :: "pointer \<Rightarrow> cell store \<Rightarrow> (pointer \<times> cell store) option" where
  "DeepCopy_WorkloadPolicy p s = copyPointer kind_WorkloadPolicy DeepCopyInto_WorkloadPolicy p s"

definition DeepCopy_AIWorkloadProfileSpec :: "pointer \<Rightarrow> cell store \<Rightarrow> (pointer \<times> cell store) option" where
  "DeepCopy_AIWorkloadProfileSpec p s = copyPointer kind_AIWorkloadProfileSpec DeepCopyInto_AIWorkloadProfileSpec p s"

definition DeepCopy_AIWorkloadProfileStatus :: "DeepCopyLib \<Rightarrow> pointer \<Rightarrow> cell store \<Rightarrow> (pointer \<times> cell store) option" where
  "DeepCopy_AIWorkloadProfileStatus lib p s = copyPointer kind_AIWorkloadProfileStatus (DeepCopyInto_AIWorkloadProfileStatus lib) p s"

definition DeepCopy_AIWorkloadProfile :: "DeepCopyLib \<Rightarrow> pointer \<Rightarrow> cell store \<Rightarrow> (pointer \<times> cell store) option" where
  "DeepCopy_AIWorkloadProfile lib p s = copyPointer kind_AIWorkloadProfile (DeepCopyInto_AIWorkloadProfile lib) p s"

definition DeepCopy_AIWorkloadProfileList :: "DeepCopyLib \<Rightarrow> pointer \<Rightarrow> cell store \<Rightarrow> (pointer \<times> cell store) option" where
  "DeepCopy_AIWorkloadProfileList lib p s = copyPointer kind_AIWorkloadProfileList (DeepCopyInto_AIWorkloadProfileList lib) p s"

definition DeepCopy_GPUDeviceSpec :: "pointer \<Rightarrow> cell store \<Rightarrow> (pointer \<times> cell store) option" where
  "DeepCopy_GPUDeviceSpec p s = copyPointer kind_GPUDeviceSpec DeepCopyInto_GPUDeviceSpec p s"

definition DeepCopy_RuntimeSupports :: "pointer \<Rightarrow> cell store \<Rightarrow> (pointer \<times> cell store) option" where
  "DeepCopy_RuntimeSupports p s = copyPointer kind_RuntimeSupports DeepCopyInto_RuntimeSupports p s"

definition DeepCopy_TokenThroughput :: "pointer \<Rightarrow> cell store \<Rightarrow> (pointer \<times> cell store) option" where
  "DeepCopy_TokenThroughput p s = copyPointer kind_TokenThroughput DeepCopyInto_TokenThroughput p s"

definition DeepCopy_RuntimeCapacity :: "pointer \<Rightarrow> cell store \<Rightarrow> (pointer \<times> cell store) option" where
  "DeepCopy_RuntimeCapacity p s = copyPointer kind_RuntimeCapacity DeepCopyInto_RuntimeCapacity p s"

definition DeepCopy_RuntimeSpec :: "pointer \<Rightarrow> cell store \<Rightarrow> (pointer \<times> cell store) option" where
  "DeepCopy_RuntimeSpec p s = copyPointer kind_RuntimeSpec DeepCopyInto_RuntimeSpec p s"

definition DeepCopy_NodeCapabilities :: "pointer \<Rightarrow> cell store \<Rightarrow> (pointer \<times> cell store) option" where
  "DeepCopy_NodeCapabilities p s = copyPointer kind_NodeCapabilities DeepCopyInto_NodeCapabilities p s"

definition DeepCopy_AINodeResourceProfileSpec :: "pointer \<Rightarrow> cell store \<Rightarrow> (pointer \<times> cell store) option" where
  "DeepCopy_AINodeResourceProfileSpec p s = copyPointer kind_AINodeResourceProfileSpec DeepCopyInto_AINodeResourceProfileSpec p s"

definition DeepCopy_AllocationRef :: "pointer \<Rightarrow> cell store \<Rightarrow> (pointer \<times> cell store) option" where
  "DeepCopy_AllocationRef p s = copyPointer kind_AllocationRef DeepCopyInto_AllocationRef p s"

definition DeepCopy_MIGSliceStatus :: "pointer \<Rightarrow> cell store \<Rightarrow> (pointer \<times> cell store) option" where
  "DeepCopy_MIGSliceStatus p s = copyPointer kind_MIGSliceStatus DeepCopyInto_MIGSliceStatus p s"

definition DeepCopy_GPUDeviceStatus :: "pointer \<Rightarrow> cell store \<Rightarrow> (pointer \<times> cell store) option" where
  "DeepCopy_GPUDeviceStatus p s = copyPointer kind_GPUDeviceStatus DeepCopyInto_GPUDeviceStatus p s"

definition DeepCopy_HourlyResourceForecast :: "DeepCopyLib \<Rightarrow> pointer \<Rightarrow> cell store \<Rightarrow> (pointer \<times> cell store) option" where
  "DeepCopy_HourlyResourceForecast lib p s = copyPointer kind_HourlyResourceForecast (DeepCopyInto_HourlyResourceForecast lib) p s"

definition DeepCopy_RuntimePressure :: "pointer \<Rightarrow> cell store \<Rightarrow> (pointer \<times> cell store) option" where
  "DeepCopy_RuntimePressure p s = copyPointer kind_RuntimePressure DeepCopyInto_RuntimePressure p s"

definition DeepCopy_RuntimeStatus :: "pointer \<Rightarrow> cell store \<Rightarrow> (pointer \<times> cell store) option" where
  "DeepCopy_RuntimeStatus p s = copyPointer kind_RuntimeStatus DeepCopyInto_RuntimeStatus p s"

definition DeepCopy_AssignedGPU :: "pointer \<Rightarrow> cell store \<Rightarrow> (pointer \<times> cell store) option" where
  "DeepCopy_AssignedGPU p s = copyPointer kind_AssignedGPU DeepCopyInto_AssignedGPU p s"

definition DeepCopy_AllocationActions :: "pointer \<Rightarrow> cell store \<Rightarrow> (pointer \<times> cell store) option" where
  "DeepCopy_AllocationActions p s = copyPointer kind_AllocationActions DeepCopyInto_AllocationActions p s"

definition DeepCopy_NodeAllocationStatus :: "DeepCopyLib \<Rightarrow> pointer \<Rightarrow> cell store \<Rightarrow> (pointer \<times> cell store) option" where
  "DeepCopy_NodeAllocationStatus lib p s = copyPointer kind_NodeAllocationStatus (DeepCopyInto_NodeAllocationStatus lib) p s"

definition DeepCopy_AINodeResourceProfileStatus :: "DeepCopyLib \<Rightarrow> pointer \<Rightarrow> cell store \<Rightarrow> (pointer \<times> cell store) option" where
  "DeepCopy_AINodeResourceProfileStatus lib p s = copyPointer kind_AINodeResourceProfileStatus (DeepCopyInto_AINodeResourceProfileStatus lib) p s"

definition DeepCopy_AINodeResourceProfile :: "DeepCopyLib \<Rightarrow> pointer \<Rightarrow> cell store \<Rightarrow> (pointer \<times> cell store) option" where
  "DeepCopy_AINodeResourceProfile lib p s = copyPointer kind_AINodeResourceProfile (DeepCopyInto_AINodeResourceProfile lib) p s"

definition DeepCopy_AINodeResourceProfileList :: "DeepCopyLib \<Rightarrow> pointer \<Rightarrow> cell store \<Rightarrow> (pointer \<times> cell store) option" where
  "DeepCopy_AINodeResourceProfileList lib p s = copyPointer kind_AINodeResourceProfileList (DeepCopyInto_AINodeResourceProfileList lib) p s"

definition DeepCopy_AllocationWorkloadSpec :: "pointer \<Rightarrow> cell store \<Rightarrow> (pointer \<times> cell store) option" where
  "DeepCopy_AllocationWorkloadSpec p s = copyPointer kind_AllocationWorkloadSpec DeepCopyInto_AllocationWorkloadSpec p s"

definition DeepCopy_AIResourceAllocationSpec :: "pointer \<Rightarrow> cell store \<Rightarrow> (pointer \<times> cell store) option" where
  "DeepCopy_AIResourceAllocationSpec p s = copyPointer kind_AIResourceAllocationSpec DeepCopyInto_AIResourceAllocationSpec p s"

definition DeepCopy_NodeAllocationLedger :: "pointer \<Rightarrow> cell store \<Rightarrow> (pointer \<times> cell store) option" where
  "DeepCopy_NodeAllocationLedger p s = copyPointer kind_NodeAllocationLedger DeepCopyInto_NodeAllocationLedger p s"

definition DeepCopy_AllocationWorkloadStatus :: "DeepCopyLib \<Rightarrow> pointer \<Rightarrow> cell store \<Rightarrow> (pointer \<times> cell store) option" where
  "DeepCopy_AllocationWorkloadStatus lib p s = copyPointer kind_AllocationWorkloadStatus (DeepCopyInto_AllocationWorkloadStatus lib) p s"

definition DeepCopy_AIResourceAllocationStatus :: "DeepCopyLib \<Rightarrow> pointer \<Rightarrow> cell store \<Rightarrow> (pointer \<times> cell store) option" where
  "DeepCopy_AIResourceAllocationStatus lib p s = copyPointer kind_AIResourceAllocationStatus (DeepCopyInto_AIResourceAllocationStatus lib) p s"

definition DeepCopy_AIResourceAllocation :: "DeepCopyLib \<Rightarrow> pointer \<Rightarrow> cell store \<Rightarrow> (pointer \<times> cell store) option" where
  "DeepCopy_AIResourceAllocation lib p s = copyPointer kind_AIResourceAllocation (DeepCopyInto_AIResourceAllocation lib) p s"

definition DeepCopy_AIResourceAllocationList :: "DeepCopyLib \<Rightarrow> pointer \<Rightarrow> cell store \<Rightarrow> (pointer \<times> cell store) option" where
  "DeepCopy_AIResourceAllocationList lib p s = copyPointer kind_AIResourceAllocationList (DeepCopyInto_AIResourceAllocationList lib) p s"

section \<open>DeepCopyObject\<close>

text \<open>
  An interface value of type \<open>runtime.Object\<close>: nil, or a pointer with its type.  The functions turn
  a nil pointer into the nil interface, not into an interface that holds a nil pointer.
\<close>

datatype RuntimeObject =
    Object_AIWorkloadProfile pointer
  | Object_AIWorkloadProfileList pointer
  | Object_AINodeResourceProfile pointer
  | Object_AINodeResourceProfileList pointer
  | Object_AIResourceAllocation pointer
  | Object_AIResourceAllocationList pointer

definition DeepCopyObject_AIWorkloadProfile ::
    "DeepCopyLib \<Rightarrow> pointer \<Rightarrow> cell store \<Rightarrow> (RuntimeObject option \<times> cell store) option" where
  "DeepCopyObject_AIWorkloadProfile lib p s = do {
     (c, s) \<leftarrow> DeepCopy_AIWorkloadProfile lib p s;
     Some (if c \<noteq> None then Some (Object_AIWorkloadProfile c) else None, s)}"

definition DeepCopyObject_AIWorkloadProfileList ::
    "DeepCopyLib \<Rightarrow> pointer \<Rightarrow> cell store \<Rightarrow> (RuntimeObject option \<times> cell store) option" where
  "DeepCopyObject_AIWorkloadProfileList lib p s = do {
     (c, s) \<leftarrow> DeepCopy_AIWorkloadProfileList lib p s;
     Some (if c \<noteq> None then Some (Object_AIWorkloadProfileList c) else None, s)}"

definition DeepCopyObject_AINodeResourceProfile ::
    "DeepCopyLib \<Rightarrow> pointer \<Rightarrow> cell store \<Rightarrow> (RuntimeObject option \<times> cell store) option" where
  "DeepCopyObject_AINodeResourceProfile lib p s = do {
     (c, s) \<leftarrow> DeepCopy_AINodeResourceProfile lib p s;
     Some (if c \<noteq> None then Some (Object_AINodeResourceProfile c) else None, s)}"

definition DeepCopyObject_AINodeResourceProfileList ::
    "DeepCopyLib \<Rightarrow> pointer \<Rightarrow> cell store \<Rightarrow> (RuntimeObject option \<times> cell store) option" where
  "DeepCopyObject_AINodeResourceProfileList lib p s = do {
     (c, s) \<leftarrow> DeepCopy_AINodeResourceProfileList lib p s;
     Some (if c \<noteq> None then Some (Object_AINodeResourceProfileList c) else None, s)}"

definition DeepCopyObject_AIResourceAllocation ::
    "DeepCopyLib \<Rightarrow> pointer \<Rightarrow> cell store \<Rightarrow> (RuntimeObject option \<times> cell store) option" where
  "DeepCopyObject_AIResourceAllocation lib p s = do {
     (c, s) \<leftarrow> DeepCopy_AIResourceAllocation lib p s;
     Some (if c \<noteq> None then Some (Object_AIResourceAllocation c) else None, s)}"

definition DeepCopyObject_AIResourceAllocationList ::
    "DeepCopyLib \<Rightarrow> pointer \<Rightarrow> cell store \<Rightarrow> (RuntimeObject option \<times> cell store) option" where
  "DeepCopyObject_AIResourceAllocationList lib p s = do {
     (c, s) \<leftarrow> DeepCopy_AIResourceAllocationList lib p s;
     Some (if c \<noteq> None then Some (Object_AIResourceAllocationList c) else None, s)}"

section \<open>The generated code copies deeply\<close>

text \<open>
  What is relied on of \<open>metav1\<close>: its deep copies are deep copies, and the copy of an object's metadata
  has a map for the labels and another one for the annotations.
\<close>

definition copy_lib_ok :: "DeepCopyLib \<Rightarrow> bool" where
  "copy_lib_ok lib \<longleftrightarrow>
     deep_copier read_ObjectMeta (dl_ObjectMeta lib) \<and> deep_copier read_ListMeta (dl_ListMeta lib) \<and>
     deep_copier readPlain (dl_Condition lib) \<and> deep_copier readTime (dl_Time lib) \<and>
     (\<forall>x s y t. dl_ObjectMeta lib x s = Some (y, t) \<longrightarrow> m_om_Annotations y \<noteq> None \<longrightarrow> m_om_Annotations y \<noteq> m_om_Labels y)"

lemma copy_lib_copiers [copiers]:
  assumes "copy_lib_ok lib"
  shows "deep_copier read_ObjectMeta (dl_ObjectMeta lib)" "deep_copier read_ListMeta (dl_ListMeta lib)"
    "deep_copier readPlain (dl_Condition lib)" "deep_copier readTime (dl_Time lib)"
  using assms by (simp_all add: copy_lib_ok_def)

lemmas [steps] = gives_copy [OF copy_lib_copiers(1)] gives_copy [OF copy_lib_copiers(2)]

lemma stable_Time [stables]: "stable readTime"
  unfolding readTime_def by (intro stables)

lemma stable_Table [stables]: "stable readTable"
  unfolding readTable_def [abs_def] by (intro stable_bind stable_return stables)

lemma stable_ObjectMeta [stables]: "stable read_ObjectMeta"
  unfolding read_ObjectMeta_def [abs_def]
  by (intro stable_struct stable_Time [THEN stable_field] stable_Table [THEN stable_field])

lemma stable_ListMeta [stables]: "stable read_ListMeta"
  unfolding read_ListMeta_def [abs_def] by (intro stable_struct stables)

lemma time_copier [copiers]:
  assumes "copy_lib_ok lib"
  shows "deep_copier readTime (copyTime lib)"
proof
  show "readTime m' p = Some v" if "m \<subseteq>\<^sub>m m'" "readTime m p = Some v" for m m' p v
    using stableD [OF stable_Time that] .
  show "\<exists>q new. copyTime lib p s = Some (q, s @ new) \<and> readTime (cells_from (length s) (s @ new)) q = Some v"
    if "readTime (cells s) p = Some v" for s p v
    using deep_copier.copy_fresh [OF copy_lib_copiers(4) [OF assms] that] that
    by (cases p) (auto simp: copyTime_def readTime_def)
qed

lemmas [steps] = gives_copy [OF time_copier]
lemmas [appends] = stable_append [OF stable_Time] stable_append [OF stable_ObjectMeta] stable_append [OF stable_ListMeta]

text \<open>Assignments of structs without pointers.\<close>

lemma assigns:
  "DeepCopyInto_KubernetesObjectRef = assign"
  "DeepCopyInto_TimeWindow = assign"
  "DeepCopyInto_WorkloadSLO = assign"
  "DeepCopyInto_ResourceSummary = assign"
  "DeepCopyInto_WorkloadPolicy = assign"
  "DeepCopyInto_GPUDeviceSpec = assign"
  "DeepCopyInto_RuntimeSupports = assign"
  "DeepCopyInto_TokenThroughput = assign"
  "DeepCopyInto_NodeCapabilities = assign"
  "DeepCopyInto_AllocationRef = assign"
  "DeepCopyInto_RuntimePressure = assign"
  "DeepCopyInto_AssignedGPU = assign"
  "DeepCopyInto_AllocationActions = assign"
  by (simp_all add: fun_eq_iff DeepCopyInto_KubernetesObjectRef_def
      DeepCopyInto_TimeWindow_def
      DeepCopyInto_WorkloadSLO_def
      DeepCopyInto_ResourceSummary_def
      DeepCopyInto_WorkloadPolicy_def
      DeepCopyInto_GPUDeviceSpec_def
      DeepCopyInto_RuntimeSupports_def
      DeepCopyInto_TokenThroughput_def
      DeepCopyInto_NodeCapabilities_def
      DeepCopyInto_AllocationRef_def
      DeepCopyInto_RuntimePressure_def
      DeepCopyInto_AssignedGPU_def
      DeepCopyInto_AllocationActions_def)


lemma stable_WorkloadResourceRequest [stables]: "stable read_WorkloadResourceRequest"
  unfolding read_WorkloadResourceRequest_def [abs_def] by (intro stable_struct stables)

lemma WorkloadResourceRequest_copier [copiers]: "deep_copier read_WorkloadResourceRequest DeepCopyInto_WorkloadResourceRequest"
  by (rule deep_copierI [OF stable_WorkloadResourceRequest])
    (auto simp: read_WorkloadResourceRequest_def DeepCopyInto_WorkloadResourceRequest_def bind_eq_Some_conv appends stables
      intro!: steps gives_return copiers kinds)

lemma stable_AIWorkloadProfileSpec [stables]: "stable read_AIWorkloadProfileSpec"
  unfolding read_AIWorkloadProfileSpec_def [abs_def] by (intro stable_struct stables)

lemma AIWorkloadProfileSpec_copier [copiers]: "deep_copier read_AIWorkloadProfileSpec DeepCopyInto_AIWorkloadProfileSpec"
  by (rule deep_copierI [OF stable_AIWorkloadProfileSpec])
    (auto simp: read_AIWorkloadProfileSpec_def DeepCopyInto_AIWorkloadProfileSpec_def bind_eq_Some_conv appends stables
      intro!: steps gives_return copiers kinds)

lemmas [steps] = gives_copy [OF AIWorkloadProfileSpec_copier]
lemmas [appends] = stable_append [OF stable_AIWorkloadProfileSpec]

lemma stable_AIWorkloadProfileStatus [stables]: "stable read_AIWorkloadProfileStatus"
  unfolding read_AIWorkloadProfileStatus_def [abs_def] by (intro stable_struct stables)

lemma AIWorkloadProfileStatus_copier [copiers]:
  "copy_lib_ok lib \<Longrightarrow> deep_copier read_AIWorkloadProfileStatus (DeepCopyInto_AIWorkloadProfileStatus lib)"
  by (rule deep_copierI [OF stable_AIWorkloadProfileStatus])
    (auto simp: read_AIWorkloadProfileStatus_def DeepCopyInto_AIWorkloadProfileStatus_def bind_eq_Some_conv appends stables
      intro!: steps gives_return copiers kinds)

lemmas [steps] = gives_copy [OF AIWorkloadProfileStatus_copier]
lemmas [appends] = stable_append [OF stable_AIWorkloadProfileStatus]

lemma stable_AIWorkloadProfile [stables]: "stable read_AIWorkloadProfile"
  unfolding read_AIWorkloadProfile_def [abs_def] by (intro stable_struct stable_AIWorkloadProfileSpec [THEN stable_field] stable_AIWorkloadProfileStatus [THEN stable_field] stable_ObjectMeta [THEN stable_field] stables)

lemma AIWorkloadProfile_copier [copiers]:
  "copy_lib_ok lib \<Longrightarrow> deep_copier read_AIWorkloadProfile (DeepCopyInto_AIWorkloadProfile lib)"
  by (rule deep_copierI [OF stable_AIWorkloadProfile])
    (auto simp: read_AIWorkloadProfile_def DeepCopyInto_AIWorkloadProfile_def bind_eq_Some_conv appends stables
      intro!: steps gives_return copiers kinds)

lemma stable_AIWorkloadProfileList [stables]: "stable read_AIWorkloadProfileList"
  unfolding read_AIWorkloadProfileList_def [abs_def] by (intro stable_struct stable_ListMeta [THEN stable_field] stables)

lemma AIWorkloadProfileList_copier [copiers]:
  "copy_lib_ok lib \<Longrightarrow> deep_copier read_AIWorkloadProfileList (DeepCopyInto_AIWorkloadProfileList lib)"
  by (rule deep_copierI [OF stable_AIWorkloadProfileList])
    (auto simp: read_AIWorkloadProfileList_def DeepCopyInto_AIWorkloadProfileList_def bind_eq_Some_conv appends stables
      intro!: steps gives_return copiers kinds)

lemma stable_RuntimeCapacity [stables]: "stable read_RuntimeCapacity"
  unfolding read_RuntimeCapacity_def [abs_def] by (intro stable_struct stables)

lemma RuntimeCapacity_copier [copiers]: "deep_copier read_RuntimeCapacity DeepCopyInto_RuntimeCapacity"
  by (rule deep_copierI [OF stable_RuntimeCapacity])
    (auto simp: read_RuntimeCapacity_def DeepCopyInto_RuntimeCapacity_def bind_eq_Some_conv appends stables
      intro!: steps gives_return copiers kinds)

lemma stable_RuntimeSpec [stables]: "stable read_RuntimeSpec"
  unfolding read_RuntimeSpec_def [abs_def] by (intro stable_struct stables)

lemma RuntimeSpec_copier [copiers]: "deep_copier read_RuntimeSpec DeepCopyInto_RuntimeSpec"
  by (rule deep_copierI [OF stable_RuntimeSpec])
    (auto simp: read_RuntimeSpec_def DeepCopyInto_RuntimeSpec_def bind_eq_Some_conv appends stables
      intro!: steps gives_return copiers kinds)

lemma stable_AINodeResourceProfileSpec [stables]: "stable read_AINodeResourceProfileSpec"
  unfolding read_AINodeResourceProfileSpec_def [abs_def] by (intro stable_struct stables)

lemma AINodeResourceProfileSpec_copier [copiers]: "deep_copier read_AINodeResourceProfileSpec DeepCopyInto_AINodeResourceProfileSpec"
  by (rule deep_copierI [OF stable_AINodeResourceProfileSpec])
    (auto simp: read_AINodeResourceProfileSpec_def DeepCopyInto_AINodeResourceProfileSpec_def bind_eq_Some_conv appends stables
      intro!: steps gives_return copiers kinds)

lemmas [steps] = gives_copy [OF AINodeResourceProfileSpec_copier]
lemmas [appends] = stable_append [OF stable_AINodeResourceProfileSpec]

lemma stable_MIGSliceStatus [stables]: "stable read_MIGSliceStatus"
  unfolding read_MIGSliceStatus_def [abs_def] by (intro stable_struct stables)

lemma MIGSliceStatus_copier [copiers]: "deep_copier read_MIGSliceStatus DeepCopyInto_MIGSliceStatus"
  by (rule deep_copierI [OF stable_MIGSliceStatus])
    (auto simp: read_MIGSliceStatus_def DeepCopyInto_MIGSliceStatus_def bind_eq_Some_conv appends stables
      intro!: steps gives_return copiers kinds)

lemma stable_GPUDeviceStatus [stables]: "stable read_GPUDeviceStatus"
  unfolding read_GPUDeviceStatus_def [abs_def] by (intro stable_struct stables)

lemma GPUDeviceStatus_copier [copiers]: "deep_copier read_GPUDeviceStatus DeepCopyInto_GPUDeviceStatus"
  by (rule deep_copierI [OF stable_GPUDeviceStatus])
    (auto simp: read_GPUDeviceStatus_def DeepCopyInto_GPUDeviceStatus_def bind_eq_Some_conv appends stables
      intro!: steps gives_return copiers kinds)

lemma stable_HourlyResourceForecast [stables]: "stable read_HourlyResourceForecast"
  unfolding read_HourlyResourceForecast_def [abs_def] by (intro stable_struct stable_Time [THEN stable_field] stables)

lemma HourlyResourceForecast_copier [copiers]:
  "copy_lib_ok lib \<Longrightarrow> deep_copier read_HourlyResourceForecast (DeepCopyInto_HourlyResourceForecast lib)"
  by (rule deep_copierI [OF stable_HourlyResourceForecast])
    (auto simp: read_HourlyResourceForecast_def DeepCopyInto_HourlyResourceForecast_def bind_eq_Some_conv appends stables
      intro!: steps gives_return copiers kinds)

lemma stable_RuntimeStatus [stables]: "stable read_RuntimeStatus"
  unfolding read_RuntimeStatus_def [abs_def] by (intro stable_struct stables)

lemma RuntimeStatus_copier [copiers]: "deep_copier read_RuntimeStatus DeepCopyInto_RuntimeStatus"
  by (rule deep_copierI [OF stable_RuntimeStatus])
    (auto simp: read_RuntimeStatus_def DeepCopyInto_RuntimeStatus_def bind_eq_Some_conv appends stables
      intro!: steps gives_return copiers kinds)

lemma stable_NodeAllocationStatus [stables]: "stable read_NodeAllocationStatus"
  unfolding read_NodeAllocationStatus_def [abs_def] by (intro stable_struct stables)

lemma NodeAllocationStatus_copier [copiers]:
  "copy_lib_ok lib \<Longrightarrow> deep_copier read_NodeAllocationStatus (DeepCopyInto_NodeAllocationStatus lib)"
  by (rule deep_copierI [OF stable_NodeAllocationStatus])
    (auto simp: read_NodeAllocationStatus_def DeepCopyInto_NodeAllocationStatus_def bind_eq_Some_conv appends stables
      intro!: steps gives_return copiers kinds)

lemma stable_AINodeResourceProfileStatus [stables]: "stable read_AINodeResourceProfileStatus"
  unfolding read_AINodeResourceProfileStatus_def [abs_def] by (intro stable_struct stable_Time [THEN stable_field] stables)

lemma AINodeResourceProfileStatus_copier [copiers]:
  "copy_lib_ok lib \<Longrightarrow> deep_copier read_AINodeResourceProfileStatus (DeepCopyInto_AINodeResourceProfileStatus lib)"
  by (rule deep_copierI [OF stable_AINodeResourceProfileStatus])
    (auto simp: read_AINodeResourceProfileStatus_def DeepCopyInto_AINodeResourceProfileStatus_def bind_eq_Some_conv appends stables
      intro!: steps gives_return copiers kinds)

lemmas [steps] = gives_copy [OF AINodeResourceProfileStatus_copier]
lemmas [appends] = stable_append [OF stable_AINodeResourceProfileStatus]

lemma stable_AINodeResourceProfile [stables]: "stable read_AINodeResourceProfile"
  unfolding read_AINodeResourceProfile_def [abs_def] by (intro stable_struct stable_AINodeResourceProfileSpec [THEN stable_field] stable_AINodeResourceProfileStatus [THEN stable_field] stable_ObjectMeta [THEN stable_field] stables)

lemma AINodeResourceProfile_copier [copiers]:
  "copy_lib_ok lib \<Longrightarrow> deep_copier read_AINodeResourceProfile (DeepCopyInto_AINodeResourceProfile lib)"
  by (rule deep_copierI [OF stable_AINodeResourceProfile])
    (auto simp: read_AINodeResourceProfile_def DeepCopyInto_AINodeResourceProfile_def bind_eq_Some_conv appends stables
      intro!: steps gives_return copiers kinds)

lemma stable_AINodeResourceProfileList [stables]: "stable read_AINodeResourceProfileList"
  unfolding read_AINodeResourceProfileList_def [abs_def] by (intro stable_struct stable_ListMeta [THEN stable_field] stables)

lemma AINodeResourceProfileList_copier [copiers]:
  "copy_lib_ok lib \<Longrightarrow> deep_copier read_AINodeResourceProfileList (DeepCopyInto_AINodeResourceProfileList lib)"
  by (rule deep_copierI [OF stable_AINodeResourceProfileList])
    (auto simp: read_AINodeResourceProfileList_def DeepCopyInto_AINodeResourceProfileList_def bind_eq_Some_conv appends stables
      intro!: steps gives_return copiers kinds)

lemma stable_AllocationWorkloadSpec [stables]: "stable read_AllocationWorkloadSpec"
  unfolding read_AllocationWorkloadSpec_def [abs_def] by (intro stable_struct stables)

lemma AllocationWorkloadSpec_copier [copiers]: "deep_copier read_AllocationWorkloadSpec DeepCopyInto_AllocationWorkloadSpec"
  by (rule deep_copierI [OF stable_AllocationWorkloadSpec])
    (auto simp: read_AllocationWorkloadSpec_def DeepCopyInto_AllocationWorkloadSpec_def bind_eq_Some_conv appends stables
      intro!: steps gives_return copiers kinds)

lemma stable_AIResourceAllocationSpec [stables]: "stable read_AIResourceAllocationSpec"
  unfolding read_AIResourceAllocationSpec_def [abs_def] by (intro stable_struct stables)

lemma AIResourceAllocationSpec_copier [copiers]: "deep_copier read_AIResourceAllocationSpec DeepCopyInto_AIResourceAllocationSpec"
  by (rule deep_copierI [OF stable_AIResourceAllocationSpec])
    (auto simp: read_AIResourceAllocationSpec_def DeepCopyInto_AIResourceAllocationSpec_def bind_eq_Some_conv appends stables
      intro!: steps gives_return copiers kinds)

lemmas [steps] = gives_copy [OF AIResourceAllocationSpec_copier]
lemmas [appends] = stable_append [OF stable_AIResourceAllocationSpec]

lemma stable_NodeAllocationLedger [stables]: "stable read_NodeAllocationLedger"
  unfolding read_NodeAllocationLedger_def [abs_def] by (intro stable_struct stables)

lemma NodeAllocationLedger_copier [copiers]: "deep_copier read_NodeAllocationLedger DeepCopyInto_NodeAllocationLedger"
  by (rule deep_copierI [OF stable_NodeAllocationLedger])
    (auto simp: read_NodeAllocationLedger_def DeepCopyInto_NodeAllocationLedger_def bind_eq_Some_conv appends stables
      intro!: steps gives_return copiers kinds)

lemma stable_AllocationWorkloadStatus [stables]: "stable read_AllocationWorkloadStatus"
  unfolding read_AllocationWorkloadStatus_def [abs_def] by (intro stable_struct stables)

lemma AllocationWorkloadStatus_copier [copiers]:
  "copy_lib_ok lib \<Longrightarrow> deep_copier read_AllocationWorkloadStatus (DeepCopyInto_AllocationWorkloadStatus lib)"
  by (rule deep_copierI [OF stable_AllocationWorkloadStatus])
    (auto simp: read_AllocationWorkloadStatus_def DeepCopyInto_AllocationWorkloadStatus_def bind_eq_Some_conv appends stables
      intro!: steps gives_return copiers kinds)

lemma stable_AIResourceAllocationStatus [stables]: "stable read_AIResourceAllocationStatus"
  unfolding read_AIResourceAllocationStatus_def [abs_def] by (intro stable_struct stable_Time [THEN stable_field] stables)

lemma AIResourceAllocationStatus_copier [copiers]:
  "copy_lib_ok lib \<Longrightarrow> deep_copier read_AIResourceAllocationStatus (DeepCopyInto_AIResourceAllocationStatus lib)"
  by (rule deep_copierI [OF stable_AIResourceAllocationStatus])
    (auto simp: read_AIResourceAllocationStatus_def DeepCopyInto_AIResourceAllocationStatus_def bind_eq_Some_conv appends stables
      intro!: steps gives_return copiers kinds)

lemmas [steps] = gives_copy [OF AIResourceAllocationStatus_copier]
lemmas [appends] = stable_append [OF stable_AIResourceAllocationStatus]

lemma stable_AIResourceAllocation [stables]: "stable read_AIResourceAllocation"
  unfolding read_AIResourceAllocation_def [abs_def] by (intro stable_struct stable_AIResourceAllocationSpec [THEN stable_field] stable_AIResourceAllocationStatus [THEN stable_field] stable_ObjectMeta [THEN stable_field] stables)

lemma AIResourceAllocation_copier [copiers]:
  "copy_lib_ok lib \<Longrightarrow> deep_copier read_AIResourceAllocation (DeepCopyInto_AIResourceAllocation lib)"
  by (rule deep_copierI [OF stable_AIResourceAllocation])
    (auto simp: read_AIResourceAllocation_def DeepCopyInto_AIResourceAllocation_def bind_eq_Some_conv appends stables
      intro!: steps gives_return copiers kinds)

lemma stable_AIResourceAllocationList [stables]: "stable read_AIResourceAllocationList"
  unfolding read_AIResourceAllocationList_def [abs_def] by (intro stable_struct stable_ListMeta [THEN stable_field] stables)

lemma AIResourceAllocationList_copier [copiers]:
  "copy_lib_ok lib \<Longrightarrow> deep_copier read_AIResourceAllocationList (DeepCopyInto_AIResourceAllocationList lib)"
  by (rule deep_copierI [OF stable_AIResourceAllocationList])
    (auto simp: read_AIResourceAllocationList_def DeepCopyInto_AIResourceAllocationList_def bind_eq_Some_conv appends stables
      intro!: steps gives_return copiers kinds)

text \<open>The pointer functions, and the interface on the types that need nothing of \<open>metav1\<close>.\<close>

lemma DeepCopy_copiers [copiers]:
  assumes "copy_lib_ok lib"
  shows "deep_copier (readPointer kind_AIWorkloadProfile read_AIWorkloadProfile) (DeepCopy_AIWorkloadProfile lib)"
    "deep_copier (readPointer kind_AIWorkloadProfileList read_AIWorkloadProfileList) (DeepCopy_AIWorkloadProfileList lib)"
    "deep_copier (readPointer kind_AINodeResourceProfile read_AINodeResourceProfile) (DeepCopy_AINodeResourceProfile lib)"
    "deep_copier (readPointer kind_AINodeResourceProfileList read_AINodeResourceProfileList) (DeepCopy_AINodeResourceProfileList lib)"
    "deep_copier (readPointer kind_AIResourceAllocation read_AIResourceAllocation) (DeepCopy_AIResourceAllocation lib)"
    "deep_copier (readPointer kind_AIResourceAllocationList read_AIResourceAllocationList) (DeepCopy_AIResourceAllocationList lib)"
  using assms
  by (simp_all add: DeepCopy_AIWorkloadProfile_def [abs_def] DeepCopy_AIWorkloadProfileList_def [abs_def]
      DeepCopy_AINodeResourceProfile_def [abs_def] DeepCopy_AINodeResourceProfileList_def [abs_def]
      DeepCopy_AIResourceAllocation_def [abs_def] DeepCopy_AIResourceAllocationList_def [abs_def] copiers kinds)

text \<open>As interface values the copies of nil are nil, and others hold the copy.\<close>

lemma interface_copy:
  assumes "deep_copier (readPointer k read) copy" and "readPointer k read (cells s) p = Some v"
  shows "\<exists>q new. (do {(c, s) \<leftarrow> copy p s; Some (if c \<noteq> None then Some (obj c) else None, s)}) =
      Some (if v = None then None else Some (obj q), s @ new) \<and>
    readPointer k read (cells_from (length s) (s @ new)) q = Some v"
proof -
  obtain q new where q: "copy p s = Some (q, s @ new)" "readPointer k read (cells_from (length s) (s @ new)) q = Some v"
    using deep_copier.copy_fresh [OF assms] by blast
  then have "q = None \<longleftrightarrow> v = None" by (cases q) (auto simp: bind_eq_Some_conv)
  with q show ?thesis by (intro exI [of _ q] exI [of _ new]) auto
qed

lemma DeepCopyObject_copies:
  assumes "copy_lib_ok lib"
  shows
    "readPointer kind_AIWorkloadProfile read_AIWorkloadProfile (cells s) p = Some v1 \<Longrightarrow>
     \<exists>q new. DeepCopyObject_AIWorkloadProfile lib p s =
         Some (if v1 = None then None else Some (Object_AIWorkloadProfile q), s @ new) \<and>
       readPointer kind_AIWorkloadProfile read_AIWorkloadProfile (cells_from (length s) (s @ new)) q = Some v1"
    "readPointer kind_AIWorkloadProfileList read_AIWorkloadProfileList (cells s) p = Some v2 \<Longrightarrow>
     \<exists>q new. DeepCopyObject_AIWorkloadProfileList lib p s =
         Some (if v2 = None then None else Some (Object_AIWorkloadProfileList q), s @ new) \<and>
       readPointer kind_AIWorkloadProfileList read_AIWorkloadProfileList (cells_from (length s) (s @ new)) q = Some v2"
    "readPointer kind_AINodeResourceProfile read_AINodeResourceProfile (cells s) p = Some v3 \<Longrightarrow>
     \<exists>q new. DeepCopyObject_AINodeResourceProfile lib p s =
         Some (if v3 = None then None else Some (Object_AINodeResourceProfile q), s @ new) \<and>
       readPointer kind_AINodeResourceProfile read_AINodeResourceProfile (cells_from (length s) (s @ new)) q = Some v3"
    "readPointer kind_AINodeResourceProfileList read_AINodeResourceProfileList (cells s) p = Some v4 \<Longrightarrow>
     \<exists>q new. DeepCopyObject_AINodeResourceProfileList lib p s =
         Some (if v4 = None then None else Some (Object_AINodeResourceProfileList q), s @ new) \<and>
       readPointer kind_AINodeResourceProfileList read_AINodeResourceProfileList (cells_from (length s) (s @ new)) q = Some v4"
    "readPointer kind_AIResourceAllocation read_AIResourceAllocation (cells s) p = Some v5 \<Longrightarrow>
     \<exists>q new. DeepCopyObject_AIResourceAllocation lib p s =
         Some (if v5 = None then None else Some (Object_AIResourceAllocation q), s @ new) \<and>
       readPointer kind_AIResourceAllocation read_AIResourceAllocation (cells_from (length s) (s @ new)) q = Some v5"
    "readPointer kind_AIResourceAllocationList read_AIResourceAllocationList (cells s) p = Some v6 \<Longrightarrow>
     \<exists>q new. DeepCopyObject_AIResourceAllocationList lib p s =
         Some (if v6 = None then None else Some (Object_AIResourceAllocationList q), s @ new) \<and>
       readPointer kind_AIResourceAllocationList read_AIResourceAllocationList (cells_from (length s) (s @ new)) q = Some v6"
  unfolding DeepCopyObject_AIWorkloadProfile_def DeepCopyObject_AIWorkloadProfileList_def
    DeepCopyObject_AINodeResourceProfile_def DeepCopyObject_AINodeResourceProfileList_def
    DeepCopyObject_AIResourceAllocation_def DeepCopyObject_AIResourceAllocationList_def
  by (erule DeepCopy_copiers [OF assms, THEN interface_copy])+

interpretation resource_summary: deep_copier "readPointer kind_ResourceSummary readPlain" DeepCopy_ResourceSummary
  unfolding DeepCopy_ResourceSummary_def [abs_def] assigns by (intro copiers kinds)

interpretation resource_request:
  deep_copier "readPointer kind_WorkloadResourceRequest read_WorkloadResourceRequest" DeepCopy_WorkloadResourceRequest
  unfolding DeepCopy_WorkloadResourceRequest_def [abs_def] by (intro copiers kinds)

interpretation runtime_spec: deep_copier "readPointer kind_RuntimeSpec read_RuntimeSpec" DeepCopy_RuntimeSpec
  unfolding DeepCopy_RuntimeSpec_def [abs_def] by (intro copiers kinds)

interpretation runtime_status: deep_copier "readPointer kind_RuntimeStatus read_RuntimeStatus" DeepCopy_RuntimeStatus
  unfolding DeepCopy_RuntimeStatus_def [abs_def] by (intro copiers kinds)

interpretation allocation_spec:
  deep_copier "readPointer kind_AIResourceAllocationSpec read_AIResourceAllocationSpec" DeepCopy_AIResourceAllocationSpec
  unfolding DeepCopy_AIResourceAllocationSpec_def [abs_def] by (intro copiers kinds)

text \<open>Metadata copied field by field: a library that keeps the contract.\<close>

definition fieldwise_lib :: DeepCopyLib where
  "fieldwise_lib =
     \<lparr>dl_ObjectMeta = (\<lambda>x s. do {
        (deletionTimestamp, s) \<leftarrow> copyPointer kind_Time assign (m_om_DeletionTimestamp x) s;
        (labels, s) \<leftarrow> copyPointer kind_Table assign (m_om_Labels x) s;
        (annotations, s) \<leftarrow> copyPointer kind_Table assign (m_om_Annotations x) s;
        Some (x \<lparr>m_om_DeletionTimestamp := deletionTimestamp, m_om_Labels := labels, m_om_Annotations := annotations\<rparr>, s)}),
      dl_ListMeta = (\<lambda>x s. do {
        (count, s) \<leftarrow> copyPointer kind_Int64 assign (m_lm_RemainingItemCount x) s;
        Some (x \<lparr>m_lm_RemainingItemCount := count\<rparr>, s)}),
      dl_Condition = assign,
      dl_Time = copyPointer kind_Time assign\<rparr>"

lemma copyPointer_twice:
  assumes "copyPointer k assign p s = Some (q, t)" and "copyPointer k assign p' t = Some (Some r, u)"
  shows "Some r \<noteq> q"
  using assms by (cases p; cases p') (auto simp: bind_eq_Some_conv assign_def)

lemma fieldwise_lib_ok: "copy_lib_ok fieldwise_lib"
proof -
  have time: "deep_copier readTime (copyPointer kind_Time assign)"
    unfolding readTime_def by (intro copiers kinds)
  have table: "deep_copier readTable (copyPointer kind_Table assign)"
    unfolding readTable_def [abs_def] by (intro deep_copier_map copiers kinds)
  have meta: "deep_copier read_ObjectMeta (dl_ObjectMeta fieldwise_lib)"
    by (rule deep_copierI [OF stable_ObjectMeta])
      (auto simp: read_ObjectMeta_def fieldwise_lib_def bind_eq_Some_conv appends stable_append [OF stable_Table]
        intro!: gives_copy [OF time] gives_copy [OF table] gives_return)
  have list: "deep_copier read_ListMeta (dl_ListMeta fieldwise_lib)"
    by (rule deep_copierI [OF stable_ListMeta])
      (auto simp: read_ListMeta_def fieldwise_lib_def bind_eq_Some_conv appends stables
        intro!: steps gives_return copiers kinds)
  have "m_om_Annotations y \<noteq> m_om_Labels y"
    if run: "dl_ObjectMeta fieldwise_lib x s = Some (y, t)" and some: "m_om_Annotations y \<noteq> None" for x s y t
  proof -
    obtain d l a s1 s2 where "copyPointer kind_Table assign (m_om_Labels x) s1 = Some (l, s2)"
      "copyPointer kind_Table assign (m_om_Annotations x) s2 = Some (a, t)"
      and y: "y = x \<lparr>m_om_DeletionTimestamp := d, m_om_Labels := l, m_om_Annotations := a\<rparr>"
      using run by (auto simp: fieldwise_lib_def bind_eq_Some_conv)
    with some show ?thesis by (auto simp: y dest: copyPointer_twice)
  qed
  with time meta list show ?thesis
    using plain_copier by (auto simp: copy_lib_ok_def fieldwise_lib_def)
qed

text \<open>
  C14. A deep copy of an API object is a copy and is deep.  For workload profiles, node profiles and
  allocations, and for lists of them: the generated \<open>DeepCopy\<close> returns, allocates cells and changes
  none; the copy has the value of the original; no later change of the cells the original is made of
  changes the value of the copy, and none of the cells of the copy that of the original.
\<close>
theorem deep_copies_are_apart:
  assumes "copy_lib_ok lib"
  shows "(\<forall>p v. readPointer kind_AIWorkloadProfile read_AIWorkloadProfile (cells s) p = Some v \<longrightarrow>
      copied_apart (readPointer kind_AIWorkloadProfile read_AIWorkloadProfile) s p v (DeepCopy_AIWorkloadProfile lib p s)) \<and>
    (\<forall>p v. readPointer kind_AINodeResourceProfile read_AINodeResourceProfile (cells s) p = Some v \<longrightarrow>
      copied_apart (readPointer kind_AINodeResourceProfile read_AINodeResourceProfile) s p v (DeepCopy_AINodeResourceProfile lib p s)) \<and>
    (\<forall>p v. readPointer kind_AIResourceAllocation read_AIResourceAllocation (cells s) p = Some v \<longrightarrow>
      copied_apart (readPointer kind_AIResourceAllocation read_AIResourceAllocation) s p v (DeepCopy_AIResourceAllocation lib p s)) \<and>
    (\<forall>p v. readPointer kind_AIWorkloadProfileList read_AIWorkloadProfileList (cells s) p = Some v \<longrightarrow>
      copied_apart (readPointer kind_AIWorkloadProfileList read_AIWorkloadProfileList) s p v (DeepCopy_AIWorkloadProfileList lib p s)) \<and>
    (\<forall>p v. readPointer kind_AINodeResourceProfileList read_AINodeResourceProfileList (cells s) p = Some v \<longrightarrow>
      copied_apart (readPointer kind_AINodeResourceProfileList read_AINodeResourceProfileList) s p v
        (DeepCopy_AINodeResourceProfileList lib p s)) \<and>
    (\<forall>p v. readPointer kind_AIResourceAllocationList read_AIResourceAllocationList (cells s) p = Some v \<longrightarrow>
      copied_apart (readPointer kind_AIResourceAllocationList read_AIResourceAllocationList) s p v
        (DeepCopy_AIResourceAllocationList lib p s))"
  using DeepCopy_copiers [OF assms, THEN deep_copier.independent] by blast

definition sample_mem_spec :: AIResourceAllocationSpec_mem where
  "sample_mem_spec =
     \<lparr>m_as_NodeName = ''n1'', m_as_Workloads = Some (2, 0, 1), m_as_Reason = [],
      m_as_WorkloadRef = KubernetesObjectRef_zero, m_as_WorkloadType = [], m_as_Priority = [], m_as_DemandShape = [],
      m_as_TimeWindows = None, m_as_ResourceRequest = None, m_as_AssignedGPU = None, m_as_Resources = Some (1, 0),
      m_as_AllocationType = [], m_as_Actions = None\<rparr>"

definition sample_mem_workload :: AllocationWorkloadSpec_mem where
  "sample_mem_workload =
     \<lparr>m_aw_Name = ''chat'', m_aw_WorkloadRef = KubernetesObjectRef_zero, m_aw_SourcePodName = ''chat-0'',
      m_aw_SourcePodUID = [], m_aw_WorkloadType = ''online'', m_aw_Priority = ''high'', m_aw_DemandShape = [],
      m_aw_TimeWindows = None, m_aw_ResourceRequest = None, m_aw_AssignedGPU = None, m_aw_Resources = Some (1, 0),
      m_aw_Desired = None, m_aw_AllocationType = [], m_aw_Actions = None, m_aw_Reason = []\<rparr>"

definition sample_mem_status :: AIResourceAllocationStatus_mem where
  "sample_mem_status =
     \<lparr>m_ast_Phase = [], m_ast_ObservedAt = None, m_ast_AppliedAt = None, m_ast_NodeLedger = None, m_ast_Workloads = None,
      m_ast_ObservedResources = None, m_ast_Current = None, m_ast_HourlyForecast = None, m_ast_Message = [],
      m_ast_Conditions = None\<rparr>"

definition sample_mem_ledger :: AIResourceAllocation_mem where
  "sample_mem_ledger =
     \<lparr>m_a_TypeMeta = \<lparr>tm_Kind = ''AIResourceAllocation'', tm_APIVersion = []\<rparr>,
      m_a_Meta =
        \<lparr>m_om_Name = ''n1'', m_om_Namespace = ''astra-system'', m_om_UID = [], m_om_CreationTimestamp = 0,
         m_om_DeletionTimestamp = None, m_om_Labels = Some (0, 0), m_om_Annotations = Some (0, 0)\<rparr>,
      m_a_Spec = sample_mem_spec, m_a_Status = sample_mem_status\<rparr>"

text \<open>A ledger whose labels and annotations are one map and whose amounts are one struct.\<close>

definition sample_mem :: "cell store" where
  "sample_mem =
     [Cell_Table [Map.empty], Cell_ResourceSummary [ResourceSummary_zero \<lparr>GPUCount := 1\<rparr>],
      Cell_AllocationWorkloadSpec [sample_mem_workload], Cell_AIResourceAllocation [sample_mem_ledger]]"

lemma sample_mem_reads:
  "\<exists>L. read_AIResourceAllocation (cells sample_mem) sample_mem_ledger = Some (m_a_TypeMeta sample_mem_ledger, L, []) \<and>
     map aw_Resources (as_Workloads (a_Spec L)) = [Some (ResourceSummary_zero \<lparr>GPUCount := 1\<rparr>)]"
  by (simp add: read_AIResourceAllocation_def read_ObjectMeta_def read_AIResourceAllocationSpec_def readTable_def readTime_def
      read_AllocationWorkloadSpec_def read_AIResourceAllocationStatus_def sample_mem_ledger_def sample_mem_spec_def
      sample_mem_workload_def sample_mem_status_def sample_mem_def deref_def elements_def cells_from_def array_kind_def
      kind_Table_def kind_ResourceSummary_def kind_AllocationWorkloadSpec_def readPlain_def)

lemma sample_mem_pointer:
  "readPointer kind_AIResourceAllocation read_AIResourceAllocation (cells sample_mem) (Some (3, 0)) =
     map_option Some (read_AIResourceAllocation (cells sample_mem) sample_mem_ledger)"
  by (simp add: sample_mem_def deref_def cells_from_def kind_AIResourceAllocation_def array_kind_def map_option_case
      split: option.split)

theorem deep_copies_are_apart_witness:
  "\<exists>L. readPointer kind_AIResourceAllocation read_AIResourceAllocation (cells sample_mem) (Some (3, 0)) =
       Some (Some (m_a_TypeMeta sample_mem_ledger, L, [])) \<and>
     copied_apart (readPointer kind_AIResourceAllocation read_AIResourceAllocation) sample_mem (Some (3, 0))
       (Some (m_a_TypeMeta sample_mem_ledger, L, []))
       (DeepCopy_AIResourceAllocation fieldwise_lib (Some (3, 0)) sample_mem)"
  using sample_mem_reads sample_mem_pointer deep_copies_are_apart [OF fieldwise_lib_ok, of sample_mem] by auto

end
