(* ===== verification/MemExpand.thy ===== *)
theory MemExpand
  imports DeepCopy AllocationLedger
begin

text \<open>
  The expansion of ledgers (\<open>agent/allocation_ledger.go\<close>) over the store.  The expansion copies a
  ledger, shares some of an entry's pointers with it and writes into the annotations of the copy, a
  map; on values (\<open>AllocationLedger\<close>) none of this can be seen.  The definitions here are the same
  functions with their pointers, maps and allocations, and the refinement theorem says that they
  compute what the value level functions compute and leave the ledgers as they were.
\<close>

section \<open>The functions over the store\<close>

text \<open>Assignment to an entry of a map; a nil map panics.\<close>

definition setEntry :: "pointer \<Rightarrow> string \<Rightarrow> string \<Rightarrow> cell store \<Rightarrow> cell store option" where
  "setEntry p key v s = do {
     q \<leftarrow> p;
     t \<leftarrow> deref kind_Table (cells s) q;
     put kind_Table q (t(key \<mapsto> v)) s}"

text \<open>The elements that a loop over a slice sees.\<close>

definition ranged :: "('a, cell) kind \<Rightarrow> cell store \<Rightarrow> slice \<Rightarrow> 'a list option" where
  "ranged k s sl = (case sl of None \<Rightarrow> Some [] | Some p \<Rightarrow> elements k (cells s) p)"

fun firstResourceSummary_mem :: "pointer list \<Rightarrow> cell store \<Rightarrow> (pointer \<times> cell store) option" where
  "firstResourceSummary_mem [] s = Some (None, s)"
| "firstResourceSummary_mem (value # values) s =
     (if value \<noteq> None then DeepCopy_ResourceSummary value s else firstResourceSummary_mem values s)"

fun workloadStatusByName_mem ::
    "AllocationWorkloadStatus_mem list \<Rightarrow> string \<Rightarrow> AllocationWorkloadStatus_mem option" where
  "workloadStatusByName_mem [] nm = None"
| "workloadStatusByName_mem (status # statuses) nm =
     (if m_ws_Name status = nm then Some status else workloadStatusByName_mem statuses nm)"

definition AIResourceAllocationStatus_mem_zero :: AIResourceAllocationStatus_mem where
  "AIResourceAllocationStatus_mem_zero =
     \<lparr>m_ast_Phase = [], m_ast_ObservedAt = None, m_ast_AppliedAt = None, m_ast_NodeLedger = None,
      m_ast_Workloads = None, m_ast_ObservedResources = None, m_ast_Current = None,
      m_ast_HourlyForecast = None, m_ast_Message = [], m_ast_Conditions = None\<rparr>"

text \<open>The annotations of the copy: a new map where there is none, then up to two entries.\<close>

definition annotate_mem ::
    "AllocationWorkloadSpec_mem \<Rightarrow> pointer \<Rightarrow> cell store \<Rightarrow> (pointer \<times> cell store) option" where
  "annotate_mem workload annotations s = do {
     let (annotations, s) =
       (if annotations = None then (Some (length s, 0), s @ [Cell_Table [Map.empty]]) else (annotations, s));
     s \<leftarrow> (if m_aw_SourcePodName workload \<noteq> []
          then setEntry annotations AllocationAnnotationSourcePodName (m_aw_SourcePodName workload) s else Some s);
     s \<leftarrow> (if m_aw_SourcePodUID workload \<noteq> []
          then setEntry annotations AllocationAnnotationSourcePodUID (m_aw_SourcePodUID workload) s else Some s);
     Some (annotations, s)}"

text \<open>
  The body of the inner loop.  The struct that \<open>ledger.DeepCopy()\<close> allocates is reached through one
  local variable only and is kept as a value until it is appended.
\<close>

definition expandWorkload_mem ::
    "DeepCopyLib \<Rightarrow> AIResourceAllocation_mem \<Rightarrow> AllocationWorkloadSpec_mem \<Rightarrow> cell store \<Rightarrow>
     (AIResourceAllocation_mem \<times> cell store) option" where
  "expandWorkload_mem lib ledger workload s = do {
     (allocation, s) \<leftarrow> DeepCopyInto_AIResourceAllocation lib ledger s;
     let (workloads, s) = (Some (length s, 0, 1), s @ [Cell_AllocationWorkloadSpec [workload]]);
     (resources, s) \<leftarrow> firstResourceSummary_mem [m_aw_Desired workload, m_aw_Resources workload] s;
     let spec =
       (m_a_Spec allocation)
         \<lparr>m_as_Workloads := workloads, m_as_WorkloadRef := m_aw_WorkloadRef workload,
          m_as_WorkloadType := m_aw_WorkloadType workload, m_as_Priority := m_aw_Priority workload,
          m_as_DemandShape := m_aw_DemandShape workload, m_as_TimeWindows := m_aw_TimeWindows workload,
          m_as_ResourceRequest := m_aw_ResourceRequest workload,
          m_as_AssignedGPU := m_aw_AssignedGPU workload, m_as_Resources := resources,
          m_as_AllocationType := m_aw_AllocationType workload, m_as_Actions := m_aw_Actions workload,
          m_as_Reason := m_aw_Reason workload\<rparr>;
     (annotations, s) \<leftarrow> annotate_mem workload (m_om_Annotations (m_a_Meta allocation)) s;
     statuses \<leftarrow> ranged kind_AllocationWorkloadStatus s (m_ast_Workloads (m_a_Status ledger));
     let status =
       (case workloadStatusByName_mem statuses (m_aw_Name workload) of
          Some st \<Rightarrow>
            (m_a_Status allocation)
              \<lparr>m_ast_Phase := m_ws_Phase st, m_ast_ObservedResources := m_ws_Applied st,
               m_ast_Current := m_ws_Applied st, m_ast_HourlyForecast := m_ws_HourlyForecast st,
               m_ast_Message := m_ws_Message st\<rparr>
        | None \<Rightarrow> AIResourceAllocationStatus_mem_zero);
     Some (allocation \<lparr>m_a_Meta := (m_a_Meta allocation) \<lparr>m_om_Annotations := annotations\<rparr>,
             m_a_Spec := spec, m_a_Status := status\<rparr>, s)}"

fun expandWorkloads_mem ::
    "DeepCopyLib \<Rightarrow> AIResourceAllocation_mem \<Rightarrow> AllocationWorkloadSpec_mem list \<Rightarrow> cell store \<Rightarrow>
     (AIResourceAllocation_mem list \<times> cell store) option" where
  "expandWorkloads_mem lib ledger [] s = Some ([], s)"
| "expandWorkloads_mem lib ledger (workload # workloads) s = do {
     (allocation, s) \<leftarrow> expandWorkload_mem lib ledger workload s;
     (expanded, s) \<leftarrow> expandWorkloads_mem lib ledger workloads s;
     Some (allocation # expanded, s)}"

fun expandNodeAllocationLedgers_mem ::
    "DeepCopyLib \<Rightarrow> AIResourceAllocation_mem list \<Rightarrow> cell store \<Rightarrow> (AIResourceAllocation_mem list \<times> cell store) option" where
  "expandNodeAllocationLedgers_mem lib [] s = Some ([], s)"
| "expandNodeAllocationLedgers_mem lib (ledger # ledgers) s = do {
     workloads \<leftarrow> ranged kind_AllocationWorkloadSpec s (m_as_Workloads (m_a_Spec ledger));
     (first, s) \<leftarrow> (if workloads = [] then Some ([ledger], s) else expandWorkloads_mem lib ledger workloads s);
     (expanded, s) \<leftarrow> expandNodeAllocationLedgers_mem lib ledgers s;
     Some (first @ expanded, s)}"

section \<open>Writing into the map of a copy\<close>

text \<open>
  What a write to entry \<open>i\<close> of the table cell \<open>a\<close> may change.  The cell may also be one that was
  allocated since.
\<close>

definition table_changed :: "nat \<Rightarrow> nat \<Rightarrow> cell store \<Rightarrow> cell store \<Rightarrow> bool" where
  "table_changed a i u u' \<longleftrightarrow>
     length u \<le> length u' \<and> (\<forall>c<length u. c \<noteq> a \<longrightarrow> u' ! c = u ! c) \<and>
     (a < length u \<longrightarrow> (\<exists>ts ts'. u ! a = Cell_Table ts \<and> u' ! a = Cell_Table ts' \<and>
        (\<forall>j<length ts. j \<noteq> i \<longrightarrow> j < length ts' \<and> ts' ! j = ts ! j)))"

lemma wrap_Table [simp]: "kd_wrap kind_Table = Cell_Table"
  by (simp add: kind_Table_def array_kind_def)

lemma wrap_Time [simp]: "kd_wrap kind_Time = Cell_Time"
  by (simp add: kind_Time_def array_kind_def)

lemma table_kind: "kind_ok kind_Table" "kind_ok kind_Time"
  by (rule kinds)+

lemmas deref_Table = deref_iff [OF table_kind(1), unfolded wrap_Table]
lemmas deref_Time = deref_iff [OF table_kind(2), unfolded wrap_Time]

lemma changed_table:
  assumes "table_changed a i u u'" and "(c, j) \<noteq> (a, i)" and "deref kind_Table (cells u) (c, j) = Some t"
  shows "deref kind_Table (cells u') (c, j) = Some t"
  using assms by (cases "c = a") (auto simp: deref_Table table_changed_def cells_from_def split: if_splits)

lemma changed_time:
  assumes "table_changed a i u u'" and "deref kind_Time (cells u) q = Some t"
  shows "deref kind_Time (cells u') q = Some t"
  using assms by (cases q; cases "fst q = a") (auto simp: deref_Time table_changed_def cells_from_def split: if_splits)

lemma changed_le:
  assumes "table_changed a i u u'" and "m \<subseteq>\<^sub>m cells u" and "m a = None"
  shows "m \<subseteq>\<^sub>m cells u'"
  unfolding map_le_def
proof
  fix x assume "x \<in> dom m"
  then obtain y where y: "m x = Some y" by blast
  with assms(2) have "x < length u" "u ! x = y"
    using map_le_lookup [OF assms(2) y] by (auto simp: cells_from_def split: if_splits)
  moreover have "x \<noteq> a" using y assms(3) by auto
  ultimately show "m x = cells u' x"
    using assms(1) y by (simp add: table_changed_def cells_from_def)
qed

lemma changed_trans: "table_changed a i u u' \<Longrightarrow> table_changed a i u' u'' \<Longrightarrow> table_changed a i u u''"
  by (auto simp: table_changed_def)

lemma setEntry_ok:
  assumes "deref kind_Table (cells u) (a, i) = Some t"
  shows "\<exists>u'. setEntry (Some (a, i)) key v u = Some u' \<and> table_changed a i u u' \<and>
    deref kind_Table (cells u') (a, i) = Some (t(key \<mapsto> v))"
proof -
  obtain ts where ts: "a < length u" "u ! a = Cell_Table ts" "i < length ts" "t = ts ! i"
    using assms by (auto simp: deref_Table cells_from_def split: if_splits)
  let ?u = "u[a := Cell_Table (ts[i := t(key \<mapsto> v)])]"
  have "put kind_Table (a, i) (t(key \<mapsto> v)) u = Some ?u"
    using ts by (simp add: put_iff [OF table_kind(1)])
  with assms have "setEntry (Some (a, i)) key v u = Some ?u"
    by (simp add: setEntry_def)
  moreover have "table_changed a i u ?u"
    using ts by (simp add: table_changed_def)
  moreover have "deref kind_Table (cells ?u) (a, i) = Some (t(key \<mapsto> v))"
    using ts by (simp add: deref_Table cells_from_def)
  ultimately show ?thesis by blast
qed

definition annotated :: "AllocationWorkloadSpec \<Rightarrow> table \<Rightarrow> table" where
  "annotated workload t =
     (let t1 = (if aw_SourcePodName workload \<noteq> []
                then t(AllocationAnnotationSourcePodName \<mapsto> aw_SourcePodName workload) else t)
      in if aw_SourcePodUID workload \<noteq> []
         then t1(AllocationAnnotationSourcePodUID \<mapsto> aw_SourcePodUID workload) else t1)"

lemma table_changed_refl: "deref kind_Table (cells u) (a, i) = Some t \<Longrightarrow> table_changed a i u u"
  by (auto simp: deref_Table table_changed_def cells_from_def split: if_splits)

lemma set_entries:
  assumes "deref kind_Table (cells u) (a, i) = Some t" and "aw_SourcePodName W = m_aw_SourcePodName w"
    and "aw_SourcePodUID W = m_aw_SourcePodUID w"
  shows "\<exists>u'. annotate_mem w (Some (a, i)) u = Some (Some (a, i), u') \<and> table_changed a i u u' \<and>
    deref kind_Table (cells u') (a, i) = Some (annotated W t)"
proof -
  let ?n = "m_aw_SourcePodName w" and ?d = "m_aw_SourcePodUID w"
  let ?ta = "if ?n \<noteq> [] then t(AllocationAnnotationSourcePodName \<mapsto> ?n) else t"
  obtain u1 where u1: "(if ?n \<noteq> [] then setEntry (Some (a, i)) AllocationAnnotationSourcePodName ?n u else Some u) = Some u1"
    "table_changed a i u u1" "deref kind_Table (cells u1) (a, i) = Some ?ta"
    using setEntry_ok [OF assms(1)] assms(1) table_changed_refl [OF assms(1)] by (cases "?n = []") auto
  have ann: "annotated W t = (if ?d \<noteq> [] then ?ta(AllocationAnnotationSourcePodUID \<mapsto> ?d) else ?ta)"
    by (simp add: annotated_def Let_def assms(2,3))
  obtain u2 where u2: "(if ?d \<noteq> [] then setEntry (Some (a, i)) AllocationAnnotationSourcePodUID ?d u1 else Some u1) = Some u2"
    "table_changed a i u1 u2" "deref kind_Table (cells u2) (a, i) = Some (annotated W t)"
    unfolding ann using setEntry_ok [OF u1(3)] u1(3) table_changed_refl [OF u1(3)] by (cases "?d = []") auto
  have "annotate_mem w (Some (a, i)) u = Some (Some (a, i), u2)"
    by (simp add: annotate_mem_def u1(1) u2(1))
  with changed_trans [OF u1(2) u2(2)] u2(3) show ?thesis by blast
qed

lemma annotate_mem_ok:
  assumes "readTable (cells u) p = Some t" and "aw_SourcePodName W = m_aw_SourcePodName w"
    and "aw_SourcePodUID W = m_aw_SourcePodUID w"
  shows "\<exists>a i u'. annotate_mem w p u = Some (Some (a, i), u') \<and> table_changed a i u u' \<and>
    deref kind_Table (cells u') (a, i) = Some (annotated W t) \<and> (p = Some (a, i) \<or> p = None \<and> a = length u)"
proof (cases p)
  case None
  let ?u = "u @ [Cell_Table [Map.empty]]"
  have "deref kind_Table (cells ?u) (length u, 0) = Some Map.empty"
    by (simp add: deref_Table)
  from set_entries [OF this assms(2,3)] obtain u' where u': "annotate_mem w (Some (length u, 0)) ?u = Some (Some (length u, 0), u')"
    "table_changed (length u) 0 ?u u'" "deref kind_Table (cells u') (length u, 0) = Some (annotated W Map.empty)"
    by blast
  have "annotate_mem w None u = Some (Some (length u, 0), u')"
    using u'(1) by (simp add: annotate_mem_def)
  moreover have "table_changed (length u) 0 u u'"
    using u'(2) by (auto simp: table_changed_def nth_append)
  moreover have "t = Map.empty"
    using assms(1) None by (simp add: readTable_def)
  ultimately show ?thesis using u'(3) None by blast
next
  case (Some q)
  obtain a i where q: "q = (a, i)" by (cases q)
  have "deref kind_Table (cells u) (a, i) = Some t"
    using assms(1) by (auto simp: Some q readTable_def readPlain_def bind_eq_Some_conv)
  from set_entries [OF this assms(2,3)] show ?thesis by (auto simp: Some q)
qed

section \<open>One entry\<close>

text \<open>The copy of a ledger part by part: the metadata first, the other parts in later cells.\<close>

lemma DeepCopyInto_parts:
  assumes "copy_lib_ok lib" and "read_AIResourceAllocation (cells s) x = Some (tm, L, conds)"
  shows "\<exists>meta spec status n1 n2.
    DeepCopyInto_AIResourceAllocation lib x s =
      Some (x \<lparr>m_a_Meta := meta, m_a_Spec := spec, m_a_Status := status\<rparr>, s @ n1 @ n2) \<and>
    (m_om_Annotations meta \<noteq> None \<longrightarrow> m_om_Annotations meta \<noteq> m_om_Labels meta) \<and>
    read_ObjectMeta (cells_from (length s) (s @ n1)) meta = Some (a_Meta L) \<and>
    read_AIResourceAllocationSpec (cells_from (length (s @ n1)) (s @ n1 @ n2)) spec = Some (a_Spec L) \<and>
    read_AIResourceAllocationStatus (cells_from (length (s @ n1)) (s @ n1 @ n2)) status = Some (a_Status L, conds)"
proof -
  have parts: "read_ObjectMeta (cells s) (m_a_Meta x) = Some (a_Meta L)"
    "read_AIResourceAllocationSpec (cells s) (m_a_Spec x) = Some (a_Spec L)"
    "read_AIResourceAllocationStatus (cells s) (m_a_Status x) = Some (a_Status L, conds)"
    using assms(2) by (auto simp: read_AIResourceAllocation_def bind_eq_Some_conv)
  obtain meta n1 where meta: "dl_ObjectMeta lib (m_a_Meta x) s = Some (meta, s @ n1)"
    "read_ObjectMeta (cells_from (length s) (s @ n1)) meta = Some (a_Meta L)"
    using deep_copier.copy_fresh [OF copy_lib_copiers(1) [OF assms(1)] parts(1)] by blast
  obtain spec n2 where spec: "DeepCopyInto_AIResourceAllocationSpec (m_a_Spec x) (s @ n1) = Some (spec, (s @ n1) @ n2)"
    "read_AIResourceAllocationSpec (cells_from (length (s @ n1)) ((s @ n1) @ n2)) spec = Some (a_Spec L)"
    using deep_copier.copy_fresh [OF AIResourceAllocationSpec_copier
        stableD [OF stable_AIResourceAllocationSpec cells_from_append parts(2), of n1]] by blast
  obtain status n3 where status:
    "DeepCopyInto_AIResourceAllocationStatus lib (m_a_Status x) ((s @ n1) @ n2) = Some (status, ((s @ n1) @ n2) @ n3)"
    "read_AIResourceAllocationStatus (cells_from (length (s @ n1)) (((s @ n1) @ n2) @ n3)) status = Some (a_Status L, conds)"
    using deep_copier.copy_after [OF AIResourceAllocationStatus_copier [OF assms(1)],
        of "(s @ n1) @ n2" "m_a_Status x" "(a_Status L, conds)" "length (s @ n1)"]
      stableD [OF stable_AIResourceAllocationStatus cells_from_append parts(3), of "n1 @ n2"] by auto
  have "read_AIResourceAllocationSpec (cells_from (length (s @ n1)) (s @ n1 @ n2 @ n3)) spec = Some (a_Spec L)"
    using stableD [OF stable_AIResourceAllocationSpec cells_from_append spec(2), of n3] by simp
  moreover have "m_om_Annotations meta \<noteq> None \<longrightarrow> m_om_Annotations meta \<noteq> m_om_Labels meta"
    using assms(1) meta(1) unfolding copy_lib_ok_def by blast
  moreover have "DeepCopyInto_AIResourceAllocation lib x s =
      Some (x \<lparr>m_a_Meta := meta, m_a_Spec := spec, m_a_Status := status\<rparr>, s @ n1 @ n2 @ n3)"
    using meta(1) spec(1) status(1) by (simp add: DeepCopyInto_AIResourceAllocation_def)
  ultimately show ?thesis
    using meta(2) status(2) by (intro exI [of _ meta] exI [of _ spec] exI [of _ status] exI [of _ n1] exI [of _ "n2 @ n3"]) simp
qed

text \<open>Writing the annotations of a copy keeps the rest of its metadata.\<close>

lemma meta_annotated:
  assumes "read_ObjectMeta (cells u) meta = Some M" and "table_changed a i u u'"
    and "m_om_Annotations meta = Some (a, i) \<or> m_om_Annotations meta = None \<and> a = length u"
    and "m_om_Annotations meta \<noteq> None \<longrightarrow> m_om_Annotations meta \<noteq> m_om_Labels meta"
    and "deref kind_Table (cells u') (a, i) = Some t"
  shows "read_ObjectMeta (cells u') (meta \<lparr>m_om_Annotations := Some (a, i)\<rparr>) = Some (M \<lparr>om_Annotations := t\<rparr>)"
proof -
  have read: "readTime (cells u) (m_om_DeletionTimestamp meta) = Some (om_DeletionTimestamp M)"
    "readTable (cells u) (m_om_Labels meta) = Some (om_Labels M)"
    using assms(1) by (auto simp: read_ObjectMeta_def bind_eq_Some_conv)
  have "readTime (cells u') (m_om_DeletionTimestamp meta) = Some (om_DeletionTimestamp M)"
    using read(1) changed_time [OF assms(2)]
    by (cases "m_om_DeletionTimestamp meta") (auto simp: readTime_def readPlain_def bind_eq_Some_conv)
  moreover have "readTable (cells u') (m_om_Labels meta) = Some (om_Labels M)"
  proof (cases "m_om_Labels meta")
    case None
    with read(2) show ?thesis by (simp add: readTable_def)
  next
    case (Some q)
    then have q: "deref kind_Table (cells u) q = Some (om_Labels M)"
      using read(2) by (auto simp: readTable_def readPlain_def bind_eq_Some_conv)
    then have "fst q < length u" by (cases q) (auto simp: deref_Table cells_from_def split: if_splits)
    then have "q \<noteq> (a, i)" using assms(3,4) Some by auto
    then show ?thesis
      using changed_table [OF assms(2), of "fst q" "snd q"] q by (simp add: Some readTable_def readPlain_def)
  qed
  moreover have "readTable (cells u') (Some (a, i)) = Some t"
    using assms(5) by (simp add: readTable_def readPlain_def)
  ultimately show ?thesis
    using assms(1) by (auto simp: read_ObjectMeta_def bind_eq_Some_conv)
qed

lemma firstResourceSummary_mem_ok:
  assumes "list_all2 (\<lambda>p v. readPointer kind_ResourceSummary readPlain (cells s) p = Some v) ps vs" and "b \<le> length s"
  shows "\<exists>q new. firstResourceSummary_mem ps s = Some (q, s @ new) \<and>
    readPointer kind_ResourceSummary readPlain (cells_from b (s @ new)) q = Some (firstResourceSummary vs)"
  using assms(1)
proof (induction ps vs)
  case Nil
  show ?case by (rule exI [of _ None], rule exI [of _ "[]"]) simp
next
  case (Cons p ps v vs)
  show ?case
  proof (cases p)
    case None
    with Cons show ?thesis by simp
  next
    case (Some r)
    then have "v \<noteq> None" using Cons.hyps(1) by (auto simp: bind_eq_Some_conv)
    with Some Cons.hyps(1) resource_summary.copy_after [OF Cons.hyps(1) assms(2)] show ?thesis by auto
  qed
qed

lemma statusByName_mem_ok:
  assumes "readElements read_AllocationWorkloadStatus m sts = Some STS"
  shows "case workloadStatusByName_mem sts nm of
      Some st \<Rightarrow> \<exists>ST. workloadStatusByName STS nm = Some ST \<and> read_AllocationWorkloadStatus m st = Some ST
    | None \<Rightarrow> workloadStatusByName STS nm = None"
  using assms
proof (induction sts arbitrary: STS)
  case (Cons st sts)
  then obtain ST rest where "read_AllocationWorkloadStatus m st = Some ST" "readElements read_AllocationWorkloadStatus m sts = Some rest"
      "STS = ST # rest"
    by (auto simp: bind_eq_Some_conv)
  moreover from this(1) have "ws_Name ST = m_ws_Name st"
    by (auto simp: read_AllocationWorkloadStatus_def bind_eq_Some_conv)
  ultimately show ?case using Cons.IH by (auto split: option.splits)
qed simp

lemma spec_expanded:
  assumes "read_AIResourceAllocationSpec m1 spec = Some S" and "m \<subseteq>\<^sub>m m'" and "read_AllocationWorkloadSpec m w = Some W"
    and "readSlice kind_AllocationWorkloadSpec read_AllocationWorkloadSpec m' workloads = Some [W]"
    and "readPointer kind_ResourceSummary readPlain m' resources = Some R"
  shows "read_AIResourceAllocationSpec m'
     (spec \<lparr>m_as_Workloads := workloads, m_as_WorkloadRef := m_aw_WorkloadRef w,
       m_as_WorkloadType := m_aw_WorkloadType w, m_as_Priority := m_aw_Priority w,
       m_as_DemandShape := m_aw_DemandShape w, m_as_TimeWindows := m_aw_TimeWindows w,
       m_as_ResourceRequest := m_aw_ResourceRequest w, m_as_AssignedGPU := m_aw_AssignedGPU w, m_as_Resources := resources,
       m_as_AllocationType := m_aw_AllocationType w, m_as_Actions := m_aw_Actions w, m_as_Reason := m_aw_Reason w\<rparr>) =
   Some (S \<lparr>as_Workloads := [W], as_WorkloadRef := aw_WorkloadRef W, as_WorkloadType := aw_WorkloadType W,
       as_Priority := aw_Priority W, as_DemandShape := aw_DemandShape W, as_TimeWindows := aw_TimeWindows W,
       as_ResourceRequest := aw_ResourceRequest W, as_AssignedGPU := aw_AssignedGPU W, as_Resources := R,
       as_AllocationType := aw_AllocationType W, as_Actions := aw_Actions W, as_Reason := aw_Reason W\<rparr>)"
proof -
  have "read_AllocationWorkloadSpec m' w = Some W"
    using stableD [OF stable_AllocationWorkloadSpec assms(2,3)] .
  with assms(1,4,5) show ?thesis
    by (auto simp: read_AIResourceAllocationSpec_def read_AllocationWorkloadSpec_def bind_eq_Some_conv)
qed

lemma status_expanded:
  assumes "read_AIResourceAllocationStatus m1 status = Some (S, conds)" and "m1 \<subseteq>\<^sub>m m'"
    and "read_AllocationWorkloadStatus m st = Some ST" and "m \<subseteq>\<^sub>m m'"
  shows "read_AIResourceAllocationStatus m'
     (status \<lparr>m_ast_Phase := m_ws_Phase st, m_ast_ObservedResources := m_ws_Applied st, m_ast_Current := m_ws_Applied st,
       m_ast_HourlyForecast := m_ws_HourlyForecast st, m_ast_Message := m_ws_Message st\<rparr>) =
   Some (S \<lparr>ast_Phase := ws_Phase ST, ast_ObservedResources := ws_Applied ST, ast_Current := ws_Applied ST,
       ast_HourlyForecast := ws_HourlyForecast ST, ast_Message := ws_Message ST\<rparr>, conds)"
proof -
  have "read_AIResourceAllocationStatus m' status = Some (S, conds)" "read_AllocationWorkloadStatus m' st = Some ST"
    using stableD [OF stable_AIResourceAllocationStatus assms(2,1)] stableD [OF stable_AllocationWorkloadStatus assms(4,3)] .
  then show ?thesis
    by (auto simp: read_AIResourceAllocationStatus_def read_AllocationWorkloadStatus_def bind_eq_Some_conv)
qed

lemma status_zero:
  "read_AIResourceAllocationStatus m AIResourceAllocationStatus_mem_zero = Some (AIResourceAllocationStatus_zero, [])"
  by (simp add: read_AIResourceAllocationStatus_def AIResourceAllocationStatus_mem_zero_def AIResourceAllocationStatus_zero_def
      readTime_def)

text \<open>A struct holds a value if it reads as it, with some type metadata and conditions.\<close>

definition holds_allocation :: "cell memory \<Rightarrow> AIResourceAllocation_mem \<Rightarrow> AIResourceAllocation \<Rightarrow> bool" where
  "holds_allocation m x L \<longleftrightarrow> (\<exists>tm conds. read_AIResourceAllocation m x = Some (tm, L, conds))"

lemma read_annotations:
  "read_ObjectMeta m meta = Some M \<Longrightarrow> readTable m (m_om_Annotations meta) = Some (om_Annotations M)"
  by (auto simp: read_ObjectMeta_def bind_eq_Some_conv)

lemma read_statuses:
  "read_AIResourceAllocationStatus m status = Some (S, conds) \<Longrightarrow>
   readSlice kind_AllocationWorkloadStatus read_AllocationWorkloadStatus m (m_ast_Workloads status) = Some (ast_Workloads S)"
  by (auto simp: read_AIResourceAllocationStatus_def bind_eq_Some_conv)

lemma read_allocation_iff:
  "read_AIResourceAllocation m x = Some (tm, L, conds) \<longleftrightarrow>
     tm = m_a_TypeMeta x \<and> read_ObjectMeta m (m_a_Meta x) = Some (a_Meta L) \<and>
     read_AIResourceAllocationSpec m (m_a_Spec x) = Some (a_Spec L) \<and>
     read_AIResourceAllocationStatus m (m_a_Status x) = Some (a_Status L, conds)"
  by (cases L) (auto simp: read_AIResourceAllocation_def bind_eq_Some_conv)

lemma cells_le_append: "cells s \<subseteq>\<^sub>m cells t \<Longrightarrow> \<exists>new. t = s @ new"
proof -
  assume le: "cells s \<subseteq>\<^sub>m cells t"
  have at: "a < length t \<and> t ! a = s ! a" if "a < length s" for a
    using map_le_lookup [OF le, of a "s ! a"] that by (auto simp: cells_from_def split: if_splits)
  have "length s \<le> length t" using at [of "length s - 1"] by (cases s) auto
  then have "take (length s) t = s" using at by (intro nth_equalityI) auto
  then show ?thesis by (metis append_take_drop_id)
qed

lemma ranged_ok:
  assumes "readSlice k read (cells s) sl = Some vs" and "cells s \<subseteq>\<^sub>m cells t"
  shows "\<exists>xs. ranged k t sl = Some xs \<and> readElements read (cells s) xs = Some vs"
  using assms by (cases sl) (auto simp: ranged_def bind_eq_Some_conv dest: elements_more)

lemma wrap_AllocationWorkloadSpec: "kd_wrap kind_AllocationWorkloadSpec = Cell_AllocationWorkloadSpec"
  by (simp add: kind_AllocationWorkloadSpec_def array_kind_def)

lemma entry_slice:
  assumes "read_AllocationWorkloadSpec m w = Some W" and "m \<subseteq>\<^sub>m m'" and "b \<le> length u"
    and "cells_from b (u @ Cell_AllocationWorkloadSpec [w] # rest) \<subseteq>\<^sub>m m'"
  shows "readSlice kind_AllocationWorkloadSpec read_AllocationWorkloadSpec m' (Some (length u, 0, 1)) = Some [W]"
proof -
  have "elements kind_AllocationWorkloadSpec (cells_from b (u @ kd_wrap kind_AllocationWorkloadSpec [w] # rest))
      (length u, 0, length [w]) = Some [w]"
    by (rule elements_alloc [OF _ assms(3)]) (rule kinds)
  from elements_more [OF assms(4) [folded wrap_AllocationWorkloadSpec] this] show ?thesis
    using stableD [OF stable_AllocationWorkloadSpec assms(2,1)] by simp
qed

lemma expandWorkload_mem_refines:
  assumes lib: "copy_lib_ok lib" and L: "holds_allocation (cells s) ledger L"
    and W: "read_AllocationWorkloadSpec (cells s) w = Some W"
  shows "\<exists>x new. expandWorkload_mem lib ledger w s = Some (x, s @ new) \<and>
    holds_allocation (cells (s @ new)) x (expandWorkload L W)"
proof -
  obtain tm conds where L: "read_AIResourceAllocation (cells s) ledger = Some (tm, L, conds)"
    using L by (auto simp: holds_allocation_def)
  obtain meta spec status n1 n2 where
    copy: "DeepCopyInto_AIResourceAllocation lib ledger s =
      Some (ledger \<lparr>m_a_Meta := meta, m_a_Spec := spec, m_a_Status := status\<rparr>, s @ n1 @ n2)"
    and own: "m_om_Annotations meta \<noteq> None \<longrightarrow> m_om_Annotations meta \<noteq> m_om_Labels meta"
    and meta: "read_ObjectMeta (cells_from (length s) (s @ n1)) meta = Some (a_Meta L)"
    and spec: "read_AIResourceAllocationSpec (cells_from (length (s @ n1)) (s @ n1 @ n2)) spec = Some (a_Spec L)"
    and status: "read_AIResourceAllocationStatus (cells_from (length (s @ n1)) (s @ n1 @ n2)) status = Some (a_Status L, conds)"
    using DeepCopyInto_parts [OF lib L] by blast
  let ?ua = "s @ n1 @ n2" and ?b = "length (s @ n1)"
  let ?ub = "?ua @ [Cell_AllocationWorkloadSpec [w]]"
  have "read_AllocationWorkloadSpec (cells ?ub) w = Some W"
    using stableD [OF stable_AllocationWorkloadSpec cells_from_append W, of "n1 @ n2 @ [Cell_AllocationWorkloadSpec [w]]"] by simp
  then have "list_all2 (\<lambda>p v. readPointer kind_ResourceSummary readPlain (cells ?ub) p = Some v)
      [m_aw_Desired w, m_aw_Resources w] [aw_Desired W, aw_Resources W]"
    by (auto simp: read_AllocationWorkloadSpec_def bind_eq_Some_conv)
  from firstResourceSummary_mem_ok [OF this, of ?b] obtain q n3 where
    q: "firstResourceSummary_mem [m_aw_Desired w, m_aw_Resources w] ?ub = Some (q, ?ub @ n3)"
      "readPointer kind_ResourceSummary readPlain (cells_from ?b (?ub @ n3)) q = Some (firstResourceSummary [aw_Desired W, aw_Resources W])"
    by auto
  let ?u = "?ub @ n3"
  have meta_le: "cells_from (length s) (s @ n1) \<subseteq>\<^sub>m cells ?u"
    using map_le_trans [OF cells_from_less [of 0] cells_from_append, of "length s" "s @ n1"] by simp
  have meta_u: "read_ObjectMeta (cells ?u) meta = Some (a_Meta L)"
    by (rule stableD [OF stable_ObjectMeta meta_le meta])
  then have "readTable (cells ?u) (m_om_Annotations meta) = Some (om_Annotations (a_Meta L))"
    by (rule read_annotations)
  moreover have "aw_SourcePodName W = m_aw_SourcePodName w" "aw_SourcePodUID W = m_aw_SourcePodUID w" "aw_Name W = m_aw_Name w"
    using W by (auto simp: read_AllocationWorkloadSpec_def bind_eq_Some_conv)
  note named = this
  ultimately obtain a i u' where ann: "annotate_mem w (m_om_Annotations meta) ?u = Some (Some (a, i), u')"
    and changed: "table_changed a i ?u u'"
    and table: "deref kind_Table (cells u') (a, i) = Some (annotated W (om_Annotations (a_Meta L)))"
    and place: "m_om_Annotations meta = Some (a, i) \<or> m_om_Annotations meta = None \<and> a = length ?u"
    using annotate_mem_ok [OF _ named(1,2)] by blast
  have region: "length s \<le> a" "a < length (s @ n1) \<or> a = length ?u"
    using place meta by (auto simp: read_ObjectMeta_def readTable_def deref_Table bind_eq_Some_conv cells_from_def split: if_splits)
  have old: "cells s \<subseteq>\<^sub>m cells u'"
    using changed_le [OF changed _] cells_from_append [of 0 s "n1 @ n2 @ [Cell_AllocationWorkloadSpec [w]] @ n3"] region(1)
    by (simp add: cells_from_def)
  have new: "cells_from ?b ?u \<subseteq>\<^sub>m cells u'"
    by (rule changed_le [OF changed cells_from_less]) (use region(2) in \<open>auto simp: cells_from_def\<close>)
  have copied: "cells_from ?b ?ua \<subseteq>\<^sub>m cells u'"
    using map_le_trans [OF cells_from_append [of ?b ?ua "[Cell_AllocationWorkloadSpec [w]] @ n3"]] new by simp
  have "readSlice kind_AllocationWorkloadStatus read_AllocationWorkloadStatus (cells s) (m_ast_Workloads (m_a_Status ledger)) =
      Some (ast_Workloads (a_Status L))"
    using L by (intro read_statuses) (auto simp: read_allocation_iff)
  from ranged_ok [OF this old] obtain sts where
    sts: "ranged kind_AllocationWorkloadStatus u' (m_ast_Workloads (m_a_Status ledger)) = Some sts"
      "readElements read_AllocationWorkloadStatus (cells s) sts = Some (ast_Workloads (a_Status L))"
    by blast
  let ?found = "workloadStatusByName_mem sts (m_aw_Name w)" and ?FOUND = "workloadStatusByName (ast_Workloads (a_Status L)) (aw_Name W)"
  let ?status = "case ?found of
      Some st \<Rightarrow> status \<lparr>m_ast_Phase := m_ws_Phase st, m_ast_ObservedResources := m_ws_Applied st, m_ast_Current := m_ws_Applied st,
        m_ast_HourlyForecast := m_ws_HourlyForecast st, m_ast_Message := m_ws_Message st\<rparr>
    | None \<Rightarrow> AIResourceAllocationStatus_mem_zero"
  have status': "\<exists>conds'. read_AIResourceAllocationStatus (cells u') ?status = Some (a_Status (expandWorkload L W), conds')"
    using statusByName_mem_ok [OF sts(2), of "m_aw_Name w"] status_expanded [OF status copied _ old] status_zero [of "cells u'"]
    by (auto simp: expandWorkload_def Let_def named split: option.splits)
  have meta': "read_ObjectMeta (cells u') (meta \<lparr>m_om_Annotations := Some (a, i)\<rparr>) = Some (a_Meta (expandWorkload L W))"
    using meta_annotated [OF meta_u changed place own table] by (simp add: expandWorkload_def annotated_def Let_def)
  have entry: "readSlice kind_AllocationWorkloadSpec read_AllocationWorkloadSpec (cells u') (Some (length ?ua, 0, 1)) = Some [W]"
    by (rule entry_slice [OF W old, of ?b _ n3]) (use new in simp_all)
  have "readPointer kind_ResourceSummary readPlain (cells u') q = Some (firstResourceSummary [aw_Desired W, aw_Resources W])"
    by (rule stableD [OF stable_pointer [OF stable_plain] new q(2)])
  note spec' = spec_expanded [OF spec old W entry this]
  obtain rest where u': "u' = s @ rest" using cells_le_append [OF old] by blast
  let ?x = "ledger \<lparr>m_a_Meta := meta \<lparr>m_om_Annotations := Some (a, i)\<rparr>,
    m_a_Spec := spec \<lparr>m_as_Workloads := Some (length ?ua, 0, 1), m_as_WorkloadRef := m_aw_WorkloadRef w,
       m_as_WorkloadType := m_aw_WorkloadType w, m_as_Priority := m_aw_Priority w,
       m_as_DemandShape := m_aw_DemandShape w, m_as_TimeWindows := m_aw_TimeWindows w,
       m_as_ResourceRequest := m_aw_ResourceRequest w, m_as_AssignedGPU := m_aw_AssignedGPU w, m_as_Resources := q,
       m_as_AllocationType := m_aw_AllocationType w, m_as_Actions := m_aw_Actions w, m_as_Reason := m_aw_Reason w\<rparr>,
    m_a_Status := ?status\<rparr>"
  have "expandWorkload_mem lib ledger w s = Some (?x, u')"
    using q(1) ann sts(1) by (simp add: expandWorkload_mem_def copy Let_def del: firstResourceSummary_mem.simps cong: option.case_cong)
  moreover have "holds_allocation (cells u') ?x (expandWorkload L W)"
    using meta' spec' status' unfolding holds_allocation_def read_allocation_iff
    by (simp add: expandWorkload_def Let_def)
  ultimately show ?thesis unfolding u' by blast
qed

section \<open>All ledgers\<close>

lemma holds_later: "holds_allocation (cells s) x L \<Longrightarrow> holds_allocation (cells (s @ new)) x L"
  unfolding holds_allocation_def using stableD [OF stable_AIResourceAllocation cells_from_append] by blast

lemma all_hold_later:
  "list_all2 (holds_allocation (cells s)) xs Ls \<Longrightarrow> list_all2 (holds_allocation (cells (s @ new))) xs Ls"
  by (erule list_all2_mono) (rule holds_later)

lemma entries_later:
  "readElements read_AllocationWorkloadSpec (cells s) ws = Some Ws \<Longrightarrow>
   readElements read_AllocationWorkloadSpec (cells (s @ new)) ws = Some Ws"
  by (rule stableD [OF stable_elements [OF stable_AllocationWorkloadSpec] cells_from_append])

lemma expandWorkloads_mem_refines:
  assumes "copy_lib_ok lib" and "holds_allocation (cells s) ledger L"
    and "readElements read_AllocationWorkloadSpec (cells s) ws = Some Ws"
  shows "\<exists>xs new. expandWorkloads_mem lib ledger ws s = Some (xs, s @ new) \<and>
    list_all2 (holds_allocation (cells (s @ new))) xs (map (expandWorkload L) Ws)"
  using assms(2,3)
proof (induction ws arbitrary: s Ws)
  case Nil
  then show ?case by simp
next
  case (Cons w ws)
  obtain W rest where W: "read_AllocationWorkloadSpec (cells s) w = Some W" "Ws = W # rest"
    and rest: "readElements read_AllocationWorkloadSpec (cells s) ws = Some rest"
    using Cons.prems(2) by (auto simp: bind_eq_Some_conv)
  obtain x new where x: "expandWorkload_mem lib ledger w s = Some (x, s @ new)"
    "holds_allocation (cells (s @ new)) x (expandWorkload L W)"
    using expandWorkload_mem_refines [OF assms(1) Cons.prems(1) W(1)] by blast
  obtain xs new' where "expandWorkloads_mem lib ledger ws (s @ new) = Some (xs, (s @ new) @ new')"
    "list_all2 (holds_allocation (cells ((s @ new) @ new'))) xs (map (expandWorkload L) rest)"
    using Cons.IH [OF holds_later [OF Cons.prems(1)] entries_later [OF rest]] by blast
  with x holds_later [OF x(2), of new'] show ?case by (simp add: W(2))
qed

lemma read_entries:
  "holds_allocation m x L \<Longrightarrow>
   readSlice kind_AllocationWorkloadSpec read_AllocationWorkloadSpec m (m_as_Workloads (m_a_Spec x)) = Some (as_Workloads (a_Spec L))"
  by (auto simp: holds_allocation_def read_AIResourceAllocation_def read_AIResourceAllocationSpec_def bind_eq_Some_conv)

lemma readElements_Nil: "readElements read m xs = Some vs \<Longrightarrow> vs = [] \<longleftrightarrow> xs = []"
  by (cases xs) (auto simp: bind_eq_Some_conv)

lemma expand_one_ledger:
  assumes "copy_lib_ok lib" and "holds_allocation (cells s) ledger L"
  shows "\<exists>workloads xs new. ranged kind_AllocationWorkloadSpec s (m_as_Workloads (m_a_Spec ledger)) = Some workloads \<and>
    (if workloads = [] then Some ([ledger], s) else expandWorkloads_mem lib ledger workloads s) = Some (xs, s @ new) \<and>
    list_all2 (holds_allocation (cells (s @ new))) xs (expandNodeAllocationLedgers [L])"
proof -
  obtain ws where ws: "ranged kind_AllocationWorkloadSpec s (m_as_Workloads (m_a_Spec ledger)) = Some ws"
    "readElements read_AllocationWorkloadSpec (cells s) ws = Some (as_Workloads (a_Spec L))"
    using ranged_ok [OF read_entries [OF assms(2)], of s] by auto
  show ?thesis
  proof (cases "ws = []")
    case True
    then have "as_Workloads (a_Spec L) = []" using readElements_Nil [OF ws(2)] by simp
    with True ws(1) assms(2) show ?thesis by (intro exI [of _ ws] exI [of _ "[ledger]"] exI [of _ "[]"]) simp
  next
    case False
    then have "as_Workloads (a_Spec L) \<noteq> []" using readElements_Nil [OF ws(2)] by simp
    with False ws(1) expandWorkloads_mem_refines [OF assms ws(2)] show ?thesis by auto
  qed
qed

text \<open>
  C13. The expansion of the ledgers over the store computes what the expansion of their values computes.
  For ledgers that hold values in a store, aliased in whatever way, the loops with their deep
  copies, shared pointers and writes into maps return; they add cells and change none, so that every
  ledger holds the value it held; and the structs they return hold, in order, the values of the
  expansion on values.
\<close>
theorem expansion_refines_values:
  assumes "copy_lib_ok lib" and "list_all2 (holds_allocation (cells s)) ledgers Ls"
  shows "\<exists>xs new. expandNodeAllocationLedgers_mem lib ledgers s = Some (xs, s @ new) \<and>
    list_all2 (holds_allocation (cells (s @ new))) xs (expandNodeAllocationLedgers Ls) \<and>
    list_all2 (holds_allocation (cells (s @ new))) ledgers Ls"
  using assms(2)
proof (induction ledgers arbitrary: s Ls)
  case Nil
  then show ?case by simp
next
  case (Cons ledger ledgers)
  obtain L rest where L: "Ls = L # rest" "holds_allocation (cells s) ledger L" "list_all2 (holds_allocation (cells s)) ledgers rest"
    using Cons.prems by (auto simp: list_all2_Cons1)
  obtain ws xs new where one: "ranged kind_AllocationWorkloadSpec s (m_as_Workloads (m_a_Spec ledger)) = Some ws"
    "(if ws = [] then Some ([ledger], s) else expandWorkloads_mem lib ledger ws s) = Some (xs, s @ new)"
    "list_all2 (holds_allocation (cells (s @ new))) xs (expandNodeAllocationLedgers [L])"
    using expand_one_ledger [OF assms(1) L(2)] by blast
  obtain ys new' where "expandNodeAllocationLedgers_mem lib ledgers (s @ new) = Some (ys, (s @ new) @ new')"
    and ys: "list_all2 (holds_allocation (cells ((s @ new) @ new'))) ys (expandNodeAllocationLedgers rest)"
    using Cons.IH [OF all_hold_later [OF L(3)]] by blast
  then have "expandNodeAllocationLedgers_mem lib (ledger # ledgers) s = Some (xs @ ys, s @ new @ new')"
    using one(1,2) by simp
  moreover have "list_all2 (holds_allocation (cells (s @ new @ new'))) (xs @ ys) (expandNodeAllocationLedgers Ls)"
    using list_all2_appendI [OF all_hold_later [OF one(3), of new'] ys] by (simp add: L(1))
  ultimately show ?case using all_hold_later [OF Cons.prems, of "new @ new'"] by blast
qed

lemma sample_mem_holds: "\<exists>L. holds_allocation (cells sample_mem) sample_mem_ledger L \<and> length (as_Workloads (a_Spec L)) = 1"
  using sample_mem_reads unfolding holds_allocation_def by (metis length_map list.size(3,4) One_nat_def add_0)

theorem expansion_refines_values_witness:
  "\<exists>L xs new. holds_allocation (cells sample_mem) sample_mem_ledger L \<and>
     expandNodeAllocationLedgers_mem fieldwise_lib [sample_mem_ledger] sample_mem = Some (xs, sample_mem @ new) \<and>
     list_all2 (holds_allocation (cells (sample_mem @ new))) xs (expandNodeAllocationLedgers [L]) \<and> length xs = 1"
proof -
  obtain L where L: "holds_allocation (cells sample_mem) sample_mem_ledger L" "length (as_Workloads (a_Spec L)) = 1"
    using sample_mem_holds by blast
  then have "list_all2 (holds_allocation (cells sample_mem)) [sample_mem_ledger] [L]" by simp
  from expansion_refines_values [OF fieldwise_lib_ok this] obtain xs new where
    run: "expandNodeAllocationLedgers_mem fieldwise_lib [sample_mem_ledger] sample_mem = Some (xs, sample_mem @ new)"
      "list_all2 (holds_allocation (cells (sample_mem @ new))) xs (expandNodeAllocationLedgers [L])"
    by blast
  moreover have "length (expandNodeAllocationLedgers [L]) = 1" using L(2) by auto
  ultimately show ?thesis using L(1) list_all2_lengthD [OF run(2)] by metis
qed

end
