(* ===== verification/Spec2Isabelle.thy ===== *)
theory Spec2Isabelle
  imports Convergence Commands MemExpand
begin

text \<open>
  A verification library for the Astra scheduler (LinshanYu1/astra-scheduler, Go).

  \<^bold>\<open>The program.\<close>  Astra places AI inference workloads on GPU nodes in two steps.  A plugin of the
  Kubernetes scheduler (\<open>src/internal/scheduler\<close>) reads the pod's \<open>AIWorkloadProfile\<close> and the
  node's \<open>AINodeResourceProfile\<close>, filters nodes by hard constraints, scores the rest and, when a
  node is chosen, books the workload in that node's \<open>AIResourceAllocation\<close> object, its ledger.  An
  agent on each node (\<open>src/internal/agent\<close>) lists the ledger, plans all its workloads against the
  node's capacity, applies the plans through a backend, records the outcome in the ledger's status
  and publishes the node's report, which the scheduler reads in its next cycle.

  \<^bold>\<open>Theories, from the bottom up.\<close>  Paths are relative to \<open>src/internal\<close> unless they start with
  \<open>src\<close>.
  \<^item> \<open>Prelude\<close>: Go's integers as words, strings as byte lists, the functions of \<open>strings\<close>,
    \<open>strconv\<close> and \<open>sort\<close> the sources use, \<open>go\<close> (a value or a nil dereference), and the locale
    \<open>keyed_list\<close> of lists that are read and written by a key.
  \<^item> \<open>ApiTypes\<close>: the objects of \<open>src/api/v1alpha1\<close>, one record per struct.
  \<^item> \<open>Resource\<close>: resource vectors by dimension.  The sources carry four copies of the vector
    arithmetic; the locales \<open>res_adder\<close>, \<open>res_subtracter\<close>, \<open>res_fitter\<close>, \<open>res_books\<close> and
    \<open>res_zero_test\<close> state what each copy promises and are interpreted on each of them.
  \<^item> \<open>TimeWindows\<close>: the three readers of \<open>HH:MM\<close> and the window tests of scheduler and agent.
  \<^item> \<open>ResourcePolicy\<close>, \<open>FilterPolicy\<close>: \<open>scheduler/policy/resource_policy.go\<close>,
    \<open>time_window_policy.go\<close>, \<open>filter_constraint.go\<close>; the locale \<open>filter_chain\<close> is a registry whose
    first check protects the others from nil.
  \<^item> \<open>GoFloat\<close>, \<open>ScorePolicy\<close>: float64 as rationals rounded to 53 bits; \<open>scorer.go\<close>,
    \<open>demand_shape.go\<close>, \<open>simple_policy.go\<close>.
  \<^item> \<open>PluginState\<close>: \<open>scheduler/plugin\<close> up to scoring (\<open>state.go\<close>, \<open>resolver.go\<close>, \<open>filter.go\<close>,
    \<open>score.go\<close>) with the cycle state that its extension points pass on.
  \<^item> \<open>Sha256\<close>, \<open>Reserve\<close>: \<open>reserve.go\<close>; the attempts of the retry loops are whole definitions over
    an API client.  The hash is defined in full, because names are derived from it.
  \<^item> \<open>AgentResources\<close>: \<open>agent/resources\<close> and \<open>agent/constraints\<close>; locale \<open>resource_manager\<close>.
  \<^item> \<open>LocalLedger\<close>, \<open>LocalScheduler\<close>: \<open>agent/local\<close>, the planning order, the budget ledger, plans.
  \<^item> \<open>AllocationLedger\<close>: \<open>agent/allocation_ledger.go\<close>, \<open>hourly_forecast.go\<close>.
  \<^item> \<open>Backend\<close>, \<open>RealBackend\<close>: \<open>agent/backend\<close>; locale \<open>agent_backend\<close>, interpreted on the fake
    and on the real backend.
  \<^item> \<open>StatusRecorder\<close>, \<open>Controller\<close>: \<open>agent/status_recorder.go\<close>, \<open>agent/controller.go\<close>.
  \<^item> \<open>Watches\<close>: \<open>SetupWithManager\<close> of \<open>agent/controller.go\<close>, the events that wake the agent.
  \<^item> \<open>Flags\<close>, \<open>Commands\<close>: Go's package \<open>flag\<close>; the three programs of \<open>src/cmd\<close> with the plugin's
    \<open>New\<close>, as functions from arguments to exit codes.
  \<^item> \<open>GoStore\<close>, \<open>MemTypes\<close>, \<open>DeepCopy\<close>: a store with pointers, slices and maps; the API structs as they
    lie in it, with the value of \<open>ApiTypes\<close> that each of them reads as;
    \<open>src/api/v1alpha1/zz_generated.deepcopy.go\<close>.  The locale \<open>deep_copier\<close> is the contract of a deep
    copy, interpreted on the generated functions.
  \<^item> \<open>MemExpand\<close>: the expansion of ledgers of \<open>agent/allocation_ledger.go\<close> over that store.
  \<^item> \<open>AgentPass\<close>, \<open>Convergence\<close> and this theory: what the components give together.

  \<^bold>\<open>What is shown.\<close>
  \<^item> Scheduler: the filter never dereferences nil and allows exactly the feasible pairs, the reason
    names the first failing check, an allowed online workload with windows keeps every hour within
    the node's capacity;
    scores are exact percentages within their bounds; the cycle state holds the best tier and
    normalisation keeps the tiers apart; a reservation is a map update of the node's ledger,
    \<open>Unreserve\<close> removes the entry again, and all ledgers reachable by both operations are well formed.
  \<^item> Agent: a planning pass refines a greedy assignment, stays within the capacity, is ordered by
    priority, window, age and name and does not depend on lower priorities; ledger totals,
    forecasts and reports are exact sums; applying a plan records its outcome in the workload's
    entry, keeps the other entries and converges, for a workload that is the first of its ledger's
    status list or is read without a status (\<open>own_first\<close>; the recorder fails the others); a migration
    deletes no pod but its source, and only when the pod it takes for the replacement runs; names
    derived from valid node names are valid Kubernetes names; updates wake the agent exactly when they change a
    specification of its node.
  \<^item> Commands: written flags are read back; the agent ends with exit code 0 only after it has
    registered a reconciler for a named node with the configured namespaces and backend, and every
    setup call succeeded; the operator's servers
    are authenticated over TLS and offer HTTP/1.1 only, unless a flag says otherwise.
  \<^item> Across components: what the filter allowed is reserved within what the node reported; the
    agent reads what was reserved; a reconciliation plans and applies exactly the listed
    workloads, and when every plan is \<open>recordable\<close> (outside the two faults of the recorder and of
    the early return in \<open>applyPlan\<close>) the applied amounts are then within the capacity; planning and
    applying once more over what was recorded gives the same and writes nothing; the
    scheduler's reclaim rule is the agent's planning order; both sides read windows alike.
  \<^item> Memory: a generated deep copy has the value of the original and shares no cell with it; the
    expansion of ledgers, which copies, shares pointers and writes into maps, computes what the
    expansion on values computes and leaves the ledgers alone.  Everywhere else the development works
    on values; where the sources write through a pointer that a caller shares (a snapshot fills in
    the pressure of the profile it was given), the changed value is a result of the function.
  \<^item> Some theorems state what the code does where that is not what it means to do: colliding entry
    names, writes to the wrong status entry, a ledger hidden by one released workload, a pod taken
    for its own replacement, window texts only one side reads.

  \<^bold>\<open>Parameters and hypotheses.\<close>  Code outside the repository is a parameter: the API clients
  (records of functions that pass a world \<open>'w\<close> on), the framework's cycle state, the clock and the
  time zone database, running \<open>nvidia-smi\<close>, environment variables, \<open>yaml.Unmarshal\<close>, the managers,
  predicates and handlers of controller-runtime, the scheduler command of Kubernetes and the flags
  other packages register.  \<open>runtime_lib_ok\<close> is the documented behaviour of the predicates and
  handlers and holds for \<open>documented_lib\<close>; \<open>copy_lib_ok\<close> is that of the deep copies of \<open>metav1\<close> and
  holds for \<open>fieldwise_lib\<close>.  The hypotheses \<open>kube_store\<close>, \<open>status_store\<close> and
  \<open>pod_store\<close> are the documented behaviour of an API server that nothing else races with: reads
  return what is stored, a write that succeeds replaces one object, a retry loop ends with its
  first successful run.  Each is shown to hold for a server that is a map.  Operations are defined for every client, with every error branch.

  \<^bold>\<open>Bounds.\<close>  All amounts are 32 bit words and wrap where the code wraps; theorems speak about
  their integer values and state the range they need (budgets that are not negative, sums below
  \<open>2 ^ 31\<close>).  No definition uses fuel: all loops of the sources are over lists and are structural,
  except the block loop of SHA-256 and the argument loop of \<open>flag\<close>, whose measures are the length of
  the message and the number of arguments.

  \<^bold>\<open>Not modelled.\<close>  The registration of types with a scheme in the \<open>init\<close> functions of \<open>src/cmd\<close> and
  \<open>src/api/v1alpha1\<close> (calls of third-party code without a result); log output and metrics.
  The agent is modelled as one reconciler at a time, which is how controller-runtime runs it;
  races between the scheduler's and the agent's writes are left to the retry loop's contract.
\<close>

section \<open>From the filter to the reservation\<close>

text \<open>The lookups of one scheduling cycle are cached: once the state is readable, a second lookup
  returns what the first one returned and leaves the state alone.\<close>

lemma readSchedulingState_write [simp]: "readSchedulingState (writeState state s) = Inr s"
  by (simp add: readSchedulingState_def writeState_def)

lemma profileForPod_cached:
  assumes "readSchedulingState state = Inr s" and "profileForPod p state pod = (Inr profile, state1)"
  shows "\<exists>s1. readSchedulingState state1 = Inr s1 \<and> getProfile s1 = Some profile"
  using assms by (auto simp: profileForPod_def getProfile_def setProfile_def split: option.splits sum.splits)

lemma profileForPod_hit:
  "readSchedulingState state = Inr s \<Longrightarrow> getProfile s = Some profile \<Longrightarrow>
   profileForPod p state pod = (Inr profile, state)"
  by (simp add: profileForPod_def)

lemma nodeResourceForNode_cached:
  assumes "readSchedulingState state = Inr s" and "nodeResourceForNode p state node = (Inr nr, state1)"
  shows "\<exists>s1. readSchedulingState state1 = Inr s1 \<and> getNodeResource s1 node = Some nr \<and>
    getProfile s1 = getProfile s"
  using assms by (auto simp: nodeResourceForNode_def getNodeResource_def setNodeResource_def getProfile_def
      split: option.splits sum.splits)

lemma nodeResourceForNode_hit:
  "readSchedulingState state = Inr s \<Longrightarrow> getNodeResource s node = Some nr \<Longrightarrow>
   nodeResourceForNode p state node = (Inr nr, state)"
  by (simp add: nodeResourceForNode_def)

lemma plugin_Filter_allows:
  assumes "plugin_Filter p state pod (Some node) = Returns (None, state2)"
    and "pod_SchedulerName pod = SchedulerName"
  shows "\<exists>profile state1 nr. profileForPod p state pod = (Inr profile, state1) \<and>
    nodeResourceForNode p state1 node = (Inr nr, state2) \<and> feasible profile nr"
proof -
  obtain profile state1 where look: "profileForPod p state pod = (Inr profile, state1)"
    using assms by (auto simp: plugin_Filter_def split: sum.splits prod.splits)
  moreover obtain nr state3 where "nodeResourceForNode p state1 node = (Inr nr, state3)"
    using assms by (auto simp: plugin_Filter_def look split: sum.splits prod.splits)
  moreover obtain d where d: "Filter (Some profile) (Some nr) = Returns d"
    using filter_returns by blast
  ultimately have "fd_Allowed d" and "state3 = state2"
    using assms by (auto simp: plugin_Filter_def split: if_splits)
  with d look \<open>nodeResourceForNode p state1 node = (Inr nr, state3)\<close> show ?thesis
    using filter_allowed_iff [OF d] feasible_iff_passes [of profile nr] by blast
qed

lemma amount_AllocationResources:
  "nst_Available (n_Status n) = Some available \<Longrightarrow>
   amount d (AllocationResources (Some p) (Some n)) =
     allocationResourceValue (amount d (requiredResources (Some p))) (amount d (preferredResources (Some p)))
       (amount d available)"
  by (cases d) (simp_all add: AllocationResources_def Let_def)

lemma val_AllocationResources:
  assumes "nst_Available (n_Status n) = Some available"
  shows "val d (AllocationResources (Some p) (Some n)) =
    (let required = val d (requiredResources (Some p)); preferred = val d (preferredResources (Some p))
     in if 0 < preferred \<and> preferred \<le> val d available then preferred else required)"
  by (simp add: val_def amount_AllocationResources [OF assms] allocationResourceValue_def Let_def
      word_sle_eq)

text \<open>
  C5. What the scheduler reserves fits on the node.  When the filter allowed a node for a pod in a
  scheduling cycle, reserving that node in the same cycle works on the profile and the node
  report that the filter has seen; it succeeds and books, in every dimension, the preferred amount
  where one is given and available and the required amount otherwise, never more than the node
  reported as available.
\<close>
theorem filtered_reservation_fits:
  assumes "kube_store c st" and "pod_SchedulerName pod = SchedulerName" and "node \<noteq> []"
    and "readSchedulingState state = Inr s"
    and "plugin_Filter p state pod (Some node) = Returns (None, state2)"
  shows "\<exists>profile nr available w' e r.
    profileForPod p state pod = (Inr profile, snd (profileForPod p state pod)) \<and>
    nodeResourceForNode p (snd (profileForPod p state pod)) node = (Inr nr, state2) \<and>
    nst_Available (n_Status nr) = Some available \<and>
    plugin_Reserve p c state2 pod node w = (None, state2, w') \<and>
    node_ledger st w' (pg_nodeResourceNamespace p) node (workloadEntryName pod (Some profile)) = Some e \<and>
    aw_Resources e = Some r \<and>
    (\<forall>d. val d r \<le> val d available \<and>
       (let required = val d (requiredResources (Some profile)); preferred = val d (preferredResources (Some profile))
        in val d r = (if 0 < preferred \<and> preferred \<le> val d available then preferred else required)))"
proof -
  obtain profile state1 nr where look: "profileForPod p state pod = (Inr profile, state1)"
      "nodeResourceForNode p state1 node = (Inr nr, state2)" and ok: "feasible profile nr"
    using plugin_Filter_allows [OF assms(5,2)] by blast
  obtain s1 where s1: "readSchedulingState state1 = Inr s1" "getProfile s1 = Some profile"
    using profileForPod_cached [OF assms(4) look(1)] by blast
  obtain s2 where s2: "readSchedulingState state2 = Inr s2" "getNodeResource s2 node = Some nr"
      "getProfile s2 = Some profile"
    using nodeResourceForNode_cached [OF s1(1) look(2)] s1(2) by auto
  let ?r = "AllocationResources (Some profile) (Some nr)"
  obtain w' b where run: "plugin_Reserve p c state2 pod node w = (None, state2, w')"
    and b: "st w' = (st w)((pg_nodeResourceNamespace p, buildAllocationName node) \<mapsto> b)"
      "as_Workloads (a_Spec b) = upsertAllocationWorkload
         (ledger_entries (st w (pg_nodeResourceNamespace p, buildAllocationName node)))
         (allocationWorkloadSpec pod profile ?r (AllocationType (Some profile) ?r)
            (sd_Reason (policyDecisionForNode state2 node)))"
    using Reserve_writes [OF assms(1-3) profileForPod_hit [OF s2(1,3)] nodeResourceForNode_hit [OF s2(1,2)] refl refl refl]
    by blast
  have e: "\<exists>e. node_ledger st w' (pg_nodeResourceNamespace p) node (workloadEntryName pod (Some profile)) = Some e \<and>
      aw_Resources e = Some ?r"
    by (simp add: node_ledger_def b spec_workloads.find_upsert allocationWorkloadSpec_name)
      (simp add: allocationWorkloadSpec_def)
  obtain available where av: "nst_Available (n_Status nr) = Some available"
      "\<And>d. val d (requiredResources (Some profile)) \<le> val d available"
    using ok by (auto simp: feasible_def)
  have "val d ?r \<le> val d available" for d
    using av(2) [of d] by (simp add: val_AllocationResources [OF av(1)] Let_def)
  with look run e av(1) val_AllocationResources [OF av(1)] show ?thesis
    by (fastforce simp: Let_def)
qed

definition sample_cycle :: CycleState where
  "sample_cycle = writeState sample_state (newSchedulingState (Some example_profile))"

lemma sample_cycle_profile:
  "profileForPod sample_plugin sample_cycle sample_pod = (Inr example_profile, sample_cycle)"
  by (simp add: sample_cycle_def profileForPod_def newSchedulingState_def getProfile_def)

lemma sample_cycle_node: "\<exists>s. nodeResourceForNode sample_plugin sample_cycle ''n1'' = (Inr example_node, s)"
  by (simp add: sample_cycle_def nodeResourceForNode_def newSchedulingState_def getNodeResource_def
      resolveNodeResource_def sample_plugin_def)

lemma sample_cycle_filtered:
  "\<exists>state2. plugin_Filter sample_plugin sample_cycle sample_pod (Some ''n1'') = Returns (None, state2)"
  using example_allowed sample_cycle_profile sample_cycle_node by (auto simp: plugin_Filter_def sample_pod_simps)

theorem filtered_reservation_fits_witness:
  "\<exists>w' state2 e r available. plugin_Reserve sample_plugin map_client state2 sample_pod ''n1'' Map.empty =
     (None, state2, w') \<and> node_ledger map_objects w' ''astra-system'' ''n1'' ''team-chat-0'' = Some e \<and>
     aw_Resources e = Some r \<and> nst_Available (n_Status example_node) = Some available \<and>
     (\<forall>d. val d r \<le> val d available)"
proof -
  have entry: "workloadEntryName sample_pod profile = ''team-chat-0''" for profile
    by (simp add: workloadEntryName_def sample_pod_simps sanitizeName_def name_char_def lower_char_def Trim_def)
  have ns: "pg_nodeResourceNamespace sample_plugin = ''astra-system''"
    by (simp add: sample_plugin_def)
  have read: "readSchedulingState sample_cycle = Inr (newSchedulingState (Some example_profile))"
    by (simp add: sample_cycle_def)
  obtain state2 where filter: "plugin_Filter sample_plugin sample_cycle sample_pod (Some ''n1'') = Returns (None, state2)"
    using sample_cycle_filtered by blast
  show ?thesis
    using filtered_reservation_fits [OF kube_store_map_client sample_pod_simps(1) _ read filter, of Map.empty]
      sample_cycle_node sample_cycle_profile
    unfolding entry ns by auto
qed

section \<open>From the reservation to the agent\<close>

lemma filter_key_find:
  "distinct (map key xs) \<Longrightarrow> key_find key k xs = Some e \<Longrightarrow> filter (\<lambda>x. key x = k) xs = [e]"
  by (induction xs) (auto simp: filter_empty_conv split: if_splits dest: image_eqI [OF sym])

lemma expandWorkload_entry:
  "as_Workloads (a_Spec (expandWorkload ledger e)) = [e]"
  "aw_Name e \<noteq> [] \<Longrightarrow> entry_name (expandWorkload ledger e) = aw_Name e"
  by (simp_all add: expandWorkload_def workloadEntryNameFromAllocation_def Let_def)

text \<open>
  C12. The agent reads what the scheduler reserved.  After a successful reservation the agent's
  expansion of the node's ledger has exactly one allocation for the pod's entry; its name on
  the agent's side is the scheduler's, and it has the reserved resources, the profile's priority,
  request and time windows and the name of the source pod.
\<close>
theorem agent_reads_reservation:
  assumes "kube_store c st"
    and "pod_SchedulerName pod = SchedulerName" and "node \<noteq> []" and "pod_Name pod \<noteq> []"
    and "profileForPod p state pod = (Inr profile, state1)"
    and "nodeResourceForNode p state1 node = (Inr nr, state2)"
    and "key = (pg_nodeResourceNamespace p, buildAllocationName node)"
    and "distinct (map aw_Name (ledger_entries (st w key)))"
    and "workloadEntryName pod (Some profile) \<noteq> []"
  shows "\<exists>w' ledger x. plugin_Reserve p c state pod node w = (None, state2, w') \<and> st w' key = Some ledger \<and>
    filter (\<lambda>x. map aw_Name (as_Workloads (a_Spec x)) = [workloadEntryName pod (Some profile)])
      (expandNodeAllocationLedgers [ledger]) = [x] \<and>
    entry_name x = workloadEntryName pod (Some profile) \<and>
    as_Resources (a_Spec x) = Some (AllocationResources (Some profile) (Some nr)) \<and>
    as_Priority (a_Spec x) = ps_Priority (p_Spec profile) \<and>
    as_ResourceRequest (a_Spec x) = ps_Resources (p_Spec profile) \<and>
    as_TimeWindows (a_Spec x) = ps_TimeWindows (p_Spec profile) \<and>
    map_get (a_Annotations x) AllocationAnnotationSourcePodName = pod_Name pod"
proof -
  let ?r = "AllocationResources (Some profile) (Some nr)" and ?n = "workloadEntryName pod (Some profile)"
  let ?e = "allocationWorkloadSpec pod profile ?r (AllocationType (Some profile) ?r)
    (sd_Reason (policyDecisionForNode state2 node))"
  obtain w' b where run: "plugin_Reserve p c state pod node w = (None, state2, w')"
    and b: "st w' = (st w)(key \<mapsto> b)" "as_Workloads (a_Spec b) = upsertAllocationWorkload (ledger_entries (st w key)) ?e"
    using Reserve_writes [OF assms(1-3,5,6) refl refl refl, of w] unfolding assms(7) by blast
  have "distinct (map aw_Name (as_Workloads (a_Spec b)))" "key_find aw_Name ?n (as_Workloads (a_Spec b)) = Some ?e"
    unfolding b(2) using spec_workloads.distinct_upsert [OF assms(8)]
    by (simp_all add: spec_workloads.find_upsert allocationWorkloadSpec_name)
  then have "filter (\<lambda>e. aw_Name e = ?n) (as_Workloads (a_Spec b)) = [?e]"
    by (rule filter_key_find)
  moreover have "as_Workloads (a_Spec b) \<noteq> []"
    unfolding b(2) by (rule spec_workloads.upsert_not_Nil)
  ultimately have one: "filter (\<lambda>x. map aw_Name (as_Workloads (a_Spec x)) = [?n]) (expandNodeAllocationLedgers [b]) =
      [expandWorkload b ?e]"
    by (simp add: filter_map o_def expandWorkload_entry)
  have entry: "entry_name (expandWorkload b ?e) = ?n"
    using expandWorkload_entry(2) [of ?e b] assms(9) by (simp add: allocationWorkloadSpec_name)
  have "as_Resources (a_Spec (expandWorkload b ?e)) = Some ?r"
    "as_Priority (a_Spec (expandWorkload b ?e)) = ps_Priority (p_Spec profile)"
    "as_ResourceRequest (a_Spec (expandWorkload b ?e)) = ps_Resources (p_Spec profile)"
    "as_TimeWindows (a_Spec (expandWorkload b ?e)) = ps_TimeWindows (p_Spec profile)"
    "map_get (a_Annotations (expandWorkload b ?e)) AllocationAnnotationSourcePodName = pod_Name pod"
    using assms(4) by (simp_all add: expandWorkload_def allocationWorkloadSpec_def Let_def map_get_def
        AllocationAnnotationSourcePodName_def AllocationAnnotationSourcePodUID_def)
  with run b(1) one entry show ?thesis
    by (intro exI [of _ w'] exI [of _ b] exI [of _ "expandWorkload b ?e"] conjI) simp_all
qed

theorem agent_reads_reservation_witness:
  "\<exists>w' ledger x. plugin_Reserve sample_plugin map_client sample_state sample_pod ''n1'' Map.empty =
     (None, sample_state, w') \<and>
     map_objects w' (pg_nodeResourceNamespace sample_plugin, buildAllocationName ''n1'') = Some ledger \<and>
     filter (\<lambda>x. map aw_Name (as_Workloads (a_Spec x)) = [''team-chat-0'']) (expandNodeAllocationLedgers [ledger]) = [x] \<and>
     entry_name x = ''team-chat-0'' \<and> as_Priority (a_Spec x) = ps_Priority (p_Spec example_profile)"
proof -
  have entry: "workloadEntryName sample_pod (Some example_profile) = ''team-chat-0''"
    by (simp add: workloadEntryName_def sample_pod_simps sanitizeName_def name_char_def lower_char_def Trim_def)
  let ?key = "(pg_nodeResourceNamespace sample_plugin, buildAllocationName ''n1'')"
  have first: "distinct (map aw_Name (ledger_entries (map_objects Map.empty ?key)))"
    by (simp add: map_objects_def)
  have names: "''n1'' \<noteq> []" "pod_Name sample_pod \<noteq> []" "workloadEntryName sample_pod (Some example_profile) \<noteq> []"
    by (simp_all add: sample_pod_simps entry)
  show ?thesis
    using agent_reads_reservation [where w = Map.empty, OF kube_store_map_client sample_pod_simps(1) names(1,2) sample_lookups refl
        first names(3)]
    unfolding entry by (elim exE conjE) (rule exI conjI | assumption)+
qed

section \<open>The scheduler and the agent agree\<close>

text \<open>
  C33. A window that is written in the documented format means the same everywhere: the scheduler's
  reader, the agent's local ledger and the agent's forecast read \<open>HH:MM\<close> as the same minute of the
  day, and whatever text the agent can read the scheduler reads as the same minute.
\<close>
theorem clock_readers_round_trip:
  "(\<forall>h<24. \<forall>m<60. parseHHMM (hhmm h m) = Some (60 * int h + int m) \<and>
      parseMinuteOfDay (hhmm h m) = Some (60 * int h + int m) \<and>
      parseForecastMinute (hhmm h m) = Some (60 * int h + int m)) \<and>
   (\<forall>s t. parseMinuteOfDay s = Some t \<longrightarrow> parseHHMM s = Some t)"
  using parseHHMM_hhmm parseMinuteOfDay_hhmm agent_reads_scheduler_reads by (simp add: parseForecastMinute_eq)

theorem clock_readers_round_trip_witness:
  "parseHHMM (hhmm 9 30) = Some 570 \<and> parseForecastMinute (hhmm 9 30) = Some 570"
  using clock_readers_round_trip [THEN conjunct1, rule_format, of 9 30] by simp

text \<open>
  The scheduler reads more than the agent: a minute with one digit, or an hour with a sign, is a
  window for the scheduler's envelope and none for the agent's forecast and local plans.
\<close>
lemma scheduler_reads_more:
  "parseHHMM ''9:5'' = Some 545 \<and> parseMinuteOfDay ''9:5'' = None \<and> parseForecastMinute ''9:5'' = None \<and>
   parseHHMM ''+9:05'' = Some 545 \<and> parseMinuteOfDay ''+9:05'' = None \<and> parseForecastMinute ''+9:05'' = None"
  by code_simp

lemma rank_agrees: "policy_priorityRank = priorityRank"
  by (simp add: fun_eq_iff policy_priorityRank_def priorityRank_def Let_def)

lemma sorted_key_less:
  assumes "i < length (sort_key f xs)" and "j < length (sort_key f xs)"
    and "f (sort_key f xs ! i) < f (sort_key f xs ! j)"
  shows "i < j"
proof (rule ccontr)
  assume "\<not> i < j"
  then have "map f (sort_key f xs) ! j \<le> map f (sort_key f xs) ! i"
    using assms(1,2) by (intro sorted_nth_mono sorted_sort_key) simp_all
  with assms show False by simp
qed

text \<open>
  C18. What the scheduler counts on is what the agent does: when the envelope check lets a workload
  reclaim resources from an allocation of the node, the agent plans the new workload before every
  allocation of that priority, so the new one is served first.
\<close>
theorem reclaimed_is_planned_later:
  assumes "canCurrentWorkloadReclaimFrom (Some p) al"
    and "ordered = orderAllocationsByPriorityAndWindow as now"
    and "i < length ordered" and "priorityOf (ordered ! i) = ps_Priority (p_Spec p)"
    and "j < length ordered" and "priorityOf (ordered ! j) = na_Priority al"
  shows "i < j"
proof -
  have "precedence now (ordered ! i) < precedence now (ordered ! j)"
    using reclaim_strictly_lower [OF assms(1)] assms(4,6) by (simp add: precedence_def rank_agrees less_prod_def)
  then show ?thesis
    using sorted_key_less assms(3,5) unfolding assms(2) order_sort_key by blast
qed

theorem reclaimed_is_planned_later_witness:
  "let ordered = orderAllocationsByPriorityAndWindow [asks_for ''batch'' ''low'' 3, asks_for ''chat'' ''high'' 2] midnight
   in canCurrentWorkloadReclaimFrom (Some example_profile)
        (sample_report \<lparr>na_WorkloadType := ''offline'', na_Priority := ''low''\<rparr>) \<and>
      priorityOf (ordered ! 0) = ''high'' \<and> priorityOf (ordered ! 1) = ''low'' \<and> (0 :: nat) < 1"
proof -
  let ?as = "[asks_for ''batch'' ''low'' 3, asks_for ''chat'' ''high'' 2]"
  let ?ordered = "orderAllocationsByPriorityAndWindow ?as midnight"
  let ?al = "sample_report \<lparr>na_WorkloadType := ''offline'', na_Priority := ''low''\<rparr>"
  have reclaim: "canCurrentWorkloadReclaimFrom (Some example_profile) ?al"
    by code_simp
  have at: "priorityOf (?ordered ! 0) = ps_Priority (p_Spec example_profile)" "priorityOf (?ordered ! 1) = na_Priority ?al"
    "0 < length ?ordered" "1 < length ?ordered"
    unfolding two_ordered by (simp_all add: priorityOf_def asks_for_def example_profile_def)
  have "(0 :: nat) < 1"
    by (rule reclaimed_is_planned_later [OF reclaim refl at(3,1,4,2)])
  with reclaim at show ?thesis
    by (simp add: Let_def example_profile_def)
qed

end
